(* ===== verification/Loom_Prelude.thy ===== *)
theory Loom_Prelude
  imports Complex_Main "HOL-Library.Sublist"
begin

text \<open>
  Shared vocabulary of the development: the JavaScript values the TypeScript code passes around,
  the total readers every handler uses on them, ASCII case conversion, property lookup in a
  constant table (own properties and the properties every object literal inherits), thrown
  values, and the host state (clock, random source, peer) that asynchronous code threads.

  A JavaScript string is represented by the bytes of its UTF-8 encoding. Concatenation, equality,
  prefix and suffix tests and slicing at ASCII positions agree with the source on this
  representation. Case conversion is the ASCII one: the code points outside ASCII whose lower or
  upper case form is ASCII are not distinguished.
  A JavaScript number is a rational or one of the three non-finite values; the rounding of
  binary64 arithmetic is not modelled.
\<close>

named_theorems js_simps \<open>evaluation of the JavaScript readers\<close>

section \<open>JavaScript values\<close>

datatype jsnum = Fin rat | PosInf | NegInf | NaN

datatype json =
    JUndef
  | JNull
  | JBool bool
  | JNum jsnum
  | JStr string
  | JArr "json list"
  | JObj "(string \<times> json) list"

text \<open>The entries of an object in insertion order, keys distinct in every value the source builds.\<close>

type_synonym obj = "(string \<times> json) list"

definition isFinite :: "jsnum \<Rightarrow> bool" where
  "isFinite x = (case x of Fin _ \<Rightarrow> True | _ \<Rightarrow> False)"

definition isInteger :: "jsnum \<Rightarrow> bool" where
  "isInteger x = (case x of Fin r \<Rightarrow> r = of_int (floor r) | _ \<Rightarrow> False)"

text \<open>\<open>obj.k\<close>: an absent property reads as \<open>undefined\<close>.\<close>

definition jget :: "obj \<Rightarrow> string \<Rightarrow> json" where
  "jget ob k = (case map_of ob k of Some v \<Rightarrow> v | None \<Rightarrow> JUndef)"

text \<open>\<open>k in obj\<close>, for the keys this code tests: none of them is inherited.\<close>

definition has_key :: "obj \<Rightarrow> string \<Rightarrow> bool" where
  "has_key ob k = (k \<in> fst ` set ob)"

text \<open>\<open>a ?? b\<close> on values, and on results of readers.\<close>

fun nullish :: "json \<Rightarrow> json \<Rightarrow> json" where
  "nullish JUndef b = b"
| "nullish JNull b = b"
| "nullish a b = a"

fun orelse :: "'a option \<Rightarrow> 'a option \<Rightarrow> 'a option" where
  "orelse None b = b"
| "orelse (Some a) b = Some a"

definition or_default :: "'a option \<Rightarrow> 'a \<Rightarrow> 'a" where
  "or_default x d = (case x of None \<Rightarrow> d | Some a \<Rightarrow> a)"

text \<open>\<open>...(x !== undefined ? { k: x } : {})\<close> in an object literal.\<close>

definition opt_field :: "string \<Rightarrow> json option \<Rightarrow> obj" where
  "opt_field k x = (case x of None \<Rightarrow> [] | Some v \<Rightarrow> [(k, v)])"

text \<open>\<open>{ ...a, ...b }\<close>: the entries of \<open>a\<close> keep their place, \<open>b\<close> overrides.\<close>

definition spread :: "obj \<Rightarrow> obj \<Rightarrow> obj" where
  "spread a b =
     map (\<lambda>(k, v). (k, case map_of b k of Some v' \<Rightarrow> v' | None \<Rightarrow> v)) a
       @ filter (\<lambda>(k, v). k \<notin> fst ` set a) b"

definition str_opt :: "string option \<Rightarrow> json" where
  "str_opt s = (case s of None \<Rightarrow> JNull | Some x \<Rightarrow> JStr x)"

section \<open>Total readers\<close>

fun asRecord :: "json \<Rightarrow> obj option" where
  "asRecord (JObj ob) = Some ob"
| "asRecord _ = None"

fun readString :: "json \<Rightarrow> string option" where
  "readString (JStr s) = Some s"
| "readString _ = None"

fun readNumber :: "json \<Rightarrow> jsnum option" where
  "readNumber (JNum n) = (if isFinite n then Some n else None)"
| "readNumber _ = None"

fun readBoolean :: "json \<Rightarrow> bool option" where
  "readBoolean (JBool b) = Some b"
| "readBoolean _ = None"

fun readStringArray :: "json \<Rightarrow> string list" where
  "readStringArray (JArr xs) = List.map_filter readString xs"
| "readStringArray _ = []"

fun asArray :: "json \<Rightarrow> json list option" where
  "asArray (JArr xs) = Some xs"
| "asArray _ = None"

lemma jget_simps [simp, js_simps]:
  "jget [] k = JUndef"
  "jget ((k', v) # ob) k = (if k = k' then v else jget ob k)"
  by (auto simp: jget_def)

lemma has_key_simps [simp, js_simps]:
  "has_key [] k = False"
  "has_key ((k', v) # ob) k = (k = k' \<or> has_key ob k)"
  by (auto simp: has_key_def)

lemma opt_field_simps [simp, js_simps]:
  "opt_field k None = []"
  "opt_field k (Some v) = [(k, v)]"
  by (simp_all add: opt_field_def)

lemma or_default_simps [simp, js_simps]:
  "or_default None d = d"
  "or_default (Some a) d = a"
  by (simp_all add: or_default_def)

lemma str_opt_simps [simp, js_simps]:
  "str_opt None = JNull"
  "str_opt (Some s) = JStr s"
  by (simp_all add: str_opt_def)

lemma orelse_None [simp]: "orelse x None = x"
  by (cases x) auto

lemma orelse_eq_None [simp]: "orelse x y = None \<longleftrightarrow> x = None \<and> y = None"
  by (cases x) auto

lemma orelse_Some_iff: "orelse x y = Some a \<longleftrightarrow> x = Some a \<or> (x = None \<and> y = Some a)"
  by (cases x) auto

lemma jget_append: "jget (a @ b) k = (if has_key a k then jget a k else jget b k)"
  by (induction a) auto

lemma has_key_append [simp]: "has_key (a @ b) k \<longleftrightarrow> has_key a k \<or> has_key b k"
  by (auto simp: has_key_def)

lemma has_key_opt_field [simp]: "has_key (opt_field k' x) k \<longleftrightarrow> k = k' \<and> x \<noteq> None"
  by (cases x) auto

lemma jget_opt_field: "jget (opt_field k' x) k = (if k = k' then or_default x JUndef else JUndef)"
  by (cases x) auto

lemma readString_Some [simp]: "readString v = Some s \<longleftrightarrow> v = JStr s"
  by (cases v) auto

lemma asRecord_Some [simp]: "asRecord v = Some ob \<longleftrightarrow> v = JObj ob"
  by (cases v) auto

lemma asArray_Some [simp]: "asArray v = Some xs \<longleftrightarrow> v = JArr xs"
  by (cases v) auto

text \<open>A property of an object is smaller than the object: the recursion of walkers terminates.\<close>

lemma size_map_of_less:
  assumes "map_of ob k = Some v"
  shows "size v < Suc (size_list (size_prod (\<lambda>_. 0) size) ob)"
  using assms by (induction ob) (auto split: if_splits)

lemma size_jget_less: "jget ob k \<noteq> JUndef \<Longrightarrow> size (jget ob k) < size (JObj ob)"
  using size_map_of_less [of ob k]
  by (auto simp: jget_def split: option.splits)

lemma size_entry_less: "(k, v) \<in> set ob \<Longrightarrow> size v < size (JObj ob)"
  by (induction ob) auto

lemma size_item_less: "v \<in> set xs \<Longrightarrow> size v < size (JArr xs)"
  by (induction xs) auto

section \<open>Strings\<close>

definition ascii_lower :: "char \<Rightarrow> char" where
  "ascii_lower c = (let n = (of_char c :: nat) in if 65 \<le> n \<and> n \<le> 90 then char_of (n + 32) else c)"

definition ascii_upper :: "char \<Rightarrow> char" where
  "ascii_upper c = (let n = (of_char c :: nat) in if 97 \<le> n \<and> n \<le> 122 then char_of (n - 32) else c)"

definition toLowerCase :: "string \<Rightarrow> string" where
  "toLowerCase s = map ascii_lower s"

definition toUpperCase :: "string \<Rightarrow> string" where
  "toUpperCase s = map ascii_upper s"

definition in_range :: "nat \<Rightarrow> nat \<Rightarrow> char \<Rightarrow> bool" where
  "in_range lo hi c = (let n = (of_char c :: nat) in lo \<le> n \<and> n \<le> hi)"

text \<open>\<open>[a-z0-9]\<close>, \<open>[A-Z]\<close>, \<open>[0-9]\<close>, \<open>[A-Za-z0-9]\<close>\<close>

definition is_lower_alnum :: "char \<Rightarrow> bool" where
  "is_lower_alnum c = (in_range 97 122 c \<or> in_range 48 57 c)"

definition is_upper :: "char \<Rightarrow> bool" where
  "is_upper c = in_range 65 90 c"

definition is_digit :: "char \<Rightarrow> bool" where
  "is_digit c = in_range 48 57 c"

definition is_alnum :: "char \<Rightarrow> bool" where
  "is_alnum c = (is_lower_alnum c \<or> is_upper c)"

lemma of_char_ascii_lower:
  "(of_char (ascii_lower c) :: nat) =
     (if 65 \<le> (of_char c :: nat) \<and> (of_char c :: nat) \<le> 90 then of_char c + 32 else of_char c)"
  by (simp add: ascii_lower_def Let_def)

lemma ascii_lower_idem [simp]: "ascii_lower (ascii_lower c) = ascii_lower c"
  by (simp add: ascii_lower_def Let_def)

lemma toLowerCase_idem [simp]: "toLowerCase (toLowerCase s) = toLowerCase s"
  by (simp add: toLowerCase_def)

lemma toLowerCase_simps [simp]:
  "toLowerCase [] = []"
  "toLowerCase (c # s) = ascii_lower c # toLowerCase s"
  "toLowerCase (s @ t) = toLowerCase s @ toLowerCase t"
  by (simp_all add: toLowerCase_def)

lemma ascii_lower_fixed: "is_lower_alnum c \<Longrightarrow> ascii_lower c = c"
  by (auto simp: is_lower_alnum_def in_range_def ascii_lower_def Let_def)

lemma toLowerCase_fixed: "list_all is_lower_alnum s \<Longrightarrow> toLowerCase s = s"
  by (induction s) (auto simp: ascii_lower_fixed)

definition startsWith :: "string \<Rightarrow> string \<Rightarrow> bool" where
  "startsWith s p = prefix p s"

definition endsWith :: "string \<Rightarrow> string \<Rightarrow> bool" where
  "endsWith s p = suffix p s"

section \<open>Constant tables\<close>

text \<open>
  The source indexes object literals with strings it does not control
  (\<open>TABLE[key]\<close>). Besides its own entries, an object literal answers to the properties of
  \<open>Object.prototype\<close>, so the lookup has three outcomes.
\<close>

definition object_prototype_keys :: "string list" where
  "object_prototype_keys =
     [''constructor'', ''__defineGetter__'', ''__defineSetter__'', ''hasOwnProperty'',
      ''__lookupGetter__'', ''__lookupSetter__'', ''isPrototypeOf'', ''propertyIsEnumerable'',
      ''toString'', ''valueOf'', ''__proto__'', ''toLocaleString'']"

datatype 'a slot = Own 'a | Inherited string | Missing

definition table_get :: "(string \<times> 'a) list \<Rightarrow> string \<Rightarrow> 'a slot" where
  "table_get t k =
     (case map_of t k of
        Some v \<Rightarrow> Own v
      | None \<Rightarrow> if k \<in> set object_prototype_keys then Inherited k else Missing)"

lemma table_get_Own [simp]: "table_get t k = Own v \<longleftrightarrow> map_of t k = Some v"
  by (auto simp: table_get_def split: option.splits)

lemma table_get_Missing [simp]:
  "table_get t k = Missing \<longleftrightarrow> map_of t k = None \<and> k \<notin> set object_prototype_keys"
  by (auto simp: table_get_def split: option.splits)

lemma table_get_Inherited:
  "table_get t k = Inherited f \<longleftrightarrow> map_of t k = None \<and> k \<in> set object_prototype_keys \<and> f = k"
  by (auto simp: table_get_def split: option.splits)

section \<open>Thrown values\<close>

text \<open>\<open>IpcErrorCode\<close> (exported as \<open>TransportErrorCode\<close>).\<close>

datatype transport_code =
    not_running | connect_failed | transport_timeout | closed | frame | protocol | rpc
  | transport_invalid_args

definition transport_code_name :: "transport_code \<Rightarrow> string" where
  "transport_code_name c =
     (case c of
        not_running \<Rightarrow> ''not_running''
      | connect_failed \<Rightarrow> ''connect_failed''
      | transport_timeout \<Rightarrow> ''timeout''
      | closed \<Rightarrow> ''closed''
      | frame \<Rightarrow> ''frame''
      | protocol \<Rightarrow> ''protocol''
      | rpc \<Rightarrow> ''rpc''
      | transport_invalid_args \<Rightarrow> ''invalid_args'')"

text \<open>
  What a rejected promise carries: a \<open>TransportError\<close> (class \<open>IpcError\<close>) with its code, message
  and optional cause, or any other thrown value.
\<close>

datatype thrown = TransportError (t_code: transport_code) (t_message: string) (t_cause: json)
  | OtherError json

section \<open>The host\<close>

text \<open>
  The state asynchronous code threads: the wall clock in milliseconds, the source of
  \<open>randomUUID\<close>, and the state of whatever is on the other side of the daemon socket.
\<close>

record 'd host =
  clock :: rat
  uuids :: "nat \<Rightarrow> string"
  drawn :: nat
  peer :: 'd

type_synonym ('d, 'a) io = "'d host \<Rightarrow> 'a \<times> 'd host"

type_synonym 'd daemon_call = "string \<Rightarrow> json \<Rightarrow> ('d, thrown + json) io"

definition randomUUID :: "('d, string) io" where
  "randomUUID h = (uuids h (drawn h), h\<lparr>drawn := Suc (drawn h)\<rparr>)"

definition date_now :: "'d host \<Rightarrow> rat" where
  "date_now h = clock h"

text \<open>\<open>setTimeout\<close> resolves no earlier than \<open>ms\<close> later; a negative delay counts as 0.\<close>

definition realSleep :: "rat \<Rightarrow> 'd host \<Rightarrow> 'd host" where
  "realSleep ms h = h\<lparr>clock := clock h + max 0 ms\<rparr>"

end
