(* ===== verification/Regex.thy ===== *)
theory Regex
  imports Loom_Prelude
begin

text \<open>
  Regular expressions as the source uses them. A pattern is a term, \<open>matches\<close> runs it by
  derivatives (so it evaluates), and \<open>matches_lang\<close> says it accepts exactly the strings of the
  pattern's language. \<open>re.test(s)\<close> of a pattern without anchors is a full match of the pattern between
  two \<open>rany\<close>; a leading \<open>^\<close> drops the first, a trailing \<open>$\<close> the second.
\<close>

datatype re =
    RNone
  | REps
  | RCls "char \<Rightarrow> bool"
  | RSeq re re
  | RAlt re re
  | RStar re

inductive_set star :: "string set \<Rightarrow> string set" for A where
  star_nil: "[] \<in> star A"
| star_step: "x \<in> A \<Longrightarrow> y \<in> star A \<Longrightarrow> x @ y \<in> star A"

primrec lang :: "re \<Rightarrow> string set" where
  "lang RNone = {}"
| "lang REps = {[]}"
| "lang (RCls P) = {[c] | c. P c}"
| "lang (RSeq a b) = {x @ y | x y. x \<in> lang a \<and> y \<in> lang b}"
| "lang (RAlt a b) = lang a \<union> lang b"
| "lang (RStar a) = star (lang a)"

text \<open>Smart constructors keep the derivatives small.\<close>

fun ralt :: "re \<Rightarrow> re \<Rightarrow> re" where
  "ralt RNone b = b"
| "ralt a RNone = a"
| "ralt a b = RAlt a b"

fun rseq :: "re \<Rightarrow> re \<Rightarrow> re" where
  "rseq RNone b = RNone"
| "rseq a RNone = RNone"
| "rseq REps b = b"
| "rseq a b = RSeq a b"

primrec nullable :: "re \<Rightarrow> bool" where
  "nullable RNone = False"
| "nullable REps = True"
| "nullable (RCls P) = False"
| "nullable (RSeq a b) = (nullable a \<and> nullable b)"
| "nullable (RAlt a b) = (nullable a \<or> nullable b)"
| "nullable (RStar a) = True"

primrec deriv :: "char \<Rightarrow> re \<Rightarrow> re" where
  "deriv c RNone = RNone"
| "deriv c REps = RNone"
| "deriv c (RCls P) = (if P c then REps else RNone)"
| "deriv c (RSeq a b) =
     (if nullable a then ralt (rseq (deriv c a) b) (deriv c b) else rseq (deriv c a) b)"
| "deriv c (RAlt a b) = ralt (deriv c a) (deriv c b)"
| "deriv c (RStar a) = rseq (deriv c a) (RStar a)"

primrec matches :: "re \<Rightarrow> string \<Rightarrow> bool" where
  "matches r [] = nullable r"
| "matches r (c # s) = matches (deriv c r) s"

lemma lang_ralt [simp]: "lang (ralt a b) = lang a \<union> lang b"
  by (induction a b rule: ralt.induct) auto

lemma lang_rseq [simp]: "lang (rseq a b) = {x @ y | x y. x \<in> lang a \<and> y \<in> lang b}"
  by (induction a b rule: rseq.induct) auto

lemma nullable_lang: "nullable r \<longleftrightarrow> [] \<in> lang r"
  by (induction r) (auto intro: star.intros)

lemma star_Cons: "c # s \<in> star A \<longleftrightarrow> (\<exists>x y. s = x @ y \<and> c # x \<in> A \<and> y \<in> star A)"
proof
  have "t \<in> star A \<Longrightarrow> t = c # s \<Longrightarrow> \<exists>x y. s = x @ y \<and> c # x \<in> A \<and> y \<in> star A" for t
  proof (induction rule: star.induct)
    case (star_step x y)
    then show ?case by (cases x) auto
  qed simp
  then show "c # s \<in> star A \<Longrightarrow> \<exists>x y. s = x @ y \<and> c # x \<in> A \<and> y \<in> star A" by blast
next
  show "\<exists>x y. s = x @ y \<and> c # x \<in> A \<and> y \<in> star A \<Longrightarrow> c # s \<in> star A"
    using star_step by fastforce
qed

lemma seq_Cons:
  "c # s \<in> {x @ y | x y. x \<in> A \<and> y \<in> B}
     \<longleftrightarrow> (\<exists>x y. s = x @ y \<and> c # x \<in> A \<and> y \<in> B) \<or> [] \<in> A \<and> c # s \<in> B"
  by (auto simp: Cons_eq_append_conv)

lemma deriv_lang: "s \<in> lang (deriv c r) \<longleftrightarrow> c # s \<in> lang r"
proof (induction r arbitrary: s)
  case (RSeq a b)
  have "s \<in> {x @ y | x y. x \<in> lang (deriv c a) \<and> y \<in> lang b}
      \<longleftrightarrow> (\<exists>x y. s = x @ y \<and> c # x \<in> lang a \<and> y \<in> lang b)"
    using RSeq.IH(1) by auto
  then show ?case
    using RSeq.IH(2) nullable_lang [of a] by (simp add: seq_Cons del: mem_Collect_eq)
next
  case (RStar a)
  then show ?case by (auto simp: star_Cons)
qed auto

lemma matches_lang: "matches r s \<longleftrightarrow> s \<in> lang r"
  by (induction s arbitrary: r) (auto simp: nullable_lang deriv_lang)

section \<open>Building patterns\<close>

primrec rlit :: "string \<Rightarrow> re" where
  "rlit [] = REps"
| "rlit (c # s) = rseq (RCls (\<lambda>x. x = c)) (rlit s)"

definition ropt :: "re \<Rightarrow> re" where
  "ropt r = RAlt REps r"

definition rplus :: "re \<Rightarrow> re" where
  "rplus r = RSeq r (RStar r)"

definition rany :: re where
  "rany = RStar (RCls (\<lambda>_. True))"

definition one_of :: "string \<Rightarrow> re" where
  "one_of cs = RCls (\<lambda>c. c \<in> set cs)"

primrec rrep :: "nat \<Rightarrow> re \<Rightarrow> re" where
  "rrep 0 r = REps"
| "rrep (Suc n) r = rseq r (rrep n r)"

fun ralts :: "re list \<Rightarrow> re" where
  "ralts [] = RNone"
| "ralts [r] = r"
| "ralts (r # rs) = RAlt r (ralts rs)"

fun rseqs :: "re list \<Rightarrow> re" where
  "rseqs [] = REps"
| "rseqs [r] = r"
| "rseqs (r # rs) = RSeq r (rseqs rs)"

lemma lang_rlit [simp]: "lang (rlit s) = {s}"
  by (induction s) auto

lemma lang_ropt [simp]: "lang (ropt r) = insert [] (lang r)"
  by (simp add: ropt_def)

lemma star_univ: "s \<in> star {[c] | c. True}"
proof (induction s)
  case (Cons c s)
  then show ?case using star_step [of "[c]" _ s] by auto
qed (rule star_nil)

lemma lang_rany [simp]: "lang rany = UNIV"
  using star_univ by (auto simp: rany_def)

lemma lang_rseqs [simp]:
  "lang (rseqs [a, b]) = {x @ y | x y. x \<in> lang a \<and> y \<in> lang b}"
  "lang (rseqs [a, b, c]) = {x @ y @ z | x y z. x \<in> lang a \<and> y \<in> lang b \<and> z \<in> lang c}"
  by auto

end
