(* ===== verification/Guards.thy ===== *)
theory Guards
  imports Regex
begin

text \<open>
  The credential guard of Boundary A (packages/toolbelt/src/guards.ts): the two patterns, the
  inbound check \<open>assertNoCredentialShapedArgs\<close> and the outbound \<open>redactSecrets\<close>, with the
  declarative reading of both.
\<close>

section \<open>Patterns\<close>

definition sep_opt :: re where
  "sep_opt = ropt (one_of ''_-'')"

definition credential_key_words :: re where
  "credential_key_words =
     ralts [rlit ''secret'', rlit ''password'', rlit ''passwd'',
            rseqs [rlit ''api'', sep_opt, rlit ''key''],
            rseqs [rlit ''signing'', sep_opt, rlit ''key''],
            rseqs [rlit ''private'', sep_opt, rlit ''key''],
            rlit ''matrix_'', rlit ''mx_agent_'',
            rseqs [rlit ''gh'', sep_opt, rlit ''token'']]"

definition CREDENTIAL_KEY_RE :: re where
  "CREDENTIAL_KEY_RE =
     RAlt (rseqs [rany, credential_key_words, rany])
          (rseqs [ropt (RSeq rany (one_of ''_-'')), rlit ''token''])"

text \<open>The pattern carries the \<open>i\<close> flag.\<close>

definition credential_key :: "string \<Rightarrow> bool" where
  "credential_key k = matches CREDENTIAL_KEY_RE (toLowerCase k)"

definition credential_prefixes :: re where
  "credential_prefixes =
     ralts [rseqs [rlit ''gh'', one_of ''posru'', rlit ''_''],
            rlit ''github_pat_'', rlit ''syt_'',
            rseqs [rlit ''xox'', one_of ''abprs'', rlit ''-''],
            rlit ''sk-ant-'',
            rseqs [rlit ''sk-'', rrep 20 (RCls is_alnum), RStar (RCls is_alnum)],
            rseqs [rlit ''AKIA'', rrep 16 (RCls (\<lambda>c. is_digit c \<or> is_upper c))],
            rseqs [rlit ''-----BEGIN '', RStar (RCls (\<lambda>c. is_upper c \<or> c = CHR '' '')),
                   rlit ''PRIVATE KEY-----'']]"

definition CREDENTIAL_VALUE_RE :: re where
  "CREDENTIAL_VALUE_RE = RSeq credential_prefixes rany"

definition credential_value :: "string \<Rightarrow> bool" where
  "credential_value s = matches CREDENTIAL_VALUE_RE s"

section \<open>The inbound guard\<close>

fun show_nat :: "nat \<Rightarrow> string" where
  "show_nat n =
     (if n < 10 then [char_of (48 + n)] else show_nat (n div 10) @ [char_of (48 + n mod 10)])"

declare show_nat.simps [simp del]

fun first_some :: "'a option list \<Rightarrow> 'a option" where
  "first_some [] = None"
| "first_some (None # xs) = first_some xs"
| "first_some (Some x # xs) = Some x"

lemma first_some_None [simp]: "first_some xs = None \<longleftrightarrow> (\<forall>x \<in> set xs. x = None)"
  by (induction xs rule: first_some.induct) auto

lemma first_some_Some: "first_some xs = Some x \<Longrightarrow> Some x \<in> set xs"
  by (induction xs rule: first_some.induct) auto

lemma in_enumerate: "(i, x) \<in> set (enumerate n xs) \<Longrightarrow> x \<in> set xs"
  by (auto simp: enumerate_eq_zip dest: set_zip_rightD)

lemma enumerate_in:
  assumes "x \<in> set xs"
  shows "\<exists>i. (i, x) \<in> set (enumerate n xs)"
proof -
  from assms obtain i where "i < length xs" "xs ! i = x" by (auto simp: in_set_conv_nth)
  then have "(n + i, x) \<in> set (enumerate n xs)" by (simp add: in_set_enumerate_eq)
  then show ?thesis ..
qed

text \<open>The error the guard throws, if any; arrays and objects are walked in order.\<close>

function (sequential) assertNoCredentialShapedArgs :: "json \<Rightarrow> string \<Rightarrow> thrown option" where
  "assertNoCredentialShapedArgs (JStr s) path =
     (if credential_value s
      then Some (TransportError transport_invalid_args
                   (''refusing to send a credential-shaped value at '' @ path) JUndef)
      else None)"
| "assertNoCredentialShapedArgs (JArr xs) path =
     first_some (map (\<lambda>(i, x). assertNoCredentialShapedArgs x (path @ ''['' @ show_nat i @ '']''))
                  (enumerate 0 xs))"
| "assertNoCredentialShapedArgs (JObj ob) path =
     first_some (map (\<lambda>(k, x).
         if credential_key k
         then Some (TransportError transport_invalid_args
                (''refusing to send credential-shaped argument '' @ [CHR 39] @ k @ [CHR 39]) JUndef)
         else assertNoCredentialShapedArgs x (path @ ''.'' @ k)) ob)"
| "assertNoCredentialShapedArgs _ path = None"
  by pat_completeness auto
termination
  by (relation "measure (\<lambda>(v, p). size v)")
     (auto simp del: json.size intro: size_entry_less size_item_less in_enumerate)

text \<open>The declarative reading: where a credential shape occurs in a value.\<close>

inductive carries_credential :: "json \<Rightarrow> bool" where
  in_string: "credential_value s \<Longrightarrow> carries_credential (JStr s)"
| in_item: "x \<in> set xs \<Longrightarrow> carries_credential x \<Longrightarrow> carries_credential (JArr xs)"
| in_key: "(k, x) \<in> set ob \<Longrightarrow> credential_key k \<Longrightarrow> carries_credential (JObj ob)"
| in_entry: "(k, x) \<in> set ob \<Longrightarrow> carries_credential x \<Longrightarrow> carries_credential (JObj ob)"

inductive_simps carries_credential_simps [simp]:
  "carries_credential JUndef"
  "carries_credential JNull"
  "carries_credential (JBool b)"
  "carries_credential (JNum n)"
  "carries_credential (JStr s)"
  "carries_credential (JArr xs)"
  "carries_credential (JObj ob)"

lemma guard_sound:
  "assertNoCredentialShapedArgs v path = Some e \<Longrightarrow>
     carries_credential v \<and> t_code e = transport_invalid_args \<and> (\<exists>m. e = TransportError transport_invalid_args m JUndef)"
proof (induction v path arbitrary: e rule: assertNoCredentialShapedArgs.induct)
  case (2 xs path)
  from 2(2) obtain i x where "(i, x) \<in> set (enumerate 0 xs)"
    and "assertNoCredentialShapedArgs x (path @ ''['' @ show_nat i @ '']'') = Some e"
    by (auto dest!: first_some_Some)
  with 2(1) show ?case by (fastforce dest: in_enumerate)
next
  case (3 ob path)
  from 3(2) obtain k x where kx: "(k, x) \<in> set ob"
    and e: "(if credential_key k
         then Some (TransportError transport_invalid_args
                (''refusing to send credential-shaped argument '' @ [CHR 39] @ k @ [CHR 39]) JUndef)
         else assertNoCredentialShapedArgs x (path @ ''.'' @ k)) = Some e"
    by (auto dest!: first_some_Some)
  show ?case
  proof (cases "credential_key k")
    case True
    with kx e show ?thesis by auto
  next
    case False
    with 3(1) [OF kx] e have "carries_credential x \<and> (\<exists>m. e = TransportError transport_invalid_args m JUndef)"
      by auto
    with kx show ?thesis by auto
  qed
qed (auto split: if_splits)

lemma guard_complete: "carries_credential v \<Longrightarrow> assertNoCredentialShapedArgs v path \<noteq> None"
proof (induction arbitrary: path rule: carries_credential.induct)
  case (in_item x xs)
  then obtain i where i: "(i, x) \<in> set (enumerate 0 xs)" using enumerate_in by fast
  then have "(\<lambda>(i, x). assertNoCredentialShapedArgs x (path @ ''['' @ show_nat i @ '']'')) (i, x) \<noteq> None"
    using in_item.IH by simp
  with i show ?case unfolding assertNoCredentialShapedArgs.simps first_some_None
    by (metis (no_types, lifting) image_eqI set_map)
next
  case (in_key k x ob)
  show ?case
  proof
    assume "assertNoCredentialShapedArgs (JObj ob) path = None"
    with in_key show False by (auto dest!: bspec [of _ _ "(k, x)"])
  qed
next
  case (in_entry k x ob)
  show ?case
  proof
    assume "assertNoCredentialShapedArgs (JObj ob) path = None"
    with in_entry.hyps(1) have "assertNoCredentialShapedArgs x (path @ ''.'' @ k) = None"
      by (auto dest!: bspec [of _ _ "(k, x)"] split: if_splits)
    with in_entry.IH show False by blast
  qed
qed simp

lemma guard_iff: "assertNoCredentialShapedArgs v path = None \<longleftrightarrow> \<not> carries_credential v"
  using guard_sound guard_complete by (metis option.exhaust)

section \<open>Redaction\<close>

text \<open>The placeholder \<open>redacted\<close> between guillemets, in UTF-8.\<close>

definition REDACTION_PLACEHOLDER :: string where
  "REDACTION_PLACEHOLDER = [CHR 0xC2, CHR 0xAB] @ ''redacted'' @ [CHR 0xC2, CHR 0xBB]"

fun redactSecrets :: "json \<Rightarrow> json" where
  "redactSecrets (JStr s) = (if credential_value s then JStr REDACTION_PLACEHOLDER else JStr s)"
| "redactSecrets (JArr xs) = JArr (map redactSecrets xs)"
| "redactSecrets (JObj ob) = JObj (map (\<lambda>(k, x). (k, redactSecrets x)) ob)"
| "redactSecrets v = v"

text \<open>Where a credential-shaped string occurs as a value.\<close>

inductive carries_secret_value :: "json \<Rightarrow> bool" where
  sv_string: "credential_value s \<Longrightarrow> carries_secret_value (JStr s)"
| sv_item: "x \<in> set xs \<Longrightarrow> carries_secret_value x \<Longrightarrow> carries_secret_value (JArr xs)"
| sv_entry: "(k, x) \<in> set ob \<Longrightarrow> carries_secret_value x \<Longrightarrow> carries_secret_value (JObj ob)"

inductive_simps carries_secret_value_simps [simp]:
  "carries_secret_value JUndef"
  "carries_secret_value JNull"
  "carries_secret_value (JBool b)"
  "carries_secret_value (JNum n)"
  "carries_secret_value (JStr s)"
  "carries_secret_value (JArr xs)"
  "carries_secret_value (JObj ob)"

lemma placeholder_clean: "\<not> credential_value REDACTION_PLACEHOLDER"
  by code_simp

lemma redact_clean: "\<not> carries_secret_value (redactSecrets v)"
  by (induction v rule: redactSecrets.induct) (auto simp: placeholder_clean)

lemma redact_id: "\<not> carries_secret_value v \<Longrightarrow> redactSecrets v = v"
proof (induction v rule: redactSecrets.induct)
  case (2 xs)
  then show ?case by (auto intro: map_idI)
next
  case (3 ob)
  have "(case e of (k, x) \<Rightarrow> (k, redactSecrets x)) = e" if "e \<in> set ob" for e
    using 3 that by (cases e) auto
  then show ?case by (simp add: map_idI)
qed auto

text \<open>Secret values are a special case of what the inbound guard rejects.\<close>

lemma secret_value_carries: "carries_secret_value v \<Longrightarrow> carries_credential v"
  by (induction rule: carries_secret_value.induct) auto

text \<open>C15. The inbound guard throws exactly when a credential-shaped key or string occurs somewhere in
  the parameters, at any depth, and what it throws is always \<open>invalid_args\<close>.\<close>

theorem guard_exact:
  "(assertNoCredentialShapedArgs v path = None \<longleftrightarrow> \<not> carries_credential v)
   \<and> (\<forall>e. assertNoCredentialShapedArgs v path = Some e \<longrightarrow>
          (\<exists>msg. e = TransportError transport_invalid_args msg JUndef))"
  using guard_iff guard_sound by blast

theorem guard_exact_witness:
  "assertNoCredentialShapedArgs (JObj [(''args'', JArr [JStr ''sk-ant-abc''])]) ''$'' \<noteq> None
   \<and> assertNoCredentialShapedArgs (JObj [(''args'', JArr [JStr ''npm test''])]) ''$'' = None"
proof -
  have bad: "carries_credential (JObj [(''args'', JArr [JStr ''sk-ant-abc''])])"
    by (simp add: carries_credential_simps) code_simp
  have good: "\<not> carries_credential (JObj [(''args'', JArr [JStr ''npm test''])])"
    by (simp add: carries_credential_simps) code_simp
  show ?thesis
    using guard_exact [of "JObj [(''args'', JArr [JStr ''sk-ant-abc''])]" "''$''"]
      guard_exact [of "JObj [(''args'', JArr [JStr ''npm test''])]" "''$''"] bad good by simp
qed

text \<open>Redaction leaves no credential-shaped string in a result, changes nothing in a clean
  result, and redacting twice is redacting once.\<close>

theorem redact_exact:
  "\<not> carries_secret_value (redactSecrets v)
   \<and> (redactSecrets v = v \<longleftrightarrow> \<not> carries_secret_value v)
   \<and> redactSecrets (redactSecrets v) = redactSecrets v"
  using redact_clean redact_id by metis

end
