(* ===== verification/Framing.thy ===== *)
theory Framing
  imports Guards
begin

text \<open>
  The wire format of the daemon socket (packages/toolbelt/src/ipc/framing.ts): a 4-byte big-endian
  length followed by that many bytes of UTF-8, encoded by \<open>encodeFrame\<close> and decoded by the
  stateful \<open>FrameDecoder\<close>, whatever the chunks the socket delivers. A byte is a \<open>char\<close>; a frame's
  bytes are taken to be valid UTF-8, so decoding them as text keeps them.
\<close>

section \<open>Unsigned 32-bit big-endian integers\<close>

definition writeUInt32BE :: "nat \<Rightarrow> string" where
  "writeUInt32BE n = [char_of (n div 16777216), char_of (n div 65536), char_of (n div 256), char_of n]"

definition readUInt32BE :: "string \<Rightarrow> nat" where
  "readUInt32BE b =
     of_char (b ! 0) * 16777216 + of_char (b ! 1) * 65536 + of_char (b ! 2) * 256 + of_char (b ! 3)"

lemma length_writeUInt32BE [simp]: "length (writeUInt32BE n) = 4"
  by (simp add: writeUInt32BE_def)

lemma read_write_uint32:
  assumes "n < 4294967296"
  shows "readUInt32BE (writeUInt32BE n @ rest) = n"
proof -
  define q1 q2 q3 where "q1 = n div 256" and "q2 = q1 div 256" and "q3 = q2 div 256"
  have quot: "n div 65536 = q2" "n div 16777216 = q3"
    by (simp_all add: q1_def q2_def q3_def flip: div_mult2_eq)
  have "q3 < 256" unfolding quot(2) [symmetric] using assms by (simp add: div_less_iff_less_mult)
  then have digits: "n = q1 * 256 + n mod 256" "q1 = q2 * 256 + q1 mod 256" "q2 = q3 * 256 + q2 mod 256"
      "q3 mod 256 = q3"
    by (simp_all add: q1_def q2_def q3_def)
  have "q3 * 16777216 + q2 mod 256 * 65536 + q1 mod 256 * 256 + n mod 256
      = ((q3 * 256 + q2 mod 256) * 256 + q1 mod 256) * 256 + n mod 256"
    by (simp add: algebra_simps)
  also have "\<dots> = n" using digits by presburger
  finally show ?thesis
    using digits(4) by (simp add: readUInt32BE_def writeUInt32BE_def quot flip: q1_def)
qed

section \<open>Encoder and decoder\<close>

definition HEADER_BYTES :: nat where
  "HEADER_BYTES = 4"

definition MAX_FRAME_BYTES :: nat where
  "MAX_FRAME_BYTES = 16 * 1024 * 1024"

definition frame_error :: "string \<Rightarrow> thrown" where
  "frame_error msg = TransportError frame msg JUndef"

definition encodeFrame :: "string \<Rightarrow> thrown + string" where
  "encodeFrame payload =
     (if length payload > MAX_FRAME_BYTES
      then Inl (frame_error (''outbound frame too large: '' @ show_nat (length payload) @ '' > '' @ show_nat MAX_FRAME_BYTES))
      else Inr (writeUInt32BE (length payload) @ payload))"

text \<open>
  The loop of \<open>push\<close> on the buffered bytes: the complete frames in front, and either the bytes that
  stay buffered or, on an oversized header, the error and the bytes the buffer is left with.
\<close>

function drain :: "string \<Rightarrow> string list \<times> thrown option \<times> string" where
  "drain buf =
     (if length buf < HEADER_BYTES then ([], None, buf)
      else let len = readUInt32BE buf in
        if len > MAX_FRAME_BYTES
        then ([], Some (frame_error (''inbound frame length '' @ show_nat len @ '' exceeds max '' @ show_nat MAX_FRAME_BYTES)), buf)
        else if length buf < HEADER_BYTES + len then ([], None, buf)
        else case drain (drop (HEADER_BYTES + len) buf) of
               (out, err, rest) \<Rightarrow> (take len (drop HEADER_BYTES buf) # out, err, rest))"
  by pat_completeness auto
termination
  by (relation "measure length") (auto simp: HEADER_BYTES_def)

declare drain.simps [simp del]

text \<open>\<open>push\<close>: on an error the frames decoded in the same call are discarded with it.\<close>

definition push :: "string \<Rightarrow> string \<Rightarrow> (thrown + string list) \<times> string" where
  "push buf chunk =
     (case drain (buf @ chunk) of
        (out, None, rest) \<Rightarrow> (Inr out, rest)
      | (out, Some err, rest) \<Rightarrow> (Inl err, rest))"

definition pending_bytes :: "string \<Rightarrow> nat" where
  "pending_bytes buf = length buf"

text \<open>A whole session: chunk after chunk, until an error.\<close>

fun push_all :: "string \<Rightarrow> string list \<Rightarrow> (thrown + string list) \<times> string" where
  "push_all buf [] = (Inr [], buf)"
| "push_all buf (c # cs) =
     (case push buf c of
        (Inl err, buf') \<Rightarrow> (Inl err, buf')
      | (Inr out, buf') \<Rightarrow>
          (case push_all buf' cs of
             (Inl err, buf'') \<Rightarrow> (Inl err, buf'')
           | (Inr outs, buf'') \<Rightarrow> (Inr (out @ outs), buf'')))"

section \<open>Decoding does not depend on the chunks\<close>

lemma readUInt32BE_append: "4 \<le> length buf \<Longrightarrow> readUInt32BE (buf @ extra) = readUInt32BE buf"
  by (auto simp: readUInt32BE_def nth_append)

text \<open>What is drained stays drained when more bytes arrive.\<close>

lemma drain_append:
  "drain buf = (out, None, rest) \<Longrightarrow>
     drain (buf @ extra) = (case drain (rest @ extra) of (out', err, rest') \<Rightarrow> (out @ out', err, rest'))"
proof (induction buf arbitrary: out rest rule: drain.induct)
  case (1 buf)
  define len where "len = readUInt32BE buf"
  show ?case
  proof (cases "length buf < HEADER_BYTES \<or> len \<le> MAX_FRAME_BYTES \<and> length buf < HEADER_BYTES + len")
    case True
    then have "drain buf = ([], None, buf)"
      by (subst drain.simps) (auto simp: len_def Let_def)
    with "1.prems" show ?thesis by (auto split: prod.splits)
  next
    case False
    then have hdr: "HEADER_BYTES \<le> length buf" by auto
    show ?thesis
    proof (cases "len > MAX_FRAME_BYTES")
      case True
      with hdr "1.prems" show ?thesis by (subst (asm) drain.simps) (simp add: len_def Let_def)
    next
      case fits: False
      with False have full: "HEADER_BYTES + len \<le> length buf" by auto
      let ?tail = "drop (HEADER_BYTES + len) buf"
      obtain out' rest' err where tail: "drain ?tail = (out', err, rest')" by (cases "drain ?tail") auto
      have "drain buf = (take len (drop HEADER_BYTES buf) # out', err, rest')"
        using fits full hdr tail by (subst drain.simps) (simp add: len_def [symmetric] Let_def)
      with "1.prems" have eqs: "out = take len (drop HEADER_BYTES buf) # out'" "err = None" "rest = rest'"
        by auto
      have IH: "drain (?tail @ extra) = (case drain (rest' @ extra) of (o2, e2, r2) \<Rightarrow> (out' @ o2, e2, r2))"
        using "1.IH" [of len out' rest'] hdr fits full tail eqs by (simp add: len_def)
      have "drain (buf @ extra) =
          (case drain (?tail @ extra) of (o2, e2, r2) \<Rightarrow> (take len (drop HEADER_BYTES buf) # o2, e2, r2))"
      proof -
        have "readUInt32BE (buf @ extra) = len"
          using hdr by (simp add: readUInt32BE_append len_def HEADER_BYTES_def)
        then show ?thesis
          using fits full hdr by (subst drain.simps) (simp add: Let_def)
      qed
      with IH eqs show ?thesis by (simp split: prod.split)
    qed
  qed
qed

text \<open>An oversized header is in the way of every later byte.\<close>

lemma drain_error:
  "drain buf = (out, Some err, rest) \<Longrightarrow> drain (buf @ extra) = (out, Some err, rest @ extra)"
proof (induction buf arbitrary: out rest rule: drain.induct)
  case (1 buf)
  define len where "len = readUInt32BE buf"
  have hdr: "HEADER_BYTES \<le> length buf"
    using "1.prems" by (subst (asm) drain.simps) (auto split: if_splits)
  then have len: "readUInt32BE (buf @ extra) = len"
    by (simp add: readUInt32BE_append len_def HEADER_BYTES_def)
  show ?case
  proof (cases "len > MAX_FRAME_BYTES")
    case True
    have "drain buf = ([], Some (frame_error (''inbound frame length '' @ show_nat len @ '' exceeds max '' @ show_nat MAX_FRAME_BYTES)), buf)"
      using hdr True by (subst drain.simps) (simp add: len_def Let_def)
    moreover have "drain (buf @ extra) = ([], Some (frame_error (''inbound frame length '' @ show_nat len @ '' exceeds max '' @ show_nat MAX_FRAME_BYTES)), buf @ extra)"
      using hdr True len by (subst drain.simps) (simp add: Let_def)
    ultimately show ?thesis using "1.prems" by simp
  next
    case fits: False
    have full: "HEADER_BYTES + len \<le> length buf"
      using "1.prems" hdr fits by (subst (asm) drain.simps) (auto simp: Let_def len_def split: if_splits)
    let ?tail = "drop (HEADER_BYTES + len) buf"
    obtain out' e rest' where tail: "drain ?tail = (out', e, rest')" by (cases "drain ?tail") auto
    have "drain buf = (take len (drop HEADER_BYTES buf) # out', e, rest')"
      using fits full hdr tail by (subst drain.simps) (simp add: len_def [symmetric] Let_def)
    with "1.prems" have eqs: "out = take len (drop HEADER_BYTES buf) # out'" "e = Some err" "rest = rest'"
      by auto
    have "drain (?tail @ extra) = (out', Some err, rest' @ extra)"
      using "1.IH" [of len out' rest'] hdr fits full tail eqs by (simp add: len_def)
    then show ?thesis
      using fits full hdr len eqs by (subst drain.simps) (simp add: Let_def)
  qed
qed

text \<open>What stays buffered holds no complete frame, so draining it again gives nothing.\<close>

lemma drain_rest: "drain buf = (out, None, rest) \<Longrightarrow> drain rest = ([], None, rest)"
  using drain_append [of buf out rest "[]"] by (simp split: prod.splits)

lemma push_all_drain:
  assumes "drain buf = ([], None, buf)" and "drain (buf @ concat chunks) = (out, None, rest)"
  shows "push_all buf chunks = (Inr out, rest)"
  using assms
proof (induction chunks arbitrary: buf out)
  case Nil
  then show ?case by simp
next
  case (Cons c cs)
  obtain o1 e1 r1 where d: "drain (buf @ c) = (o1, e1, r1)" by (cases "drain (buf @ c)") auto
  have "e1 = None"
  proof (rule ccontr)
    assume "e1 \<noteq> None"
    with d obtain err where "drain (buf @ c) = (o1, Some err, r1)" by auto
    from drain_error [OF this] Cons.prems(2) show False by fastforce
  qed
  with d have d: "drain (buf @ c) = (o1, None, r1)" by simp
  obtain o2 e2 r2 where d2: "drain (r1 @ concat cs) = (o2, e2, r2)" by (cases "drain (r1 @ concat cs)") auto
  have "drain (buf @ concat (c # cs)) = (o1 @ o2, e2, r2)"
    using drain_append [OF d, of "concat cs"] d2 by simp
  with Cons.prems(2) have eq: "out = o1 @ o2" "e2 = None" "r2 = rest" by auto
  have "push_all r1 cs = (Inr o2, rest)"
    using Cons.IH [OF drain_rest [OF d]] d2 eq by simp
  with d eq show ?case by (simp add: push_def)
qed

section \<open>Properties\<close>

lemma drain_frame:
  assumes "encodeFrame p = Inr f"
  shows "drain (f @ rest) = (case drain rest of (out, err, rest') \<Rightarrow> (p # out, err, rest'))"
proof -
  have f: "f = writeUInt32BE (length p) @ p" and fits: "length p \<le> MAX_FRAME_BYTES"
    using assms by (auto simp: encodeFrame_def split: if_splits)
  have "readUInt32BE (f @ rest) = length p"
    using fits by (simp add: f read_write_uint32 MAX_FRAME_BYTES_def)
  then show ?thesis
    using fits by (subst drain.simps) (simp add: f HEADER_BYTES_def Let_def)
qed

lemma drain_empty: "drain [] = ([], None, [])"
  by (subst drain.simps) (simp add: HEADER_BYTES_def)

lemma drain_frames: "map encodeFrame ps = map Inr fs \<Longrightarrow> drain (concat fs) = (ps, None, [])"
proof (induction ps arbitrary: fs)
  case Nil
  then show ?case by (simp add: drain_empty)
next
  case (Cons p ps)
  then obtain f fs' where "fs = f # fs'" "encodeFrame p = Inr f" "map encodeFrame ps = map Inr fs'"
    by (cases fs) auto
  with Cons.IH [of fs'] show ?case by (simp add: drain_frame)
qed

text \<open>
  C32. Framing round trip under any chunking. When every message fits a frame, the bytes of the
  encoded messages, cut into chunks at arbitrary places, decode to exactly the messages, in order,
  and leave nothing buffered.
\<close>

theorem frames_roundtrip:
  assumes "map encodeFrame ps = map Inr fs" and "concat chunks = concat fs"
  shows "push_all [] chunks = (Inr ps, [])"
  using push_all_drain [OF drain_empty, of chunks] drain_frames [OF assms(1)] assms(2) by simp

theorem frames_roundtrip_witness:
  "push_all [] [writeUInt32BE 2, ''h'', ''i'' @ writeUInt32BE 0] = (Inr [''hi'', []], [])"
proof -
  have "map encodeFrame [''hi'', []] = map Inr [writeUInt32BE 2 @ ''hi'', writeUInt32BE 0]"
    by (simp add: encodeFrame_def MAX_FRAME_BYTES_def numeral_2_eq_2)
  then show ?thesis by (rule frames_roundtrip) simp
qed

lemma drain_error_rest: "drain buf = (out, Some err, rest) \<Longrightarrow> drain rest = ([], Some err, rest)"
proof (induction buf arbitrary: out rule: drain.induct)
  case (1 buf)
  define len where "len = readUInt32BE buf"
  have hdr: "HEADER_BYTES \<le> length buf"
    using "1.prems" by (subst (asm) drain.simps) (auto split: if_splits)
  show ?case
  proof (cases "len > MAX_FRAME_BYTES")
    case True
    have "drain buf = ([], Some (frame_error (''inbound frame length '' @ show_nat len @ '' exceeds max '' @ show_nat MAX_FRAME_BYTES)), buf)"
      using hdr True by (subst drain.simps) (simp add: len_def Let_def)
    with "1.prems" show ?thesis by simp
  next
    case fits: False
    have full: "HEADER_BYTES + len \<le> length buf"
      using "1.prems" hdr fits by (subst (asm) drain.simps) (auto simp: Let_def len_def split: if_splits)
    obtain out' e rest' where tail: "drain (drop (HEADER_BYTES + len) buf) = (out', e, rest')"
      by (cases "drain (drop (HEADER_BYTES + len) buf)") auto
    have "drain buf = (take len (drop HEADER_BYTES buf) # out', e, rest')"
      using fits full hdr tail by (subst drain.simps) (simp add: len_def [symmetric] Let_def)
    with "1.prems" tail have "drain (drop (HEADER_BYTES + len) buf) = (out', Some err, rest)" by auto
    then show ?thesis using "1.IH" [of len out'] hdr fits full by (simp add: len_def)
  qed
qed

text \<open>
  A decoder that has seen an oversized header never recovers: every later push, whatever
  its bytes, raises the same frame error. The client keeps one decoder for all its connections.
\<close>

theorem decoder_poisoned:
  assumes "push buf chunk = (Inl err, buf')"
  shows "push buf' chunk' = (Inl err, buf' @ chunk')"
proof -
  from assms obtain out where "drain (buf @ chunk) = (out, Some err, buf')"
    by (auto simp: push_def split: prod.splits option.splits)
  from drain_error [OF drain_error_rest [OF this], of chunk'] show ?thesis by (simp add: push_def)
qed

theorem decoder_poisoned_witness:
  "\<exists>err buf'. push [] [CHR 0xFF, CHR 0xFF, CHR 0xFF, CHR 0xFF] = (Inl err, buf')
     \<and> push buf' ''later'' = (Inl err, buf' @ ''later'')"
proof -
  let ?b = "[CHR 0xFF, CHR 0xFF, CHR 0xFF, CHR 0xFF]"
  have "readUInt32BE ?b > MAX_FRAME_BYTES" "\<not> length ?b < HEADER_BYTES"
    by (simp_all add: readUInt32BE_def MAX_FRAME_BYTES_def HEADER_BYTES_def)
  then have "\<exists>err. drain ?b = ([], Some err, ?b)"
    by (subst drain.simps) (simp only: Let_def if_True if_False, blast)
  then obtain err where e: "push [] ?b = (Inl err, ?b)" by (auto simp: push_def)
  from decoder_poisoned [OF e] e show ?thesis by blast
qed

text \<open>
  The decoder's memory is bounded: after a push that succeeds it buffers fewer bytes than one
  header and one largest frame.
\<close>

theorem decoder_bounded:
  assumes "push buf chunk = (Inr out, buf')"
  shows "pending_bytes buf' < HEADER_BYTES + MAX_FRAME_BYTES"
proof -
  have rest: "drain buf' = ([], None, buf')"
    using assms by (auto simp: push_def intro: drain_rest split: prod.splits option.splits)
  show ?thesis
  proof (rule ccontr)
    assume big: "\<not> ?thesis"
    then have "\<not> length buf' < HEADER_BYTES" by (simp add: pending_bytes_def)
    with rest have "readUInt32BE buf' \<le> MAX_FRAME_BYTES"
      by (subst (asm) drain.simps) (auto simp: Let_def split: if_splits)
    with rest big show False
      by (subst (asm) drain.simps) (auto simp: Let_def pending_bytes_def split: if_splits prod.splits)
  qed
qed

theorem decoder_bounded_witness:
  "push [] [] = (Inr [], []) \<and> pending_bytes [] < HEADER_BYTES + MAX_FRAME_BYTES"
proof -
  have p: "push [] [] = (Inr [], [])" by (simp add: push_def drain_empty)
  from decoder_bounded [OF p] p show ?thesis by simp
qed

end
