(* ===== verification/Ipc.thy ===== *)
theory Ipc
  imports Framing "HOL-Library.Word"
begin

text \<open>
  The socket client (packages/toolbelt/src/ipc/client.ts): one connection at a time, requests
  correlated with responses by id, a deadline per request, and a decoder for what the socket
  delivers. The client is a machine over the events of the Node event loop; a promise is a token,
  settled by the first of the resolve and reject calls that reaches it. Sockets are numbered, so
  that an event of a socket the client has given up can be told from one of its current socket.
  \<open>JSON.parse\<close>, \<open>JSON.stringify\<close> and the string conversion of template literals are the functions
  of a \<open>js_runtime\<close>.
\<close>

section \<open>Requests and their ids\<close>

record js_runtime =
  parse_json :: "string \<Rightarrow> string + json"
  stringify :: "json \<Rightarrow> string"
  show_value :: "json \<Rightarrow> string"

definition base36_digit :: "nat \<Rightarrow> char" where
  "base36_digit d = (if d < 10 then char_of (48 + d) else char_of (87 + d))"

fun base36 :: "nat \<Rightarrow> string" where
  "base36 n = (if n < 36 then [base36_digit n] else base36 (n div 36) @ [base36_digit (n mod 36)])"

declare base36.simps [simp del]

text \<open>\<open>idCounter = (idCounter + 1) >>> 0\<close> keeps an unsigned 32-bit counter.\<close>

definition request_id :: "32 word \<Rightarrow> string" where
  "request_id n = ''mxl-'' @ base36 (unat n)"

section \<open>State\<close>

record pending_call =
  p_token :: nat
  p_method :: string
  p_timeoutMs :: nat

record waiting_call =
  w_token :: nat
  w_method :: string
  w_params :: json
  w_timeoutMs :: nat

record ipc_client =
  i_socketPath :: string
  i_socket :: "nat option"
  i_open :: "nat list"
  i_connecting :: bool
  i_waiting :: "waiting_call list"
  i_decoder :: string
  i_pending :: "(string \<times> pending_call) list"
  i_counter :: "32 word"
  i_written :: "string list"
  i_settled :: "(nat \<times> (thrown + json)) list"
  i_crashed :: bool

definition new_ipc_client :: "string \<Rightarrow> ipc_client" where
  "new_ipc_client path =
     \<lparr>i_socketPath = path, i_socket = None, i_open = [], i_connecting = False, i_waiting = [], i_decoder = [],
      i_pending = [], i_counter = 0, i_written = [], i_settled = [], i_crashed = False\<rparr>"

text \<open>A promise keeps the first outcome it is given.\<close>

definition settle :: "nat \<Rightarrow> thrown + json \<Rightarrow> ipc_client \<Rightarrow> ipc_client" where
  "settle t outcome c =
     (if t \<in> fst ` set (i_settled c) then c else c\<lparr>i_settled := i_settled c @ [(t, outcome)]\<rparr>)"

definition ipc_error :: "transport_code \<Rightarrow> string \<Rightarrow> thrown" where
  "ipc_error code msg = TransportError code msg JUndef"

text \<open>\<open>Map.set\<close> and \<open>Map.delete\<close>.\<close>

definition map_set :: "string \<Rightarrow> 'v \<Rightarrow> (string \<times> 'v) list \<Rightarrow> (string \<times> 'v) list" where
  "map_set k v m = (if k \<in> fst ` set m then map (\<lambda>(k', x). (k', if k' = k then v else x)) m else m @ [(k, v)])"

definition map_delete :: "string \<Rightarrow> (string \<times> 'v) list \<Rightarrow> (string \<times> 'v) list" where
  "map_delete k m = filter (\<lambda>(k', x). k' \<noteq> k) m"

definition failAll :: "thrown \<Rightarrow> ipc_client \<Rightarrow> ipc_client" where
  "failAll err c =
     (fold (\<lambda>e. settle (p_token (snd e)) (Inl err)) (i_pending c) c)\<lparr>i_pending := []\<rparr>"

section \<open>Sending\<close>

definition request_body :: "string \<Rightarrow> string \<Rightarrow> json \<Rightarrow> json" where
  "request_body rid method params =
     JObj ([(''jsonrpc'', JStr ''2.0''), (''id'', JStr rid), (''method'', JStr method)]
           @ (if params = JUndef then [] else [(''params'', params)]))"

text \<open>
  The part of \<open>call\<close> after the connection is there. An oversized request makes \<open>encodeFrame\<close> throw
  inside the promise: the promise is rejected, the pending entry and its timer stay.
\<close>

definition issue :: "js_runtime \<Rightarrow> waiting_call \<Rightarrow> ipc_client \<Rightarrow> ipc_client" where
  "issue js w c =
     (let n = i_counter c + 1;
          rid = request_id n;
          entry = \<lparr>p_token = w_token w, p_method = w_method w, p_timeoutMs = w_timeoutMs w\<rparr>;
          c1 = c\<lparr>i_counter := n, i_pending := map_set rid entry (i_pending c)\<rparr> in
      case encodeFrame (stringify js (request_body rid (w_method w) (w_params w))) of
        Inl err \<Rightarrow> settle (w_token w) (Inl err) c1
      | Inr bytes \<Rightarrow> c1\<lparr>i_written := i_written c1 @ [bytes]\<rparr>)"

definition usable_socket :: "ipc_client \<Rightarrow> bool" where
  "usable_socket c = (case i_socket c of Some s \<Rightarrow> s \<in> set (i_open c) | None \<Rightarrow> False)"

definition ipc_call :: "js_runtime \<Rightarrow> waiting_call \<Rightarrow> ipc_client \<Rightarrow> ipc_client" where
  "ipc_call js w c =
     (if usable_socket c then issue js w c
      else c\<lparr>i_connecting := True, i_waiting := i_waiting c @ [w]\<rparr>)"

section \<open>Receiving\<close>

definition js_truthy :: "json \<Rightarrow> bool" where
  "js_truthy v = (case v of JUndef \<Rightarrow> False | JNull \<Rightarrow> False | JBool b \<Rightarrow> b
     | JNum n \<Rightarrow> n \<noteq> Fin 0 \<and> n \<noteq> NaN | JStr s \<Rightarrow> s \<noteq> [] | _ \<Rightarrow> True)"

fun field_of :: "json \<Rightarrow> string \<Rightarrow> json" where
  "field_of (JObj ob) k = jget ob k"
| "field_of _ _ = JUndef"

definition response_outcome :: "js_runtime \<Rightarrow> string \<Rightarrow> obj \<Rightarrow> thrown + json" where
  "response_outcome js rid msg =
     (if has_key msg ''error'' \<and> js_truthy (jget msg ''error'')
      then let err = jget msg ''error'' in
        Inl (TransportError rpc (show_value js (field_of err ''message'') @ '' (rpc code ''
               @ show_value js (field_of err ''code'') @ '')'') err)
      else if has_key msg ''result'' then Inr (jget msg ''result'')
      else Inl (ipc_error protocol (''response for id '' @ rid @ '' had neither result nor error'')))"

text \<open>\<open>#dispatch\<close>. Reading \<open>.id\<close> of \<open>null\<close> throws outside any handler and ends the process.\<close>

definition dispatch :: "js_runtime \<Rightarrow> string \<Rightarrow> ipc_client \<Rightarrow> ipc_client" where
  "dispatch js text c =
     (case parse_json js text of
        Inl msg \<Rightarrow> failAll (ipc_error protocol (''invalid JSON in response frame: '' @ msg)) c
      | Inr JNull \<Rightarrow> c\<lparr>i_crashed := True\<rparr>
      | Inr (JObj msg) \<Rightarrow>
          (case jget msg ''id'' of
             JStr rid \<Rightarrow>
               (case map_of (i_pending c) rid of
                  None \<Rightarrow> c
                | Some entry \<Rightarrow>
                    settle (p_token entry) (response_outcome js rid msg)
                      (c\<lparr>i_pending := map_delete rid (i_pending c)\<rparr>))
           | _ \<Rightarrow> c)
      | Inr _ \<Rightarrow> c)"

fun dispatch_all :: "js_runtime \<Rightarrow> string list \<Rightarrow> ipc_client \<Rightarrow> ipc_client" where
  "dispatch_all js [] c = c"
| "dispatch_all js (t # ts) c = (let c' = dispatch js t c in if i_crashed c' then c' else dispatch_all js ts c')"

definition onData :: "js_runtime \<Rightarrow> string \<Rightarrow> ipc_client \<Rightarrow> ipc_client" where
  "onData js chunk c =
     (case push (i_decoder c) chunk of
        (Inl err, buf) \<Rightarrow>
          (let c' = failAll err (c\<lparr>i_decoder := buf\<rparr>) in
           c'\<lparr>i_open := (case i_socket c' of Some s \<Rightarrow> remove1 s (i_open c') | None \<Rightarrow> i_open c')\<rparr>)
      | (Inr frames, buf) \<Rightarrow> dispatch_all js frames (c\<lparr>i_decoder := buf\<rparr>))"

definition onClose :: "ipc_client \<Rightarrow> ipc_client" where
  "onClose c = failAll (ipc_error closed ''daemon connection closed'') (c\<lparr>i_socket := None\<rparr>)"

definition ipc_close :: "ipc_client \<Rightarrow> ipc_client" where
  "ipc_close c =
     (failAll (ipc_error closed ''client closed'') c)\<lparr>i_socket := None\<rparr>"

section \<open>Events\<close>

datatype ipc_event =
    Call nat string json nat
  | Connected nat
  | ConnectError string string
  | Data nat string
  | WriteFailed string nat string string
  | TimedOut string
  | SocketError nat string
  | SocketClosed nat
  | Close

definition connect_error :: "string \<Rightarrow> string \<Rightarrow> string \<Rightarrow> thrown" where
  "connect_error path errno msg =
     ipc_error (if errno = ''ENOENT'' \<or> errno = ''ECONNREFUSED'' then not_running else connect_failed)
       (''cannot connect to daemon socket at '' @ path @ '': '' @ msg)"

definition timeout_error :: "string \<Rightarrow> pending_call \<Rightarrow> thrown" where
  "timeout_error rid e =
     ipc_error transport_timeout (''no response for '' @ p_method e @ '' (id '' @ rid @ '') within ''
        @ show_nat (p_timeoutMs e) @ ''ms'')"

fun ipc_react :: "js_runtime \<Rightarrow> ipc_event \<Rightarrow> ipc_client \<Rightarrow> ipc_client" where
  "ipc_react js (Call t method params timeoutMs) c =
     ipc_call js \<lparr>w_token = t, w_method = method, w_params = params, w_timeoutMs = timeoutMs\<rparr> c"
| "ipc_react js (Connected s) c =
     fold (issue js) (i_waiting c)
       (c\<lparr>i_socket := Some s, i_open := i_open c @ [s], i_connecting := False, i_waiting := []\<rparr>)"
| "ipc_react js (ConnectError errno msg) c =
     fold (\<lambda>w. settle (w_token w) (Inl (connect_error (i_socketPath c) errno msg))) (i_waiting c)
       (c\<lparr>i_connecting := False, i_waiting := []\<rparr>)"
| "ipc_react js (Data s chunk) c = onData js chunk c"
| "ipc_react js (WriteFailed rid t method msg) c =
     settle t (Inl (ipc_error connect_failed (''write failed for '' @ method @ '': '' @ msg)))
       (c\<lparr>i_pending := map_delete rid (i_pending c)\<rparr>)"
| "ipc_react js (TimedOut rid) c =
     (case map_of (i_pending c) rid of
        None \<Rightarrow> c
      | Some e \<Rightarrow> settle (p_token e) (Inl (timeout_error rid e)) (c\<lparr>i_pending := map_delete rid (i_pending c)\<rparr>))"
| "ipc_react js (SocketError s msg) c = failAll (ipc_error connect_failed (''socket error: '' @ msg)) c"
| "ipc_react js (SocketClosed s) c = onClose (c\<lparr>i_open := remove1 s (i_open c)\<rparr>)"
| "ipc_react js Close c = ipc_close c"

text \<open>Which events can happen: timers of pending requests, callbacks of requests that were sent.\<close>

definition ipc_enabled :: "ipc_event \<Rightarrow> ipc_client \<Rightarrow> bool" where
  "ipc_enabled e c =
     (\<not> i_crashed c
      \<and> (case e of
           Connected s \<Rightarrow> i_connecting c \<and> s \<notin> set (i_open c)
         | ConnectError _ _ \<Rightarrow> i_connecting c
         | TimedOut rid \<Rightarrow> rid \<in> fst ` set (i_pending c)
         | WriteFailed rid t _ _ \<Rightarrow>
             (case map_of (i_pending c) rid of Some x \<Rightarrow> p_token x = t | None \<Rightarrow> t \<in> fst ` set (i_settled c))
         | _ \<Rightarrow> True))"

fun ipc_run :: "js_runtime \<Rightarrow> ipc_event list \<Rightarrow> ipc_client \<Rightarrow> ipc_client" where
  "ipc_run js [] c = c"
| "ipc_run js (e # es) c = ipc_run js es (ipc_react js e c)"

section \<open>Request ids do not repeat before the counter wraps\<close>

lemma base36_digit_code: "d < 36 \<Longrightarrow> (of_char (base36_digit d) :: nat) = (if d < 10 then 48 + d else 87 + d)"
  by (cases "d < 10") (simp_all add: base36_digit_def)

lemma base36_digit_inj:
  assumes "d < 36" "e < 36" "base36_digit d = base36_digit e"
  shows "d = e"
proof -
  have "(if d < 10 then 48 + d else 87 + d) = (if e < 10 then 48 + e else 87 + e)"
    using base36_digit_code [OF assms(1)] base36_digit_code [OF assms(2)] assms(3) by simp
  then show ?thesis by (cases "d < 10"; cases "e < 10") simp_all
qed

lemma base36_neq_Nil: "base36 n \<noteq> []"
  by (subst base36.simps) simp

lemma base36_inj: "base36 m = base36 n \<Longrightarrow> m = n"
proof (induction m arbitrary: n rule: base36.induct)
  case (1 m)
  show ?case
  proof (cases "m < 36")
    case True
    then have m: "base36 m = [base36_digit m]" by (subst base36.simps) simp
    have "n < 36"
    proof (rule ccontr)
      assume "\<not> n < 36"
      then have "base36 n = base36 (n div 36) @ [base36_digit (n mod 36)]" by (subst base36.simps) simp
      with "1.prems" m have "base36 (n div 36) = []" by simp
      then show False using base36_neq_Nil by blast
    qed
    moreover from this have "base36 n = [base36_digit n]" by (subst base36.simps) simp
    ultimately show ?thesis using "1.prems" m True base36_digit_inj by simp
  next
    case False
    then have m: "base36 m = base36 (m div 36) @ [base36_digit (m mod 36)]" by (subst base36.simps) simp
    have "\<not> n < 36"
    proof
      assume "n < 36"
      then have "base36 n = [base36_digit n]" by (subst base36.simps) simp
      with "1.prems" m have "base36 (m div 36) = []" by simp
      then show False using base36_neq_Nil by blast
    qed
    moreover from this have "base36 n = base36 (n div 36) @ [base36_digit (n mod 36)]" by (subst base36.simps) simp
    ultimately have "base36 (m div 36) = base36 (n div 36)" "base36_digit (m mod 36) = base36_digit (n mod 36)"
      using "1.prems" m by simp_all
    with "1.IH" [OF False] base36_digit_inj have "m div 36 = n div 36" "m mod 36 = n mod 36" by simp_all
    then show ?thesis by (metis div_mult_mod_eq)
  qed
qed

lemma request_id_inj: "request_id m = request_id n \<Longrightarrow> m = n"
  unfolding request_id_def append_same_eq same_append_eq by (drule base36_inj) (simp add: word_unat_eq_iff)

section \<open>The client invariant\<close>

definition waiting_tokens :: "ipc_client \<Rightarrow> nat set" where
  "waiting_tokens c = w_token ` set (i_waiting c)"

definition pending_tokens :: "ipc_client \<Rightarrow> nat set" where
  "pending_tokens c = (\<lambda>(rid, e). p_token e) ` set (i_pending c)"

definition settled_tokens :: "ipc_client \<Rightarrow> nat set" where
  "settled_tokens c = fst ` set (i_settled c)"

text \<open>
  \<open>ts\<close> are the calls made so far. Ids in the pending map were issued at counter values up to the
  current one, and the counter has not passed the number of calls.
\<close>

definition queue_inv :: "nat list \<Rightarrow> waiting_call list \<Rightarrow> ipc_client \<Rightarrow> bool" where
  "queue_inv ts ws c =
     (distinct (map fst (i_pending c))
      \<and> distinct (map fst (i_settled c))
      \<and> set ts = w_token ` set ws \<union> pending_tokens c \<union> settled_tokens c
      \<and> fst ` set (i_pending c) \<subseteq> request_id ` {n. n \<le> i_counter c}
      \<and> unat (i_counter c) + length ws \<le> length ts)"

definition ipc_inv :: "nat list \<Rightarrow> ipc_client \<Rightarrow> bool" where
  "ipc_inv ts c = (queue_inv ts (i_waiting c) c \<and> (i_waiting c \<noteq> [] \<longrightarrow> i_connecting c))"

lemmas token_defs = waiting_tokens_def pending_tokens_def settled_tokens_def

lemma settle_fields [simp]:
  "i_pending (settle t r c) = i_pending c" "i_waiting (settle t r c) = i_waiting c"
  "i_connecting (settle t r c) = i_connecting c" "i_counter (settle t r c) = i_counter c"
  "i_socket (settle t r c) = i_socket c" "i_open (settle t r c) = i_open c"
  "i_decoder (settle t r c) = i_decoder c" "i_crashed (settle t r c) = i_crashed c"
  "i_written (settle t r c) = i_written c" "i_socketPath (settle t r c) = i_socketPath c"
  by (simp_all add: settle_def)

lemma settle_tokens [simp]: "settled_tokens (settle t r c) = insert t (settled_tokens c)"
  by (auto simp: settle_def settled_tokens_def)

lemma settle_distinct: "distinct (map fst (i_settled c)) \<Longrightarrow> distinct (map fst (i_settled (settle t r c)))"
  by (auto simp: settle_def)

lemma settle_all:
  "i_pending (fold (\<lambda>e. settle (tok e) (out e)) es c) = i_pending c"
  "i_waiting (fold (\<lambda>e. settle (tok e) (out e)) es c) = i_waiting c"
  "i_connecting (fold (\<lambda>e. settle (tok e) (out e)) es c) = i_connecting c"
  "i_counter (fold (\<lambda>e. settle (tok e) (out e)) es c) = i_counter c"
  "i_socket (fold (\<lambda>e. settle (tok e) (out e)) es c) = i_socket c"
  "i_crashed (fold (\<lambda>e. settle (tok e) (out e)) es c) = i_crashed c"
  "settled_tokens (fold (\<lambda>e. settle (tok e) (out e)) es c) = settled_tokens c \<union> tok ` set es"
  "distinct (map fst (i_settled c)) \<Longrightarrow>
     distinct (map fst (i_settled (fold (\<lambda>e. settle (tok e) (out e)) es c)))"
  by (induction es arbitrary: c) (simp_all add: settle_distinct)

lemma failAll_fields [simp]:
  "i_pending (failAll err c) = []" "i_waiting (failAll err c) = i_waiting c"
  "i_connecting (failAll err c) = i_connecting c" "i_counter (failAll err c) = i_counter c"
  "i_crashed (failAll err c) = i_crashed c" "i_socket (failAll err c) = i_socket c"
  "settled_tokens (failAll err c) = settled_tokens c \<union> pending_tokens c"
  "distinct (map fst (i_settled c)) \<Longrightarrow> distinct (map fst (i_settled (failAll err c)))"
  using settle_all [where tok = "\<lambda>e. p_token (snd e)" and out = "\<lambda>_. Inl err" and es = "i_pending c" and c = c]
  by (simp_all add: failAll_def settled_tokens_def pending_tokens_def split_beta)

lemma tokens_update [simp]:
  "settled_tokens (c\<lparr>i_pending := p\<rparr>) = settled_tokens c" "settled_tokens (c\<lparr>i_waiting := w\<rparr>) = settled_tokens c"
  "settled_tokens (c\<lparr>i_socket := so\<rparr>) = settled_tokens c" "settled_tokens (c\<lparr>i_open := op\<rparr>) = settled_tokens c"
  "settled_tokens (c\<lparr>i_decoder := d\<rparr>) = settled_tokens c" "settled_tokens (c\<lparr>i_connecting := b\<rparr>) = settled_tokens c"
  "settled_tokens (c\<lparr>i_counter := n\<rparr>) = settled_tokens c" "settled_tokens (c\<lparr>i_written := wr\<rparr>) = settled_tokens c"
  "settled_tokens (c\<lparr>i_crashed := cr\<rparr>) = settled_tokens c"
  by (simp_all add: settled_tokens_def)

lemma queue_failAll: "queue_inv ts ws c \<Longrightarrow> queue_inv ts ws (failAll err c)"
  unfolding queue_inv_def by (auto simp: pending_tokens_def [of "failAll err c"])

lemma inv_failAll: "ipc_inv ts c \<Longrightarrow> ipc_inv ts (failAll err c)"
  by (simp add: ipc_inv_def queue_failAll)

lemma inv_frame:
  assumes "ipc_inv ts c" and "i_pending c' = i_pending c" "i_waiting c' = i_waiting c"
    "i_settled c' = i_settled c" "i_counter c' = i_counter c" "i_connecting c' = i_connecting c"
  shows "ipc_inv ts c'"
  using assms by (simp add: ipc_inv_def queue_inv_def token_defs)

lemma delete_split:
  assumes "map_of m k = Some e" "distinct (map fst m)"
  shows "set m = insert (k, e) (set (map_delete k m))"
proof -
  have "(k, x) \<in> set m \<longleftrightarrow> x = e" for x
    using assms by (metis Some_eq_map_of_iff option.inject)
  then show ?thesis by (auto simp: map_delete_def)
qed

lemma delete_keys: "fst ` set (map_delete k m) \<subseteq> fst ` set m"
  by (auto simp: map_delete_def)

lemma delete_distinct: "distinct (map fst m) \<Longrightarrow> distinct (map fst (map_delete k m))"
  by (induction m) (auto simp: map_delete_def)

text \<open>Taking an entry out of the pending map and settling its promise keeps the invariant.\<close>

lemma inv_settle_entry:
  assumes inv: "ipc_inv ts c" and e: "map_of (i_pending c) rid = Some e"
  shows "ipc_inv ts (settle (p_token e) r (c\<lparr>i_pending := map_delete rid (i_pending c)\<rparr>))"
proof -
  have d: "distinct (map fst (i_pending c))" using inv by (simp add: ipc_inv_def queue_inv_def)
  have "pending_tokens c = insert (p_token e) ((\<lambda>(rid, e). p_token e) ` set (map_delete rid (i_pending c)))"
    unfolding pending_tokens_def delete_split [OF e d] by simp
  moreover have "fst ` set (map_delete rid (i_pending c)) \<subseteq> request_id ` {n. n \<le> i_counter c}"
    using inv delete_keys [of rid "i_pending c"] unfolding ipc_inv_def queue_inv_def by (meson order_trans)
  ultimately show ?thesis
    using inv delete_distinct [OF d, of rid] unfolding ipc_inv_def queue_inv_def
    by (auto simp: pending_tokens_def [of "settle _ _ _"] intro: settle_distinct)
qed

lemma map_set_fresh: "k \<notin> fst ` set m \<Longrightarrow> map_set k v m = m @ [(k, v)]"
  by (simp add: map_set_def)

lemma queue_settle: "t \<in> set ts \<Longrightarrow> queue_inv ts ws c \<Longrightarrow> queue_inv ts ws (settle t r c)"
  unfolding queue_inv_def
  by (auto simp: pending_tokens_def [of "settle _ _ _"] pending_tokens_def [of c] intro: settle_distinct)

text \<open>Sending the request at the head of the queue gives it an id of its own.\<close>

lemma queue_issue:
  assumes inv: "queue_inv ts (w # ws) c" and room: "length ts < 2 ^ 32"
  shows "queue_inv ts ws (issue js w c)"
proof -
  let ?n = "i_counter c + 1"
  have small: "unat (i_counter c) + 1 < 2 ^ 32" using inv room by (simp add: queue_inv_def)
  then have n: "unat ?n = unat (i_counter c) + 1"
    by (simp add: unat_word_ariths)
  then have less: "i_counter c < ?n" by (simp add: word_less_nat_alt)
  have below: "m \<le> i_counter c \<Longrightarrow> m \<le> ?n" for m using less by (meson le_less_trans less_imp_le)
  have fresh: "request_id ?n \<notin> fst ` set (i_pending c)"
  proof
    assume "request_id ?n \<in> fst ` set (i_pending c)"
    with inv obtain m where "m \<le> i_counter c" "request_id ?n = request_id m"
      unfolding queue_inv_def by blast
    with less show False using request_id_inj by (metis not_less)
  qed
  define entry where "entry = \<lparr>p_token = w_token w, p_method = w_method w, p_timeoutMs = w_timeoutMs w\<rparr>"
  define c1 where "c1 = c\<lparr>i_counter := ?n, i_pending := i_pending c @ [(request_id ?n, entry)]\<rparr>"
  have "queue_inv ts ws c1"
    using inv fresh n below unfolding queue_inv_def
    by (auto simp: c1_def entry_def pending_tokens_def settled_tokens_def)
  moreover have "w_token w \<in> set ts" using inv by (simp add: queue_inv_def)
  moreover have "queue_inv ts ws (c1\<lparr>i_written := x\<rparr>) = queue_inv ts ws c1" for x
    by (simp add: queue_inv_def pending_tokens_def settled_tokens_def)
  moreover have "issue js w c = (case encodeFrame (stringify js (request_body (request_id ?n) (w_method w) (w_params w))) of
        Inl err \<Rightarrow> settle (w_token w) (Inl err) c1
      | Inr bytes \<Rightarrow> c1\<lparr>i_written := i_written c1 @ [bytes]\<rparr>)"
    unfolding issue_def Let_def map_set_fresh [OF fresh] c1_def entry_def by simp
  ultimately show ?thesis by (simp add: queue_settle split: sum.split)
qed

lemma issue_fields [simp]:
  "i_waiting (issue js w c) = i_waiting c" "i_connecting (issue js w c) = i_connecting c"
  by (simp_all add: issue_def Let_def split: sum.split)

lemma issue_all_fields: "i_waiting (fold (issue js) ws c) = i_waiting c"
  by (induction ws arbitrary: c) simp_all

lemma queue_issue_all:
  "queue_inv ts ws c \<Longrightarrow> length ts < 2 ^ 32 \<Longrightarrow> queue_inv ts [] (fold (issue js) ws c)"
  by (induction ws arbitrary: c) (simp_all add: queue_issue)

lemma queue_settle_all:
  "queue_inv ts ws c \<Longrightarrow> queue_inv ts [] (fold (\<lambda>w. settle (w_token w) (out w)) ws c)"
proof -
  assume inv: "queue_inv ts ws c"
  let ?c = "fold (\<lambda>w. settle (w_token w) (out w)) ws c"
  note fields = settle_all [where tok = w_token and out = out and es = ws and c = c]
  have "pending_tokens ?c = pending_tokens c" by (simp add: pending_tokens_def fields)
  with inv show ?thesis unfolding queue_inv_def by (auto simp: fields)
qed

lemma inv_crash: "ipc_inv ts c \<Longrightarrow> ipc_inv ts (c\<lparr>i_crashed := b\<rparr>)"
  by (erule inv_frame) simp_all

lemma inv_decoder: "ipc_inv ts c \<Longrightarrow> ipc_inv ts (c\<lparr>i_decoder := b\<rparr>)"
  by (erule inv_frame) simp_all

lemma inv_socket: "ipc_inv ts c \<Longrightarrow> ipc_inv ts (c\<lparr>i_socket := b\<rparr>)"
  by (erule inv_frame) simp_all

lemma inv_open: "ipc_inv ts c \<Longrightarrow> ipc_inv ts (c\<lparr>i_open := b\<rparr>)"
  by (erule inv_frame) simp_all

lemmas inv_frames = inv_crash inv_decoder inv_socket inv_open inv_failAll

lemma inv_dispatch: "ipc_inv ts c \<Longrightarrow> ipc_inv ts (dispatch js text c)"
  unfolding dispatch_def
  by (simp add: inv_frames inv_settle_entry split: sum.split json.split option.split)

lemma inv_dispatch_all: "ipc_inv ts c \<Longrightarrow> ipc_inv ts (dispatch_all js frames c)"
  by (induction frames arbitrary: c) (auto simp: Let_def intro: inv_dispatch)

lemma inv_onData: "ipc_inv ts c \<Longrightarrow> ipc_inv ts (onData js chunk c)"
  unfolding onData_def Let_def
  by (simp add: inv_frames inv_dispatch_all split: prod.split sum.split)

section \<open>Reachable clients\<close>

fun called :: "ipc_event \<Rightarrow> nat list" where
  "called (Call t _ _ _) = [t]"
| "called _ = []"

inductive ipc_reach :: "js_runtime \<Rightarrow> string \<Rightarrow> nat list \<Rightarrow> ipc_client \<Rightarrow> bool" for js path where
  start: "ipc_reach js path [] (new_ipc_client path)"
| event: "ipc_reach js path ts c \<Longrightarrow> ipc_enabled e c \<Longrightarrow> set (called e) \<inter> set ts = {} \<Longrightarrow>
     ipc_reach js path (ts @ called e) (ipc_react js e c)"

lemma inv_new: "ipc_inv [] (new_ipc_client path)"
  by (simp add: ipc_inv_def queue_inv_def new_ipc_client_def pending_tokens_def settled_tokens_def)

lemma queue_call:
  "queue_inv ts ws c \<Longrightarrow> queue_inv (ts @ [w_token w]) (w # ws) c"
  by (simp add: queue_inv_def)

lemma queue_snoc: "queue_inv ts (w # ws) c \<longleftrightarrow> queue_inv ts (ws @ [w]) c"
  by (simp add: queue_inv_def)

lemma inv_call:
  assumes "ipc_inv ts c" and "length ts + 1 < 2 ^ 32"
  shows "ipc_inv (ts @ [w_token w]) (ipc_call js w c)"
proof -
  have q: "queue_inv (ts @ [w_token w]) (w # i_waiting c) c"
    using assms(1) queue_call by (simp add: ipc_inv_def)
  have frame: "queue_inv ts' ws (c\<lparr>i_connecting := b, i_waiting := ws'\<rparr>) = queue_inv ts' ws c" for ts' ws b ws'
    by (simp add: queue_inv_def pending_tokens_def settled_tokens_def)
  show ?thesis
    using q queue_issue [OF q] assms
    by (simp add: ipc_call_def ipc_inv_def frame queue_snoc [symmetric])
qed

lemma inv_connected:
  assumes "ipc_inv ts c" and "length ts < 2 ^ 32"
  shows "ipc_inv ts (ipc_react js (Connected s) c)"
proof -
  let ?c = "c\<lparr>i_socket := Some s, i_open := i_open c @ [s], i_connecting := False, i_waiting := []\<rparr>"
  have "queue_inv ts (i_waiting c) ?c"
    using assms(1) by (simp add: ipc_inv_def queue_inv_def pending_tokens_def settled_tokens_def)
  from queue_issue_all [OF this assms(2)] show ?thesis by (simp add: ipc_inv_def issue_all_fields)
qed

lemma inv_connect_error: "ipc_inv ts c \<Longrightarrow> ipc_inv ts (ipc_react js (ConnectError errno msg) c)"
proof -
  assume inv: "ipc_inv ts c"
  let ?c = "c\<lparr>i_connecting := False, i_waiting := []\<rparr>"
  have "queue_inv ts (i_waiting c) ?c"
    using inv by (simp add: ipc_inv_def queue_inv_def pending_tokens_def settled_tokens_def)
  from queue_settle_all [OF this, of "\<lambda>_. Inl (connect_error (i_socketPath c) errno msg)"]
  show ?thesis by (simp add: ipc_inv_def settle_all)
qed

lemma map_delete_absent: "map_of m k = None \<Longrightarrow> map_delete k m = m"
  by (induction m) (auto simp: map_delete_def split: if_splits)

lemma inv_write_failed:
  assumes "ipc_inv ts c" and "ipc_enabled (WriteFailed rid t method msg) c"
  shows "ipc_inv ts (ipc_react js (WriteFailed rid t method msg) c)"
proof (cases "map_of (i_pending c) rid")
  case None
  with assms have "t \<in> settled_tokens c" by (simp add: ipc_enabled_def settled_tokens_def)
  then have "settle t r c = c" for r by (simp add: settle_def settled_tokens_def)
  with None assms(1) show ?thesis by (simp add: map_delete_absent)
next
  case (Some e)
  with assms have "p_token e = t" by (simp add: ipc_enabled_def)
  with inv_settle_entry [OF assms(1) Some] show ?thesis by auto
qed

lemma inv_react:
  assumes "ipc_inv ts c" and "ipc_enabled e c" and "length (ts @ called e) < 2 ^ 32"
  shows "ipc_inv (ts @ called e) (ipc_react js e c)"
proof (cases e)
  case (Call t mth params timeoutMs)
  with assms inv_call [OF assms(1), of "\<lparr>w_token = t, w_method = mth, w_params = params, w_timeoutMs = timeoutMs\<rparr>" js]
  show ?thesis by simp
next
  case (Connected s)
  with assms show ?thesis using inv_connected by simp
next
  case (ConnectError errno msg)
  with assms show ?thesis using inv_connect_error by simp
next
  case (WriteFailed rid t mth msg)
  with assms show ?thesis using inv_write_failed by simp
next
  case (TimedOut rid)
  with assms show ?thesis by (simp add: inv_settle_entry split: option.split)
qed (use assms in \<open>simp_all add: inv_onData inv_frames onClose_def ipc_close_def\<close>)

lemma reach_inv: "ipc_reach js path ts c \<Longrightarrow> length ts < 2 ^ 32 \<Longrightarrow> ipc_inv ts c"
proof (induction rule: ipc_reach.induct)
  case start
  show ?case by (rule inv_new)
next
  case (event ts c e)
  then show ?case using inv_react [of ts c e js] by simp
qed

text \<open>Following a list of events, as long as each of them can happen.\<close>

fun follow :: "js_runtime \<Rightarrow> ipc_event list \<Rightarrow> nat list \<Rightarrow> ipc_client \<Rightarrow> (nat list \<times> ipc_client) option" where
  "follow js [] ts c = Some (ts, c)"
| "follow js (e # es) ts c =
     (if ipc_enabled e c \<and> list_all (\<lambda>t. t \<notin> set ts) (called e)
      then follow js es (ts @ called e) (ipc_react js e c) else None)"

lemma follow_reach:
  "ipc_reach js path ts c \<Longrightarrow> follow js es ts c = Some (ts', c') \<Longrightarrow> ipc_reach js path ts' c'"
proof (induction es arbitrary: ts c)
  case (Cons e es)
  then have "ipc_reach js path (ts @ called e) (ipc_react js e c)"
    by (intro ipc_reach.event) (auto simp: list_all_iff split: if_splits)
  with Cons show ?case by (simp split: if_splits)
qed simp

text \<open>A runtime whose parser knows one response, to request \<open>mxl-1\<close>.\<close>

definition demo_js :: js_runtime where
  "demo_js =
     \<lparr>parse_json = (\<lambda>s. if s = ''R'' then Inr (JObj [(''id'', JStr ''mxl-1''), (''result'', JBool True)]) else Inl ''bad''),
      stringify = (\<lambda>_. ''Q''), show_value = (\<lambda>_. ''v'')\<rparr>"

definition demo_client :: ipc_client where
  "demo_client =
     \<lparr>i_socketPath = ''/s'', i_socket = Some 1, i_open = [1], i_connecting = False, i_waiting = [], i_decoder = [],
      i_pending = [(''mxl-1'', \<lparr>p_token = 7, p_method = ''ping'', p_timeoutMs = 30\<rparr>)], i_counter = 1,
      i_written = [writeUInt32BE 1 @ ''Q''], i_settled = [], i_crashed = False\<rparr>"

lemma demo_reach: "ipc_reach demo_js ''/s'' [7] demo_client"
proof (rule follow_reach [OF ipc_reach.start])
  have e: "encodeFrame (stringify demo_js v) = Inr (writeUInt32BE 1 @ ''Q'')" for v
    by (simp add: demo_js_def encodeFrame_def MAX_FRAME_BYTES_def)
  have i: "request_id 1 = ''mxl-1''"
    unfolding request_id_def by (simp add: base36.simps base36_digit_def) code_simp
  show "follow demo_js [Call 7 ''ping'' JUndef 30, Connected 1] [] (new_ipc_client ''/s'') = Some ([7], demo_client)"
    by (simp add: ipc_enabled_def new_ipc_client_def ipc_call_def usable_socket_def issue_def Let_def e i
        map_set_def demo_client_def)
qed

section \<open>Properties\<close>

text \<open>
  C8. The socket client loses no call and answers none twice. As long as fewer than \<open>2^32\<close> calls
  have been made, in every state the events of the socket, the timers and the callers can lead to:
  the calls made are exactly the ones waiting for a connection, pending with a timer, or settled;
  a settled promise has one outcome; and no two pending requests share an id.
\<close>

theorem ipc_no_call_lost:
  assumes "ipc_reach js path ts c" and "length ts < 2 ^ 32"
  shows "set ts = waiting_tokens c \<union> pending_tokens c \<union> settled_tokens c
         \<and> distinct (map fst (i_settled c)) \<and> distinct (map fst (i_pending c))"
  using reach_inv [OF assms] by (simp add: ipc_inv_def queue_inv_def waiting_tokens_def)

theorem ipc_no_call_lost_witness:
  "set [7] = waiting_tokens demo_client \<union> pending_tokens demo_client \<union> settled_tokens demo_client
     \<and> distinct (map fst (i_settled demo_client)) \<and> distinct (map fst (i_pending demo_client))"
  by (rule ipc_no_call_lost [OF demo_reach]) simp

text \<open>
  C29. Nothing hangs on a connection that is gone: when the client is closed, or a socket closes or
  fails, every call that is not still waiting for a connection is settled.
\<close>

theorem ipc_close_settles:
  assumes "ipc_reach js path ts c" and "length ts < 2 ^ 32" and "t \<in> set ts" and "t \<notin> waiting_tokens c"
  shows "t \<in> settled_tokens (ipc_react js Close c) \<and> t \<in> settled_tokens (ipc_react js (SocketClosed s) c)
         \<and> t \<in> settled_tokens (ipc_react js (SocketError s msg) c)"
proof -
  have t: "t \<in> pending_tokens c \<union> settled_tokens c"
    using reach_inv [OF assms(1,2)] assms(3,4) by (auto simp: ipc_inv_def queue_inv_def waiting_tokens_def)
  have frame: "pending_tokens (c\<lparr>i_open := x\<rparr>) = pending_tokens c" "pending_tokens (c\<lparr>i_open := x, i_socket := y\<rparr>) = pending_tokens c" for x y
    by (simp_all add: pending_tokens_def)
  from t show ?thesis by (auto simp: ipc_close_def onClose_def frame)
qed

theorem ipc_close_settles_witness:
  "7 \<in> settled_tokens (ipc_react demo_js Close demo_client)
   \<and> 7 \<in> settled_tokens (ipc_react demo_js (SocketClosed 1) demo_client)
   \<and> 7 \<in> settled_tokens (ipc_react demo_js (SocketError 1 ''x'') demo_client)"
  by (rule ipc_close_settles [OF demo_reach]) (simp_all add: demo_client_def waiting_tokens_def)

subsection \<open>Correlation\<close>

definition resolved :: "ipc_client \<Rightarrow> (nat \<times> json) set" where
  "resolved c = {(t, v). (t, Inr v) \<in> set (i_settled c)}"

lemma resolved_settle:
  "resolved (settle t (Inl e) c) = resolved c"
  "resolved (settle t r c) \<subseteq> resolved c \<union> {(t, v) | v. r = Inr v}"
  by (auto simp: resolved_def settle_def)

lemma resolved_settle_all: "resolved (fold (\<lambda>e. settle (tok e) (Inl (err e))) es c) = resolved c"
  by (induction es arbitrary: c) (simp_all add: resolved_settle)

lemma resolved_update [simp]:
  "resolved (c\<lparr>i_pending := p\<rparr>) = resolved c" "resolved (c\<lparr>i_waiting := w\<rparr>) = resolved c"
  "resolved (c\<lparr>i_socket := so\<rparr>) = resolved c" "resolved (c\<lparr>i_open := op\<rparr>) = resolved c"
  "resolved (c\<lparr>i_decoder := d\<rparr>) = resolved c" "resolved (c\<lparr>i_connecting := b\<rparr>) = resolved c"
  "resolved (c\<lparr>i_counter := n\<rparr>) = resolved c" "resolved (c\<lparr>i_written := wr\<rparr>) = resolved c"
  "resolved (c\<lparr>i_crashed := cr\<rparr>) = resolved c"
  by (simp_all add: resolved_def)

lemma resolved_failAll [simp]: "resolved (failAll err c) = resolved c"
  by (simp add: failAll_def resolved_settle_all)

lemma resolved_issue [simp]: "resolved (issue js w c) = resolved c"
  by (simp add: issue_def Let_def resolved_settle split: sum.split)

lemma resolved_issue_all [simp]: "resolved (fold (issue js) ws c) = resolved c"
  by (induction ws arbitrary: c) simp_all

text \<open>The responses among some frames that answer pending requests.\<close>

definition answers :: "js_runtime \<Rightarrow> string list \<Rightarrow> (string \<times> pending_call) list \<Rightarrow> nat \<Rightarrow> json \<Rightarrow> bool" where
  "answers js frames pend t v =
     (\<exists>text \<in> set frames. \<exists>msg rid e. parse_json js text = Inr (JObj msg) \<and> jget msg ''id'' = JStr rid
        \<and> has_key msg ''result'' \<and> jget msg ''result'' = v \<and> (rid, e) \<in> set pend \<and> p_token e = t)"

lemma response_Inr: "response_outcome js rid msg = Inr v \<Longrightarrow> has_key msg ''result'' \<and> jget msg ''result'' = v"
  by (auto simp: response_outcome_def Let_def split: if_splits)

lemma resolved_dispatch:
  assumes "(t, v) \<in> resolved (dispatch js text c)" and "(t, v) \<notin> resolved c"
  shows "answers js [text] (i_pending c) t v"
proof -
  obtain msg rid e where m: "parse_json js text = Inr (JObj msg)" "jget msg ''id'' = JStr rid"
      "map_of (i_pending c) rid = Some e"
      "(t, v) \<in> resolved (settle (p_token e) (response_outcome js rid msg) (c\<lparr>i_pending := map_delete rid (i_pending c)\<rparr>))"
    using assms by (auto simp: dispatch_def split: sum.splits json.splits option.splits)
  with assms(2) resolved_settle(2) [of "p_token e" "response_outcome js rid msg" "c\<lparr>i_pending := map_delete rid (i_pending c)\<rparr>"]
  have "t = p_token e" "response_outcome js rid msg = Inr v" by auto
  with m response_Inr map_of_SomeD [OF m(3)] show ?thesis unfolding answers_def by auto
qed

lemma pending_dispatch: "set (i_pending (dispatch js text c)) \<subseteq> set (i_pending c)"
  by (auto simp: dispatch_def map_delete_def split: sum.splits json.splits option.splits)

lemma answers_mono: "answers js fs p t v \<Longrightarrow> set fs \<subseteq> set fs' \<Longrightarrow> set p \<subseteq> set p' \<Longrightarrow> answers js fs' p' t v"
  unfolding answers_def by blast

lemma resolved_dispatch_all:
  "(t, v) \<in> resolved (dispatch_all js frames c) \<Longrightarrow> (t, v) \<notin> resolved c \<Longrightarrow> answers js frames (i_pending c) t v"
proof (induction frames arbitrary: c)
  case (Cons f frames)
  let ?c = "dispatch js f c"
  show ?case
  proof (cases "(t, v) \<in> resolved ?c")
    case True
    from answers_mono [OF resolved_dispatch [OF True Cons.prems(2)]] show ?thesis by simp
  next
    case False
    with Cons.prems(1) have later: "(t, v) \<in> resolved (dispatch_all js frames ?c)"
      by (simp add: Let_def split: if_splits)
    show ?thesis by (rule answers_mono [OF Cons.IH [OF later False] _ pending_dispatch]) auto
  qed
qed simp

text \<open>
  C28. A response reaches the call it answers. Whatever happens, a call resolves with a value only
  when the socket delivers data that completes a frame holding a JSON-RPC response with that value
  as its result and the id under which this very call is pending.
\<close>

theorem ipc_correlated:
  assumes "(t, Inr v) \<in> set (i_settled (ipc_react js e c))" and "(t, Inr v) \<notin> set (i_settled c)"
  shows "\<exists>s chunk frames buf. e = Data s chunk \<and> push (i_decoder c) chunk = (Inr frames, buf)
           \<and> answers js frames (i_pending c) t v"
proof -
  have new: "(t, v) \<in> resolved (ipc_react js e c)" "(t, v) \<notin> resolved c"
    using assms by (simp_all add: resolved_def)
  show ?thesis
  proof (cases e)
    case (Data s chunk)
    obtain r buf where p: "push (i_decoder c) chunk = (r, buf)" by fastforce
    show ?thesis
    proof (cases r)
      case (Inl err)
      with new p Data show ?thesis by (simp add: onData_def Let_def)
    next
      case (Inr frames)
      with new p Data resolved_dispatch_all [of t v js frames "c\<lparr>i_decoder := buf\<rparr>"] show ?thesis
        by (auto simp: onData_def)
    qed
  qed (use new in \<open>simp_all add: ipc_call_def resolved_settle resolved_settle_all onClose_def ipc_close_def
         split: if_splits option.splits\<close>)
qed

theorem ipc_correlated_witness:
  "\<exists>frames buf. push (i_decoder demo_client) (writeUInt32BE 1 @ ''R'') = (Inr frames, buf)
     \<and> answers demo_js frames (i_pending demo_client) 7 (JBool True)"
proof -
  have f: "encodeFrame ''R'' = Inr (writeUInt32BE 1 @ ''R'')"
    by (simp add: encodeFrame_def MAX_FRAME_BYTES_def)
  have p: "push [] (writeUInt32BE 1 @ ''R'') = (Inr [''R''], [])"
    using drain_frame [OF f, of "[]"] by (simp add: push_def drain_empty)
  have "(7, Inr (JBool True)) \<in> set (i_settled (ipc_react demo_js (Data 1 (writeUInt32BE 1 @ ''R'')) demo_client))"
    using p by (simp add: onData_def demo_client_def dispatch_def demo_js_def settle_def response_outcome_def)
  moreover have "(7, Inr (JBool True)) \<notin> set (i_settled demo_client)" by (simp add: demo_client_def)
  ultimately show ?thesis using ipc_correlated by blast
qed

subsection \<open>A close event of an abandoned socket\<close>

text \<open>
  The close handler does not look at which socket closed: after a reconnect, the late close event
  of the old socket drops the new one and fails the calls sent on it.
\<close>

lemma stale_close_fails_fresh_calls:
  assumes "i_socket c = Some s'" and "s' \<noteq> s" and "s' \<in> set (i_open c)" and "t \<in> pending_tokens c"
  shows "i_socket (ipc_react js (SocketClosed s) c) = None" "t \<in> settled_tokens (ipc_react js (SocketClosed s) c)"
    "s' \<in> set (i_open (c\<lparr>i_open := remove1 s (i_open c)\<rparr>))"
proof -
  have "pending_tokens (c\<lparr>i_open := x, i_socket := y\<rparr>) = pending_tokens c" for x y
    by (simp add: pending_tokens_def)
  with assms show "t \<in> settled_tokens (ipc_react js (SocketClosed s) c)" by (simp add: onClose_def)
qed (use assms in \<open>simp_all add: onClose_def\<close>)

end
