(* ===== verification/Tokens.thy ===== *)
theory Tokens
  imports Loom_Prelude
begin

text \<open>
  Daemon vocabulary. Every module that reads a code or a state label of the daemon first brings
  it to a canonical spelling (\<open>normaliseDaemonCode\<close> in errors.ts, \<open>normaliseToken\<close> in
  invocation.ts, cancel.ts, task-projection.ts and plan-snapshot.ts, all with the same body) and
  then indexes an object literal with it. The locale states what such a table promises; the
  tables of the model interpret it where they are defined.
\<close>

section \<open>Canonical spelling\<close>

abbreviation underscore :: char where
  "underscore \<equiv> CHR ''_''"

text \<open>\<open>.replace(/[^a-z0-9]+/g, '_')\<close>; the flag says that the current run was already written.\<close>

fun collapse_runs :: "bool \<Rightarrow> string \<Rightarrow> string" where
  "collapse_runs b [] = []"
| "collapse_runs b (c # cs) =
     (if is_lower_alnum c then c # collapse_runs False cs
      else if b then collapse_runs True cs
      else underscore # collapse_runs True cs)"

text \<open>\<open>.replace(/^_+|_+$/g, '')\<close>\<close>

definition trim_underscores :: "string \<Rightarrow> string" where
  "trim_underscores s =
     rev (dropWhile (\<lambda>c. c = underscore) (rev (dropWhile (\<lambda>c. c = underscore) s)))"

definition normaliseToken :: "string \<Rightarrow> string" where
  "normaliseToken raw = trim_underscores (collapse_runs False (toLowerCase raw))"

text \<open>
  The canonical spellings: lower case letters and digits in groups joined by single underscores.
\<close>

definition token_char :: "char \<Rightarrow> bool" where
  "token_char c = (is_lower_alnum c \<or> c = underscore)"

definition is_token :: "string \<Rightarrow> bool" where
  "is_token s =
     (list_all token_char s
      \<and> successively (\<lambda>x y. \<not> (x = underscore \<and> y = underscore)) s
      \<and> (s \<noteq> [] \<longrightarrow> hd s \<noteq> underscore \<and> last s \<noteq> underscore))"

lemma underscore_not_alnum [simp]: "\<not> is_lower_alnum underscore"
  by code_simp

lemma ascii_lower_underscore [simp]: "ascii_lower underscore = underscore"
  by code_simp

lemma collapse_runs_chars: "list_all token_char (collapse_runs b s)"
  by (induction b s rule: collapse_runs.induct) (auto simp: token_char_def)

lemma collapse_runs_True_hd: "collapse_runs True s \<noteq> [] \<Longrightarrow> hd (collapse_runs True s) \<noteq> underscore"
  by (induction s) auto

lemma collapse_runs_single:
  "successively (\<lambda>x y. \<not> (x = underscore \<and> y = underscore)) (collapse_runs b s)"
  by (induction b s rule: collapse_runs.induct)
     (auto simp: successively_Cons dest: collapse_runs_True_hd)

lemma trim_sublist: "sublist (trim_underscores s) s"
proof -
  have "suffix (dropWhile (\<lambda>c. c = underscore) s) s"
    by (rule suffix_dropWhile)
  moreover have "prefix (trim_underscores s) (dropWhile (\<lambda>c. c = underscore) s)"
    using suffix_dropWhile [of "\<lambda>c. c = underscore" "rev (dropWhile (\<lambda>c. c = underscore) s)"]
    by (simp add: trim_underscores_def suffix_to_prefix)
  ultimately show ?thesis
    by (meson prefix_imp_sublist sublist_order.order_trans suffix_imp_sublist)
qed

lemma successively_sublist: "sublist t s \<Longrightarrow> successively P s \<Longrightarrow> successively P t"
  by (auto simp: sublist_def successively_append_iff)

lemma list_all_sublist: "sublist t s \<Longrightarrow> list_all P s \<Longrightarrow> list_all P t"
  by (auto simp: sublist_def)

lemma trim_underscores_ends:
  assumes "trim_underscores s \<noteq> []"
  shows "hd (trim_underscores s) \<noteq> underscore" and "last (trim_underscores s) \<noteq> underscore"
proof -
  define m where "m = dropWhile (\<lambda>c. c = underscore) s"
  define r where "r = dropWhile (\<lambda>c. c = underscore) (rev m)"
  have t: "trim_underscores s = rev r" by (simp add: trim_underscores_def m_def r_def)
  with assms have r: "r \<noteq> []" by auto
  then have "hd r \<noteq> underscore"
    unfolding r_def by (rule hd_dropWhile)
  with t r show "last (trim_underscores s) \<noteq> underscore" by (simp add: last_rev)
  have "suffix r (rev m)" by (simp add: r_def suffix_dropWhile)
  then obtain p where p: "rev m = p @ r" by (auto simp: suffix_def)
  then have "rev r @ rev p = rev (rev m)" by (simp only: rev_append)
  then have m: "m = rev r @ rev p" by simp
  then have "m \<noteq> []" using r by simp
  then have "hd m \<noteq> underscore"
    unfolding m_def by (rule hd_dropWhile)
  with m r t show "hd (trim_underscores s) \<noteq> underscore" by simp
qed

lemma normaliseToken_is_token: "is_token (normaliseToken s)"
proof -
  let ?c = "collapse_runs False (toLowerCase s)"
  have "list_all token_char (trim_underscores ?c)"
    using trim_sublist collapse_runs_chars by (rule list_all_sublist)
  moreover have "successively (\<lambda>x y. \<not> (x = underscore \<and> y = underscore)) (trim_underscores ?c)"
    using trim_sublist collapse_runs_single by (rule successively_sublist)
  ultimately show ?thesis
    using trim_underscores_ends [of ?c] by (auto simp: is_token_def normaliseToken_def)
qed

lemma token_lower: "list_all token_char s \<Longrightarrow> toLowerCase s = s"
  by (induction s) (auto simp: token_char_def ascii_lower_fixed)

lemma collapse_runs_id:
  assumes "list_all token_char s"
    and "successively (\<lambda>x y. \<not> (x = underscore \<and> y = underscore)) s"
    and "b \<Longrightarrow> s \<noteq> [] \<Longrightarrow> hd s \<noteq> underscore"
  shows "collapse_runs b s = s"
  using assms
proof (induction b s rule: collapse_runs.induct)
  case (2 b c cs)
  show ?case
  proof (cases "is_lower_alnum c")
    case True
    with 2 show ?thesis by (auto simp: successively_Cons)
  next
    case False
    with "2.prems"(1,3) have "c = underscore" "\<not> b" by (auto simp: token_char_def)
    with 2 False show ?thesis by (auto simp: successively_Cons)
  qed
qed simp

lemma trim_id:
  assumes "s \<noteq> [] \<Longrightarrow> hd s \<noteq> underscore \<and> last s \<noteq> underscore"
  shows "trim_underscores s = s"
proof (cases "s = []")
  case False
  with assms have "dropWhile (\<lambda>c. c = underscore) s = s"
    by (cases s) auto
  moreover from False assms have "dropWhile (\<lambda>c. c = underscore) (rev s) = rev s"
    by (cases s rule: rev_cases) auto
  ultimately show ?thesis by (simp add: trim_underscores_def)
qed (simp add: trim_underscores_def)

lemma normaliseToken_id [simp]: "is_token s \<Longrightarrow> normaliseToken s = s"
  by (auto simp: is_token_def normaliseToken_def token_lower collapse_runs_id trim_id)

lemma normaliseToken_idem [simp]: "normaliseToken (normaliseToken s) = normaliseToken s"
  by (simp add: normaliseToken_is_token)

text \<open>Letter case never matters to the canonical spelling.\<close>

lemma normaliseToken_lower [simp]: "normaliseToken (toLowerCase s) = normaliseToken s"
  by (simp add: normaliseToken_def)

section \<open>Tables indexed by canonical spellings\<close>

text \<open>\<open>constructor\<close> is the only inherited property whose name is a canonical spelling.\<close>

lemma constructor_inherited: "''constructor'' \<in> set object_prototype_keys"
  by (simp add: object_prototype_keys_def)

lemma inherited_tokens:
  "list_all (\<lambda>k. is_token k \<longrightarrow> k = ''constructor'') object_prototype_keys"
  by code_simp

lemma inherited_token: "is_token k \<Longrightarrow> k \<in> set object_prototype_keys \<longleftrightarrow> k = ''constructor''"
  using inherited_tokens constructor_inherited unfolding list_all_iff by blast

locale token_table =
  fixes table :: "(string \<times> 'v) list"
  assumes keys_canonical: "list_all (\<lambda>(k, v). is_token k \<and> k \<noteq> ''constructor'') table"
begin

lemma constructor_absent: "map_of table ''constructor'' = None"
  using keys_canonical by (auto simp: list_all_iff map_of_eq_None_iff)

lemma lookup_eq:
  "table_get table (normaliseToken raw) =
     (if normaliseToken raw = ''constructor'' then Inherited ''constructor''
      else case map_of table (normaliseToken raw) of Some v \<Rightarrow> Own v | None \<Rightarrow> Missing)"
  using constructor_absent constructor_inherited inherited_token [OF normaliseToken_is_token, of raw]
  by (cases "normaliseToken raw = ''constructor''") (simp_all only: table_get_def if_True if_False option.case)

lemma lookup_own:
  "map_of table k = Some v \<Longrightarrow> table_get table (normaliseToken k) = Own v"
  using keys_canonical map_of_SomeD [of table k v]
  by (auto simp: list_all_iff)

lemma lookup_any_spelling:
  "map_of table k = Some v \<Longrightarrow> normaliseToken raw = k \<Longrightarrow> table_get table (normaliseToken raw) = Own v"
  by simp

lemma lookup_inherited:
  "table_get table (normaliseToken raw) = Inherited f \<longleftrightarrow>
     normaliseToken raw = ''constructor'' \<and> f = ''constructor''"
  unfolding lookup_eq by (cases "map_of table (normaliseToken raw)") (simp_all add: eq_commute [of f] split: if_split)

end

end
