(* ===== verification/Envelope.thy ===== *)
theory Envelope
  imports Tokens
begin

text \<open>
  The closed error taxonomy and the normalized result envelope
  (packages/registry/src/errors.ts, envelope.ts, envelope-schema.ts): the nine codes and their
  partition into denials and faults, the two mappers onto them, the five-status envelope with its
  constructor helpers, and the draft-07 document every envelope has to satisfy.
\<close>

section \<open>Error codes\<close>

datatype error_code =
    policy_denied | untrusted_key | approval_denied | approval_expired
  | timeout | not_found | invalid_args | target_offline | internal

definition error_code_name :: "error_code \<Rightarrow> string" where
  "error_code_name c =
     (case c of
        policy_denied \<Rightarrow> ''policy_denied''
      | untrusted_key \<Rightarrow> ''untrusted_key''
      | approval_denied \<Rightarrow> ''approval_denied''
      | approval_expired \<Rightarrow> ''approval_expired''
      | timeout \<Rightarrow> ''timeout''
      | not_found \<Rightarrow> ''not_found''
      | invalid_args \<Rightarrow> ''invalid_args''
      | target_offline \<Rightarrow> ''target_offline''
      | internal \<Rightarrow> ''internal'')"

definition ERROR_CODES :: "error_code list" where
  "ERROR_CODES =
     [policy_denied, untrusted_key, approval_denied, approval_expired,
      timeout, not_found, invalid_args, target_offline, internal]"

definition DENIAL_CODES :: "error_code list" where
  "DENIAL_CODES = [policy_denied, untrusted_key, approval_denied, approval_expired]"

definition FAULT_CODES :: "error_code list" where
  "FAULT_CODES = [timeout, not_found, invalid_args, target_offline, internal]"

definition isErrorCode :: "json \<Rightarrow> bool" where
  "isErrorCode x = (case x of JStr s \<Rightarrow> s \<in> set (map error_code_name ERROR_CODES) | _ \<Rightarrow> False)"

fun mapTransportError :: "transport_code \<Rightarrow> error_code" where
  "mapTransportError transport_timeout = timeout"
| "mapTransportError transport_invalid_args = invalid_args"
| "mapTransportError not_running = internal"
| "mapTransportError connect_failed = internal"
| "mapTransportError closed = internal"
| "mapTransportError frame = internal"
| "mapTransportError protocol = internal"
| "mapTransportError rpc = internal"

definition DAEMON_CODE_TO_ERROR :: "(string \<times> error_code) list" where
  "DAEMON_CODE_TO_ERROR =
     [(''policy_denied'', policy_denied),
      (''denied_by_policy'', policy_denied),
      (''policy'', policy_denied),
      (''untrusted_key'', untrusted_key),
      (''untrusted'', untrusted_key),
      (''trust_denied'', untrusted_key),
      (''unknown_key'', untrusted_key),
      (''approval_denied'', approval_denied),
      (''approval_rejected'', approval_denied),
      (''approval_expired'', approval_expired),
      (''approval_timeout'', approval_expired),
      (''timeout'', timeout),
      (''not_found'', not_found),
      (''unknown_agent'', not_found),
      (''unknown_tool'', not_found),
      (''no_such_invocation'', not_found),
      (''unknown_context'', not_found),
      (''no_such_context'', not_found),
      (''context_not_found'', not_found),
      (''invalid_args'', invalid_args),
      (''invalid_arguments'', invalid_args),
      (''invalid_params'', invalid_args),
      (''target_offline'', target_offline),
      (''agent_offline'', target_offline),
      (''offline'', target_offline),
      (''unreachable'', target_offline),
      (''internal'', internal)]"

interpretation daemon_codes: token_table DAEMON_CODE_TO_ERROR
  by unfold_locales code_simp

text \<open>
  The string code of a daemon fault. Arrays are objects to \<open>typeof\<close>, but none of the three
  properties read here is a property of an array.
\<close>

function extractDaemonCode :: "json \<Rightarrow> string option" where
  "extractDaemonCode (JStr s) = Some s"
| "extractDaemonCode (JObj ob) =
     (let err = jget ob ''error'' in
      case readString err of
        Some s \<Rightarrow> Some s
      | None \<Rightarrow>
          orelse (if err \<in> {JUndef, JNull} then None else extractDaemonCode err)
            (let data = jget ob ''data'' in
             case readString data of
               Some s \<Rightarrow> Some s
             | None \<Rightarrow>
                 orelse (case data of JObj d \<Rightarrow> readString (jget d ''code'') | _ \<Rightarrow> None)
                   (readString (jget ob ''code''))))"
| "extractDaemonCode JUndef = None"
| "extractDaemonCode JNull = None"
| "extractDaemonCode (JBool b) = None"
| "extractDaemonCode (JNum n) = None"
| "extractDaemonCode (JArr xs) = None"
  by pat_completeness auto
termination
  by (relation "measure size") (use size_jget_less in fastforce)+

text \<open>
  A value in code position: a code of the taxonomy, or the function object that
  \<open>TABLE[key]\<close> yields when the key names an inherited property.
\<close>

datatype code_value = Code error_code | FunctionValue string

definition mapDaemonError :: "json \<Rightarrow> code_value" where
  "mapDaemonError daemonError =
     (case extractDaemonCode daemonError of
        None \<Rightarrow> Code internal
      | Some raw \<Rightarrow>
          (case table_get DAEMON_CODE_TO_ERROR (normaliseToken raw) of
             Own c \<Rightarrow> Code c
           | Inherited f \<Rightarrow> FunctionValue f
           | Missing \<Rightarrow> Code internal))"

lemma ERROR_CODES_complete: "set ERROR_CODES = UNIV"
  by (auto simp: ERROR_CODES_def) (metis error_code.exhaust)

lemma codes_partition:
  "set DENIAL_CODES \<union> set FAULT_CODES = set ERROR_CODES" "set DENIAL_CODES \<inter> set FAULT_CODES = {}"
  by (auto simp: ERROR_CODES_def DENIAL_CODES_def FAULT_CODES_def)

lemma denial_or_fault: "c \<in> set DENIAL_CODES \<longleftrightarrow> c \<notin> set FAULT_CODES"
  using codes_partition ERROR_CODES_complete by blast

lemma error_code_name_inj: "error_code_name c = error_code_name d \<longleftrightarrow> c = d"
  by (cases c; cases d) (simp_all add: error_code_name_def)

lemma mapDaemonError_cases:
  "mapDaemonError e =
     (case extractDaemonCode e of
        None \<Rightarrow> Code internal
      | Some raw \<Rightarrow>
          (if normaliseToken raw = ''constructor'' then FunctionValue ''constructor''
           else Code (or_default (map_of DAEMON_CODE_TO_ERROR (normaliseToken raw)) internal)))"
  unfolding mapDaemonError_def daemon_codes.lookup_eq
  by (simp add: or_default_def split: option.split)

section \<open>The envelope\<close>

datatype tool_status = Ok | Running | AwaitingApproval | Denied | Error

datatype risk = low | medium | high

text \<open>Risk levels are ordered by severity.\<close>

instantiation risk :: linorder
begin

fun risk_rank :: "risk \<Rightarrow> nat" where
  "risk_rank low = 0"
| "risk_rank medium = 1"
| "risk_rank high = 2"

definition less_eq_risk :: "risk \<Rightarrow> risk \<Rightarrow> bool" where
  "less_eq_risk a b = (risk_rank a \<le> risk_rank b)"

definition less_risk :: "risk \<Rightarrow> risk \<Rightarrow> bool" where
  "less_risk a b = (risk_rank a < risk_rank b)"

instance
proof
  fix a b :: risk
  show "a \<le> b \<Longrightarrow> b \<le> a \<Longrightarrow> a = b"
    by (cases a; cases b) (simp_all add: less_eq_risk_def)
qed (auto simp: less_eq_risk_def less_risk_def)

end

lemma risk_le_high [simp]: "r \<le> high"
  by (cases r) (simp_all add: less_eq_risk_def)

record tool_error =
  e_code :: code_value
  e_message :: "string option"

record approval_info =
  ap_request_id :: string
  ap_risk :: risk
  ap_summary :: string
  ap_expires_at :: string

record audit_ref =
  ref_invocation_id :: "string option"
  ref_request_id :: "string option"
  ref_room :: "string option"
  ref_event_id :: "string option"

record 'a tool_result =
  r_status :: tool_status
  r_result :: "'a option"
  r_error :: "tool_error option"
  r_handle :: "string option"
  r_approval :: "approval_info option"
  r_audit_ref :: audit_ref

definition ok :: "'a \<Rightarrow> audit_ref \<Rightarrow> 'a tool_result" where
  "ok res aref =
     \<lparr>r_status = Ok, r_result = Some res, r_error = None, r_handle = None,
      r_approval = None, r_audit_ref = aref\<rparr>"

definition running :: "string \<Rightarrow> audit_ref \<Rightarrow> 'a tool_result" where
  "running h aref =
     \<lparr>r_status = Running, r_result = None, r_error = None, r_handle = Some h,
      r_approval = None, r_audit_ref = aref\<rparr>"

definition awaitingApproval :: "string \<Rightarrow> approval_info \<Rightarrow> audit_ref \<Rightarrow> 'a tool_result" where
  "awaitingApproval h ap aref =
     \<lparr>r_status = AwaitingApproval, r_result = None, r_error = None, r_handle = Some h,
      r_approval = Some ap, r_audit_ref = aref\<rparr>"

definition denied :: "code_value \<Rightarrow> string option \<Rightarrow> audit_ref \<Rightarrow> 'a tool_result" where
  "denied c msg aref =
     \<lparr>r_status = Denied, r_result = None, r_error = Some \<lparr>e_code = c, e_message = msg\<rparr>,
      r_handle = None, r_approval = None, r_audit_ref = aref\<rparr>"

definition errored :: "code_value \<Rightarrow> string option \<Rightarrow> audit_ref \<Rightarrow> 'a tool_result" where
  "errored c msg aref =
     \<lparr>r_status = Error, r_result = None, r_error = Some \<lparr>e_code = c, e_message = msg\<rparr>,
      r_handle = None, r_approval = None, r_audit_ref = aref\<rparr>"

lemmas envelope_helpers = ok_def running_def awaitingApproval_def denied_def errored_def

section \<open>The envelope as a JavaScript value\<close>

definition status_name :: "tool_status \<Rightarrow> string" where
  "status_name s =
     (case s of Ok \<Rightarrow> ''ok'' | Running \<Rightarrow> ''running'' | AwaitingApproval \<Rightarrow> ''awaiting_approval''
      | Denied \<Rightarrow> ''denied'' | Error \<Rightarrow> ''error'')"

definition risk_name :: "risk \<Rightarrow> string" where
  "risk_name r = (case r of low \<Rightarrow> ''low'' | medium \<Rightarrow> ''medium'' | high \<Rightarrow> ''high'')"

text \<open>A function value is read like \<open>undefined\<close> by every consumer of the envelope.\<close>

definition code_json :: "code_value \<Rightarrow> json" where
  "code_json c = (case c of Code e \<Rightarrow> JStr (error_code_name e) | FunctionValue f \<Rightarrow> JUndef)"

definition error_json :: "tool_error \<Rightarrow> json" where
  "error_json e =
     JObj [(''code'', code_json (e_code e)),
           (''message'', case e_message e of Some m \<Rightarrow> JStr m | None \<Rightarrow> JUndef)]"

definition approval_json :: "approval_info \<Rightarrow> json" where
  "approval_json a =
     JObj [(''request_id'', JStr (ap_request_id a)), (''risk'', JStr (risk_name (ap_risk a))),
           (''summary'', JStr (ap_summary a)), (''expires_at'', JStr (ap_expires_at a))]"

definition audit_ref_json :: "audit_ref \<Rightarrow> json" where
  "audit_ref_json a =
     JObj [(''invocation_id'', str_opt (ref_invocation_id a)),
           (''request_id'', str_opt (ref_request_id a)),
           (''room'', str_opt (ref_room a)), (''event_id'', str_opt (ref_event_id a))]"

definition json_or_null :: "('a \<Rightarrow> json) \<Rightarrow> 'a option \<Rightarrow> json" where
  "json_or_null f x = (case x of None \<Rightarrow> JNull | Some a \<Rightarrow> f a)"

definition envelope_json :: "('a \<Rightarrow> json) \<Rightarrow> 'a tool_result \<Rightarrow> json" where
  "envelope_json enc r =
     JObj [(''status'', JStr (status_name (r_status r))),
           (''result'', json_or_null enc (r_result r)),
           (''error'', json_or_null error_json (r_error r)),
           (''handle'', str_opt (r_handle r)),
           (''approval'', json_or_null approval_json (r_approval r)),
           (''audit_ref'', audit_ref_json (r_audit_ref r))]"

lemmas envelope_json_defs =
  envelope_json_def json_or_null_def audit_ref_json_def approval_json_def error_json_def
  status_name_def

end
