(* ===== verification/Schema.thy ===== *)
theory Schema
  imports Loom_Prelude
begin

text \<open>
  The meaning of a draft-07 JSON Schema document, for the keywords the documents of the
  repository use: \<open>type\<close>, \<open>enum\<close>, \<open>const\<close>, \<open>required\<close>, \<open>minimum\<close>, \<open>properties\<close>,
  \<open>additionalProperties\<close>, \<open>items\<close>, \<open>allOf\<close>, \<open>oneOf\<close>, \<open>if\<close>/\<open>then\<close>/\<open>else\<close>. It is the published
  meaning of the dialect, not a model of the Ajv package: where the source compiles a schema at
  run time, the compiled validator is a parameter of the model.
\<close>

definition json_has_type :: "string \<Rightarrow> json \<Rightarrow> bool" where
  "json_has_type t v =
     (case v of
        JUndef \<Rightarrow> False
      | JNull \<Rightarrow> t = ''null''
      | JBool b \<Rightarrow> t = ''boolean''
      | JNum n \<Rightarrow> t = ''number'' \<and> isFinite n \<or> t = ''integer'' \<and> isInteger n
      | JStr s \<Rightarrow> t = ''string''
      | JArr xs \<Rightarrow> t = ''array''
      | JObj ob \<Rightarrow> t = ''object'')"

fun type_ok :: "json \<Rightarrow> json \<Rightarrow> bool" where
  "type_ok (JStr t) v = json_has_type t v"
| "type_ok (JArr ts) v = list_ex (\<lambda>t. case t of JStr s \<Rightarrow> json_has_type s v | _ \<Rightarrow> False) ts"
| "type_ok _ v = True"

fun enum_ok :: "json \<Rightarrow> json \<Rightarrow> bool" where
  "enum_ok (JArr vs) v = list_ex (\<lambda>x. x = v) vs"
| "enum_ok _ v = True"

definition const_ok :: "obj \<Rightarrow> json \<Rightarrow> bool" where
  "const_ok s v = (has_key s ''const'' \<longrightarrow> jget s ''const'' = v)"

fun entries :: "json \<Rightarrow> obj" where
  "entries (JObj ob) = ob"
| "entries _ = []"

text \<open>A property whose value is \<open>undefined\<close> counts as missing.\<close>

fun required_ok :: "json \<Rightarrow> json \<Rightarrow> bool" where
  "required_ok (JArr ks) (JObj ob) =
     list_all (\<lambda>k. case k of JStr s \<Rightarrow> jget ob s \<noteq> JUndef | _ \<Rightarrow> True) ks"
| "required_ok _ _ = True"

fun minimum_ok :: "json \<Rightarrow> json \<Rightarrow> bool" where
  "minimum_ok (JNum (Fin m)) (JNum (Fin n)) = (m \<le> n)"
| "minimum_ok _ _ = True"

lemma schema_entry_size:
  assumes "jget s k = JObj ps" "(k', sub) \<in> set ps"
  shows "size sub < size (JObj s)"
  using assms size_jget_less [of s k] size_entry_less [of k' sub ps] by simp

lemma schema_item_size:
  assumes "jget s k = JArr subs" "sub \<in> set subs"
  shows "size sub < size (JObj s)"
  using assms size_jget_less [of s k] size_item_less [of sub subs] by simp

lemma schema_keyword_size: "jget s k \<noteq> JUndef \<Longrightarrow> size (jget s k) < size (JObj s)"
  by (rule size_jget_less)

function (sequential) draft07 :: "json \<Rightarrow> json \<Rightarrow> bool" where
  "draft07 (JObj s) v =
     (type_ok (jget s ''type'') v
      \<and> enum_ok (jget s ''enum'') v
      \<and> const_ok s v
      \<and> required_ok (jget s ''required'') v
      \<and> minimum_ok (jget s ''minimum'') v
      \<and> (case jget s ''properties'' of
           JObj ps \<Rightarrow>
             list_all (\<lambda>(k, sub). has_key (entries v) k \<longrightarrow> draft07 sub (jget (entries v) k)) ps
         | _ \<Rightarrow> True)
      \<and> (if jget s ''additionalProperties'' = JUndef then True
         else list_all
                (\<lambda>(k, x). has_key (entries (jget s ''properties'')) k
                   \<or> draft07 (jget s ''additionalProperties'') x)
                (entries v))
      \<and> (if jget s ''items'' = JUndef then True
         else case v of JArr xs \<Rightarrow> list_all (\<lambda>x. draft07 (jget s ''items'') x) xs | _ \<Rightarrow> True)
      \<and> (case jget s ''allOf'' of
           JArr subs \<Rightarrow> list_all (\<lambda>sub. draft07 sub v) subs
         | _ \<Rightarrow> True)
      \<and> (case jget s ''oneOf'' of
           JArr subs \<Rightarrow> length (filter (\<lambda>sub. draft07 sub v) subs) = 1
         | _ \<Rightarrow> True)
      \<and> (if jget s ''if'' = JUndef then True
         else if draft07 (jget s ''if'') v
         then (if jget s ''then'' = JUndef then True else draft07 (jget s ''then'') v)
         else (if jget s ''else'' = JUndef then True else draft07 (jget s ''else'') v)))"
| "draft07 (JBool b) v = b"
| "draft07 _ v = True"
  by pat_completeness auto

termination
  by (relation "measure (\<lambda>(s, v). size s)")
     (auto simp del: json.size intro: schema_entry_size schema_item_size schema_keyword_size)

lemma draft07_nonobject [simp]:
  "draft07 JUndef v" "draft07 JNull v" "draft07 (JNum n) v" "draft07 (JStr t) v" "draft07 (JArr xs) v"
  by simp_all

end
