(* ===== verification/Envelope_Schema.thy ===== *)
theory Envelope_Schema
  imports Envelope Schema
begin

text \<open>
  The envelope contract document of packages/registry/src/envelope-schema.ts, and the proof that
  the constructor helpers only build values that satisfy it. The one value they can be handed that
  breaks it is a code position holding a function (see \<open>mapDaemonError\<close>), which is stated as such.
\<close>

definition JSON_SCHEMA_DIALECT :: string where
  "JSON_SCHEMA_DIALECT = ''http://json-schema.org/draft-07/schema#''"

definition STATUSES :: "tool_status list" where
  "STATUSES = [Ok, Running, AwaitingApproval, Denied, Error]"

definition NULL_schema :: json where
  "NULL_schema = JObj [(''type'', JStr ''null'')]"

definition code_enum :: "error_code list \<Rightarrow> json" where
  "code_enum cs = JObj [(''enum'', JArr (map (\<lambda>c. JStr (error_code_name c)) cs))]"

definition statusBranch :: "tool_status \<Rightarrow> obj \<Rightarrow> json" where
  "statusBranch st presence =
     JObj [(''if'', JObj [(''properties'', JObj [(''status'', JObj [(''const'', JStr (status_name st))])])]),
           (''then'', JObj [(''properties'', JObj presence)])]"

definition ENVELOPE_SCHEMA :: json where
  "ENVELOPE_SCHEMA =
     JObj [(''$schema'', JStr JSON_SCHEMA_DIALECT),
       (''title'', JStr ''mx-loom ToolResult envelope''),
       (''type'', JStr ''object''),
       (''additionalProperties'', JBool False),
       (''required'', JArr [JStr ''status'', JStr ''result'', JStr ''error'', JStr ''handle'',
          JStr ''approval'', JStr ''audit_ref'']),
       (''properties'', JObj
         [(''status'', JObj [(''enum'', JArr (map (\<lambda>st. JStr (status_name st)) STATUSES))]),
          (''result'', JObj []),
          (''error'', JObj [(''oneOf'', JArr
             [NULL_schema,
              JObj [(''type'', JStr ''object''),
                    (''additionalProperties'', JBool False),
                    (''required'', JArr [JStr ''code'', JStr ''message'']),
                    (''properties'', JObj [(''code'', code_enum ERROR_CODES),
                                           (''message'', JObj [(''type'', JStr ''string'')])])]])]),
          (''handle'', JObj [(''type'', JArr [JStr ''string'', JStr ''null''])]),
          (''approval'', JObj [(''oneOf'', JArr
             [NULL_schema,
              JObj [(''type'', JStr ''object''),
                    (''additionalProperties'', JBool False),
                    (''required'', JArr [JStr ''request_id'', JStr ''risk'', JStr ''summary'', JStr ''expires_at'']),
                    (''properties'', JObj
                       [(''request_id'', JObj [(''type'', JStr ''string'')]),
                        (''risk'', JObj [(''enum'', JArr [JStr ''low'', JStr ''medium'', JStr ''high''])]),
                        (''summary'', JObj [(''type'', JStr ''string'')]),
                        (''expires_at'', JObj [(''type'', JStr ''string'')])])]])]),
          (''audit_ref'', JObj
             [(''type'', JStr ''object''),
              (''additionalProperties'', JBool False),
              (''required'', JArr [JStr ''invocation_id'', JStr ''request_id'', JStr ''room'', JStr ''event_id'']),
              (''properties'', JObj
                 [(''invocation_id'', JObj [(''type'', JArr [JStr ''string'', JStr ''null''])]),
                  (''request_id'', JObj [(''type'', JArr [JStr ''string'', JStr ''null''])]),
                  (''room'', JObj [(''type'', JArr [JStr ''string'', JStr ''null''])]),
                  (''event_id'', JObj [(''type'', JArr [JStr ''string'', JStr ''null''])])])])]),
       (''allOf'', JArr
         [statusBranch Ok
            [(''result'', JObj [(''type'', JStr ''object'')]), (''error'', NULL_schema),
             (''handle'', NULL_schema), (''approval'', NULL_schema)],
          statusBranch Running
            [(''result'', NULL_schema), (''error'', NULL_schema),
             (''handle'', JObj [(''type'', JStr ''string'')]), (''approval'', NULL_schema)],
          statusBranch AwaitingApproval
            [(''result'', NULL_schema), (''error'', NULL_schema),
             (''handle'', JObj [(''type'', JStr ''string'')]),
             (''approval'', JObj [(''type'', JStr ''object'')])],
          statusBranch Denied
            [(''result'', NULL_schema), (''handle'', NULL_schema), (''approval'', NULL_schema),
             (''error'', JObj [(''type'', JStr ''object''), (''required'', JArr [JStr ''code'']),
                (''properties'', JObj [(''code'', code_enum DENIAL_CODES)])])],
          statusBranch Error
            [(''result'', NULL_schema), (''handle'', NULL_schema), (''approval'', NULL_schema),
             (''error'', JObj [(''type'', JStr ''object''), (''required'', JArr [JStr ''code'']),
                (''properties'', JObj [(''code'', code_enum FAULT_CODES)])])]])]"

text \<open>The compiled contract: \<open>validateEnvelope\<close> answers what the document says.\<close>

definition validateEnvelope :: "json \<Rightarrow> bool" where
  "validateEnvelope v = draft07 ENVELOPE_SCHEMA v"

section \<open>The presence table\<close>

text \<open>
  The table of envelope.ts: which fields each status carries. It leaves the code itself open.
\<close>

definition presence_ok :: "'a tool_result \<Rightarrow> bool" where
  "presence_ok r =
     (case r_status r of
        Ok \<Rightarrow> r_result r \<noteq> None \<and> r_error r = None \<and> r_handle r = None \<and> r_approval r = None
      | Running \<Rightarrow> r_result r = None \<and> r_error r = None \<and> r_handle r \<noteq> None \<and> r_approval r = None
      | AwaitingApproval \<Rightarrow> r_result r = None \<and> r_error r = None \<and> r_handle r \<noteq> None \<and> r_approval r \<noteq> None
      | _ \<Rightarrow> r_result r = None \<and> r_error r \<noteq> None \<and> r_handle r = None \<and> r_approval r = None)"

text \<open>The status of a failure follows the set its code is in, and the message is present.\<close>

definition code_ok :: "'a tool_result \<Rightarrow> bool" where
  "code_ok r =
     (case r_error r of
        None \<Rightarrow> True
      | Some e \<Rightarrow>
          e_message e \<noteq> None
          \<and> (case e_code e of
               FunctionValue f \<Rightarrow> False
             | Code c \<Rightarrow> (if r_status r = Denied then c \<in> set DENIAL_CODES else c \<in> set FAULT_CODES)))"

definition conforms :: "('a \<Rightarrow> json) \<Rightarrow> 'a tool_result \<Rightarrow> bool" where
  "conforms enc r = validateEnvelope (envelope_json enc r)"

lemmas schema_defs =
  ENVELOPE_SCHEMA_def statusBranch_def NULL_schema_def STATUSES_def

lemma str_opt_type [simp]:
  "json_has_type t (str_opt x) = (t = (if x = None then ''null'' else ''string''))"
  by (cases x) (simp_all add: json_has_type_def)

lemma str_opt_defined [simp]: "str_opt x \<noteq> JUndef"
  by (cases x) simp_all

lemma json_has_type_simps [simp]:
  "json_has_type t JUndef = False"
  "json_has_type t JNull = (t = ''null'')"
  "json_has_type t (JStr s) = (t = ''string'')"
  "json_has_type t (JObj ob) = (t = ''object'')"
  by (simp_all add: json_has_type_def)

lemma draft07_code_enum:
  "draft07 (code_enum cs) (code_json c) \<longleftrightarrow> (case c of Code e \<Rightarrow> e \<in> set cs | FunctionValue f \<Rightarrow> False)"
  by (auto simp: code_enum_def code_json_def const_ok_def list_ex_iff error_code_name_inj
           split: code_value.split)

lemma code_json_undef: "code_json c = JUndef \<longleftrightarrow> (\<exists>f. c = FunctionValue f)"
  by (cases c) (simp_all add: code_json_def)

lemma risk_name_enum:
  "''low'' = risk_name r \<or> ''medium'' = risk_name r \<or> ''high'' = risk_name r"
  by (cases r) (simp_all add: risk_name_def)

lemmas conforms_simps =
  conforms_def validateEnvelope_def envelope_helpers envelope_json_defs schema_defs const_ok_def
  draft07_code_enum code_json_undef ERROR_CODES_complete risk_name_enum

lemma conforms_ok [simp]: "conforms (\<lambda>x. JObj (enc x)) (ok x aref)"
  by (simp add: conforms_simps)

lemma conforms_running [simp]: "conforms enc (running h aref)"
  by (simp add: conforms_simps)

lemma conforms_awaitingApproval [simp]: "conforms enc (awaitingApproval h ap aref)"
  by (simp add: conforms_simps)

lemma conforms_denied:
  "conforms enc (denied c (Some m) aref) \<longleftrightarrow> (\<exists>e \<in> set DENIAL_CODES. c = Code e)"
  by (cases c) (simp_all add: conforms_simps)

lemma conforms_errored:
  "conforms enc (errored c (Some m) aref) \<longleftrightarrow> (\<exists>e \<in> set FAULT_CODES. c = Code e)"
  by (cases c) (simp_all add: conforms_simps)

text \<open>A function in code position breaks the contract whatever else the envelope holds.\<close>

lemma not_conforms_function: "\<not> conforms enc (errored (FunctionValue f) m aref)"
  by (simp add: conforms_simps)

lemma presence_helpers [simp]:
  "presence_ok (ok x aref)" "presence_ok (running h aref)" "presence_ok (awaitingApproval h ap aref)"
  "presence_ok (denied c m aref)" "presence_ok (errored c m aref)"
  by (simp_all add: presence_ok_def envelope_helpers)

lemma code_ok_helpers [simp]:
  "code_ok (ok x aref)" "code_ok (running h aref)" "code_ok (awaitingApproval h ap aref)"
  "code_ok (denied (Code c) (Some m) aref) \<longleftrightarrow> c \<in> set DENIAL_CODES"
  "code_ok (errored (Code c) (Some m) aref) \<longleftrightarrow> c \<in> set FAULT_CODES"
  by (simp_all add: code_ok_def envelope_helpers)

text \<open>The presence table leaves exactly the five shapes the helpers build.\<close>

lemma presence_cases:
  assumes "presence_ok r"
  obtains (ok) x aref where "r = ok x aref"
    | (running) h aref where "r = running h aref"
    | (awaiting) h ap aref where "r = awaitingApproval h ap aref"
    | (denied) c m aref where "r = denied c m aref"
    | (errored) c m aref where "r = errored c m aref"
proof (cases "r_status r")
  case Ok
  with assms show ?thesis
    by (intro that(1) [of "the (r_result r)" "r_audit_ref r"]) (auto simp: presence_ok_def ok_def)
next
  case Running
  with assms show ?thesis
    by (intro that(2) [of "the (r_handle r)" "r_audit_ref r"]) (auto simp: presence_ok_def running_def)
next
  case AwaitingApproval
  with assms show ?thesis
    by (intro that(3) [of "the (r_handle r)" "the (r_approval r)" "r_audit_ref r"])
       (auto simp: presence_ok_def awaitingApproval_def)
next
  case Denied
  with assms show ?thesis
    by (intro that(4) [of "e_code (the (r_error r))" "e_message (the (r_error r))" "r_audit_ref r"])
       (auto simp: presence_ok_def denied_def)
next
  case Error
  with assms show ?thesis
    by (intro that(5) [of "e_code (the (r_error r))" "e_message (the (r_error r))" "r_audit_ref r"])
       (auto simp: presence_ok_def errored_def)
qed

lemma presence_code_conforms:
  assumes "presence_ok r" "code_ok r"
  shows "conforms (\<lambda>x. JObj (enc x)) r"
  using assms(1)
proof (cases rule: presence_cases)
  case (denied c m aref)
  with assms(2) show ?thesis
    by (auto simp: code_ok_def denied_def [of c m] conforms_denied [unfolded denied_def]
             split: option.splits code_value.splits)
next
  case (errored c m aref)
  with assms(2) show ?thesis
    by (auto simp: code_ok_def errored_def [of c m] conforms_errored [unfolded errored_def]
             split: option.splits code_value.splits)
qed simp_all

end
