(* ===== verification/Descriptors.thy ===== *)
theory Descriptors
  imports Envelope_Schema
begin

text \<open>
  The canonical descriptor set (packages/registry/src/descriptors): the thirteen model-facing verbs,
  each with its name, description, flag and the two JSON Schema documents, in authoring order.
\<close>

definition MX_FIND_AGENTS :: json where
  \<open>MX_FIND_AGENTS =
     JObj
     [(''name'', JStr ''mx_find_agents''),
      (''description'', JStr ''Discover agents in the workspace, optionally filtered by capability, tool name, or liveness.''),
      (''async_semantics'', JStr ''sync''),
      (''input_schema'', JObj
        [(''$schema'', JStr JSON_SCHEMA_DIALECT),
         (''title'', JStr ''mx_find_agents input''),
         (''type'', JStr ''object''),
         (''properties'', JObj
           [(''capability'', JObj
              [(''type'', JStr ''string''),
               (''description'', JStr ''Only return agents advertising this capability.'')]),
            (''tool'', JObj
              [(''type'', JStr ''string''),
               (''description'', JStr ''Only return agents publishing a tool with this name.'')]),
            (''liveness'', JObj
              [(''type'', JStr ''string''),
               (''enum'', JArr [JStr ''active'', JStr ''stale'', JStr ''offline'']),
               (''description'', JStr ''Only return agents with this derived liveness.'')])]),
         (''additionalProperties'', JBool False)]),
      (''output_schema'', JObj
        [(''$schema'', JStr JSON_SCHEMA_DIALECT),
         (''title'', JStr ''mx_find_agents result''),
         (''description'', JStr ''Matching agent summaries (a non-secret subset of the daemon AgentState).''),
         (''type'', JStr ''object''),
         (''properties'', JObj
           [(''agents'', JObj
              [(''type'', JStr ''array''),
               (''description'', JStr ''The matching agents, in `agent.list` order.''),
               (''items'', JObj
                 [(''type'', JStr ''object''),
                  (''properties'', JObj
                    [(''agent_id'', JObj
                       [(''type'', JStr ''string'')]),
                     (''kind'', JObj
                       [(''type'', JStr ''string'')]),
                     (''capabilities'', JObj
                       [(''type'', JStr ''array''),
                        (''items'', JObj
                          [(''type'', JStr ''string'')])]),
                     (''liveness'', JObj
                       [(''type'', JStr ''string''),
                        (''enum'', JArr [JStr ''active'', JStr ''stale'', JStr ''offline''])])]),
                  (''required'', JArr [JStr ''agent_id'', JStr ''liveness'']),
                  (''additionalProperties'', JBool True)])])]),
         (''required'', JArr [JStr ''agents'']),
         (''additionalProperties'', JBool False)])]\<close>

definition MX_DESCRIBE_AGENT :: json where
  \<open>MX_DESCRIBE_AGENT =
     JObj
     [(''name'', JStr ''mx_describe_agent''),
      (''description'', JStr ''Inspect a single agent and the tool schemas it publishes.''),
      (''async_semantics'', JStr ''sync''),
      (''input_schema'', JObj
        [(''$schema'', JStr JSON_SCHEMA_DIALECT),
         (''title'', JStr ''mx_describe_agent input''),
         (''type'', JStr ''object''),
         (''properties'', JObj
           [(''agent_id'', JObj
              [(''type'', JStr ''string''),
               (''description'', JStr ''The agent to inspect.'')])]),
         (''required'', JArr [JStr ''agent_id'']),
         (''additionalProperties'', JBool False)]),
      (''output_schema'', JObj
        [(''$schema'', JStr JSON_SCHEMA_DIALECT),
         (''title'', JStr ''mx_describe_agent result''),
         (''type'', JStr ''object''),
         (''properties'', JObj
           [(''agent'', JObj
              [(''type'', JStr ''object''),
               (''properties'', JObj
                 [(''agent_id'', JObj
                    [(''type'', JStr ''string'')]),
                  (''kind'', JObj
                    [(''type'', JStr ''string'')]),
                  (''status'', JObj
                    [(''type'', JStr ''string'')]),
                  (''capabilities'', JObj
                    [(''type'', JStr ''array''),
                     (''items'', JObj
                       [(''type'', JStr ''string'')])]),
                  (''liveness'', JObj
                    [(''type'', JStr ''string''),
                     (''enum'', JArr [JStr ''active'', JStr ''stale'', JStr ''offline''])]),
                  (''workspace'', JObj
                    [(''type'', JStr ''object''),
                     (''additionalProperties'', JBool True)]),
                  (''load'', JObj
                    [(''type'', JStr ''object''),
                     (''additionalProperties'', JBool True)]),
                  (''last_seen_ts'', JObj
                    [(''type'', JStr ''number'')])]),
               (''required'', JArr [JStr ''agent_id'']),
               (''additionalProperties'', JBool True)]),
            (''tools'', JObj
              [(''type'', JStr ''array''),
               (''description'', JStr (''The agent'' @ [CHR 0x27] @ ''s published ToolSchema[] (com.mxagent.tool.v1).'')),
               (''items'', JObj
                 [(''type'', JStr ''object''),
                  (''properties'', JObj
                    [(''name'', JObj
                       [(''type'', JStr ''string'')]),
                     (''version'', JObj
                       [(''type'', JStr ''string'')]),
                     (''description'', JObj
                       [(''type'', JStr ''string'')]),
                     (''input_schema'', JObj
                       [(''type'', JStr ''object''),
                        (''additionalProperties'', JBool True)]),
                     (''output_schema'', JObj
                       [(''type'', JStr ''object''),
                        (''additionalProperties'', JBool True)])]),
                  (''required'', JArr [JStr ''name'']),
                  (''additionalProperties'', JBool True)])])]),
         (''required'', JArr [JStr ''agent'', JStr ''tools'']),
         (''additionalProperties'', JBool True)])]\<close>

definition MX_DELEGATE_TOOL :: json where
  \<open>MX_DELEGATE_TOOL =
     JObj
     [(''name'', JStr ''mx_delegate_tool''),
      (''description'', JStr ''Invoke a named tool on a remote agent with JSON arguments (the primary delegation verb).''),
      (''async_semantics'', JStr ''deferred''),
      (''input_schema'', JObj
        [(''$schema'', JStr JSON_SCHEMA_DIALECT),
         (''title'', JStr ''mx_delegate_tool input''),
         (''type'', JStr ''object''),
         (''properties'', JObj
           [(''agent'', JObj
              [(''type'', JStr ''string''),
               (''description'', JStr ''The target agent id.'')]),
            (''tool'', JObj
              [(''type'', JStr ''string''),
               (''description'', JStr ''The target tool name (optionally `name@version`).'')]),
            (''args'', JObj
              [(''type'', JStr ''object''),
               (''description'', JStr (''Inner-tool arguments '' @ [CHR 0xE2, CHR 0x80, CHR 0x94] @ '' an OPEN object. The descriptor does NOT declare the target tool'' @ [CHR 0x27] @ ''s schema; T105 validates these dynamically against the target'' @ [CHR 0x27] @ ''s published ToolSchema.input_schema at dispatch.'')),
               (''additionalProperties'', JBool True)]),
            (''wait_ms'', JObj
              [(''type'', JStr ''integer''),
               (''minimum'', JNum (Fin 0)),
               (''description'', JStr (''Optional inline wait before returning a deferred handle (the '' @ [CHR 0xC2, CHR 0xA7] @ ''4.3 / T103 poll hint).''))]),
            (''idempotency_key'', JObj
              [(''type'', JStr ''string''),
               (''description'', JStr (''Optional client-supplied idempotency key (design '' @ [CHR 0xC2, CHR 0xA7] @ ''4.4): supply a stable key to make a retry of THIS SAME delegation idempotent (the daemon dedupes on it); omit and the handler (T105) generates one per invocation. A dedup nonce, not a credential '' @ [CHR 0xE2, CHR 0x80, CHR 0x94] @ '' confers no authority.''))])]),
         (''required'', JArr [JStr ''agent'', JStr ''tool'', JStr ''args'']),
         (''additionalProperties'', JBool False)]),
      (''output_schema'', JObj
        [(''$schema'', JStr JSON_SCHEMA_DIALECT),
         (''title'', JStr ''mx_delegate_tool result''),
         (''description'', JStr (''The inner tool'' @ [CHR 0x27] @ ''s success payload. Its shape is the target ToolSchema.output_schema, known only at call time, so the OUTER descriptor declares an open object.'')),
         (''type'', JStr ''object''),
         (''additionalProperties'', JBool True)])]\<close>

definition MX_RUN_COMMAND :: json where
  \<open>MX_RUN_COMMAND =
     JObj
     [(''name'', JStr ''mx_run_command''),
      (''description'', JStr ''Run an allowlisted command on a remote agent (disabled by default; gated by receiver policy).''),
      (''async_semantics'', JStr ''deferred''),
      (''input_schema'', JObj
        [(''$schema'', JStr JSON_SCHEMA_DIALECT),
         (''title'', JStr ''mx_run_command input''),
         (''type'', JStr ''object''),
         (''properties'', JObj
           [(''agent'', JObj
              [(''type'', JStr ''string''),
               (''description'', JStr ''The target agent id.'')]),
            (''command'', JObj
              [(''type'', JStr ''string''),
               (''description'', JStr ''The allowlisted binary to run (subject to receiver policy).'')]),
            (''args'', JObj
              [(''type'', JStr ''array''),
               (''items'', JObj
                 [(''type'', JStr ''string'')]),
               (''description'', JStr ''Command arguments.'')]),
            (''cwd'', JObj
              [(''type'', JStr ''string''),
               (''description'', JStr ''Working directory (subject to `allow_cwd`).'')]),
            (''wait_ms'', JObj
              [(''type'', JStr ''integer''),
               (''minimum'', JNum (Fin 0)),
               (''description'', JStr (''Optional inline wait before returning a deferred handle (the '' @ [CHR 0xC2, CHR 0xA7] @ ''4.3 / T103 poll hint).''))]),
            (''idempotency_key'', JObj
              [(''type'', JStr ''string''),
               (''description'', JStr (''Optional client-supplied idempotency key (design '' @ [CHR 0xC2, CHR 0xA7] @ ''4.4): supply a stable key to make a retry of THIS SAME command idempotent (the daemon dedupes on it); omit and the handler (T106) generates one per invocation. A dedup nonce, not a credential '' @ [CHR 0xE2, CHR 0x80, CHR 0x94] @ '' confers no authority.''))])]),
         (''required'', JArr [JStr ''agent'', JStr ''command'']),
         (''additionalProperties'', JBool False)]),
      (''output_schema'', JObj
        [(''$schema'', JStr JSON_SCHEMA_DIALECT),
         (''title'', JStr ''mx_run_command result''),
         (''type'', JStr ''object''),
         (''properties'', JObj
           [(''exit_code'', JObj
              [(''type'', JStr ''integer''),
               (''description'', JStr ''Process exit code.'')]),
            (''summary'', JObj
              [(''type'', JStr ''string''),
               (''description'', JStr ''Short, non-streamed result summary.'')]),
            (''log_ref'', JObj
              [(''type'', JStr ''string''),
               (''description'', JStr ''Reference to the captured output artifact (fetch via mx_get_context).'')])]),
         (''required'', JArr [JStr ''exit_code'']),
         (''additionalProperties'', JBool True)])]\<close>

definition MX_AWAIT_RESULT :: json where
  \<open>MX_AWAIT_RESULT =
     JObj
     [(''name'', JStr ''mx_await_result''),
      (''description'', JStr ''Resolve a deferred invocation handle to its terminal result (or the still-pending status).''),
      (''async_semantics'', JStr ''sync''),
      (''input_schema'', JObj
        [(''$schema'', JStr JSON_SCHEMA_DIALECT),
         (''title'', JStr ''mx_await_result input''),
         (''type'', JStr ''object''),
         (''properties'', JObj
           [(''handle'', JObj
              [(''type'', JStr ''string''),
               (''description'', JStr ''The deferred handle returned by a prior delegate/run call.'')]),
            (''wait_ms'', JObj
              [(''type'', JStr ''integer''),
               (''minimum'', JNum (Fin 0)),
               (''description'', JStr ''Max time to block for resolution; returns the pending status without error on timeout.'')])]),
         (''required'', JArr [JStr ''handle'']),
         (''additionalProperties'', JBool False)]),
      (''output_schema'', JObj
        [(''$schema'', JStr JSON_SCHEMA_DIALECT),
         (''title'', JStr ''mx_await_result result''),
         (''description'', JStr (''The resolved terminal success payload of the awaited handle (open '' @ [CHR 0xE2, CHR 0x80, CHR 0x94] @ '' shape depends on the original tool).'')),
         (''type'', JStr ''object''),
         (''additionalProperties'', JBool True)])]\<close>

definition MX_SHARE_CONTEXT :: json where
  \<open>MX_SHARE_CONTEXT =
     JObj
     [(''name'', JStr ''mx_share_context''),
      (''description'', JStr ''Publish a shared context artifact (file, diff, or env snapshot) to the workspace.''),
      (''async_semantics'', JStr ''sync''),
      (''input_schema'', JObj
        [(''$schema'', JStr JSON_SCHEMA_DIALECT),
         (''title'', JStr ''mx_share_context input''),
         (''type'', JStr ''object''),
         (''properties'', JObj
           [(''kind'', JObj
              [(''type'', JStr ''string''),
               (''enum'', JArr [JStr ''file'', JStr ''diff'', JStr ''env'']),
               (''description'', JStr ''The kind of artifact to share.'')]),
            (''path'', JObj
              [(''type'', JStr ''string''),
               (''description'', JStr ''Logical path/name of the artifact.'')]),
            (''content'', JObj
              [(''type'', JStr ''string''),
               (''description'', JStr (''Inline artifact content ('' @ [CHR 0xE2, CHR 0x89, CHR 0xA4] @ ''256 KiB; larger uses the media path).''))]),
            (''encoding'', JObj
              [(''type'', JStr ''string''),
               (''enum'', JArr [JStr ''utf-8'', JStr ''base64'']),
               (''description'', JStr ''Encoding of `content`.'')])]),
         (''required'', JArr [JStr ''kind'']),
         (''additionalProperties'', JBool False)]),
      (''output_schema'', JObj
        [(''$schema'', JStr JSON_SCHEMA_DIALECT),
         (''title'', JStr ''mx_share_context result''),
         (''type'', JStr ''object''),
         (''properties'', JObj
           [(''context_id'', JObj
              [(''type'', JStr ''string''),
               (''description'', JStr ''Id to fetch the artifact back via mx_get_context.'')]),
            (''sha256'', JObj
              [(''type'', JStr ''string''),
               (''description'', JStr ''Content digest for integrity verification.'')])]),
         (''required'', JArr [JStr ''context_id'', JStr ''sha256'']),
         (''additionalProperties'', JBool False)])]\<close>

definition MX_GET_CONTEXT :: json where
  \<open>MX_GET_CONTEXT =
     JObj
     [(''name'', JStr ''mx_get_context''),
      (''description'', JStr ''Fetch a shared context artifact by its id.''),
      (''async_semantics'', JStr ''sync''),
      (''input_schema'', JObj
        [(''$schema'', JStr JSON_SCHEMA_DIALECT),
         (''title'', JStr ''mx_get_context input''),
         (''type'', JStr ''object''),
         (''properties'', JObj
           [(''context_id'', JObj
              [(''type'', JStr ''string''),
               (''description'', JStr ''The artifact id returned by mx_share_context.'')])]),
         (''required'', JArr [JStr ''context_id'']),
         (''additionalProperties'', JBool False)]),
      (''output_schema'', JObj
        [(''$schema'', JStr JSON_SCHEMA_DIALECT),
         (''title'', JStr ''mx_get_context result''),
         (''type'', JStr ''object''),
         (''properties'', JObj
           [(''context_id'', JObj
              [(''type'', JStr ''string'')]),
            (''kind'', JObj
              [(''type'', JStr ''string''),
               (''enum'', JArr [JStr ''file'', JStr ''diff'', JStr ''env''])]),
            (''sha256'', JObj
              [(''type'', JStr ''string'')]),
            (''size_bytes'', JObj
              [(''type'', JStr ''integer''),
               (''minimum'', JNum (Fin 0))]),
            (''inline'', JObj
              [(''type'', JStr ''string''),
               (''description'', JStr ''Inline content when small enough to embed.'')]),
            (''media_mxc'', JObj
              [(''type'', JStr ''string''),
               (''description'', JStr ''Matrix media reference (mxc://) when stored out-of-band.'')])]),
         (''required'', JArr [JStr ''context_id'']),
         (''additionalProperties'', JBool True)])]\<close>

definition MX_CANCEL :: json where
  \<open>MX_CANCEL =
     JObj
     [(''name'', JStr ''mx_cancel''),
      (''description'', JStr ''Cancel an in-flight invocation by its deferred handle.''),
      (''async_semantics'', JStr ''sync''),
      (''input_schema'', JObj
        [(''$schema'', JStr JSON_SCHEMA_DIALECT),
         (''title'', JStr ''mx_cancel input''),
         (''type'', JStr ''object''),
         (''properties'', JObj
           [(''handle'', JObj
              [(''type'', JStr ''string''),
               (''description'', JStr (''The deferred handle (an inv_'' @ [CHR 0xE2, CHR 0x80, CHR 0xA6] @ '' invocation id) returned by a prior delegate/run/await call.''))])]),
         (''required'', JArr [JStr ''handle'']),
         (''additionalProperties'', JBool False)]),
      (''output_schema'', JObj
        [(''$schema'', JStr JSON_SCHEMA_DIALECT),
         (''title'', JStr ''mx_cancel result''),
         (''type'', JStr ''object''),
         (''properties'', JObj
           [(''handle'', JObj
              [(''type'', JStr ''string''),
               (''description'', JStr ''The invocation handle the cancel targeted.'')]),
            (''cancelled'', JObj
              [(''type'', JStr ''boolean''),
               (''description'', JStr ''True if the invocation was running and is now cancelling/cancelled; false if there was nothing to cancel.'')]),
            (''state'', JObj
              [(''type'', JStr ''string''),
               (''description'', JStr ''The post-cancel invocation state, when the daemon reports one.'')])]),
         (''required'', JArr [JStr ''handle'', JStr ''cancelled'']),
         (''additionalProperties'', JBool True)])]\<close>

definition MX_WORKSPACE_STATUS :: json where
  \<open>MX_WORKSPACE_STATUS =
     JObj
     [(''name'', JStr ''mx_workspace_status''),
      (''description'', JStr ''Report the current workspace: the registered agents and the project context.''),
      (''async_semantics'', JStr ''sync''),
      (''input_schema'', JObj
        [(''$schema'', JStr JSON_SCHEMA_DIALECT),
         (''title'', JStr ''mx_workspace_status input''),
         (''type'', JStr ''object''),
         (''additionalProperties'', JBool False)]),
      (''output_schema'', JObj
        [(''$schema'', JStr JSON_SCHEMA_DIALECT),
         (''title'', JStr ''mx_workspace_status result''),
         (''description'', JStr ''Non-secret workspace metadata + the registered MX agents + the project context.''),
         (''type'', JStr ''object''),
         (''properties'', JObj
           [(''workspace'', JObj
              [(''type'', JStr ''object''),
               (''description'', JStr ''Non-secret room metadata (the raw Matrix members[] list is deliberately omitted).''),
               (''properties'', JObj
                 [(''room_id'', JObj
                    [(''type'', JStr ''string'')]),
                  (''name'', JObj
                    [(''type'', JStr ''string'')]),
                  (''canonical_alias'', JObj
                    [(''type'', JStr ''string'')]),
                  (''encrypted'', JObj
                    [(''type'', JStr ''boolean'')])]),
               (''additionalProperties'', JBool True)]),
            (''agents'', JObj
              [(''type'', JStr ''array''),
               (''description'', JStr ''The registered MX agents, projected to the non-secret AgentSummary shape (as mx_find_agents).''),
               (''items'', JObj
                 [(''type'', JStr ''object''),
                  (''properties'', JObj
                    [(''agent_id'', JObj
                       [(''type'', JStr ''string'')]),
                     (''kind'', JObj
                       [(''type'', JStr ''string'')]),
                     (''capabilities'', JObj
                       [(''type'', JStr ''array''),
                        (''items'', JObj
                          [(''type'', JStr ''string'')])]),
                     (''liveness'', JObj
                       [(''type'', JStr ''string''),
                        (''enum'', JArr [JStr ''active'', JStr ''stale'', JStr ''offline''])])]),
                  (''required'', JArr [JStr ''agent_id'', JStr ''liveness'']),
                  (''additionalProperties'', JBool True)])]),
            (''project'', JObj
              [(''type'', JStr ''object''),
               (''description'', JStr ''Derived project context (when available).''),
               (''properties'', JObj
                 [(''project_id'', JObj
                    [(''type'', JStr ''string'')]),
                  (''cwd'', JObj
                    [(''type'', JStr ''string'')]),
                  (''git_commit'', JObj
                    [(''type'', JStr ''string'')])]),
               (''additionalProperties'', JBool True)])]),
         (''required'', JArr [JStr ''agents'']),
         (''additionalProperties'', JBool True)])]\<close>

definition MX_CREATE_TASK :: json where
  \<open>MX_CREATE_TASK =
     JObj
     [(''name'', JStr ''mx_create_task''),
      (''description'', JStr ''Author a task (with optional dependencies and a signed action) into the durable shared plan (DAG).''),
      (''async_semantics'', JStr ''sync''),
      (''input_schema'', JObj
        [(''$schema'', JStr JSON_SCHEMA_DIALECT),
         (''title'', JStr ''mx_create_task input''),
         (''type'', JStr ''object''),
         (''properties'', JObj
           [(''title'', JObj
              [(''type'', JStr ''string''),
               (''description'', JStr ''The human/model-readable task title.'')]),
            (''depends_on'', JObj
              [(''type'', JStr ''array''),
               (''items'', JObj
                 [(''type'', JStr ''string'')]),
               (''description'', JStr ''Task ids this task depends on (incoming edges).'')]),
            (''blocks'', JObj
              [(''type'', JStr ''array''),
               (''items'', JObj
                 [(''type'', JStr ''string'')]),
               (''description'', JStr ''Task ids this task blocks (outgoing edges).'')]),
            (''assign'', JObj
              [(''type'', JStr ''string''),
               (''description'', JStr ''An agent_id to assign the task to (optional).'')]),
            (''state'', JObj
              [(''type'', JStr ''string''),
               (''enum'', JArr [JStr ''proposed'', JStr ''pending'', JStr ''assigned'', JStr ''executing'', JStr ''succeeded'', JStr ''failed'']),
               (''description'', JStr ''The initial state (default: proposed).''),
               (''default'', JStr ''proposed'')]),
            (''action'', JObj
              [(''type'', JStr ''object''),
               (''description'', JStr (''The signed action the node carries '' @ [CHR 0xE2, CHR 0x80, CHR 0x94] @ '' authored here, NOT dispatched (T303 dispatches it).'')),
               (''properties'', JObj
                 [(''kind'', JObj
                    [(''type'', JStr ''string''),
                     (''enum'', JArr [JStr ''tool'', JStr ''exec'']),
                     (''description'', JStr (''"tool" '' @ [CHR 0xE2, CHR 0x86, CHR 0x92] @ '' a named tool call; "exec" '' @ [CHR 0xE2, CHR 0x86, CHR 0x92] @ '' a guarded command.''))]),
                  (''tool'', JObj
                    [(''type'', JStr ''string''),
                     (''description'', JStr ''For kind=tool: the named tool to invoke.'')]),
                  (''args'', JObj
                    [(''type'', JStr ''object''),
                     (''additionalProperties'', JBool True),
                     (''description'', JStr ''For kind=tool: the tool JSON arguments (validated by the receiving daemon).'')]),
                  (''command'', JObj
                    [(''type'', JStr ''string''),
                     (''description'', JStr ''For kind=exec: the allowlisted command.'')]),
                  (''command_args'', JObj
                    [(''type'', JStr ''array''),
                     (''items'', JObj
                       [(''type'', JStr ''string'')]),
                     (''description'', JStr ''For kind=exec: the command arguments.'')]),
                  (''cwd'', JObj
                    [(''type'', JStr ''string''),
                     (''description'', JStr ''For kind=exec: the working directory.'')])]),
               (''required'', JArr [JStr ''kind'']),
               (''additionalProperties'', JBool False)]),
            (''idempotency_key'', JObj
              [(''type'', JStr ''string''),
               (''description'', JStr ''Optional client-supplied idempotency key; generated when omitted.'')])]),
         (''required'', JArr [JStr ''title'']),
         (''additionalProperties'', JBool False)]),
      (''output_schema'', JObj
        [(''$schema'', JStr JSON_SCHEMA_DIALECT),
         (''title'', JStr ''mx_create_task result''),
         (''type'', JStr ''object''),
         (''description'', JStr ''The created TaskNode (a non-secret projection of the com.mxagent.task.v1 record).''),
         (''properties'', JObj
           [(''task_id'', JObj
              [(''type'', JStr ''string''),
               (''description'', JStr ''The id of the created task.'')]),
            (''title'', JObj
              [(''type'', JStr ''string'')]),
            (''state'', JObj
              [(''type'', JStr ''string''),
               (''enum'', JArr [JStr ''proposed'', JStr ''pending'', JStr ''assigned'', JStr ''executing'', JStr ''succeeded'', JStr ''failed'', JStr ''unknown'']),
               (''description'', JStr ''The model-facing task state (an unrecognised daemon token maps to "unknown").'')]),
            (''assignee'', JObj
              [(''type'', JArr [JStr ''string'', JStr ''null'']),
               (''description'', JStr ''The assigned agent_id, or null when unassigned.'')]),
            (''depends_on'', JObj
              [(''type'', JStr ''array''),
               (''items'', JObj
                 [(''type'', JStr ''string'')])]),
            (''blocks'', JObj
              [(''type'', JStr ''array''),
               (''items'', JObj
                 [(''type'', JStr ''string'')])]),
            (''action'', JObj
              [(''type'', JArr [JStr ''object'', JStr ''null'']),
               (''description'', JStr ''The authored (not dispatched) action, or null.'')]),
            (''created_at'', JObj
              [(''type'', JStr ''string'')]),
            (''updated_at'', JObj
              [(''type'', JStr ''string'')])]),
         (''required'', JArr [JStr ''task_id'', JStr ''title'', JStr ''state'', JStr ''assignee'', JStr ''depends_on'', JStr ''blocks'', JStr ''action'']),
         (''additionalProperties'', JBool True)])]\<close>

definition MX_UPDATE_TASK :: json where
  \<open>MX_UPDATE_TASK =
     JObj
     [(''name'', JStr ''mx_update_task''),
      (''description'', JStr ''Update a task in the shared plan: transition its state, re-assign it, or adjust its dependency edges.''),
      (''async_semantics'', JStr ''sync''),
      (''input_schema'', JObj
        [(''$schema'', JStr JSON_SCHEMA_DIALECT),
         (''title'', JStr ''mx_update_task input''),
         (''type'', JStr ''object''),
         (''properties'', JObj
           [(''task_id'', JObj
              [(''type'', JStr ''string''),
               (''description'', JStr ''The id of the task to update.'')]),
            (''state'', JObj
              [(''type'', JStr ''string''),
               (''enum'', JArr [JStr ''proposed'', JStr ''pending'', JStr ''assigned'', JStr ''executing'', JStr ''succeeded'', JStr ''failed'']),
               (''description'', JStr ''The target state to transition the task to.'')]),
            (''assign'', JObj
              [(''type'', JStr ''string''),
               (''description'', JStr ''Re-assign the task to this agent_id.'')]),
            (''depends_on'', JObj
              [(''type'', JStr ''array''),
               (''items'', JObj
                 [(''type'', JStr ''string'')]),
               (''description'', JStr ''Replace the tasks this task depends on (if the daemon supports edge edits on update).'')]),
            (''blocks'', JObj
              [(''type'', JStr ''array''),
               (''items'', JObj
                 [(''type'', JStr ''string'')]),
               (''description'', JStr ''Replace the tasks this task blocks (if the daemon supports edge edits on update).'')]),
            (''idempotency_key'', JObj
              [(''type'', JStr ''string''),
               (''description'', JStr ''Optional client-supplied idempotency key; generated when omitted.'')])]),
         (''required'', JArr [JStr ''task_id'']),
         (''additionalProperties'', JBool False)]),
      (''output_schema'', JObj
        [(''$schema'', JStr JSON_SCHEMA_DIALECT),
         (''title'', JStr ''mx_update_task result''),
         (''type'', JStr ''object''),
         (''description'', JStr ''The updated TaskNode (a non-secret projection of the com.mxagent.task.v1 record).''),
         (''properties'', JObj
           [(''task_id'', JObj
              [(''type'', JStr ''string'')]),
            (''title'', JObj
              [(''type'', JStr ''string'')]),
            (''state'', JObj
              [(''type'', JStr ''string''),
               (''enum'', JArr [JStr ''proposed'', JStr ''pending'', JStr ''assigned'', JStr ''executing'', JStr ''succeeded'', JStr ''failed'', JStr ''unknown'']),
               (''description'', JStr ''The model-facing task state after the update.'')]),
            (''assignee'', JObj
              [(''type'', JArr [JStr ''string'', JStr ''null''])]),
            (''depends_on'', JObj
              [(''type'', JStr ''array''),
               (''items'', JObj
                 [(''type'', JStr ''string'')])]),
            (''blocks'', JObj
              [(''type'', JStr ''array''),
               (''items'', JObj
                 [(''type'', JStr ''string'')])]),
            (''action'', JObj
              [(''type'', JArr [JStr ''object'', JStr ''null''])]),
            (''created_at'', JObj
              [(''type'', JStr ''string'')]),
            (''updated_at'', JObj
              [(''type'', JStr ''string'')])]),
         (''required'', JArr [JStr ''task_id'', JStr ''title'', JStr ''state'', JStr ''assignee'', JStr ''depends_on'', JStr ''blocks'', JStr ''action'']),
         (''additionalProperties'', JBool True)])]\<close>

definition MX_LIST_TASKS :: json where
  \<open>MX_LIST_TASKS =
     JObj
     [(''name'', JStr ''mx_list_tasks''),
      (''description'', JStr ''List the shared plan as a DAG (nodes + dependency edges) or a flat list, with optional filters.''),
      (''async_semantics'', JStr ''sync''),
      (''input_schema'', JObj
        [(''$schema'', JStr JSON_SCHEMA_DIALECT),
         (''title'', JStr ''mx_list_tasks input''),
         (''type'', JStr ''object''),
         (''properties'', JObj
           [(''state'', JObj
              [(''type'', JStr ''string''),
               (''enum'', JArr [JStr ''proposed'', JStr ''pending'', JStr ''assigned'', JStr ''executing'', JStr ''succeeded'', JStr ''failed'']),
               (''description'', JStr ''Optional state filter.'')]),
            (''assignee'', JObj
              [(''type'', JStr ''string''),
               (''description'', JStr ''Optional assignee agent_id filter.'')]),
            (''view'', JObj
              [(''type'', JStr ''string''),
               (''enum'', JArr [JStr ''list'', JStr ''graph'']),
               (''description'', JStr ''"graph" (default) returns nodes and dependency edges; "list" returns nodes only.''),
               (''default'', JStr ''graph'')])]),
         (''additionalProperties'', JBool False)]),
      (''output_schema'', JObj
        [(''$schema'', JStr JSON_SCHEMA_DIALECT),
         (''title'', JStr ''mx_list_tasks result''),
         (''type'', JStr ''object''),
         (''properties'', JObj
           [(''tasks'', JObj
              [(''type'', JStr ''array''),
               (''description'', JStr ''The task nodes (each a non-secret TaskNode projection).''),
               (''items'', JObj
                 [(''type'', JStr ''object''),
                  (''additionalProperties'', JBool True)])]),
            (''edges'', JObj
              [(''type'', JStr ''array''),
               (''description'', JStr ''The DAG edges (present for view: graph): { from, to, kind }.''),
               (''items'', JObj
                 [(''type'', JStr ''object''),
                  (''properties'', JObj
                    [(''from'', JObj
                       [(''type'', JStr ''string'')]),
                     (''to'', JObj
                       [(''type'', JStr ''string'')]),
                     (''kind'', JObj
                       [(''type'', JStr ''string''),
                        (''enum'', JArr [JStr ''depends_on'', JStr ''blocks''])])]),
                  (''required'', JArr [JStr ''from'', JStr ''to'', JStr ''kind'']),
                  (''additionalProperties'', JBool False)])])]),
         (''required'', JArr [JStr ''tasks'']),
         (''additionalProperties'', JBool True)])]\<close>

definition MX_DISPATCH_TASK :: json where
  \<open>MX_DISPATCH_TASK =
     JObj
     [(''name'', JStr ''mx_dispatch_task''),
      (''description'', JStr (''Dispatch a task node'' @ [CHR 0x27] @ ''s authored signed action (tool or guarded command) through the full receiver-side authorize pipeline.'')),
      (''async_semantics'', JStr ''deferred''),
      (''input_schema'', JObj
        [(''$schema'', JStr JSON_SCHEMA_DIALECT),
         (''title'', JStr ''mx_dispatch_task input''),
         (''type'', JStr ''object''),
         (''properties'', JObj
           [(''task_id'', JObj
              [(''type'', JStr ''string''),
               (''description'', JStr ''The DAG node whose authored action to dispatch.'')]),
            (''wait_ms'', JObj
              [(''type'', JStr ''integer''),
               (''minimum'', JNum (Fin 0)),
               (''description'', JStr (''Optional inline wait before returning a deferred handle (the '' @ [CHR 0xC2, CHR 0xA7] @ ''4.3 / T103 poll hint).''))]),
            (''idempotency_key'', JObj
              [(''type'', JStr ''string''),
               (''description'', JStr (''Optional client-supplied idempotency key (design '' @ [CHR 0xC2, CHR 0xA7] @ ''4.4): a dedup nonce that confers no authority. Omit and the handler derives a task-stable key (idk_task_<task_id>) so a re-dispatch of the same task dedupes on the daemon.''))])]),
         (''required'', JArr [JStr ''task_id'']),
         (''additionalProperties'', JBool False)]),
      (''output_schema'', JObj
        [(''$schema'', JStr JSON_SCHEMA_DIALECT),
         (''title'', JStr ''mx_dispatch_task result''),
         (''description'', JStr (''The dispatched action'' @ [CHR 0x27] @ ''s success payload '' @ [CHR 0xE2, CHR 0x80, CHR 0x94] @ '' the inner tool'' @ [CHR 0x27] @ ''s output (kind=tool) or the exec result { exit_code, summary?, log_ref? } (kind=exec). Its shape is known only at dispatch time, so the descriptor declares an open object; a held/running dispatch carries a handle resolvable via mx_await_result.'')),
         (''type'', JStr ''object''),
         (''additionalProperties'', JBool True)])]\<close>

definition CANONICAL_M1_TOOLS :: "json list" where
  "CANONICAL_M1_TOOLS =
     [MX_FIND_AGENTS, MX_DESCRIBE_AGENT, MX_DELEGATE_TOOL, MX_RUN_COMMAND, MX_AWAIT_RESULT, MX_SHARE_CONTEXT, MX_GET_CONTEXT, MX_CANCEL, MX_WORKSPACE_STATUS]"

definition CANONICAL_M3_TASK_TOOLS :: "json list" where
  "CANONICAL_M3_TASK_TOOLS = [MX_CREATE_TASK, MX_UPDATE_TASK, MX_LIST_TASKS, MX_DISPATCH_TASK]"

definition CANONICAL_TOOLS :: "json list" where
  "CANONICAL_TOOLS = CANONICAL_M1_TOOLS @ CANONICAL_M3_TASK_TOOLS"

lemmas descriptor_defs =
  MX_FIND_AGENTS_def
  MX_DESCRIBE_AGENT_def
  MX_DELEGATE_TOOL_def
  MX_RUN_COMMAND_def
  MX_AWAIT_RESULT_def
  MX_SHARE_CONTEXT_def
  MX_GET_CONTEXT_def
  MX_CANCEL_def
  MX_WORKSPACE_STATUS_def
  MX_CREATE_TASK_def
  MX_UPDATE_TASK_def
  MX_LIST_TASKS_def
  MX_DISPATCH_TASK_def

end
