(* ===== verification/Invocation.thy ===== *)
theory Invocation
  imports Envelope_Schema
begin

text \<open>
  The reply normalizers (packages/registry/src/handlers/invocation.ts) and the thrown-fault mapper
  (handler-fault.ts): how a raw daemon reply, or the error a call was rejected with, becomes one
  envelope. Both replies of \<open>call.start\<close>/\<open>exec.start\<close> and of \<open>invocation.get\<close> go through the same
  state table and readers.
\<close>

section \<open>Vocabulary\<close>

definition MESSAGE_FOR_CODE :: "error_code \<Rightarrow> string" where
  "MESSAGE_FOR_CODE c =
     (case c of
        policy_denied \<Rightarrow> ''denied by the receiver policy''
      | untrusted_key \<Rightarrow> ''the signing key is not trusted by the receiver''
      | approval_denied \<Rightarrow> ''the operator denied the approval request''
      | approval_expired \<Rightarrow> ''the approval request expired before a decision''
      | timeout \<Rightarrow> ''the operation timed out''
      | not_found \<Rightarrow> ''no such invocation''
      | invalid_args \<Rightarrow> ''the request was rejected as invalid''
      | target_offline \<Rightarrow> ''the target agent is offline''
      | internal \<Rightarrow> ''the invocation failed'')"

definition UNRECOGNISED_MESSAGE :: string where
  "UNRECOGNISED_MESSAGE = ''unrecognised invocation state''"

definition CANCELLED_MESSAGE :: string where
  "CANCELLED_MESSAGE = ''the invocation was cancelled''"

datatype state_kind = KRunning | KAwaiting | KOk | KFail | KCancelled

definition INVOCATION_STATE_KIND :: "(string \<times> state_kind) list" where
  "INVOCATION_STATE_KIND =
     [(''running'', KRunning), (''in_flight'', KRunning), (''inflight'', KRunning),
      (''executing'', KRunning), (''active'', KRunning), (''pending'', KRunning),
      (''queued'', KRunning), (''started'', KRunning), (''dispatched'', KRunning),
      (''awaiting_approval'', KAwaiting), (''awaiting'', KAwaiting), (''held'', KAwaiting),
      (''approval_pending'', KAwaiting), (''pending_approval'', KAwaiting),
      (''needs_approval'', KAwaiting),
      (''ok'', KOk), (''completed'', KOk), (''complete'', KOk), (''succeeded'', KOk),
      (''success'', KOk), (''done'', KOk), (''finished'', KOk), (''resolved'', KOk),
      (''denied'', KFail), (''denied_by_policy'', KFail), (''policy_denied'', KFail),
      (''rejected'', KFail), (''approval_denied'', KFail), (''approval_rejected'', KFail),
      (''approval_expired'', KFail), (''approval_timeout'', KFail), (''untrusted'', KFail),
      (''untrusted_key'', KFail), (''failed'', KFail), (''error'', KFail), (''errored'', KFail),
      (''faulted'', KFail), (''not_found'', KFail), (''timeout'', KFail), (''timed_out'', KFail),
      (''offline'', KFail), (''target_offline'', KFail), (''agent_offline'', KFail),
      (''unreachable'', KFail),
      (''cancelled'', KCancelled), (''canceled'', KCancelled), (''aborted'', KCancelled)]"

interpretation invocation_states: token_table INVOCATION_STATE_KIND
  by unfold_locales code_simp

section \<open>Readers\<close>

definition stateToken :: "obj \<Rightarrow> string option" where
  "stateToken ob =
     map_option normaliseToken
       (orelse (readString (jget ob ''state''))
         (orelse (readString (jget ob ''status'')) (readString (jget ob ''phase''))))"

definition extractAuditRef :: "obj option \<Rightarrow> audit_ref" where
  "extractAuditRef ob =
     (let o' = or_default ob [];
          a = or_default (asRecord (jget o' ''audit_ref'')) o' in
      \<lparr>ref_invocation_id =
         orelse (readString (jget a ''invocation_id''))
           (orelse (readString (jget o' ''invocation_id'')) (readString (jget o' ''id''))),
       ref_request_id = orelse (readString (jget a ''request_id'')) (readString (jget o' ''request_id'')),
       ref_room = orelse (readString (jget a ''room'')) (readString (jget o' ''room'')),
       ref_event_id = orelse (readString (jget a ''event_id'')) (readString (jget o' ''event_id''))\<rparr>)"

definition handleOf :: "obj \<Rightarrow> audit_ref \<Rightarrow> string" where
  "handleOf ob aref =
     or_default
       (orelse (readString (jget ob ''handle''))
         (orelse (ref_invocation_id aref) (readString (jget ob ''id''))))
       ''''"

definition resultOf :: "obj \<Rightarrow> obj" where
  "resultOf ob = or_default (asRecord (jget ob ''result'')) []"

definition readRisk :: "json \<Rightarrow> risk" where
  "readRisk x = (if x = JStr ''low'' then low else if x = JStr ''medium'' then medium else high)"

definition approvalOf :: "obj \<Rightarrow> approval_info" where
  "approvalOf ob =
     (let a = or_default (asRecord (jget ob ''approval'')) ob in
      \<lparr>ap_request_id =
         or_default (orelse (readString (jget a ''request_id'')) (readString (jget ob ''request_id''))) '''',
       ap_risk = readRisk (jget a ''risk''),
       ap_summary = or_default (readString (jget a ''summary'')) '''',
       ap_expires_at = or_default (readString (jget a ''expires_at'')) ''''\<rparr>)"

fun isDenialCode :: "code_value \<Rightarrow> bool" where
  "isDenialCode (Code c) = (c \<in> set DENIAL_CODES)"
| "isDenialCode (FunctionValue f) = False"

fun message_of :: "code_value \<Rightarrow> string option" where
  "message_of (Code c) = Some (MESSAGE_FOR_CODE c)"
| "message_of (FunctionValue f) = None"

definition failureResult :: "code_value \<Rightarrow> audit_ref \<Rightarrow> 'a tool_result" where
  "failureResult c aref =
     (if isDenialCode c then denied c (message_of c) aref else errored c (message_of c) aref)"

definition failureCode :: "obj \<Rightarrow> string option \<Rightarrow> code_value" where
  "failureCode ob token =
     (let fromPayload = mapDaemonError (JObj ob) in
      if fromPayload \<noteq> Code internal then fromPayload
      else case token of
        None \<Rightarrow> Code internal
      | Some t \<Rightarrow>
          (let fromState = mapDaemonError (JStr t) in
           if fromState \<noteq> Code internal then fromState else Code internal))"

definition hasErrorSignal :: "obj \<Rightarrow> bool" where
  "hasErrorSignal ob =
     (jget ob ''ok'' = JBool False
      \<or> readString (jget ob ''error'') \<noteq> None \<or> asRecord (jget ob ''error'') \<noteq> None)"

definition hasSuccessSignal :: "obj \<Rightarrow> bool" where
  "hasSuccessSignal ob = (jget ob ''ok'' = JBool True \<or> asRecord (jget ob ''result'') \<noteq> None)"

definition isTerminal :: "tool_status \<Rightarrow> bool" where
  "isTerminal st = (st = Ok \<or> st = Denied \<or> st = Error)"

section \<open>Normalizers\<close>

text \<open>
  The kind of a reply: the table entry of its state token. An inherited property is a function,
  which matches no case of the switch, so it falls to the default branch like a missing entry.
\<close>

definition state_kind_of :: "obj \<Rightarrow> state_kind option" where
  "state_kind_of ob =
     (case stateToken ob of
        None \<Rightarrow> None
      | Some t \<Rightarrow> (case table_get INVOCATION_STATE_KIND t of Own k \<Rightarrow> Some k | _ \<Rightarrow> None))"

definition invocationToResult :: "json \<Rightarrow> obj tool_result" where
  "invocationToResult raw =
     (let ob' = asRecord raw; aref = extractAuditRef ob' in
      case ob' of
        None \<Rightarrow> errored (Code internal) (Some UNRECOGNISED_MESSAGE) aref
      | Some ob \<Rightarrow>
          (case state_kind_of ob of
             Some KRunning \<Rightarrow> running (handleOf ob aref) aref
           | Some KAwaiting \<Rightarrow> awaitingApproval (handleOf ob aref) (approvalOf ob) aref
           | Some KOk \<Rightarrow> ok (resultOf ob) aref
           | Some KFail \<Rightarrow> failureResult (failureCode ob (stateToken ob)) aref
           | Some KCancelled \<Rightarrow> errored (Code internal) (Some CANCELLED_MESSAGE) aref
           | None \<Rightarrow>
               if hasErrorSignal ob then failureResult (failureCode ob (stateToken ob)) aref
               else errored (Code internal) (Some UNRECOGNISED_MESSAGE) aref))"

definition callResponseToResult :: "json \<Rightarrow> obj tool_result" where
  "callResponseToResult raw =
     (let ob' = asRecord raw; aref = extractAuditRef ob' in
      case ob' of
        None \<Rightarrow> errored (Code internal) (Some UNRECOGNISED_MESSAGE) aref
      | Some ob \<Rightarrow>
          (case state_kind_of ob of
             Some KRunning \<Rightarrow> running (handleOf ob aref) aref
           | Some KAwaiting \<Rightarrow> awaitingApproval (handleOf ob aref) (approvalOf ob) aref
           | Some KOk \<Rightarrow> ok (resultOf ob) aref
           | Some KFail \<Rightarrow> failureResult (failureCode ob (stateToken ob)) aref
           | Some KCancelled \<Rightarrow> errored (Code internal) (Some CANCELLED_MESSAGE) aref
           | None \<Rightarrow>
               if hasErrorSignal ob then failureResult (failureCode ob (stateToken ob)) aref
               else if hasSuccessSignal ob then ok (resultOf ob) aref
               else (let h = handleOf ob aref in
                     if h \<noteq> '''' then running h aref
                     else errored (Code internal) (Some UNRECOGNISED_MESSAGE) aref)))"

definition classifyInvocation :: "json \<Rightarrow> tool_status" where
  "classifyInvocation raw = r_status (invocationToResult raw)"

section \<open>Thrown faults\<close>

definition EMPTY_AUDIT_REF :: audit_ref where
  "EMPTY_AUDIT_REF =
     \<lparr>ref_invocation_id = None, ref_request_id = None, ref_room = None, ref_event_id = None\<rparr>"

text \<open>A thrown value read as an object: what \<open>readProp\<close> and \<open>mapDaemonError\<close> see of it.\<close>

fun thrown_value :: "thrown \<Rightarrow> json" where
  "thrown_value (TransportError c m cause) =
     JObj ([(''name'', JStr ''IpcError''), (''message'', JStr m),
            (''code'', JStr (transport_code_name c))] @
           (if cause = JUndef then [] else [(''cause'', cause)]))"
| "thrown_value (OtherError v) = v"

definition readProp :: "json \<Rightarrow> string \<Rightarrow> json" where
  "readProp x key = (case x of JObj ob \<Rightarrow> jget ob key | _ \<Rightarrow> JUndef)"

definition readCode :: "json \<Rightarrow> string option" where
  "readCode x = readString (readProp x ''code'')"

text \<open>An unknown code makes \<open>mapTransportError\<close> throw, and the throw is caught as \<open>internal\<close>.\<close>

definition transport_code_of :: "string \<Rightarrow> transport_code option" where
  "transport_code_of s =
     map_of (map (\<lambda>c. (transport_code_name c, c))
       [not_running, connect_failed, transport_timeout, closed, frame, protocol, rpc,
        transport_invalid_args]) s"

definition safeMapTransport :: "string option \<Rightarrow> error_code" where
  "safeMapTransport c =
     (case c of
        None \<Rightarrow> internal
      | Some s \<Rightarrow> (case transport_code_of s of None \<Rightarrow> internal | Some t \<Rightarrow> mapTransportError t))"

definition faultToResult :: "thrown \<Rightarrow> audit_ref \<Rightarrow> 'a tool_result" where
  "faultToResult err aref =
     (let v = thrown_value err; c = readCode v in
      if c = Some ''rpc'' then failureResult (mapDaemonError (nullish (readProp v ''cause'') v)) aref
      else failureResult (Code (safeMapTransport c)) aref)"

section \<open>What the normalizers build\<close>

text \<open>
  The contract every handler result meets: the presence table holds, and the code is one of the
  taxonomy in the right set, except for the single malformed value \<open>mapDaemonError\<close> can produce.
\<close>

definition function_error :: "'a tool_result \<Rightarrow> bool" where
  "function_error r =
     (r_status r = Error
      \<and> (\<exists>f. r_error r = Some \<lparr>e_code = FunctionValue f, e_message = None\<rparr>))"

definition well_built :: "'a tool_result \<Rightarrow> bool" where
  "well_built r = (presence_ok r \<and> (code_ok r \<or> function_error r))"

lemma well_built_helpers [simp, intro]:
  "well_built (ok x aref)" "well_built (running h aref)" "well_built (awaitingApproval h ap aref)"
  "c \<in> set FAULT_CODES \<Longrightarrow> well_built (errored (Code c) (Some m) aref)"
  "c \<in> set DENIAL_CODES \<Longrightarrow> well_built (denied (Code c) (Some m) aref)"
  by (simp_all add: well_built_def)

lemma fault_codes [simp]:
  "timeout \<in> set FAULT_CODES" "not_found \<in> set FAULT_CODES" "invalid_args \<in> set FAULT_CODES"
  "target_offline \<in> set FAULT_CODES" "internal \<in> set FAULT_CODES"
  by (simp_all add: FAULT_CODES_def)

lemma failureResult_Code:
  "failureResult (Code c) aref =
     (if c \<in> set DENIAL_CODES then denied (Code c) (Some (MESSAGE_FOR_CODE c)) aref
      else errored (Code c) (Some (MESSAGE_FOR_CODE c)) aref)"
  by (simp add: failureResult_def)

lemma failureResult_Function: "failureResult (FunctionValue f) aref = errored (FunctionValue f) None aref"
  by (simp add: failureResult_def)

lemma well_built_failureResult [simp, intro]: "well_built (failureResult c aref)"
proof (cases c)
  case (Code e)
  then show ?thesis by (auto simp: failureResult_Code denial_or_fault)
next
  case (FunctionValue f)
  then show ?thesis
    by (simp add: failureResult_Function well_built_def function_error_def errored_def presence_ok_def)
qed

lemma well_built_faultToResult [simp, intro]: "well_built (faultToResult err aref)"
  by (simp add: faultToResult_def Let_def)

lemma well_built_conforms:
  "well_built r \<Longrightarrow> \<not> function_error r \<Longrightarrow> conforms (\<lambda>x. JObj (enc x)) r"
  by (simp add: well_built_def presence_code_conforms)

lemmas reply_splits = option.split state_kind.split if_split

lemma well_built_invocationToResult [simp, intro]: "well_built (invocationToResult raw)"
  by (simp add: invocationToResult_def Let_def split: reply_splits)

lemma well_built_callResponseToResult [simp, intro]: "well_built (callResponseToResult raw)"
  by (simp add: callResponseToResult_def Let_def split: reply_splits)

lemma failure_terminal [simp]: "isTerminal (r_status (failureResult c aref))"
  by (simp add: failureResult_def isTerminal_def denied_def errored_def)

lemma isTerminal_helpers [simp]:
  "isTerminal (r_status (ok x aref))" "\<not> isTerminal (r_status (running h aref))"
  "\<not> isTerminal (r_status (awaitingApproval h ap aref))"
  "isTerminal (r_status (denied c m aref))" "isTerminal (r_status (errored c m aref))"
  by (simp_all add: isTerminal_def envelope_helpers)

lemma fault_terminal [simp]: "isTerminal (r_status (faultToResult err aref))"
  by (simp add: faultToResult_def Let_def)

text \<open>A result is pending exactly when it carries a handle.\<close>

lemma pending_iff_handle: "well_built r \<Longrightarrow> \<not> isTerminal (r_status r) \<longleftrightarrow> r_handle r \<noteq> None"
  by (auto simp: well_built_def presence_ok_def isTerminal_def split: tool_status.splits)

section \<open>Messages\<close>

definition fixed_messages :: "string set" where
  "fixed_messages = range MESSAGE_FOR_CODE \<union> {UNRECOGNISED_MESSAGE, CANCELLED_MESSAGE}"

definition error_message :: "'a tool_result \<Rightarrow> string option" where
  "error_message r = (case r_error r of None \<Rightarrow> None | Some e \<Rightarrow> e_message e)"

lemma message_helpers [simp]:
  "error_message (ok x aref) = None" "error_message (running h aref) = None"
  "error_message (awaitingApproval h ap aref) = None"
  "error_message (denied c m aref) = m" "error_message (errored c m aref) = m"
  by (simp_all add: error_message_def envelope_helpers)

lemma message_failureResult: "error_message (failureResult c aref) = message_of c"
  by (simp add: failureResult_def)

lemma message_of_fixed: "message_of c = Some m \<Longrightarrow> m \<in> fixed_messages"
  by (cases c) (auto simp: fixed_messages_def)

lemma fixed_member [simp]:
  "MESSAGE_FOR_CODE c \<in> fixed_messages"
  "UNRECOGNISED_MESSAGE \<in> fixed_messages" "CANCELLED_MESSAGE \<in> fixed_messages"
  by (simp_all add: fixed_messages_def)

section \<open>Properties\<close>

text \<open>C6. Whatever the daemon answers, both reply normalizers return one envelope that fills
  exactly the fields its status allows; it satisfies the envelope schema unless its error code is
  the function value that an inherited property name yields.\<close>

theorem normalizers_conform:
  "presence_ok (invocationToResult raw) \<and> presence_ok (callResponseToResult raw)
   \<and> (conforms JObj (invocationToResult raw) \<or> function_error (invocationToResult raw))
   \<and> (conforms JObj (callResponseToResult raw) \<or> function_error (callResponseToResult raw))"
proof -
  note inv = well_built_invocationToResult [of raw] and call = well_built_callResponseToResult [of raw]
  have "presence_ok (invocationToResult raw)" "presence_ok (callResponseToResult raw)"
    using inv call by (simp_all add: well_built_def)
  moreover have "conforms JObj (invocationToResult raw) \<or> function_error (invocationToResult raw)"
    "conforms JObj (callResponseToResult raw) \<or> function_error (callResponseToResult raw)"
    using inv call well_built_conforms [where enc = "\<lambda>x. x"] by blast+
  ultimately show ?thesis by blast
qed

text \<open>C31. The two normalizers agree on every reply whose state token is known or that carries an
  error signal; on the rest, \<open>invocation.get\<close> is always the unrecognised-state error.\<close>

theorem normalizers_agree:
  assumes "asRecord raw = Some ob"
  shows "if state_kind_of ob \<noteq> None \<or> hasErrorSignal ob
         then callResponseToResult raw = invocationToResult raw
         else invocationToResult raw
                = errored (Code internal) (Some UNRECOGNISED_MESSAGE) (extractAuditRef (Some ob))"
  using assms by (cases "state_kind_of ob") (auto simp: callResponseToResult_def invocationToResult_def)

theorem normalizers_agree_witness:
  "callResponseToResult (JObj [(''state'', JStr ''Timed-Out'')])
     = invocationToResult (JObj [(''state'', JStr ''Timed-Out'')])"
proof -
  have k: "state_kind_of [(''state'', JStr ''Timed-Out'')] \<noteq> None"
    by code_simp
  show ?thesis
    using normalizers_agree [of "JObj [(''state'', JStr ''Timed-Out'')]" "[(''state'', JStr ''Timed-Out'')]"] k
    by simp
qed

text \<open>No daemon payload reaches an error message: every message of a normalized reply or of a
  thrown fault is one of the fixed phrases.\<close>

theorem messages_fixed:
  "set_option (error_message (invocationToResult raw)) \<subseteq> fixed_messages
   \<and> set_option (error_message (callResponseToResult raw)) \<subseteq> fixed_messages
   \<and> set_option (error_message (faultToResult err aref)) \<subseteq> fixed_messages"
  by (intro conjI)
     (auto simp: invocationToResult_def callResponseToResult_def faultToResult_def Let_def
                 message_failureResult elim!: message_of_fixed split: reply_splits)

text \<open>An approval summary is the daemon's text, copied: any string can appear there.\<close>

theorem approval_summary_echoed:
  "\<exists>raw. r_status (invocationToResult raw) = AwaitingApproval
       \<and> map_option ap_summary (r_approval (invocationToResult raw)) = Some text"
proof -
  let ?raw = "JObj [(''state'', JStr ''held''), (''summary'', JStr text)]"
  have "state_kind_of [(''state'', JStr ''held''), (''summary'', JStr text)] = Some KAwaiting"
    by (simp add: state_kind_of_def stateToken_def) code_simp
  then have "r_status (invocationToResult ?raw) = AwaitingApproval
       \<and> map_option ap_summary (r_approval (invocationToResult ?raw)) = Some text"
    by (simp add: invocationToResult_def awaitingApproval_def approvalOf_def Let_def)
  then show ?thesis by blast
qed

text \<open>The shapes in which a daemon fault carries its string code.\<close>

definition code_positions :: "string \<Rightarrow> jsnum \<Rightarrow> json \<Rightarrow> json list" where
  "code_positions raw n m =
     [JStr raw,
      JObj [(''ok'', JBool False), (''error'', JStr raw)],
      JObj [(''ok'', JBool False), (''error'', JObj [(''code'', JStr raw), (''message'', m)])],
      JObj [(''code'', JNum n), (''message'', m), (''data'', JStr raw)],
      JObj [(''code'', JNum n), (''message'', m), (''data'', JObj [(''code'', JStr raw)])]]"

lemma code_positions_extract:
  "payload \<in> set (code_positions raw n m) \<Longrightarrow> extractDaemonCode payload = Some raw"
  by (auto simp: code_positions_def)

text \<open>A daemon code of the vocabulary is recognised in every spelling and in every position the
  wire can carry it (a bare string, \<open>error\<close>, \<open>error.code\<close>, \<open>data\<close>, \<open>data.code\<close>), and the envelope of
  the rejected call is a denial exactly when the code is a governance outcome.\<close>

theorem daemon_code_spelling:
  assumes "map_of DAEMON_CODE_TO_ERROR k = Some c" and "normaliseToken raw = k"
    and "payload \<in> set (code_positions raw n m)"
  shows "mapDaemonError payload = Code c
         \<and> r_status (faultToResult (TransportError rpc msg payload) aref)
           = (if c \<in> set DENIAL_CODES then Denied else Error)"
proof -
  have "normaliseToken raw \<noteq> ''constructor''"
    using assms(1,2) daemon_codes.constructor_absent by auto
  with assms have m: "mapDaemonError payload = Code c"
    by (simp add: mapDaemonError_cases code_positions_extract)
  have "payload \<noteq> JUndef" "payload \<noteq> JNull"
    using assms(3) by (auto simp: code_positions_def)
  then have "nullish (readProp (thrown_value (TransportError rpc msg payload)) ''cause'') v = payload" for v
    by (cases payload) (simp_all add: readProp_def)
  with m show ?thesis
    by (simp add: faultToResult_def readCode_def readProp_def transport_code_name_def
                  failureResult_Code denied_def errored_def)
qed

theorem daemon_code_spelling_witness:
  "r_status (faultToResult (TransportError rpc ''x'' (JObj [(''code'', JNum (Fin 0)), (''message'', JNull),
       (''data'', JObj [(''code'', JStr ''Policy.Denied'')])])) EMPTY_AUDIT_REF :: obj tool_result) = Denied"
proof -
  have k: "map_of DAEMON_CODE_TO_ERROR ''policy_denied'' = Some policy_denied"
    by (simp add: DAEMON_CODE_TO_ERROR_def)
  have r: "normaliseToken ''Policy.Denied'' = ''policy_denied''"
    by code_simp
  have p: "JObj [(''code'', JNum (Fin 0)), (''message'', JNull), (''data'', JObj [(''code'', JStr ''Policy.Denied'')])]
      \<in> set (code_positions ''Policy.Denied'' (Fin 0) JNull)"
    by (simp add: code_positions_def)
  show ?thesis
    by (rule trans [OF conjunct2 [OF daemon_code_spelling [OF k r p]]]) (simp add: DENIAL_CODES_def)
qed

text \<open>C30. \<open>mapDaemonError\<close> yields a code of the taxonomy for every fault except one whose code is
  spelled \<open>constructor\<close>: that name is inherited by the table, the lookup returns a function, and the
  envelope built from it breaks the schema.\<close>

theorem mapDaemonError_closed_iff:
  "((\<exists>c. mapDaemonError e = Code c)
     \<longleftrightarrow> (case extractDaemonCode e of None \<Rightarrow> True | Some raw \<Rightarrow> normaliseToken raw \<noteq> ''constructor''))
   \<and> \<not> conforms JObj (callResponseToResult (JObj [(''error'', JStr ''Constructor'')]))"
proof
  show "(\<exists>c. mapDaemonError e = Code c)
     \<longleftrightarrow> (case extractDaemonCode e of None \<Rightarrow> True | Some raw \<Rightarrow> normaliseToken raw \<noteq> ''constructor'')"
    by (simp add: mapDaemonError_cases split: option.split)
  have "normaliseToken ''Constructor'' = ''constructor''"
    by code_simp
  then show "\<not> conforms JObj (callResponseToResult (JObj [(''error'', JStr ''Constructor'')]))"
    by (simp add: callResponseToResult_def state_kind_of_def stateToken_def hasErrorSignal_def
                  failureCode_def mapDaemonError_cases failureResult_Function Let_def
                  not_conforms_function)
qed

end
