(* ===== verification/Await.thy ===== *)
theory Await
  imports Invocation
begin

text \<open>
  The injected dependencies of the handlers (packages/registry/src/handlers/deps.ts) and the
  deferred-result resolver \<open>mx_await_result\<close> (await-result.ts). Its poll loop is a partial function:
  \<open>None\<close> means that it never returns. The locale states what the loop needs of the clock, of the
  sleep and of the daemon call; it is interpreted with the default seams of the source.
\<close>

section \<open>Dependencies\<close>

record 'd handler_deps =
  d_daemon :: "'d daemon_call"
  d_sleep :: "(rat \<Rightarrow> 'd host \<Rightarrow> 'd host) option"
  d_now :: "('d host \<Rightarrow> rat) option"
  d_pollIntervalMs :: "jsnum option"

record 'd room_scoped_deps = "'d handler_deps" +
  d_room :: "string option"

text \<open>\<open>SchemaValidator.compile\<close>: the message of the error it throws, or the compiled validator.\<close>

type_synonym schema_validator = "json \<Rightarrow> string + (json \<Rightarrow> bool)"

record 'd delegate_deps = "'d room_scoped_deps" +
  d_validator :: "schema_validator option"

definition now_of :: "('d, 'z) handler_deps_scheme \<Rightarrow> 'd host \<Rightarrow> rat" where
  "now_of deps = or_default (d_now deps) date_now"

definition sleep_of :: "('d, 'z) handler_deps_scheme \<Rightarrow> rat \<Rightarrow> 'd host \<Rightarrow> 'd host" where
  "sleep_of deps = or_default (d_sleep deps) realSleep"

section \<open>The resolver\<close>

definition DEFAULT_POLL_INTERVAL_MS :: rat where
  "DEFAULT_POLL_INTERVAL_MS = 200"

definition MIN_POLL_INTERVAL_MS :: rat where
  "MIN_POLL_INTERVAL_MS = 10"

definition MAX_POLL_INTERVAL_MS :: rat where
  "MAX_POLL_INTERVAL_MS = 2000"

definition handleAuditRef :: "string \<Rightarrow> audit_ref" where
  "handleAuditRef hdl =
     \<lparr>ref_invocation_id = Some hdl, ref_request_id = None, ref_room = None, ref_event_id = None\<rparr>"

definition probe :: "string \<Rightarrow> ('d, 'z) handler_deps_scheme \<Rightarrow> ('d, obj tool_result) io" where
  "probe hdl deps h =
     (case d_daemon deps ''invocation.get'' (JObj [(''invocation_id'', JStr hdl)]) h of
        (Inr raw, h') \<Rightarrow> (invocationToResult raw, h')
      | (Inl err, h') \<Rightarrow> (faultToResult err (handleAuditRef hdl), h'))"

definition normaliseWaitMs :: "jsnum option \<Rightarrow> rat" where
  "normaliseWaitMs w = (case w of Some (Fin r) \<Rightarrow> if 0 < r then r else 0 | _ \<Rightarrow> 0)"

definition resolvePollInterval :: "jsnum option \<Rightarrow> rat" where
  "resolvePollInterval ms =
     (let v = (case ms of Some (Fin r) \<Rightarrow> r | _ \<Rightarrow> DEFAULT_POLL_INTERVAL_MS) in
      min MAX_POLL_INTERVAL_MS (max MIN_POLL_INTERVAL_MS v))"

text \<open>The \<open>for (;;)\<close> loop.\<close>

partial_function (option) await_loop ::
  "('d, 'z) handler_deps_scheme \<Rightarrow> string \<Rightarrow> rat \<Rightarrow> rat \<Rightarrow> obj tool_result \<Rightarrow> 'd host
     \<Rightarrow> (obj tool_result \<times> 'd host) option" where
  "await_loop deps hdl interval deadline current h =
     (let remaining = deadline - now_of deps h in
      if remaining \<le> 0 then Some (current, h)
      else (let h1 = sleep_of deps (min interval remaining) h;
                current' = fst (probe hdl deps h1);
                h2 = snd (probe hdl deps h1) in
            if isTerminal (r_status current') then Some (current', h2)
            else await_loop deps hdl interval deadline current' h2))"

definition mxAwaitResult ::
  "string \<Rightarrow> jsnum option \<Rightarrow> ('d, 'z) handler_deps_scheme \<Rightarrow> 'd host
     \<Rightarrow> (obj tool_result \<times> 'd host) option" where
  "mxAwaitResult hdl wait_ms deps h =
     (let (current, h1) = probe hdl deps h in
      if isTerminal (r_status current) then Some (current, h1)
      else (let waitMs = normaliseWaitMs wait_ms in
            if waitMs \<le> 0 then Some (current, h1)
            else await_loop deps hdl (resolvePollInterval (d_pollIntervalMs deps))
                   (now_of deps h1 + waitMs) current h1))"

lemma probe_well_built: "well_built (fst (probe hdl deps h))"
  by (simp add: probe_def split: prod.split sum.split)

lemma resolvePollInterval_bounds: "10 \<le> resolvePollInterval ms" "resolvePollInterval ms \<le> 2000"
  by (simp_all add: resolvePollInterval_def Let_def MIN_POLL_INTERVAL_MS_def MAX_POLL_INTERVAL_MS_def)

section \<open>The clock contract\<close>

text \<open>
  Sleeping takes at least the requested time, a daemon call does not turn the clock back, and a
  ghost counter ticks once per daemon call.
\<close>

locale polling_clock =
  fixes deps :: "('d, 'z) handler_deps_scheme" and calls :: "'d host \<Rightarrow> nat"
  assumes sleep_advances: "0 \<le> ms \<Longrightarrow> now_of deps h + ms \<le> now_of deps (sleep_of deps ms h)"
    and call_monotone: "now_of deps h \<le> now_of deps (snd (d_daemon deps m p h))"
    and sleep_calls: "calls (sleep_of deps ms h) = calls h"
    and call_counts: "calls (snd (d_daemon deps m p h)) = Suc (calls h)"
begin

lemma probe_host: "snd (probe hdl deps h) = snd (d_daemon deps ''invocation.get'' (JObj [(''invocation_id'', JStr hdl)]) h)"
  by (simp add: probe_def split: prod.split sum.split)

lemma loop_returns:
  assumes "0 < interval" and "deadline - now_of deps h \<le> of_nat n * interval" and "well_built current"
    and "\<not> isTerminal (r_status current)"
  shows "\<exists>r h'. await_loop deps hdl interval deadline current h = Some (r, h')
            \<and> calls h' \<le> calls h + n \<and> well_built r
            \<and> (isTerminal (r_status r) \<or> deadline \<le> now_of deps h')"
  using assms(2-)
proof (induction n arbitrary: current h)
  case 0
  then show ?case by (subst await_loop.simps) (simp add: Let_def)
next
  case (Suc n)
  let ?rem = "deadline - now_of deps h"
  let ?h1 = "sleep_of deps (min interval ?rem) h"
  let ?c = "fst (probe hdl deps ?h1)" and ?h2 = "snd (probe hdl deps ?h1)"
  show ?case
  proof (cases "?rem \<le> 0")
    case True
    with Suc.prems show ?thesis by (subst await_loop.simps) (simp add: Let_def)
  next
    case False
    have step: "await_loop deps hdl interval deadline current h =
        (if isTerminal (r_status ?c) then Some (?c, ?h2)
         else await_loop deps hdl interval deadline ?c ?h2)"
      using False by (subst await_loop.simps) (simp add: Let_def)
    have count: "calls ?h2 = Suc (calls h)"
      by (simp add: probe_host call_counts sleep_calls)
    have "now_of deps h + min interval ?rem \<le> now_of deps ?h1"
      using False assms(1) by (intro sleep_advances) simp
    also have "\<dots> \<le> now_of deps ?h2"
      by (simp add: probe_host call_monotone)
    finally have slept: "now_of deps h + min interval ?rem \<le> now_of deps ?h2" .
    have "0 \<le> of_nat n * interval" using assms(1) by simp
    with slept Suc.prems(1) have "deadline - now_of deps ?h2 \<le> of_nat n * interval"
      by (cases "interval \<le> ?rem") (simp_all add: distrib_right)
    then show ?thesis
      using Suc.IH [of ?h2 ?c] probe_well_built [of hdl deps ?h1] step count
      by (cases "probe hdl deps ?h1"; cases "isTerminal (r_status ?c)") auto
  qed
qed

text \<open>The number of polls a wait of \<open>w\<close> milliseconds allows.\<close>

lemma await_returns:
  "\<exists>r h'. mxAwaitResult hdl wait_ms deps h = Some (r, h') \<and> well_built r
        \<and> calls h' \<le> calls h + 1 + nat \<lceil>normaliseWaitMs wait_ms / resolvePollInterval (d_pollIntervalMs deps)\<rceil>
        \<and> (isTerminal (r_status r)
           \<or> now_of deps (snd (probe hdl deps h)) + normaliseWaitMs wait_ms \<le> now_of deps h')"
proof -
  let ?w = "normaliseWaitMs wait_ms" and ?i = "resolvePollInterval (d_pollIntervalMs deps)"
  let ?c = "fst (probe hdl deps h)" and ?h1 = "snd (probe hdl deps h)"
  have i: "0 < ?i" using resolvePollInterval_bounds(1) [of "d_pollIntervalMs deps"] by simp
  have w: "0 \<le> ?w" by (simp add: normaliseWaitMs_def split: option.split jsnum.split)
  have first: "calls ?h1 = Suc (calls h)" by (simp add: probe_host call_counts)
  have eq: "mxAwaitResult hdl wait_ms deps h =
      (if isTerminal (r_status ?c) \<or> ?w \<le> 0 then Some (?c, ?h1)
       else await_loop deps hdl ?i (now_of deps ?h1 + ?w) ?c ?h1)"
    by (simp add: mxAwaitResult_def split_beta Let_def)
  show ?thesis
  proof (cases "isTerminal (r_status ?c) \<or> ?w \<le> 0")
    case True
    with w eq first probe_well_built [of hdl deps h] show ?thesis
      by (cases "probe hdl deps h") auto
  next
    case False
    have "?w \<le> of_int \<lceil>?w / ?i\<rceil> * ?i"
      using i by (simp add: pos_divide_le_eq [symmetric])
    also have "\<lceil>?w / ?i\<rceil> = int (nat \<lceil>?w / ?i\<rceil>)"
    proof -
      have "-1 < ?w / ?i" using divide_nonneg_pos [OF w i] by linarith
      then show ?thesis by simp
    qed
    finally have "?w \<le> of_nat (nat \<lceil>?w / ?i\<rceil>) * ?i"
      by (simp only: of_int_of_nat_eq)
    then have "now_of deps ?h1 + ?w - now_of deps ?h1 \<le> of_nat (nat \<lceil>?w / ?i\<rceil>) * ?i"
      by simp
    from loop_returns [OF i this probe_well_built] False first eq show ?thesis by fastforce
  qed
qed

end

section \<open>The default seams\<close>

text \<open>
  A daemon as a service: its reply and its next state are a function of its state, of the request
  and of the time, and answering takes some time. Logging records each request.
\<close>

type_synonym 'd service = "'d \<Rightarrow> rat \<Rightarrow> string \<Rightarrow> json \<Rightarrow> (thrown + json) \<times> 'd \<times> rat"

definition serve :: "'d service \<Rightarrow> 'd daemon_call" where
  "serve f m p h =
     (case f (peer h) (clock h) m p of
        (reply, d', latency) \<Rightarrow> (reply, h\<lparr>peer := d', clock := clock h + max 0 latency\<rparr>))"

type_synonym request = "string \<times> json"

definition logging :: "'d service \<Rightarrow> ('d \<times> request list) service" where
  "logging f s t m p =
     (case f (fst s) t m p of (reply, d', latency) \<Rightarrow> (reply, (d', snd s @ [(m, p)]), latency))"

definition requests :: "('d \<times> request list) host \<Rightarrow> request list" where
  "requests h = snd (peer h)"

lemma serve_logging [simp]:
  "requests (snd (serve (logging f) m p h)) = requests h @ [(m, p)]"
  by (simp add: serve_def logging_def requests_def split: prod.split)

lemma serve_clock: "clock h \<le> clock (snd (serve f m p h))"
  by (simp add: serve_def split: prod.split)

definition default_deps :: "'d service \<Rightarrow> jsnum option \<Rightarrow> 'd handler_deps" where
  "default_deps f interval =
     \<lparr>d_daemon = serve f, d_sleep = None, d_now = None, d_pollIntervalMs = interval\<rparr>"

lemma default_deps_seams [simp]:
  "now_of (default_deps f interval) = clock" "sleep_of (default_deps f interval) = realSleep"
  "d_daemon (default_deps f interval) = serve f" "d_pollIntervalMs (default_deps f interval) = interval"
  by (auto simp: default_deps_def now_of_def sleep_of_def date_now_def fun_eq_iff)

interpretation default_clock: polling_clock "default_deps (logging f) interval" "\<lambda>h. length (requests h)"
proof
  fix ms :: rat and h :: "('a \<times> request list) host" and m p
  let ?d = "default_deps (logging f) interval"
  show "0 \<le> ms \<Longrightarrow> now_of ?d h + ms \<le> now_of ?d (sleep_of ?d ms h)"
    by (simp add: realSleep_def)
  show "now_of ?d h \<le> now_of ?d (snd (d_daemon ?d m p h))"
    by (simp add: serve_clock)
  show "length (requests (sleep_of ?d ms h)) = length (requests h)"
    by (simp add: realSleep_def requests_def)
  show "length (requests (snd (d_daemon ?d m p h))) = Suc (length (requests h))"
    by simp
qed

text \<open>C24. With the default clock and sleep, \<open>mx_await_result\<close> returns for every daemon; it polls at
  most once plus once per poll interval of the wait, and a result that is still pending was
  returned no earlier than the deadline.\<close>

theorem await_terminates:
  fixes f :: "'d service" and interval :: "jsnum option"
  defines "deps \<equiv> default_deps (logging f) interval"
  shows "\<exists>r h'. mxAwaitResult hdl wait_ms deps h = Some (r, h')
           \<and> length (requests h') \<le> length (requests h) + 1
                + nat \<lceil>normaliseWaitMs wait_ms / resolvePollInterval interval\<rceil>
           \<and> (isTerminal (r_status r)
              \<or> clock (snd (probe hdl deps h)) + normaliseWaitMs wait_ms \<le> clock h')"
  using default_clock.await_returns [of hdl wait_ms f interval h]
  unfolding deps_def by auto

text \<open>Waiting never invents a failure: a result the resolver returns is one the daemon's last
  answer normalizes to, and when the wait runs out the pending envelope comes back with its handle
  and no error.\<close>

theorem await_expiry_pending:
  assumes "mxAwaitResult hdl wait_ms (default_deps (logging f) interval) h = Some (r, h')"
    and "\<not> isTerminal (r_status r)"
  shows "r_error r = None \<and> r_handle r \<noteq> None"
proof -
  have "well_built r"
    using default_clock.await_returns [of hdl wait_ms f interval h] assms(1) by auto
  with assms(2) show ?thesis
    by (auto simp: well_built_def presence_ok_def isTerminal_def split: tool_status.splits)
qed

text \<open>A daemon that keeps reporting a running invocation, asked to wait 15 ms.\<close>

definition busy_service :: "unit service" where
  "busy_service d t m p = (Inr (JObj [(''state'', JStr ''executing''), (''id'', JStr ''inv_1'')]), (), 0)"

definition idle_host :: "'d \<Rightarrow> 'd host" where
  "idle_host d = \<lparr>clock = 0, uuids = (\<lambda>_. ''uuid''), drawn = 0, peer = d\<rparr>"

lemma busy_reply:
  "invocationToResult (JObj [(''state'', JStr ''executing''), (''id'', JStr ''inv_1'')])
     = running ''inv_1'' (handleAuditRef ''inv_1'')"
  by code_simp

lemma busy_probe:
  "probe ''inv_1'' (default_deps (logging busy_service) (Some (Fin 10))) h =
     (running ''inv_1'' (handleAuditRef ''inv_1''), snd (serve (logging busy_service) ''invocation.get''
        (JObj [(''invocation_id'', JStr ''inv_1'')]) h))"
  by (simp add: probe_def serve_def logging_def busy_service_def busy_reply)

definition busy_tick :: "rat \<Rightarrow> (unit \<times> request list) host \<Rightarrow> (unit \<times> request list) host" where
  "busy_tick ms h = snd (serve (logging busy_service) ''invocation.get''
     (JObj [(''invocation_id'', JStr ''inv_1'')]) (realSleep ms h))"

lemma busy_tick_clock [simp]: "clock (busy_tick ms h) = clock h + max 0 ms"
  by (simp add: busy_tick_def serve_def logging_def busy_service_def realSleep_def)

lemma busy_step:
  "await_loop (default_deps (logging busy_service) (Some (Fin 10))) ''inv_1'' 10 dl c h =
     (if dl \<le> clock h then Some (c, h)
      else await_loop (default_deps (logging busy_service) (Some (Fin 10))) ''inv_1'' 10 dl
             (running ''inv_1'' (handleAuditRef ''inv_1'')) (busy_tick (min 10 (dl - clock h)) h))"
  by (subst await_loop.simps)
     (simp add: Let_def busy_probe busy_tick_def)

lemma busy_await:
  "map_option fst (mxAwaitResult ''inv_1'' (Some (Fin 15)) (default_deps (logging busy_service) (Some (Fin 10)))
     (idle_host ((), []))) = Some (running ''inv_1'' (handleAuditRef ''inv_1''))"
proof -
  let ?h = "snd (serve (logging busy_service) ''invocation.get'' (JObj [(''invocation_id'', JStr ''inv_1'')])
    (idle_host ((), [])))"
  have c: "clock ?h = 0"
    by (simp add: serve_def logging_def busy_service_def idle_host_def)
  then have "mxAwaitResult ''inv_1'' (Some (Fin 15)) (default_deps (logging busy_service) (Some (Fin 10)))
     (idle_host ((), [])) = await_loop (default_deps (logging busy_service) (Some (Fin 10))) ''inv_1'' 10 15
       (running ''inv_1'' (handleAuditRef ''inv_1'')) ?h"
    by (simp add: mxAwaitResult_def busy_probe normaliseWaitMs_def resolvePollInterval_def
        MIN_POLL_INTERVAL_MS_def MAX_POLL_INTERVAL_MS_def)
  with c show ?thesis by (simp add: busy_step)
qed

theorem await_expiry_pending_witness:
  "map_option (\<lambda>(r, h). r_error r = None \<and> r_handle r \<noteq> None)
     (mxAwaitResult ''inv_1'' (Some (Fin 15)) (default_deps (logging busy_service) (Some (Fin 10)))
        (idle_host ((), []))) = Some True"
proof -
  obtain r h' where eq: "mxAwaitResult ''inv_1'' (Some (Fin 15)) (default_deps (logging busy_service) (Some (Fin 10)))
        (idle_host ((), [])) = Some (r, h')" and r: "r = running ''inv_1'' (handleAuditRef ''inv_1'')"
    using busy_await by auto
  have "\<not> isTerminal (r_status r)" by (simp add: r)
  from await_expiry_pending [OF eq this] eq show ?thesis by simp
qed

end
