(* ===== verification/Registry.thy ===== *)
theory Registry
  imports Descriptors Guards Await
begin

text \<open>
  The registry loader and its security invariants (packages/registry/src/descriptor.ts,
  security.ts, registry.ts): the verb-name rule, the authority verbs cognition must never be able
  to name, the walk that collects every property a schema declares, and \<open>loadRegistry\<close>.
\<close>

section \<open>Names\<close>

definition name_group :: re where
  "name_group = rplus (RCls is_lower_alnum)"

definition TOOL_NAME_RE :: re where
  "TOOL_NAME_RE = rseqs [rlit ''mx_'', name_group, RStar (RSeq (rlit ''_'') name_group)]"

definition MODEL_FACING_ALLOWLIST :: "string list" where
  "MODEL_FACING_ALLOWLIST =
     [''mx_find_agents'', ''mx_describe_agent'', ''mx_delegate_tool'', ''mx_run_command'',
      ''mx_await_result'', ''mx_share_context'', ''mx_get_context'', ''mx_cancel'',
      ''mx_workspace_status'', ''mx_create_task'', ''mx_update_task'', ''mx_list_tasks'',
      ''mx_dispatch_task'']"

definition FORBIDDEN_AUTHORITY_PREFIXES :: "string list" where
  "FORBIDDEN_AUTHORITY_PREFIXES =
     [''trust.'', ''policy.'', ''auth.'', ''device.'', ''cross_signing.'', ''recovery.'', ''daemon.'']"

definition FORBIDDEN_AUTHORITY_VERBS :: "string list" where
  "FORBIDDEN_AUTHORITY_VERBS = [''approval.decide'']"

definition isForbiddenAuthorityVerb :: "string \<Rightarrow> bool" where
  "isForbiddenAuthorityVerb name =
     (name \<in> set FORBIDDEN_AUTHORITY_VERBS
      \<or> list_ex (\<lambda>prefix. startsWith name prefix) FORBIDDEN_AUTHORITY_PREFIXES)"

text \<open>Every name the rule accepts starts with \<open>mx_\<close>, so no authority verb is a legal name.\<close>

lemma tool_name_prefix: "matches TOOL_NAME_RE name \<Longrightarrow> startsWith name ''mx_''"
  by (auto simp: matches_lang TOOL_NAME_RE_def startsWith_def)

lemma tool_name_not_authority: "matches TOOL_NAME_RE name \<Longrightarrow> \<not> isForbiddenAuthorityVerb name"
  by (drule tool_name_prefix)
     (auto simp: isForbiddenAuthorityVerb_def FORBIDDEN_AUTHORITY_VERBS_def
        FORBIDDEN_AUTHORITY_PREFIXES_def startsWith_def prefix_def)

section \<open>Property names a schema declares\<close>

text \<open>The publish-time copy of the toolbelt's key pattern (security.ts), with the \<open>i\<close> flag.\<close>

definition REGISTRY_CREDENTIAL_KEY_RE :: re where
  "REGISTRY_CREDENTIAL_KEY_RE =
     RAlt (rseqs [rany,
             ralts [rlit ''secret'', rlit ''password'', rlit ''passwd'',
               rseqs [rlit ''api'', ropt (one_of ''_-''), rlit ''key''],
               rseqs [rlit ''signing'', ropt (one_of ''_-''), rlit ''key''],
               rseqs [rlit ''private'', ropt (one_of ''_-''), rlit ''key''],
               rlit ''matrix_'', rlit ''mx_agent_'',
               rseqs [rlit ''gh'', ropt (one_of ''_-''), rlit ''token'']],
             rany])
          (rseqs [ropt (RSeq rany (one_of ''_-'')), rlit ''token''])"

fun object_entries :: "json \<Rightarrow> obj" where
  "object_entries (JObj ob) = ob"
| "object_entries _ = []"

fun array_items :: "json \<Rightarrow> json list" where
  "array_items (JArr xs) = xs"
| "array_items _ = []"

definition map_keywords :: "string list" where
  "map_keywords = [''patternProperties'', ''definitions'', ''$defs'']"

definition schema_keywords :: "string list" where
  "schema_keywords = [''items'', ''additionalProperties'', ''not'', ''if'', ''then'', ''else'']"

definition branch_keywords :: "string list" where
  "branch_keywords = [''allOf'', ''anyOf'', ''oneOf'']"

text \<open>The nodes visited after the entries of \<open>properties\<close>, in the order of the visits.\<close>

definition schema_children :: "obj \<Rightarrow> json list" where
  "schema_children ob =
     concat (map (\<lambda>key. map snd (object_entries (jget ob key))) map_keywords)
     @ map (jget ob) schema_keywords
     @ concat (map (\<lambda>key. array_items (jget ob key)) branch_keywords)"

lemma size_jget: "size (jget ob k) < size (JObj ob)"
  using size_jget_less [of ob k] by (cases "jget ob k = JUndef") auto

lemma size_entries: "(k', x) \<in> set (object_entries v) \<Longrightarrow> size x < size v"
  by (cases v) (auto dest: size_entry_less simp del: json.size)

lemma size_items: "x \<in> set (array_items v) \<Longrightarrow> size x < size v"
  by (cases v) (auto dest: size_item_less simp del: json.size)

lemma size_child: "x \<in> set (schema_children ob) \<Longrightarrow> size x < size (JObj ob)"
  by (auto simp: schema_children_def simp del: json.size
      intro: size_jget less_trans [OF size_entries size_jget] less_trans [OF size_items size_jget])

function (sequential) collectSchemaPropertyNames :: "json \<Rightarrow> string list" where
  "collectSchemaPropertyNames (JArr xs) = concat (map collectSchemaPropertyNames xs)"
| "collectSchemaPropertyNames (JObj ob) =
     concat (map (\<lambda>(key, child). key # collectSchemaPropertyNames child)
       (object_entries (jget ob ''properties'')))
     @ concat (map collectSchemaPropertyNames (schema_children ob))"
| "collectSchemaPropertyNames _ = []"
  by pat_completeness auto
termination
  by (relation "measure size")
     (auto simp del: json.size intro: size_item_less size_child less_trans [OF size_entries size_jget])

definition findCredentialShapedProperty :: "json \<Rightarrow> string option" where
  "findCredentialShapedProperty schema =
     List.find (\<lambda>name. matches REGISTRY_CREDENTIAL_KEY_RE (toLowerCase name))
       (collectSchemaPropertyNames schema)"

text \<open>The declarative reading: where a document declares a property.\<close>

inductive declares :: "json \<Rightarrow> string \<Rightarrow> bool" where
  here: "jget ob ''properties'' = JObj ps \<Longrightarrow> (k, x) \<in> set ps \<Longrightarrow> declares (JObj ob) k"
| below: "jget ob ''properties'' = JObj ps \<Longrightarrow> (k', x) \<in> set ps \<Longrightarrow> declares x k
     \<Longrightarrow> declares (JObj ob) k"
| in_map: "m \<in> set map_keywords \<Longrightarrow> jget ob m = JObj ps \<Longrightarrow> (k', x) \<in> set ps \<Longrightarrow> declares x k
     \<Longrightarrow> declares (JObj ob) k"
| in_schema: "m \<in> set schema_keywords \<Longrightarrow> declares (jget ob m) k \<Longrightarrow> declares (JObj ob) k"
| in_branch: "m \<in> set branch_keywords \<Longrightarrow> jget ob m = JArr xs \<Longrightarrow> x \<in> set xs \<Longrightarrow> declares x k
     \<Longrightarrow> declares (JObj ob) k"
| in_array: "x \<in> set xs \<Longrightarrow> declares x k \<Longrightarrow> declares (JArr xs) k"

lemma object_entries_iff: "p \<in> set (object_entries v) \<longleftrightarrow> (\<exists>ps. v = JObj ps \<and> p \<in> set ps)"
  by (cases v) auto

lemma array_items_iff: "x \<in> set (array_items v) \<longleftrightarrow> (\<exists>xs. v = JArr xs \<and> x \<in> set xs)"
  by (cases v) auto

lemma schema_children_iff:
  "x \<in> set (schema_children ob) \<longleftrightarrow>
     (\<exists>m \<in> set map_keywords. \<exists>ps k. jget ob m = JObj ps \<and> (k, x) \<in> set ps)
     \<or> (\<exists>m \<in> set schema_keywords. x = jget ob m)
     \<or> (\<exists>m \<in> set branch_keywords. \<exists>xs. jget ob m = JArr xs \<and> x \<in> set xs)"
proof -
  have entries: "x \<in> set (map snd (object_entries v)) \<longleftrightarrow> (\<exists>ps k. v = JObj ps \<and> (k, x) \<in> set ps)" for v
    by (cases v) force+
  show ?thesis
    unfolding schema_children_def set_append Un_iff set_concat set_map UN_iff image_image Bex_def
    using entries by (auto simp: array_items_iff)
qed

lemma declares_child: "x \<in> set (schema_children ob) \<Longrightarrow> declares x k \<Longrightarrow> declares (JObj ob) k"
  unfolding schema_children_iff by (blast intro: in_map in_schema in_branch)

lemma collect_sound: "k \<in> set (collectSchemaPropertyNames s) \<Longrightarrow> declares s k"
proof (induction s rule: collectSchemaPropertyNames.induct)
  case (1 xs)
  then show ?case by (auto intro: in_array)
next
  case (2 ob)
  from "2.prems" consider
      (own) key child where "(key, child) \<in> set (object_entries (jget ob ''properties''))"
        "k = key \<or> k \<in> set (collectSchemaPropertyNames child)"
    | (child) x where "x \<in> set (schema_children ob)" "k \<in> set (collectSchemaPropertyNames x)"
    by auto
  then show ?case
  proof cases
    case own
    then obtain ps where "jget ob ''properties'' = JObj ps" "(key, child) \<in> set ps"
      by (auto simp: object_entries_iff)
    with own "2.IH"(1) [OF own(1) refl] show ?thesis by (blast intro: here below)
  next
    case child
    with "2.IH"(2) show ?thesis by (blast intro: declares_child)
  qed
qed auto

lemma collect_complete: "declares s k \<Longrightarrow> k \<in> set (collectSchemaPropertyNames s)"
proof (induction rule: declares.induct)
  case (in_map m ob ps k' x k)
  then have "x \<in> set (schema_children ob)" unfolding schema_children_iff by blast
  with in_map.IH show ?case by auto
next
  case (in_schema m ob k)
  then have "jget ob m \<in> set (schema_children ob)" unfolding schema_children_iff by blast
  with in_schema.IH show ?case by auto
next
  case (in_branch m ob xs x k)
  then have "x \<in> set (schema_children ob)" unfolding schema_children_iff by blast
  with in_branch.IH show ?case by auto
qed (auto split: prod.splits)

lemma collect_iff: "k \<in> set (collectSchemaPropertyNames s) \<longleftrightarrow> declares s k"
  by (blast intro: collect_sound collect_complete)

lemma find_credential_None:
  "findCredentialShapedProperty s = None \<longleftrightarrow>
     (\<forall>k. declares s k \<longrightarrow> \<not> matches REGISTRY_CREDENTIAL_KEY_RE (toLowerCase k))"
  by (simp add: findCredentialShapedProperty_def find_None_iff collect_iff)

section \<open>The loader\<close>

text \<open>
  \<open>loadRegistry\<close> reads its descriptors as untyped values (the type annotation does not bind at
  run time). \<open>descriptor?.name\<close> is \<open>undefined\<close> on \<open>null\<close> and \<open>undefined\<close>. A fault carries the
  descriptor's name and the reason; the registry it returns is the insertion-ordered map
  \<open>byName\<close> and the list \<open>ordered\<close>.
\<close>

fun read_field :: "json \<Rightarrow> string \<Rightarrow> json" where
  "read_field (JObj ob) k = jget ob k"
| "read_field _ _ = JUndef"

definition is_space :: "char \<Rightarrow> bool" where
  "is_space c = (of_char c \<in> {9, 10, 11, 12, 13, 32 :: nat})"

definition js_trim :: "string \<Rightarrow> string" where
  "js_trim s = rev (dropWhile is_space (rev (dropWhile is_space s)))"

fun isPlainObject :: "json \<Rightarrow> bool" where
  "isPlainObject (JObj _) = True"
| "isPlainObject _ = False"

datatype fault_reason =
    bad_name | bad_description | bad_async_semantics | input_not_object | output_not_object
  | schema_invalid string string | duplicate_name | authority_verb | credential_property string

record tool_registry =
  by_name :: "(string \<times> json) list"
  ordered :: "json list"

definition descriptor_label :: "json \<Rightarrow> string" where
  "descriptor_label d =
     (case read_field d ''name'' of JStr s \<Rightarrow> if s \<noteq> [] then s else ''<unknown>'' | _ \<Rightarrow> ''<unknown>'')"

fun compile_fault :: "schema_validator \<Rightarrow> json \<Rightarrow> string list \<Rightarrow> fault_reason option" where
  "compile_fault validator d [] = None"
| "compile_fault validator d (field # rest) =
     (case validator (read_field d field) of
        Inl detail \<Rightarrow> Some (schema_invalid field detail)
      | Inr _ \<Rightarrow> compile_fault validator d rest)"

definition descriptor_fault :: "schema_validator \<Rightarrow> tool_registry \<Rightarrow> json \<Rightarrow> fault_reason option" where
  "descriptor_fault validator reg d =
     (case read_field d ''name'' of
        JStr name \<Rightarrow>
          if \<not> matches TOOL_NAME_RE name then Some bad_name
          else if (case read_field d ''description'' of JStr s \<Rightarrow> js_trim s = [] | _ \<Rightarrow> True)
          then Some bad_description
          else if read_field d ''async_semantics'' \<noteq> JStr ''sync''
                  \<and> read_field d ''async_semantics'' \<noteq> JStr ''deferred''
          then Some bad_async_semantics
          else if \<not> isPlainObject (read_field d ''input_schema'') then Some input_not_object
          else if \<not> isPlainObject (read_field d ''output_schema'') then Some output_not_object
          else (case compile_fault validator d [''input_schema'', ''output_schema''] of
              Some f \<Rightarrow> Some f
            | None \<Rightarrow>
                if map_of (by_name reg) name \<noteq> None then Some duplicate_name
                else if isForbiddenAuthorityVerb name then Some authority_verb
                else map_option credential_property
                       (findCredentialShapedProperty (read_field d ''input_schema'')))
      | _ \<Rightarrow> Some bad_name)"

definition descriptor_name :: "json \<Rightarrow> string" where
  "descriptor_name d = (case read_field d ''name'' of JStr s \<Rightarrow> s | _ \<Rightarrow> [])"

definition add_descriptor :: "json \<Rightarrow> tool_registry \<Rightarrow> tool_registry" where
  "add_descriptor d reg =
     \<lparr>by_name = by_name reg @ [(descriptor_name d, d)], ordered = ordered reg @ [d]\<rparr>"

fun load_from :: "schema_validator \<Rightarrow> json list \<Rightarrow> tool_registry
    \<Rightarrow> (string \<times> fault_reason) + tool_registry" where
  "load_from validator [] reg = Inr reg"
| "load_from validator (d # ds) reg =
     (case descriptor_fault validator reg d of
        Some f \<Rightarrow> Inl (descriptor_label d, f)
      | None \<Rightarrow> load_from validator ds (add_descriptor d reg))"

definition loadRegistry :: "json list \<Rightarrow> schema_validator
    \<Rightarrow> (string \<times> fault_reason) + tool_registry" where
  "loadRegistry descriptors validator = load_from validator descriptors \<lparr>by_name = [], ordered = []\<rparr>"

definition registry_get :: "tool_registry \<Rightarrow> string \<Rightarrow> json option" where
  "registry_get reg name = map_of (by_name reg) name"

definition registry_has :: "tool_registry \<Rightarrow> string \<Rightarrow> bool" where
  "registry_has reg name = (map_of (by_name reg) name \<noteq> None)"

definition registry_list :: "tool_registry \<Rightarrow> json list" where
  "registry_list reg = ordered reg"

text \<open>What a loaded registry guarantees of each descriptor, and of the whole.\<close>

definition publishable :: "schema_validator \<Rightarrow> json \<Rightarrow> bool" where
  "publishable validator d =
     (\<exists>name description input output.
        read_field d ''name'' = JStr name \<and> matches TOOL_NAME_RE name
        \<and> read_field d ''description'' = JStr description \<and> js_trim description \<noteq> []
        \<and> read_field d ''async_semantics'' \<in> {JStr ''sync'', JStr ''deferred''}
        \<and> read_field d ''input_schema'' = JObj input \<and> read_field d ''output_schema'' = JObj output
        \<and> (\<exists>v. validator (JObj input) = Inr v) \<and> (\<exists>v. validator (JObj output) = Inr v)
        \<and> \<not> isForbiddenAuthorityVerb name
        \<and> (\<forall>k. declares (JObj input) k \<longrightarrow> \<not> matches REGISTRY_CREDENTIAL_KEY_RE (toLowerCase k)))"

definition registry_ok :: "schema_validator \<Rightarrow> tool_registry \<Rightarrow> bool" where
  "registry_ok validator reg =
     (by_name reg = map (\<lambda>d. (descriptor_name d, d)) (ordered reg)
      \<and> distinct (map descriptor_name (ordered reg))
      \<and> (\<forall>d \<in> set (ordered reg). publishable validator d))"

lemma isPlainObject_iff: "isPlainObject v \<longleftrightarrow> (\<exists>ob. v = JObj ob)"
  by (cases v) auto

lemma compile_fault_None:
  "compile_fault validator d fs = None \<longleftrightarrow>
     (\<forall>field \<in> set fs. \<exists>v. validator (read_field d field) = Inr v)"
  by (induction fs) (auto split: sum.splits)

lemma fault_chain:
  "(if b then Some f else x) = None \<longleftrightarrow> \<not> b \<and> x = None"
  "(case x of Some f \<Rightarrow> Some f | None \<Rightarrow> y) = None \<longleftrightarrow> x = None \<and> y = None"
  by (auto split: option.splits)

lemma description_ok:
  "(case v of JStr s \<Rightarrow> js_trim s = [] | _ \<Rightarrow> True) \<longleftrightarrow> \<not> (\<exists>s. v = JStr s \<and> js_trim s \<noteq> [])"
  by (cases v) auto

lemma descriptor_fault_None:
  "descriptor_fault validator reg d = None \<longleftrightarrow>
     publishable validator d \<and> map_of (by_name reg) (descriptor_name d) = None"
proof (cases "read_field d ''name''")
  case (JStr name)
  then have name: "descriptor_name d = name" by (simp add: descriptor_name_def)
  show ?thesis
    unfolding descriptor_fault_def publishable_def JStr name json.case fault_chain description_ok
      isPlainObject_iff compile_fault_None find_credential_None option.map_disc_iff list.set
    by (simp only: insert_iff empty_iff json.inject ball_simps simp_thms de_Morgan_disj de_Morgan_conj) metis
qed (simp_all add: descriptor_fault_def publishable_def)

lemma registry_ok_add:
  assumes "registry_ok validator reg"
  shows "descriptor_fault validator reg d = None \<longleftrightarrow> registry_ok validator (add_descriptor d reg)"
  using assms
  by (auto simp: registry_ok_def descriptor_fault_None add_descriptor_def map_of_eq_None_iff
      image_image)

lemma add_descriptor_prefix_ok:
  "registry_ok validator (add_descriptor d reg) \<Longrightarrow> registry_ok validator reg"
  by (auto simp: registry_ok_def add_descriptor_def)

lemma load_from_iff:
  "registry_ok validator reg \<Longrightarrow>
     load_from validator ds reg = Inr reg' \<longleftrightarrow> registry_ok validator reg' \<and> ordered reg' = ordered reg @ ds"
proof (induction ds arbitrary: reg)
  case Nil
  then show ?case by (cases reg; cases reg') (auto simp: registry_ok_def)
next
  case (Cons d ds)
  show ?case
  proof (cases "descriptor_fault validator reg d")
    case None
    then have "registry_ok validator (add_descriptor d reg)"
      using registry_ok_add [OF Cons.prems] by simp
    from Cons.IH [OF this] None show ?thesis by (simp add: add_descriptor_def)
  next
    case (Some f)
    have "\<not> (registry_ok validator reg' \<and> ordered reg' = ordered reg @ d # ds)"
    proof
      assume "registry_ok validator reg' \<and> ordered reg' = ordered reg @ d # ds"
      then have "registry_ok validator (add_descriptor d reg)"
        using Cons.prems by (auto simp: registry_ok_def add_descriptor_def)
      with Some registry_ok_add [OF Cons.prems, of d] show False by simp
    qed
    with Some show ?thesis by simp
  qed
qed

lemma registry_ok_empty: "registry_ok validator \<lparr>by_name = [], ordered = []\<rparr>"
  by (simp add: registry_ok_def)

lemma loadRegistry_iff:
  "loadRegistry ds validator = Inr reg \<longleftrightarrow>
     registry_list reg = ds \<and> by_name reg = map (\<lambda>d. (descriptor_name d, d)) ds
     \<and> distinct (map descriptor_name ds) \<and> (\<forall>d \<in> set ds. publishable validator d)"
  using load_from_iff [OF registry_ok_empty, of validator ds reg]
  by (auto simp: loadRegistry_def registry_list_def registry_ok_def)


lemma allowlist_distinct: "distinct MODEL_FACING_ALLOWLIST"
  by code_simp

lemma allowlist_not_authority: "name \<in> set MODEL_FACING_ALLOWLIST \<Longrightarrow> \<not> isForbiddenAuthorityVerb name"
proof -
  have "list_all (\<lambda>name. \<not> isForbiddenAuthorityVerb name) MODEL_FACING_ALLOWLIST" by code_simp
  then show "name \<in> set MODEL_FACING_ALLOWLIST \<Longrightarrow> \<not> isForbiddenAuthorityVerb name"
    by (simp add: list_all_iff)
qed

lemma no_pattern_drift: "REGISTRY_CREDENTIAL_KEY_RE = CREDENTIAL_KEY_RE"
  by (simp only: REGISTRY_CREDENTIAL_KEY_RE_def CREDENTIAL_KEY_RE_def credential_key_words_def sep_opt_def)

lemma canonical_names: "map descriptor_name CANONICAL_TOOLS = MODEL_FACING_ALLOWLIST"
  by code_simp

definition accept_all :: schema_validator where
  "accept_all schema = Inr (\<lambda>_. True)"

definition empty_registry :: tool_registry where
  "empty_registry = \<lparr>by_name = [], ordered = []\<rparr>"

lemma canonical_faults:
  "list_all (\<lambda>d. descriptor_fault accept_all empty_registry d = None) CANONICAL_TOOLS"
  by code_simp

lemma canonical_publishable: "d \<in> set CANONICAL_TOOLS \<Longrightarrow> publishable accept_all d"
  using canonical_faults by (simp add: list_all_iff descriptor_fault_None)

lemma publishable_validator:
  assumes "publishable v d"
    and "\<forall>field \<in> {''input_schema'', ''output_schema''}. \<exists>c. validator (read_field d field) = Inr c"
  shows "publishable validator d"
  using assms unfolding publishable_def by (simp only: ball_simps) metis

text \<open>
  The canonical registry always loads. With any schema validator that compiles the input and
  output schemas of the thirteen canonical descriptors, \<open>loadRegistry\<close> on \<open>CANONICAL_TOOLS\<close>
  returns a registry; it answers to exactly the names of the model-facing allowlist, and none of
  them is an authority verb.
\<close>

theorem canonical_registry_loads:
  assumes "\<forall>d \<in> set CANONICAL_TOOLS. \<forall>field \<in> {''input_schema'', ''output_schema''}.
             \<exists>c. validator (read_field d field) = Inr c"
  shows "\<exists>reg. loadRegistry CANONICAL_TOOLS validator = Inr reg
           \<and> (\<forall>name. registry_has reg name \<longleftrightarrow> name \<in> set MODEL_FACING_ALLOWLIST)
           \<and> (\<forall>name. registry_has reg name \<longrightarrow> \<not> isForbiddenAuthorityVerb name)"
proof -
  define reg where
    "reg = \<lparr>by_name = map (\<lambda>d. (descriptor_name d, d)) CANONICAL_TOOLS, ordered = CANONICAL_TOOLS\<rparr>"
  have names: "fst ` set (by_name reg) = set MODEL_FACING_ALLOWLIST"
    unfolding canonical_names [symmetric] by (simp add: reg_def image_image)
  have "loadRegistry CANONICAL_TOOLS validator = Inr reg"
    unfolding loadRegistry_iff using assms canonical_publishable publishable_validator
    by (simp add: reg_def registry_list_def canonical_names allowlist_distinct) blast
  moreover have has: "registry_has reg name \<longleftrightarrow> name \<in> set MODEL_FACING_ALLOWLIST" for name
    unfolding names [symmetric] registry_has_def by (simp add: map_of_eq_None_iff)
  ultimately show ?thesis using allowlist_not_authority by blast
qed

theorem canonical_registry_loads_witness:
  "\<exists>reg. loadRegistry CANONICAL_TOOLS accept_all = Inr reg \<and> registry_has reg ''mx_cancel''
     \<and> \<not> registry_has reg ''approval.decide''"
proof -
  have "''mx_cancel'' \<in> set MODEL_FACING_ALLOWLIST" "''approval.decide'' \<notin> set MODEL_FACING_ALLOWLIST"
    by code_simp+
  moreover have "\<forall>d \<in> set CANONICAL_TOOLS. \<forall>field \<in> {''input_schema'', ''output_schema''}.
      \<exists>c. accept_all (read_field d field) = Inr c"
    by (simp add: accept_all_def)
  ultimately show ?thesis using canonical_registry_loads [of accept_all] by metis
qed

end
