(* ===== verification/Cli.thy ===== *)
theory Cli
  imports Ipc Registry
begin

text \<open>
  The one-shot CLI transport (packages/toolbelt/src/cli/): the environment a child process is given
  (env.ts), the translation of a method to an argument vector (method-map.ts), and the client that
  runs the binary once per call and normalises what it prints (client.ts). A child process is the
  sequence of events Node reports for it.
\<close>

section \<open>The child's environment\<close>

definition ENV_DENY_PREFIXES :: "string list" where
  "ENV_DENY_PREFIXES = [''MATRIX_'', ''MX_AGENT_'']"

definition ENV_DENY_SUFFIXES :: "string list" where
  "ENV_DENY_SUFFIXES = [''_TOKEN'', ''_API_KEY'', ''_SECRET'', ''_ACCESS_KEY'']"

definition ENV_DENY_EXACT :: "string list" where
  "ENV_DENY_EXACT = [''GH_TOKEN'']"

definition isDeniedEnvKey :: "string \<Rightarrow> bool" where
  "isDeniedEnvKey key =
     (list_ex (\<lambda>prefix. startsWith key prefix) ENV_DENY_PREFIXES
      \<or> toUpperCase key \<in> set ENV_DENY_EXACT
      \<or> list_ex (\<lambda>suffix. endsWith (toUpperCase key) suffix) ENV_DENY_SUFFIXES)"

definition BASE_ENV_ALLOW :: "string list" where
  "BASE_ENV_ALLOW =
     [''HOME'', ''PATH'', ''XDG_RUNTIME_DIR'', ''XDG_DATA_HOME'', ''TMPDIR'', ''LANG'', ''LC_ALL'', ''TERM'']"

type_synonym environment = "string \<Rightarrow> string option"

definition safeSubprocessEnv :: "environment \<Rightarrow> string list \<Rightarrow> (string \<times> string) list" where
  "safeSubprocessEnv source extraAllow =
     fold (\<lambda>key env. case source key of Some value \<Rightarrow> map_set key value env | None \<Rightarrow> env)
       (filter (\<lambda>key. \<not> isDeniedEnvKey key) (BASE_ENV_ALLOW @ extraAllow)) []"

section \<open>Argument vectors\<close>

fun split_on :: "char \<Rightarrow> string \<Rightarrow> string list" where
  "split_on c [] = [[]]"
| "split_on c (x # xs) =
     (if x = c then [] # split_on c xs
      else case split_on c xs of [] \<Rightarrow> [[x]] | p # ps \<Rightarrow> (x # p) # ps)"

record argv_plan =
  plan_argv :: "string list"
  plan_stdin :: "string option"

definition methodToArgv :: "js_runtime \<Rightarrow> string \<Rightarrow> json \<Rightarrow> thrown + argv_plan" where
  "methodToArgv js method params =
     (let parts = filter (\<lambda>p. p \<noteq> []) (split_on (CHR ''.'') method) in
      if parts = []
      then Inl (ipc_error transport_invalid_args (''empty or malformed RPC method: '' @ [CHR 0x27] @ method @ [CHR 0x27]))
      else if params = JUndef \<or> params = JNull
      then Inr \<lparr>plan_argv = parts @ [''--json''], plan_stdin = None\<rparr>
      else Inr \<lparr>plan_argv = parts @ [''--json'', ''--input-json'', ''-''], plan_stdin = Some (stringify js params)\<rparr>)"

section \<open>Normalising the exit\<close>

definition tryParseJson :: "js_runtime \<Rightarrow> string \<Rightarrow> json" where
  "tryParseJson js text =
     (let trimmed = js_trim text in
      if trimmed = [] then JUndef
      else case parse_json js trimmed of Inl _ \<Rightarrow> JUndef | Inr v \<Rightarrow> v)"

definition asRpcError :: "json \<Rightarrow> obj option" where
  "asRpcError parsed =
     (case field_of parsed ''error'' of
        JObj err \<Rightarrow>
          (case (jget err ''code'', jget err ''message'') of
             (JNum code, JStr message) \<Rightarrow> Some [(''code'', JNum code), (''message'', JStr message)]
           | _ \<Rightarrow> None)
      | _ \<Rightarrow> None)"

definition unwrapResult :: "json \<Rightarrow> json" where
  "unwrapResult parsed =
     (case parsed of JObj ob \<Rightarrow> if has_key ob ''result'' then jget ob ''result'' else parsed | _ \<Rightarrow> parsed)"

definition show_int :: "int \<Rightarrow> string" where
  "show_int n = (if n < 0 then CHR ''-'' # show_nat (nat (- n)) else show_nat (nat n))"

definition exit_reason :: "int option \<Rightarrow> string option \<Rightarrow> string" where
  "exit_reason code signal =
     (case signal of
        Some s \<Rightarrow> ''signal '' @ s
      | None \<Rightarrow> ''exit code '' @ (case code of Some n \<Rightarrow> show_int n | None \<Rightarrow> ''null''))"

definition normalizeExit ::
  "js_runtime \<Rightarrow> string \<Rightarrow> int option \<Rightarrow> string option \<Rightarrow> string \<Rightarrow> string \<Rightarrow> thrown + json" where
  "normalizeExit js method code signal stdout stderr =
     (let parsedOut = tryParseJson js stdout in
      case orelse (asRpcError parsedOut) (asRpcError (tryParseJson js stderr)) of
        Some rpcErr \<Rightarrow>
          Inl (TransportError rpc (show_value js (jget rpcErr ''message'') @ '' (rpc code ''
                 @ show_value js (jget rpcErr ''code'') @ '')'') (JObj rpcErr))
      | None \<Rightarrow>
          if code = Some 0 then
            (if parsedOut = JUndef
             then Inl (ipc_error protocol (''mx-agent '' @ method @ '' exited 0 but stdout was not valid JSON''))
             else Inr (unwrapResult parsedOut))
          else Inl (ipc_error protocol (''mx-agent '' @ method @ '' failed ('' @ exit_reason code signal
                 @ '') with no parseable JSON-RPC error'')))"

definition spawnErrorToTransport :: "string \<Rightarrow> string \<Rightarrow> string \<Rightarrow> thrown" where
  "spawnErrorToTransport errno msg bin =
     (if errno = ''ENOENT''
      then ipc_error not_running (''mx-agent CLI not found ('' @ [CHR 0x27] @ bin @ [CHR 0x27] @ '')'')
      else ipc_error connect_failed (''failed to spawn mx-agent CLI ('' @ [CHR 0x27] @ bin @ [CHR 0x27] @ ''): '' @ msg))"

section \<open>One child process\<close>

datatype child_event =
    Stdout string
  | Stderr string
  | ChildError string string
  | ChildTimeout
  | ChildClose "int option" "string option"

record child_state =
  ch_settled :: "(thrown + json) option"
  ch_overflow :: bool
  ch_outLen :: nat
  ch_errLen :: nat
  ch_out :: "string list"
  ch_err :: "string list"
  ch_killed :: bool

definition new_child :: child_state where
  "new_child = \<lparr>ch_settled = None, ch_overflow = False, ch_outLen = 0, ch_errLen = 0, ch_out = [], ch_err = [],
                ch_killed = False\<rparr>"

definition child_settle :: "thrown + json \<Rightarrow> child_state \<Rightarrow> child_state" where
  "child_settle r s = (case ch_settled s of None \<Rightarrow> s\<lparr>ch_settled := Some r\<rparr> | Some _ \<Rightarrow> s)"

fun child_step :: "js_runtime \<Rightarrow> string \<Rightarrow> string \<Rightarrow> nat \<Rightarrow> child_event \<Rightarrow> child_state \<Rightarrow> child_state" where
  "child_step js bin method timeoutMs (Stdout chunk) s =
     (let next = ch_outLen s + length chunk in
      if next > MAX_FRAME_BYTES then s\<lparr>ch_overflow := True, ch_killed := True, ch_outLen := next\<rparr>
      else s\<lparr>ch_out := ch_out s @ [chunk], ch_outLen := next\<rparr>)"
| "child_step js bin method timeoutMs (Stderr chunk) s =
     (let next = ch_errLen s + length chunk in
      if next > MAX_FRAME_BYTES then s\<lparr>ch_overflow := True, ch_killed := True, ch_errLen := next\<rparr>
      else s\<lparr>ch_err := ch_err s @ [chunk], ch_errLen := next\<rparr>)"
| "child_step js bin method timeoutMs (ChildError errno msg) s = child_settle (Inl (spawnErrorToTransport errno msg bin)) s"
| "child_step js bin method timeoutMs ChildTimeout s =
     (if ch_settled s = None
      then child_settle (Inl (ipc_error transport_timeout (''mx-agent '' @ method @ '' exceeded '' @ show_nat timeoutMs @ ''ms'')))
             (s\<lparr>ch_killed := True\<rparr>)
      else s)"
| "child_step js bin method timeoutMs (ChildClose code signal) s =
     child_settle
       (if ch_overflow s then Inl (ipc_error protocol (''mx-agent '' @ method @ '' produced oversized output''))
        else normalizeExit js method code signal (concat (ch_out s)) (concat (ch_err s))) s"

definition child_run :: "js_runtime \<Rightarrow> string \<Rightarrow> string \<Rightarrow> nat \<Rightarrow> child_event list \<Rightarrow> child_state \<Rightarrow> child_state" where
  "child_run js bin method timeoutMs es s = fold (child_step js bin method timeoutMs) es s"

section \<open>The client\<close>

record cli_client =
  cli_bin :: string
  cli_env :: environment
  cli_defaultTimeoutMs :: nat
  cli_extraEnvAllow :: "string list"

definition new_cli_client ::
  "string option \<Rightarrow> environment \<Rightarrow> nat option \<Rightarrow> string list option \<Rightarrow> cli_client" where
  "new_cli_client cliBin env defaultTimeoutMs extraEnvAllow =
     \<lparr>cli_bin = or_default (orelse cliBin (env ''MXL_AGENT_BIN'')) ''mx-agent'', cli_env = env,
      cli_defaultTimeoutMs = or_default defaultTimeoutMs 30000, cli_extraEnvAllow = or_default extraEnvAllow []\<rparr>"

text \<open>
  What running a binary leads to: \<open>spawn\<close> throws, or the child reports events. The timer fires in
  the end if nothing has settled the call before.
\<close>

datatype spawned = SpawnThrows string string | Child "child_event list"

type_synonym 'd spawner =
  "string \<Rightarrow> string list \<Rightarrow> string option \<Rightarrow> (string \<times> string) list \<Rightarrow> ('d, spawned) io"

definition spawn_call ::
  "js_runtime \<Rightarrow> 'd spawner \<Rightarrow> cli_client \<Rightarrow> string \<Rightarrow> argv_plan \<Rightarrow> (string \<times> string) list \<Rightarrow> nat
     \<Rightarrow> ('d, thrown + json) io" where
  "spawn_call js spawn cli method plan env timeoutMs h =
     (case spawn (cli_bin cli) (plan_argv plan) (plan_stdin plan) env h of
        (SpawnThrows errno msg, h') \<Rightarrow> (Inl (spawnErrorToTransport errno msg (cli_bin cli)), h')
      | (Child es, h') \<Rightarrow>
          (case ch_settled (child_run js (cli_bin cli) method timeoutMs (es @ [ChildTimeout]) new_child) of
             Some r \<Rightarrow> (r, h')
           | None \<Rightarrow> (Inl (ipc_error transport_timeout []), h')))"

definition cli_call :: "js_runtime \<Rightarrow> 'd spawner \<Rightarrow> cli_client \<Rightarrow> 'd daemon_call" where
  "cli_call js spawn cli method params h =
     (case assertNoCredentialShapedArgs params ''$'' of
        Some err \<Rightarrow> (Inl err, h)
      | None \<Rightarrow>
          (case methodToArgv js method params of
             Inl err \<Rightarrow> (Inl err, h)
           | Inr plan \<Rightarrow>
               spawn_call js spawn cli method plan (safeSubprocessEnv (cli_env cli) (cli_extraEnvAllow cli))
                 (cli_defaultTimeoutMs cli) h))"

section \<open>Properties\<close>

lemma map_of_overwrite:
  "map_of (map (\<lambda>(x, y). (x, if x = k then v else y)) m) k' =
     (if k' = k then map_option (\<lambda>_. v) (map_of m k) else map_of m k')"
  by (induction m) auto

lemma map_of_map_set: "map_of (map_set k v m) k' = (if k' = k then Some v else map_of m k')"
proof (cases "map_of m k")
  case None
  then have "k \<notin> fst ` set m" by (simp add: map_of_eq_None_iff)
  with None show ?thesis by (simp add: map_set_fresh map_add_def split: option.split)
next
  case (Some w)
  then have "k \<in> fst ` set m" by (metis map_of_eq_None_iff option.distinct(1))
  with Some show ?thesis by (simp add: map_set_def map_of_overwrite)
qed

lemma env_fold:
  "map_of (fold (\<lambda>key env. case source key of Some value \<Rightarrow> map_set key value env | None \<Rightarrow> env) keys env) k =
     (if k \<in> set keys \<and> source k \<noteq> None then source k else map_of env k)"
  by (induction keys arbitrary: env) (auto simp: map_of_map_set split: option.split)

text \<open>
  A child process sees nothing it should not. The environment passed to the CLI holds exactly
  the variables that are on the allowlist (or explicitly allowed by the caller) and set in the
  source, with their source values; a name with a denied prefix, suffix or spelling is left out
  even when the caller allows it.
\<close>

theorem subprocess_env_exact:
  "map_of (safeSubprocessEnv source extraAllow) k =
     (if k \<in> set (BASE_ENV_ALLOW @ extraAllow) \<and> \<not> isDeniedEnvKey k then source k else None)"
  unfolding safeSubprocessEnv_def env_fold by simp

lemma settle_stable:
  "ch_settled s = Some r \<Longrightarrow> ch_settled (child_step js bin method t e s) = Some r"
  by (cases e) (simp_all add: child_settle_def Let_def)

lemma child_timeout_settles: "\<exists>r. ch_settled (child_step js bin method t ChildTimeout s) = Some r"
  by (cases "ch_settled s") (simp_all add: child_settle_def)

definition captured_ok :: "child_state \<Rightarrow> bool" where
  "captured_ok s =
     (length (concat (ch_out s)) \<le> MAX_FRAME_BYTES \<and> length (concat (ch_out s)) \<le> ch_outLen s
      \<and> length (concat (ch_err s)) \<le> MAX_FRAME_BYTES \<and> length (concat (ch_err s)) \<le> ch_errLen s)"

lemma child_settle_fields [simp]:
  "ch_out (child_settle r s) = ch_out s" "ch_err (child_settle r s) = ch_err s"
  "ch_outLen (child_settle r s) = ch_outLen s" "ch_errLen (child_settle r s) = ch_errLen s"
  by (simp_all add: child_settle_def split: option.split)

lemma captured_step: "captured_ok s \<Longrightarrow> captured_ok (child_step js bin method t e s)"
  by (cases e) (auto simp: captured_ok_def Let_def)

lemma captured_run: "captured_ok s \<Longrightarrow> captured_ok (child_run js bin method t es s)"
  unfolding child_run_def by (induction es arbitrary: s) (simp_all add: captured_step)

text \<open>
  Running the CLI is bounded and ends. Whatever a child process prints, at most one maximal
  frame of its output and one of its errors is kept; and with the timer the call is settled,
  by whichever event came first: the timer cannot overturn an earlier result.
\<close>

theorem cli_child_bounded:
  "length (concat (ch_out (child_run js bin method t es new_child))) \<le> MAX_FRAME_BYTES
   \<and> length (concat (ch_err (child_run js bin method t es new_child))) \<le> MAX_FRAME_BYTES
   \<and> (\<exists>r. ch_settled (child_run js bin method t (es @ [ChildTimeout]) new_child) = Some r
        \<and> ch_settled (child_run js bin method t es new_child) \<in> {None, Some r})"
proof -
  have "captured_ok new_child" by (simp add: captured_ok_def new_child_def)
  from captured_run [OF this] have "captured_ok (child_run js bin method t es new_child)" .
  moreover have last: "child_run js bin method t (es @ [ChildTimeout]) new_child
      = child_step js bin method t ChildTimeout (child_run js bin method t es new_child)"
    by (simp add: child_run_def)
  moreover have "\<exists>r. ch_settled (child_run js bin method t (es @ [ChildTimeout]) new_child) = Some r
        \<and> ch_settled (child_run js bin method t es new_child) \<in> {None, Some r}"
    using child_timeout_settles [of js bin "method" t "child_run js bin method t es new_child"]
      settle_stable [of "child_run js bin method t es new_child"]
    unfolding last by (cases "ch_settled (child_run js bin method t es new_child)") auto
  ultimately show ?thesis by (simp add: captured_ok_def)
qed

text \<open>
  The same daemon refusal over the two transports: the socket client hands on the whole error
  object, the CLI client only its numeric code and message, so the refusal's string code is gone.
\<close>

definition refusal :: json where
  "refusal = JObj [(''code'', JNum (Fin (-32000))), (''message'', JStr ''no''),
                   (''data'', JObj [(''code'', JStr ''policy_denied'')])]"

definition refusal_js :: js_runtime where
  "refusal_js = \<lparr>parse_json = (\<lambda>s. Inr (JObj [(''id'', JStr ''mxl-1''), (''error'', refusal)])),
                 stringify = (\<lambda>_. []), show_value = (\<lambda>_. [])\<rparr>"

lemma cli_drops_refusal_code:
  "map_sum (\<lambda>e. r_status (faultToResult e EMPTY_AUDIT_REF :: obj tool_result)) (\<lambda>_. ())
     (response_outcome refusal_js ''mxl-1'' [(''id'', JStr ''mxl-1''), (''error'', refusal)]) = Inl Denied"
  "map_sum (\<lambda>e. r_status (faultToResult e EMPTY_AUDIT_REF :: obj tool_result)) (\<lambda>_. ())
     (normalizeExit refusal_js ''call.start'' (Some 1) None ''{...}'' []) = Inl Error"
  by code_simp+

end
