(* ===== verification/Client.thy ===== *)
theory Client
  imports Cli
begin

text \<open>
  The toolbelt's client (packages/toolbelt/src/client.ts) over the two transports, with its retry
  policy (retry.ts) and the socket path it looks for (ipc/socket-path.ts). Transports are daemon
  calls on the host; \<open>existsSync\<close> of the socket is a reading of the host. The \<open>debug\<close> sink is not
  modelled: it receives lines and returns nothing.
\<close>

section \<open>The socket path\<close>

text \<open>\<open>path.join\<close> and \<open>os.tmpdir()\<close> are arguments.\<close>

definition socket_base :: "string \<Rightarrow> environment \<Rightarrow> string" where
  "socket_base tmpdir env =
     (case env ''XDG_RUNTIME_DIR'' of
        Some d \<Rightarrow> if d \<noteq> [] then d else or_default (env ''TMPDIR'') tmpdir
      | None \<Rightarrow> or_default (env ''TMPDIR'') tmpdir)"

definition resolveSocketPath ::
  "(string list \<Rightarrow> string) \<Rightarrow> string \<Rightarrow> string option \<Rightarrow> environment \<Rightarrow> string" where
  "resolveSocketPath path_join tmpdir socketPath env =
     (case socketPath of
        Some p \<Rightarrow> if p \<noteq> [] then p else path_join [socket_base tmpdir env, ''mx-agent'', ''daemon.sock'']
      | None \<Rightarrow> path_join [socket_base tmpdir env, ''mx-agent'', ''daemon.sock''])"

section \<open>Retry\<close>

record retry_policy =
  maxAttempts :: nat
  baseDelayMs :: rat
  maxDelayMs :: rat
  factor :: rat
  jitter :: bool
  retryableCodes :: "transport_code list"

definition DEFAULT_RETRY_POLICY :: retry_policy where
  "DEFAULT_RETRY_POLICY =
     \<lparr>maxAttempts = 3, baseDelayMs = 50, maxDelayMs = 1000, factor = 2, jitter = True,
      retryableCodes = [connect_failed]\<rparr>"

record 'd retry_deps =
  rd_sleep :: "rat \<Rightarrow> 'd host \<Rightarrow> 'd host"
  rd_random :: "('d, rat) io"

definition backoffDelay :: "retry_policy \<Rightarrow> nat \<Rightarrow> ('d, rat) io \<Rightarrow> ('d, rat) io" where
  "backoffDelay policy attempt random h =
     (let capped = min (maxDelayMs policy) (baseDelayMs policy * factor policy ^ (attempt - 1)) in
      if jitter policy then (case random h of (r, h') \<Rightarrow> (capped * r, h')) else (capped, h))"

fun retryable :: "retry_policy \<Rightarrow> thrown \<Rightarrow> bool" where
  "retryable policy (TransportError c _ _) = (c \<in> set (retryableCodes policy))"
| "retryable policy (OtherError _) = False"

function withRetry ::
  "('d, thrown + 'a) io \<Rightarrow> retry_policy \<Rightarrow> 'd retry_deps \<Rightarrow> nat \<Rightarrow> ('d, thrown + 'a) io" where
  "withRetry fn policy deps attempt h =
     (case fn h of
        (Inr v, h1) \<Rightarrow> (Inr v, h1)
      | (Inl err, h1) \<Rightarrow>
          if \<not> retryable policy err \<or> maxAttempts policy \<le> attempt then (Inl err, h1)
          else case backoffDelay policy attempt (rd_random deps) h1 of
                 (delay, h2) \<Rightarrow> withRetry fn policy deps (attempt + 1) (rd_sleep deps delay h2))"
  by pat_completeness auto
termination
  by (relation "measure (\<lambda>(fn, policy, deps, attempt, h). maxAttempts policy - attempt)") auto

declare withRetry.simps [simp del]

section \<open>The client\<close>

datatype preference = Auto | ForceIpc | ForceCli

datatype which = Ipc | Cli

record mx_config =
  mc_preference :: preference
  mc_retry :: "retry_policy option"
  mc_socketPath :: string
  mc_cliBinLabel :: string

text \<open>The mutable part: which transports exist, and the sticky choice.\<close>

record mx_state =
  ms_ipc :: bool
  ms_cli :: bool
  ms_active :: "which option"

definition new_mx_client :: mx_state where
  "new_mx_client = \<lparr>ms_ipc = False, ms_cli = False, ms_active = None\<rparr>"

record 'd transports =
  tr_call :: "which \<Rightarrow> 'd daemon_call"
  tr_exists :: "string \<Rightarrow> 'd host \<Rightarrow> bool"
  tr_retry :: "'d retry_deps"

definition isNotRunning :: "thrown \<Rightarrow> bool" where
  "isNotRunning err = (case err of TransportError c _ _ \<Rightarrow> c = not_running | OtherError _ \<Rightarrow> False)"

type_synonym ('d, 'a) mx_io = "mx_state \<Rightarrow> 'd host \<Rightarrow> (thrown + 'a) \<times> mx_state \<times> 'd host"

definition make_transport :: "which \<Rightarrow> mx_state \<Rightarrow> mx_state" where
  "make_transport w st = (case w of Ipc \<Rightarrow> st\<lparr>ms_ipc := True\<rparr> | Cli \<Rightarrow> st\<lparr>ms_cli := True\<rparr>)"

definition run_transport :: "mx_config \<Rightarrow> 'd transports \<Rightarrow> which \<Rightarrow> string \<Rightarrow> json \<Rightarrow> ('d, thrown + json) io" where
  "run_transport cfg tr w method params =
     (case mc_retry cfg of
        None \<Rightarrow> tr_call tr w method params
      | Some policy \<Rightarrow> withRetry (tr_call tr w method params) policy (tr_retry tr) 1)"

definition attempt :: "mx_config \<Rightarrow> 'd transports \<Rightarrow> which \<Rightarrow> string \<Rightarrow> json \<Rightarrow> ('d, json) mx_io" where
  "attempt cfg tr w method params st h =
     (let st1 = make_transport w st in
      case run_transport cfg tr w method params h of
        (Inr v, h') \<Rightarrow> (Inr v, st1\<lparr>ms_active := Some w\<rparr>, h')
      | (Inl err, h') \<Rightarrow> (Inl err, st1, h'))"

definition quoted :: "string \<Rightarrow> string" where
  "quoted s = [CHR 0x27] @ s @ [CHR 0x27]"

text \<open>The error that both transports are gone; its cause, an error object, is not represented.\<close>

definition bothUnreachableError :: "mx_config \<Rightarrow> thrown option \<Rightarrow> thrown" where
  "bothUnreachableError cfg ipcErr =
     ipc_error not_running (''daemon unreachable: IPC socket '' @ quoted (mc_socketPath cfg)
       @ (if ipcErr \<noteq> None then '' not running'' else '' absent'')
       @ '' and mx-agent CLI '' @ quoted (mc_cliBinLabel cfg) @ '' not found'')"

definition select_cli :: "mx_config \<Rightarrow> 'd transports \<Rightarrow> thrown option \<Rightarrow> string \<Rightarrow> json \<Rightarrow> ('d, json) mx_io" where
  "select_cli cfg tr ipcErr method params st h =
     (case attempt cfg tr Cli method params st h of
        (Inl err, st', h') \<Rightarrow> (Inl (if isNotRunning err then bothUnreachableError cfg ipcErr else err), st', h')
      | r \<Rightarrow> r)"

definition select :: "mx_config \<Rightarrow> 'd transports \<Rightarrow> string \<Rightarrow> json \<Rightarrow> ('d, json) mx_io" where
  "select cfg tr method params st h =
     (if tr_exists tr (mc_socketPath cfg) h
      then case attempt cfg tr Ipc method params st h of
             (Inl err, st', h') \<Rightarrow>
               if isNotRunning err then select_cli cfg tr (Some err) method params st' h' else (Inl err, st', h')
           | r \<Rightarrow> r
      else select_cli cfg tr None method params st h)"

definition callAuto :: "mx_config \<Rightarrow> 'd transports \<Rightarrow> string \<Rightarrow> json \<Rightarrow> ('d, json) mx_io" where
  "callAuto cfg tr method params st h =
     (case ms_active st of
        Some w \<Rightarrow>
          (case attempt cfg tr w method params st h of
             (Inl err, st', h') \<Rightarrow>
               if isNotRunning err then select cfg tr method params (st'\<lparr>ms_active := None\<rparr>) h'
               else (Inl err, st', h')
           | r \<Rightarrow> r)
      | None \<Rightarrow> select cfg tr method params st h)"

definition mx_call :: "mx_config \<Rightarrow> 'd transports \<Rightarrow> string \<Rightarrow> json \<Rightarrow> ('d, json) mx_io" where
  "mx_call cfg tr method params st h =
     (case assertNoCredentialShapedArgs params ''$'' of
        Some err \<Rightarrow> (Inl err, st, h)
      | None \<Rightarrow>
          (case (case mc_preference cfg of
                   ForceIpc \<Rightarrow> attempt cfg tr Ipc method params st h
                 | ForceCli \<Rightarrow> attempt cfg tr Cli method params st h
                 | Auto \<Rightarrow> callAuto cfg tr method params st h) of
             (Inr result, st', h') \<Rightarrow> (Inr (redactSecrets result), st', h')
           | (Inl err, st', h') \<Rightarrow> (Inl err, st', h')))"

definition mx_close :: "mx_state \<Rightarrow> mx_state" where
  "mx_close st = \<lparr>ms_ipc = False, ms_cli = False, ms_active = None\<rparr>"

text \<open>\<open>status\<close> and \<open>ping\<close>.\<close>

definition mx_status :: "mx_config \<Rightarrow> 'd transports \<Rightarrow> ('d, json) mx_io" where
  "mx_status cfg tr = mx_call cfg tr ''daemon.status'' JUndef"

definition mx_ping :: "mx_config \<Rightarrow> 'd transports \<Rightarrow> ('d, json) mx_io" where
  "mx_ping cfg tr = mx_call cfg tr ''daemon.ping'' JUndef"

section \<open>Sending again\<close>

text \<open>One entry per request that reached a transport, with what the transport answered.\<close>

record sent =
  en_which :: which
  en_method :: string
  en_params :: json
  en_reply :: "thrown + json"

definition may_resend :: "mx_config \<Rightarrow> sent \<Rightarrow> bool" where
  "may_resend cfg e =
     (case en_reply e of
        Inr _ \<Rightarrow> False
      | Inl err \<Rightarrow> isNotRunning err
          \<or> (case mc_retry cfg of None \<Rightarrow> False | Some policy \<Rightarrow> retryable policy err))"

definition max_sends :: "mx_config \<Rightarrow> nat" where
  "max_sends cfg = (case mc_retry cfg of None \<Rightarrow> 1 | Some policy \<Rightarrow> max 1 (maxAttempts policy))"

text \<open>A list of sends of one request in which only the last may have reached the daemon.\<close>

definition resent :: "mx_config \<Rightarrow> string \<Rightarrow> json \<Rightarrow> nat \<Rightarrow> sent list \<Rightarrow> bool" where
  "resent cfg m p n es =
     (es \<noteq> [] \<and> length es \<le> n \<and> list_all (\<lambda>e. en_method e = m \<and> en_params e = p) es
      \<and> list_all (may_resend cfg) (butlast es))"

lemma list_all_butlast_append:
  "ys \<noteq> [] \<Longrightarrow> list_all P (butlast (xs @ ys)) \<longleftrightarrow> list_all P xs \<and> list_all P (butlast ys)"
  by (simp add: butlast_append)

lemma list_all_last: "xs \<noteq> [] \<Longrightarrow> list_all P xs \<longleftrightarrow> list_all P (butlast xs) \<and> P (last xs)"
  by (cases xs rule: rev_cases) simp_all

lemma resent_append:
  assumes "resent cfg m p n xs" and "may_resend cfg (last xs)" and "resent cfg m p k ys"
  shows "resent cfg m p (n + k) (xs @ ys)"
proof -
  have "list_all (may_resend cfg) xs" using assms(1,2) list_all_last [of xs] by (simp add: resent_def)
  with assms show ?thesis by (simp add: resent_def list_all_butlast_append)
qed

locale sent_log =
  fixes tr :: "'d transports" and log :: "'d host \<Rightarrow> sent list"
  assumes call_logged: "log (snd (tr_call tr w m p h)) =
      log h @ [\<lparr>en_which = w, en_method = m, en_params = p, en_reply = fst (tr_call tr w m p h)\<rparr>]"
    and sleep_unlogged: "log (rd_sleep (tr_retry tr) d h) = log h"
    and random_unlogged: "log (snd (rd_random (tr_retry tr) h)) = log h"
begin

lemma backoff_unlogged: "log (snd (backoffDelay policy a (rd_random (tr_retry tr)) h)) = log h"
  using random_unlogged [of h] by (auto simp: backoffDelay_def Let_def split: prod.split)

lemma retry_log:
  assumes "mc_retry cfg = Some policy"
  shows "\<exists>es. log (snd (withRetry (tr_call tr w m p) policy (tr_retry tr) a h)) = log h @ es
           \<and> resent cfg m p (max 1 (Suc (maxAttempts policy) - a)) es
           \<and> en_reply (last es) = fst (withRetry (tr_call tr w m p) policy (tr_retry tr) a h)
           \<and> en_which (last es) = w"
proof (induction "maxAttempts policy - a" arbitrary: a h rule: less_induct)
  case less
  obtain r h1 where c: "tr_call tr w m p h = (r, h1)" by fastforce
  define e where "e = \<lparr>en_which = w, en_method = m, en_params = p, en_reply = r\<rparr>"
  have log1: "log h1 = log h @ [e]" using call_logged [of w m p h] c by (simp add: e_def)
  have one: "resent cfg m p n [e]" if "1 \<le> n" for n using that by (simp add: resent_def e_def)
  show ?case
  proof (cases "\<exists>err. r = Inl err \<and> retryable policy err \<and> a < maxAttempts policy")
    case False
    then have "withRetry (tr_call tr w m p) policy (tr_retry tr) a h = (r, h1)"
      by (subst withRetry.simps) (auto simp: c not_le split: sum.split)
    with log1 one show ?thesis by (intro exI [of _ "[e]"]) (simp add: e_def)
  next
    case True
    then obtain err where err: "r = Inl err" "retryable policy err" "a < maxAttempts policy" by blast
    obtain delay h2 where b: "backoffDelay policy a (rd_random (tr_retry tr)) h1 = (delay, h2)" by fastforce
    let ?h3 = "rd_sleep (tr_retry tr) delay h2"
    have step: "withRetry (tr_call tr w m p) policy (tr_retry tr) a h =
        withRetry (tr_call tr w m p) policy (tr_retry tr) (a + 1) ?h3"
      by (subst withRetry.simps) (simp add: c err(1,2) b not_le [THEN iffD2, OF err(3)])
    have log3: "log ?h3 = log h @ [e]"
      using backoff_unlogged [of policy a h1] b log1 sleep_unlogged by simp
    obtain es where es: "log (snd (withRetry (tr_call tr w m p) policy (tr_retry tr) (a + 1) ?h3)) = log ?h3 @ es"
        "resent cfg m p (max 1 (Suc (maxAttempts policy) - (a + 1))) es"
        "en_reply (last es) = fst (withRetry (tr_call tr w m p) policy (tr_retry tr) (a + 1) ?h3)"
        "en_which (last es) = w"
      using less [of "a + 1" ?h3] diff_less_mono2 [OF lessI err(3)] by (simp del: diff_Suc_Suc) blast
    have "may_resend cfg (last [e])" by (simp add: may_resend_def e_def err assms)
    from resent_append [OF one [of 1] this es(2)] err(3)
    have "resent cfg m p (max 1 (Suc (maxAttempts policy) - a)) ([e] @ es)"
      by (simp add: max_def Suc_diff_le split: if_splits)
    with es log3 step show ?thesis
      by (intro exI [of _ "[e] @ es"]) (auto simp: resent_def)
  qed
qed

lemma run_transport_log:
  "\<exists>es. log (snd (run_transport cfg tr w m p h)) = log h @ es \<and> resent cfg m p (max_sends cfg) es
      \<and> en_reply (last es) = fst (run_transport cfg tr w m p h) \<and> en_which (last es) = w"
proof (cases "mc_retry cfg")
  case None
  then show ?thesis
    by (intro exI [of _ "[\<lparr>en_which = w, en_method = m, en_params = p,
          en_reply = fst (tr_call tr w m p h)\<rparr>]"] conjI)
       (simp_all add: run_transport_def call_logged resent_def max_sends_def)
next
  case (Some policy)
  then show ?thesis using retry_log [OF Some, of w m p 1 h] by (simp add: run_transport_def max_sends_def)
qed

lemma attempt_log:
  "\<exists>es. log (snd (snd (attempt cfg tr w m p st h))) = log h @ es \<and> resent cfg m p (max_sends cfg) es
      \<and> en_reply (last es) = fst (attempt cfg tr w m p st h) \<and> en_which (last es) = w
      \<and> (case fst (attempt cfg tr w m p st h) of
             Inr v \<Rightarrow> ms_active (fst (snd (attempt cfg tr w m p st h))) = Some w | Inl err \<Rightarrow> True)"
  using run_transport_log [of cfg w m p h]
  by (auto simp: attempt_def Let_def split: prod.split sum.split)

text \<open>
  One phase of a call: what it sent, that a daemon reported absent got nothing, and that an answer is
  the last reply and its transport the active one.
\<close>

definition phase :: "mx_config \<Rightarrow> string \<Rightarrow> json \<Rightarrow> nat \<Rightarrow> 'd host \<Rightarrow> (thrown + json) \<times> mx_state \<times> 'd host \<Rightarrow> bool" where
  "phase cfg m p n h r =
     (\<exists>es. log (snd (snd r)) = log h @ es \<and> resent cfg m p n es
        \<and> (case fst r of
               Inl err \<Rightarrow> isNotRunning err \<longrightarrow> may_resend cfg (last es)
             | Inr v \<Rightarrow> en_reply (last es) = Inr v \<and> ms_active (fst (snd r)) = Some (en_which (last es))))"

lemma phase_attempt: "phase cfg m p (max_sends cfg) h (attempt cfg tr w m p st h)"
  using attempt_log [of cfg w m p st h] by (fastforce simp: phase_def may_resend_def split: sum.splits)

lemma phase_mono: "phase cfg m p n h r \<Longrightarrow> n \<le> k \<Longrightarrow> phase cfg m p k h r"
  by (auto simp: phase_def resent_def)

lemma phase_then:
  assumes "phase cfg m p n h (Inl err, st', h')" and "isNotRunning err" and "phase cfg m p k h' r"
  shows "phase cfg m p (n + k) h r"
proof -
  obtain xs where xs: "log h' = log h @ xs" "resent cfg m p n xs" "may_resend cfg (last xs)"
    using assms(1,2) by (auto simp: phase_def)
  obtain ys where ys: "log (snd (snd r)) = log h' @ ys" "resent cfg m p k ys"
      "case fst r of Inl err \<Rightarrow> isNotRunning err \<longrightarrow> may_resend cfg (last ys)
         | Inr v \<Rightarrow> en_reply (last ys) = Inr v \<and> ms_active (fst (snd r)) = Some (en_which (last ys))"
    using assms(3) by (auto simp: phase_def)
  have "ys \<noteq> []" using ys(2) by (simp add: resent_def)
  with xs ys resent_append [OF xs(2,3) ys(2)] show ?thesis
    unfolding phase_def by (intro exI [of _ "xs @ ys"]) (simp split: sum.splits)
qed

lemma phase_select_cli: "phase cfg m p (max_sends cfg) h (select_cli cfg tr ipcErr m p st h)"
  using phase_attempt [of cfg m p h Cli st]
  by (auto simp: select_cli_def phase_def split: prod.split sum.split)

lemma phase_select: "phase cfg m p (2 * max_sends cfg) h (select cfg tr m p st h)"
proof -
  obtain r st' h' where a: "attempt cfg tr Ipc m p st h = (r, st', h')" by (cases "attempt cfg tr Ipc m p st h")
  have ph: "phase cfg m p (max_sends cfg) h (r, st', h')" using phase_attempt [of cfg m p h Ipc st] a by simp
  show ?thesis
    using phase_then [OF _ _ phase_select_cli] phase_mono [OF ph, of "2 * max_sends cfg"] ph
      phase_mono [OF phase_select_cli, where k = "2 * max_sends cfg"]
    by (auto simp: select_def a mult_2 split: sum.split)
qed

lemma phase_callAuto: "phase cfg m p (3 * max_sends cfg) h (callAuto cfg tr m p st h)"
proof (cases "ms_active st")
  case None
  then show ?thesis using phase_mono [OF phase_select, where k = "3 * max_sends cfg"] by (simp add: callAuto_def)
next
  case (Some w)
  obtain r st' h' where a: "attempt cfg tr w m p st h = (r, st', h')" by (cases "attempt cfg tr w m p st h")
  have ph: "phase cfg m p (max_sends cfg) h (r, st', h')" using phase_attempt [of cfg m p h w st] a by simp
  have sum3: "max_sends cfg + 2 * max_sends cfg = 3 * max_sends cfg" by simp
  show ?thesis
    using phase_then [OF _ _ phase_select, of cfg m p "max_sends cfg" h _ st' h'] phase_mono [OF ph, of "3 * max_sends cfg"] ph
    unfolding sum3 by (auto simp: callAuto_def a Some split: sum.split)
qed

lemma phase_chosen:
  "phase cfg m p (3 * max_sends cfg) h
     (case mc_preference cfg of ForceIpc \<Rightarrow> attempt cfg tr Ipc m p st h
        | ForceCli \<Rightarrow> attempt cfg tr Cli m p st h | Auto \<Rightarrow> callAuto cfg tr m p st h)"
  using phase_callAuto phase_mono [OF phase_attempt] by (simp split: preference.split)

lemma call_resent:
  assumes "assertNoCredentialShapedArgs p ''$'' = None"
  shows "\<exists>es. log (snd (snd (mx_call cfg tr m p st h))) = log h @ es \<and> resent cfg m p (3 * max_sends cfg) es
    \<and> (case fst (mx_call cfg tr m p st h) of
           Inl err \<Rightarrow> isNotRunning err \<longrightarrow> may_resend cfg (last es)
         | Inr v \<Rightarrow> (\<exists>raw. en_reply (last es) = Inr raw \<and> v = redactSecrets raw)
             \<and> ms_active (fst (snd (mx_call cfg tr m p st h))) = Some (en_which (last es)))"
  using phase_chosen [of cfg m p h st] unfolding mx_call_def assms option.case
  by (fastforce simp: phase_def split: prod.splits sum.splits)

end

section \<open>Recorded transports\<close>

text \<open>
  Two services behind the two transports, a file system and a random source, all functions of the
  daemon's state; every request is recorded beside that state.
\<close>

definition recorded_call ::
  "(which \<Rightarrow> 'd service) \<Rightarrow> which \<Rightarrow> ('d \<times> sent list) daemon_call" where
  "recorded_call f w m p h =
     (case f w (fst (peer h)) (clock h) m p of
        (reply, d', latency) \<Rightarrow>
          (reply, h\<lparr>clock := clock h + max 0 latency,
                    peer := (d', snd (peer h) @ [\<lparr>en_which = w, en_method = m, en_params = p, en_reply = reply\<rparr>])\<rparr>))"

definition recorded ::
  "(which \<Rightarrow> 'd service) \<Rightarrow> ('d \<Rightarrow> string \<Rightarrow> bool) \<Rightarrow> ('d \<Rightarrow> rat \<Rightarrow> rat) \<Rightarrow> ('d \<times> sent list) transports" where
  "recorded f exists rnd =
     \<lparr>tr_call = recorded_call f, tr_exists = \<lambda>path h. exists (fst (peer h)) path,
      tr_retry = \<lparr>rd_sleep = realSleep, rd_random = \<lambda>h. (rnd (fst (peer h)) (clock h), h)\<rparr>\<rparr>"

definition sends_of :: "('d \<times> sent list) host \<Rightarrow> sent list" where
  "sends_of h = snd (peer h)"

interpretation recorded_log: sent_log "recorded f exists rnd" sends_of
proof
  fix w m p and h :: "('a \<times> sent list) host" and d
  show "sends_of (snd (tr_call (recorded f exists rnd) w m p h)) = sends_of h @
      [\<lparr>en_which = w, en_method = m, en_params = p, en_reply = fst (tr_call (recorded f exists rnd) w m p h)\<rparr>]"
    by (simp add: recorded_def recorded_call_def sends_of_def split: prod.split)
  show "sends_of (rd_sleep (tr_retry (recorded f exists rnd)) d h) = sends_of h"
    by (simp add: recorded_def realSleep_def sends_of_def)
  show "sends_of (snd (rd_random (tr_retry (recorded f exists rnd)) h)) = sends_of h"
    by (simp add: recorded_def)
qed


definition silent_socket :: "which \<Rightarrow> unit service" where
  "silent_socket w d t m p =
     (if w = Ipc then Inl (ipc_error not_running ''connection refused'') else Inr (JStr ''pong''), d, 1)"


text \<open>
  Under the default policy a repeated request met a daemon that is not running or a connection that
  was never made.
\<close>

lemma default_policy_resend:
  "mc_retry cfg = Some DEFAULT_RETRY_POLICY \<Longrightarrow> may_resend cfg e \<Longrightarrow>
     \<exists>c. en_reply e = Inl c \<and> (\<exists>msg d. c = TransportError not_running msg d \<or> c = TransportError connect_failed msg d)"
  by (cases "en_reply e"; cases "projl (en_reply e)")
     (auto simp: may_resend_def isNotRunning_def DEFAULT_RETRY_POLICY_def)

section \<open>Construction\<close>

record mx_options =
  mo_transport :: "preference option"
  mo_retry :: "retry_policy option option"
  mo_socketPath :: "string option"
  mo_env :: "environment option"
  mo_cliBin :: "string option"

text \<open>
  \<open>new MxClient(options)\<close>: an omitted \<open>retry\<close> is the default policy and \<open>retry: false\<close> is
  \<open>Some None\<close>; the process environment stands in for an omitted \<open>env\<close>.
\<close>

definition mx_client_config ::
  "(string list \<Rightarrow> string) \<Rightarrow> string \<Rightarrow> environment \<Rightarrow> mx_options \<Rightarrow> mx_config" where
  "mx_client_config path_join tmpdir process_env opts =
     (let env = (case mo_env opts of Some e \<Rightarrow> e | None \<Rightarrow> process_env) in
      \<lparr>mc_preference = (case mo_transport opts of Some t \<Rightarrow> t | None \<Rightarrow> Auto),
       mc_retry = (case mo_retry opts of None \<Rightarrow> Some DEFAULT_RETRY_POLICY | Some r \<Rightarrow> r),
       mc_socketPath = resolveSocketPath path_join tmpdir (mo_socketPath opts) env,
       mc_cliBinLabel =
         (case mo_cliBin opts of Some b \<Rightarrow> b
          | None \<Rightarrow> (case env ''MXL_AGENT_BIN'' of Some b \<Rightarrow> b | None \<Rightarrow> ''mx-agent''))\<rparr>)"

end
