(* ===== verification/Session_Descriptor.thy ===== *)
theory Session_Descriptor
  imports Client
begin

text \<open>
  The record a runtime persists across a restart (packages/toolbelt/src/session-descriptor.ts):
  its validation, which both serializing and parsing go through, and what the credential guard
  makes of the two forms of cursor. \<open>JSON.parse\<close> and \<open>JSON.stringify\<close> are fields of the
  JavaScript runtime.
\<close>

section \<open>Fallible steps in sequence\<close>

definition then_ok :: "'e + 'a \<Rightarrow> ('a \<Rightarrow> 'e + 'b) \<Rightarrow> 'e + 'b" where
  "then_ok x f = (case x of Inl e \<Rightarrow> Inl e | Inr a \<Rightarrow> f a)"

lemma then_ok_simps [simp]: "then_ok (Inl e) f = Inl e" "then_ok (Inr a) f = f a"
  by (simp_all add: then_ok_def)

lemma then_ok_Inr: "then_ok x f = Inr b \<longleftrightarrow> (\<exists>a. x = Inr a \<and> f a = Inr b)"
  by (cases x) simp_all

lemma then_ok_Inl: "then_ok x f = Inl e \<longleftrightarrow> x = Inl e \<or> (\<exists>a. x = Inr a \<and> f a = Inl e)"
  by (cases x) auto

section \<open>Validation\<close>

definition SESSION_DESCRIPTOR_VERSION :: rat where
  "SESSION_DESCRIPTOR_VERSION = 1"

record task_cursor =
  cu_state_rev :: "rat option"
  cu_token :: "string option"

record session_descriptor =
  sd_agent_id :: string
  sd_room :: string
  sd_correlation_id :: string
  sd_kind :: "string option"
  sd_cursor :: "task_cursor option"

definition descriptor_fail :: "string \<Rightarrow> thrown" where
  "descriptor_fail message = TransportError transport_invalid_args message JUndef"

definition field_message :: "string \<Rightarrow> string \<Rightarrow> thrown" where
  "field_message field what = descriptor_fail (''session descriptor field '' @ quoted field @ '' must be '' @ what)"

definition readNonEmptyString :: "json \<Rightarrow> string \<Rightarrow> thrown + string" where
  "readNonEmptyString v field =
     (case v of
        JStr s \<Rightarrow> if s = [] then Inl (field_message field ''a non-empty string'') else Inr s
      | _ \<Rightarrow> Inl (field_message field ''a non-empty string''))"

definition read_state_rev :: "json \<Rightarrow> thrown + rat option" where
  "read_state_rev v =
     (case v of
        JUndef \<Rightarrow> Inr None
      | JNum (Fin r) \<Rightarrow> Inr (Some r)
      | _ \<Rightarrow> Inl (field_message ''cursor.state_rev'' ''a finite number''))"

definition read_optional_string :: "json \<Rightarrow> string \<Rightarrow> thrown + string option" where
  "read_optional_string v field =
     (case v of
        JUndef \<Rightarrow> Inr None
      | JStr s \<Rightarrow> Inr (Some s)
      | _ \<Rightarrow> Inl (field_message field ''a string''))"

definition readCursor :: "json \<Rightarrow> thrown + task_cursor option" where
  "readCursor v =
     (case v of
        JUndef \<Rightarrow> Inr None
      | JNull \<Rightarrow> Inr None
      | JObj ob \<Rightarrow>
          then_ok (read_state_rev (jget ob ''state_rev'')) (\<lambda>state_rev.
          then_ok (read_optional_string (jget ob ''token'') ''cursor.token'') (\<lambda>token.
            Inr (Some \<lparr>cu_state_rev = state_rev, cu_token = token\<rparr>)))
      | _ \<Rightarrow> Inl (field_message ''cursor'' ''an object''))"

text \<open>The named fields, in the order they are read; the first bad one is reported.\<close>

definition read_descriptor :: "obj \<Rightarrow> thrown + session_descriptor" where
  "read_descriptor ob =
     then_ok (readNonEmptyString (jget ob ''agent_id'') ''agent_id'') (\<lambda>agent_id.
     then_ok (readNonEmptyString (jget ob ''room'') ''room'') (\<lambda>room.
     then_ok (readNonEmptyString (jget ob ''correlation_id'') ''correlation_id'') (\<lambda>correlation_id.
     then_ok (read_optional_string (jget ob ''kind'') ''kind'') (\<lambda>kind.
     then_ok (readCursor (jget ob ''cursor'')) (\<lambda>cursor.
       Inr \<lparr>sd_agent_id = agent_id, sd_room = room, sd_correlation_id = correlation_id,
            sd_kind = kind, sd_cursor = cursor\<rparr>)))))"

definition assertSessionDescriptor :: "json \<Rightarrow> thrown + session_descriptor" where
  "assertSessionDescriptor v =
     (case v of
        JObj ob \<Rightarrow>
          (case assertNoCredentialShapedArgs (JObj ob) ''$descriptor'' of
             Some e \<Rightarrow> Inl e
           | None \<Rightarrow>
               if jget ob ''v'' \<noteq> JNum (Fin SESSION_DESCRIPTOR_VERSION)
               then Inl (descriptor_fail ''unsupported session descriptor version (expected 1)'')
               else read_descriptor ob)
      | _ \<Rightarrow> Inl (descriptor_fail ''session descriptor must be an object''))"

text \<open>The object the validator builds.\<close>

definition cursor_json :: "task_cursor \<Rightarrow> json" where
  "cursor_json c =
     JObj (opt_field ''state_rev'' (map_option (JNum \<circ> Fin) (cu_state_rev c))
       @ opt_field ''token'' (map_option JStr (cu_token c)))"

definition descriptor_json :: "session_descriptor \<Rightarrow> json" where
  "descriptor_json d =
     JObj ([(''v'', JNum (Fin SESSION_DESCRIPTOR_VERSION)), (''agent_id'', JStr (sd_agent_id d)),
            (''room'', JStr (sd_room d)), (''correlation_id'', JStr (sd_correlation_id d))]
       @ opt_field ''kind'' (map_option JStr (sd_kind d))
       @ opt_field ''cursor'' (map_option cursor_json (sd_cursor d)))"

definition serializeSessionDescriptor :: "js_runtime \<Rightarrow> json \<Rightarrow> thrown + string" where
  "serializeSessionDescriptor js v =
     (case assertSessionDescriptor v of Inl e \<Rightarrow> Inl e | Inr d \<Rightarrow> Inr (stringify js (descriptor_json d)))"

definition parseSessionDescriptor :: "js_runtime \<Rightarrow> string \<Rightarrow> thrown + session_descriptor" where
  "parseSessionDescriptor js text =
     (case parse_json js text of
        Inl _ \<Rightarrow> Inl (descriptor_fail ''session descriptor is not valid JSON'')
      | Inr v \<Rightarrow> assertSessionDescriptor v)"

section \<open>What validation keeps\<close>

definition invalid_args_error :: "thrown \<Rightarrow> bool" where
  "invalid_args_error e = (\<exists>msg. e = TransportError transport_invalid_args msg JUndef)"

definition well_formed :: "session_descriptor \<Rightarrow> bool" where
  "well_formed d = (sd_agent_id d \<noteq> [] \<and> sd_room d \<noteq> [] \<and> sd_correlation_id d \<noteq> [])"

lemma readCursor_json: "readCursor (cursor_json c) = Inr (Some c)"
  by (cases c)
     (simp add: readCursor_def cursor_json_def read_state_rev_def read_optional_string_def
        jget_append jget_opt_field or_default_def split: option.split)

lemma readNonEmptyString_Inr: "readNonEmptyString v f = Inr s \<longleftrightarrow> v = JStr s \<and> s \<noteq> []"
  by (auto simp: readNonEmptyString_def split: json.split)

lemma read_optional_string_Inr:
  "read_optional_string v f = Inr s \<longleftrightarrow> v = or_default (map_option JStr s) JUndef"
  by (cases s) (auto simp: read_optional_string_def split: json.splits)

lemma readCursor_again: "readCursor (or_default (map_option cursor_json c) JUndef) = Inr c"
  by (cases c) (simp_all add: readCursor_json, simp add: readCursor_def)

lemma read_descriptor_Inr:
  "read_descriptor ob = Inr d \<longleftrightarrow>
     well_formed d \<and> jget ob ''agent_id'' = JStr (sd_agent_id d) \<and> jget ob ''room'' = JStr (sd_room d)
     \<and> jget ob ''correlation_id'' = JStr (sd_correlation_id d)
     \<and> jget ob ''kind'' = or_default (map_option JStr (sd_kind d)) JUndef
     \<and> readCursor (jget ob ''cursor'') = Inr (sd_cursor d)"
  unfolding read_descriptor_def well_formed_def then_ok_Inr readNonEmptyString_Inr read_optional_string_Inr
  by (cases d) auto

lemma field_code [simp]: "invalid_args_error (descriptor_fail m)" "invalid_args_error (field_message f w)"
  by (simp_all add: field_message_def descriptor_fail_def invalid_args_error_def)

lemma reader_codes:
  "readNonEmptyString v f = Inl e \<Longrightarrow> invalid_args_error e"
  "read_state_rev v = Inl e \<Longrightarrow> invalid_args_error e"
  "read_optional_string v f = Inl e \<Longrightarrow> invalid_args_error e"
  unfolding readNonEmptyString_def read_state_rev_def read_optional_string_def
  by (auto split: json.splits jsnum.splits if_splits)

lemma readCursor_code: "readCursor v = Inl e \<Longrightarrow> invalid_args_error e"
  unfolding readCursor_def by (cases v) (auto simp: then_ok_Inl dest: reader_codes)

lemma read_descriptor_code: "read_descriptor ob = Inl e \<Longrightarrow> invalid_args_error e"
  unfolding read_descriptor_def then_ok_Inl
  by (elim disjE exE conjE; (drule reader_codes(1) reader_codes(3) readCursor_code)?; simp)

lemma assertSessionDescriptor_Inr:
  "assertSessionDescriptor v = Inr d \<longleftrightarrow>
     (\<exists>ob. v = JObj ob \<and> \<not> carries_credential (JObj ob)
        \<and> jget ob ''v'' = JNum (Fin SESSION_DESCRIPTOR_VERSION) \<and> read_descriptor ob = Inr d)"
  unfolding guard_iff [of _ "''$descriptor''", symmetric]
  by (cases v) (simp_all add: assertSessionDescriptor_def split: option.split del: assertNoCredentialShapedArgs.simps)

lemma carries_entries:
  "carries_credential (JObj ob) \<longleftrightarrow> list_ex (\<lambda>(k, x). credential_key k \<or> carries_credential x) ob"
  by (auto simp: list_ex_iff)

lemma clean_jget:
  assumes "\<not> carries_credential (JObj ob)" and "jget ob k \<noteq> JUndef"
  shows "\<not> carries_credential (jget ob k) \<and> \<not> credential_key k"
proof -
  have "(k, jget ob k) \<in> set ob"
    using assms(2) by (auto simp: jget_def dest: map_of_SomeD split: option.splits)
  with assms(1) show ?thesis by auto
qed

lemma descriptor_keys:
  "\<not> credential_key ''v''" "\<not> credential_key ''agent_id''" "\<not> credential_key ''room''"
  "\<not> credential_key ''correlation_id''" "\<not> credential_key ''kind''" "\<not> credential_key ''cursor''"
  "\<not> credential_key ''state_rev''" "credential_key ''token''"
  by code_simp+

text \<open>A cursor that passes the guard has no token: the guard takes the key for a credential.\<close>

lemma clean_cursor:
  assumes "\<not> carries_credential v" and "readCursor v = Inr (Some c)"
  shows "cu_token c = None \<and> \<not> carries_credential (cursor_json c)"
proof -
  obtain ob where v: "v = JObj ob" and tok: "jget ob ''token'' = or_default (map_option JStr (cu_token c)) JUndef"
    using assms(2) by (auto simp: readCursor_def then_ok_Inr read_optional_string_Inr split: json.splits)
  have "cu_token c = None"
  proof (rule ccontr)
    assume "cu_token c \<noteq> None"
    then have "jget ob ''token'' \<noteq> JUndef" using tok by auto
    from clean_jget [OF assms(1) [unfolded v] this] show False using descriptor_keys(8) by blast
  qed
  then show ?thesis using descriptor_keys(7) by (cases "cu_state_rev c") (simp_all add: cursor_json_def)
qed

lemma descriptor_clean:
  assumes "\<not> carries_credential (JObj ob)" and "read_descriptor ob = Inr d"
  shows "\<not> carries_credential (descriptor_json d)"
proof -
  note f = assms(2) [unfolded read_descriptor_Inr]
  have s: "\<not> credential_value s" if "jget ob k = JStr s" for k s
    using clean_jget [OF assms(1), of k] that by simp
  have kind: "\<not> carries_credential x" if "map_option JStr (sd_kind d) = Some x" for x
    using that f s [of "''kind''"] by auto
  have cursor: "\<not> carries_credential x" if x: "map_option cursor_json (sd_cursor d) = Some x" for x
  proof -
    from x obtain c where c: "sd_cursor d = Some c" "x = cursor_json c" by auto
    then have "readCursor (jget ob ''cursor'') = Inr (Some c)" using f by simp
    moreover from this have "jget ob ''cursor'' \<noteq> JUndef" by (auto simp: readCursor_def)
    ultimately show ?thesis using clean_cursor clean_jget [OF assms(1)] c(2) by blast
  qed
  show ?thesis
    using s [of "''agent_id''"] s [of "''room''"] s [of "''correlation_id''"] f descriptor_keys kind cursor
    by (cases "sd_kind d"; cases "sd_cursor d")
       (simp_all add: descriptor_json_def carries_entries del: carries_credential_simps(7))
qed

lemma descriptor_revalidates:
  assumes "assertSessionDescriptor v = Inr d"
  shows "assertSessionDescriptor (descriptor_json d) = Inr d"
proof -
  from assms obtain ob where ob: "\<not> carries_credential (JObj ob)" "read_descriptor ob = Inr d"
    by (auto simp: assertSessionDescriptor_Inr)
  obtain fs where fs: "descriptor_json d = JObj fs" by (simp add: descriptor_json_def)
  note f = ob(2) [unfolded read_descriptor_Inr]
  have "read_descriptor fs = Inr d"
    unfolding read_descriptor_Inr
    using fs f readCursor_again [of "sd_cursor d"]
    by (auto simp: descriptor_json_def jget_append jget_opt_field)
  moreover have "jget fs ''v'' = JNum (Fin SESSION_DESCRIPTOR_VERSION)"
    using fs by (auto simp: descriptor_json_def)
  ultimately show ?thesis
    using descriptor_clean [OF ob] fs by (simp add: assertSessionDescriptor_Inr)
qed

lemma assertSessionDescriptor_code:
  assumes "assertSessionDescriptor v = Inl e"
  shows "invalid_args_error e"
proof (cases v)
  case (JObj ob)
  show ?thesis
  proof (cases "assertNoCredentialShapedArgs (JObj ob) ''$descriptor''")
    case None
    with assms JObj show ?thesis
      by (auto simp: assertSessionDescriptor_def intro: read_descriptor_code split: if_splits
          simp del: assertNoCredentialShapedArgs.simps)
  next
    case (Some err)
    with guard_sound [OF Some] assms JObj show ?thesis
      by (simp add: assertSessionDescriptor_def invalid_args_error_def del: assertNoCredentialShapedArgs.simps)
  qed
qed (use assms in \<open>auto simp: assertSessionDescriptor_def\<close>)

lemma validated_cursor:
  assumes "assertSessionDescriptor v = Inr d" and "sd_cursor d = Some c"
  shows "cu_token c = None"
proof -
  from assms(1) obtain ob where ob: "\<not> carries_credential (JObj ob)" "read_descriptor ob = Inr d"
    unfolding assertSessionDescriptor_Inr by blast
  then have c: "readCursor (jget ob ''cursor'') = Inr (Some c)" using assms(2) by (simp add: read_descriptor_Inr)
  then have "jget ob ''cursor'' \<noteq> JUndef" by (auto simp: readCursor_def)
  then show ?thesis using clean_cursor [OF _ c] clean_jget [OF ob(1)] by blast
qed

section \<open>Properties\<close>

text \<open>
  What a runtime persists it can read back. If a value validates as the descriptor \<open>d\<close>, then
  serializing it succeeds and parsing that text yields \<open>d\<close> again, for every JSON implementation
  that reads back what it writes for this one object; and neither the value nor the object
  that is written carries a credential-shaped key or string.
\<close>

theorem descriptor_roundtrip:
  assumes "assertSessionDescriptor v = Inr d"
    and "parse_json js (stringify js (descriptor_json d)) = Inr (descriptor_json d)"
  shows "(\<exists>text. serializeSessionDescriptor js v = Inr text \<and> parseSessionDescriptor js text = Inr d)
         \<and> \<not> carries_credential v \<and> \<not> carries_credential (descriptor_json d)"
proof -
  from assms(1) obtain ob where ob: "v = JObj ob" "\<not> carries_credential (JObj ob)" "read_descriptor ob = Inr d"
    unfolding assertSessionDescriptor_Inr by blast
  with descriptor_clean [OF ob(2,3)] show ?thesis
    using assms descriptor_revalidates [OF assms(1)]
    by (simp add: serializeSessionDescriptor_def parseSessionDescriptor_def del: carries_credential_simps)
qed

definition demo_descriptor :: json where
  "demo_descriptor =
     JObj [(''v'', JNum (Fin 1)), (''agent_id'', JStr ''a1''), (''room'', JStr ''!r''),
           (''correlation_id'', JStr ''corr_1''), (''note'', JStr ''dropped''),
           (''cursor'', JObj [(''state_rev'', JNum (Fin 7))])]"

definition demo_json :: js_runtime where
  "demo_json =
     \<lparr>parse_json = (\<lambda>_. Inr (JObj [(''v'', JNum (Fin 1)), (''agent_id'', JStr ''a1''), (''room'', JStr ''!r''),
        (''correlation_id'', JStr ''corr_1''), (''cursor'', JObj [(''state_rev'', JNum (Fin 7))])])),
      stringify = (\<lambda>_. ''{...}''), show_value = (\<lambda>_. [])\<rparr>"

theorem descriptor_roundtrip_witness:
  "\<exists>text. serializeSessionDescriptor demo_json demo_descriptor = Inr text
     \<and> parseSessionDescriptor demo_json text =
         Inr \<lparr>sd_agent_id = ''a1'', sd_room = ''!r'', sd_correlation_id = ''corr_1'', sd_kind = None,
              sd_cursor = Some \<lparr>cu_state_rev = Some 7, cu_token = None\<rparr>\<rparr>"
proof -
  let ?d = "\<lparr>sd_agent_id = ''a1'', sd_room = ''!r'', sd_correlation_id = ''corr_1'', sd_kind = None,
              sd_cursor = Some \<lparr>cu_state_rev = Some 7, cu_token = None\<rparr>\<rparr>"
  have "assertSessionDescriptor demo_descriptor = Inr ?d" by code_simp
  moreover have "parse_json demo_json (stringify demo_json (descriptor_json ?d)) = Inr (descriptor_json ?d)"
    by code_simp
  ultimately show ?thesis using descriptor_roundtrip [of demo_descriptor ?d demo_json] by blast
qed

text \<open>
  A cursor token never survives. Although a descriptor's cursor may carry an opaque daemon
  token, every descriptor object with a \<open>token\<close> entry in its cursor is refused as \<open>invalid_args\<close>,
  on writing and on reading, because the credential guard takes the key for a credential; so a
  validated cursor has a revision at most.
\<close>

theorem cursor_token_refused:
  "(\<exists>e. assertSessionDescriptor (JObj (before @ (''cursor'', JObj (xs @ (''token'', t) # ys)) # after)) = Inl e
        \<and> invalid_args_error e)
   \<and> (case assertSessionDescriptor v of
        Inl e \<Rightarrow> invalid_args_error e
      | Inr d \<Rightarrow> (case sd_cursor d of None \<Rightarrow> True | Some c \<Rightarrow> cu_token c = None))"
proof -
  have codes: "invalid_args_error e" if "assertSessionDescriptor v = Inl e" for v e
    using that assertSessionDescriptor_code by blast
  have tokens: "cu_token c = None" if "assertSessionDescriptor v = Inr d" "sd_cursor d = Some c" for v d c
    using that validated_cursor by blast
  let ?v = "JObj (before @ (''cursor'', JObj (xs @ (''token'', t) # ys)) # after)"
  have "carries_credential ?v"
    using descriptor_keys(8) by (simp add: carries_entries del: carries_credential_simps(7))
  then have "assertSessionDescriptor ?v \<noteq> Inr d" for d
    by (simp add: assertSessionDescriptor_Inr del: carries_credential_simps)
  then obtain e where "assertSessionDescriptor ?v = Inl e" by (cases "assertSessionDescriptor ?v") auto
  with codes tokens show ?thesis by (auto split: sum.split option.split)
qed

end
