(* ===== verification/Handler.thy ===== *)
theory Handler
  imports Await Registry
begin

text \<open>
  The effects the verb handlers share (a daemon call with its \<open>try\<close>/\<open>catch\<close>, the value a promise
  resolves to, fresh identifiers), a small calculus of the requests a handler may send, and the
  contract of a verb handler as a locale: it resolves, its envelope is well built, and it asks the
  daemon only for the methods it declares. Every handler theory interprets it.
\<close>

section \<open>Effects\<close>

text \<open>An asynchronous computation: \<open>None\<close> is a promise that never settles.\<close>

type_synonym ('d, 'a) async = "'d host \<Rightarrow> ('a \<times> 'd host) option"

definition resolve :: "'a \<Rightarrow> ('d, 'a) async" where
  "resolve x h = Some (x, h)"

definition await :: "('d, 'a) async \<Rightarrow> ('a \<Rightarrow> ('d, 'b) async) \<Rightarrow> ('d, 'b) async" where
  "await m k h = (case m h of None \<Rightarrow> None | Some (x, h') \<Rightarrow> k x h')"

text \<open>\<open>try { raw = await daemon.call(method, params) } catch (err) { ... }\<close>\<close>

definition call_or ::
  "'d daemon_call \<Rightarrow> string \<Rightarrow> json \<Rightarrow> (thrown \<Rightarrow> ('d, 'a) async) \<Rightarrow> (json \<Rightarrow> ('d, 'a) async)
     \<Rightarrow> ('d, 'a) async" where
  "call_or call m p on_err on_ok h =
     (case call m p h of (Inl e, h') \<Rightarrow> on_err e h' | (Inr raw, h') \<Rightarrow> on_ok raw h')"

definition with_uuid :: "(string \<Rightarrow> ('d, 'a) async) \<Rightarrow> ('d, 'a) async" where
  "with_uuid k h = (case randomUUID h of (u, h') \<Rightarrow> k u h')"

section \<open>Requests a computation may send\<close>

text \<open>
  \<open>emits R Q run\<close>: against any host, \<open>run\<close> settles, every request it appends to the daemon's log
  satisfies \<open>R\<close>, and its value satisfies \<open>Q\<close>. \<open>sends M Q run\<close> is the case where \<open>R\<close> looks at the
  method only.
\<close>

definition emits :: "(request \<Rightarrow> bool) \<Rightarrow> ('a \<Rightarrow> bool) \<Rightarrow> ('d \<times> request list, 'a) async \<Rightarrow> bool" where
  "emits R Q run =
     (\<forall>h. \<exists>x h' rs. run h = Some (x, h') \<and> Q x \<and> requests h' = requests h @ rs \<and> list_all R rs)"

abbreviation sends :: "string set \<Rightarrow> ('a \<Rightarrow> bool) \<Rightarrow> ('d \<times> request list, 'a) async \<Rightarrow> bool" where
  "sends M \<equiv> emits (\<lambda>r. fst r \<in> M)"

lemma emitsE:
  assumes "emits R Q run"
  obtains x h' rs where "run h = Some (x, h')" "Q x" "requests h' = requests h @ rs" "list_all R rs"
  using assms unfolding emits_def by blast

lemma sends_resolve [intro]: "Q x \<Longrightarrow> emits R Q (resolve x)"
  by (simp add: emits_def resolve_def)

lemma sends_await:
  assumes "emits R P run" and "\<And>x. P x \<Longrightarrow> emits R Q (k x)"
  shows "emits R Q (await run k)"
  unfolding emits_def
proof
  fix h
  from assms(1) obtain x h' rs where x: "run h = Some (x, h')" "P x" "requests h' = requests h @ rs"
      "list_all R rs" by (rule emitsE)
  from assms(2) [OF x(2)] obtain y h'' rs' where "k x h' = Some (y, h'')" "Q y"
      "requests h'' = requests h' @ rs'" "list_all R rs'" by (rule emitsE)
  with x show "\<exists>y h' rs. await run k h = Some (y, h') \<and> Q y \<and> requests h' = requests h @ rs \<and> list_all R rs"
    by (simp add: await_def)
qed

lemma sends_call [intro]:
  assumes "R (m, p)" and "\<And>e. emits R Q (on_err e)" and "\<And>raw. emits R Q (on_ok raw)"
  shows "emits R Q (call_or (serve (logging f)) m p on_err on_ok)"
  unfolding emits_def
proof
  fix h
  obtain r h' where r: "serve (logging f) m p h = (r, h')" by fastforce
  have log: "requests h' = requests h @ [(m, p)]" using r by (metis serve_logging snd_conv)
  define k where "k = (case r of Inl e \<Rightarrow> on_err e | Inr raw \<Rightarrow> on_ok raw)"
  have "emits R Q k" using assms(2,3) by (simp add: k_def split: sum.split)
  then obtain y h'' rs where k: "k h' = Some (y, h'')" "Q y" "requests h'' = requests h' @ rs"
      "list_all R rs" by (rule emitsE)
  have "call_or (serve (logging f)) m p on_err on_ok h = k h'"
    by (simp add: call_or_def r k_def split: sum.split)
  with k log assms(1) show "\<exists>y h' rs. call_or (serve (logging f)) m p on_err on_ok h = Some (y, h') \<and> Q y
      \<and> requests h' = requests h @ rs \<and> list_all R rs"
    by (intro exI [of _ y] exI [of _ h''] exI [of _ "(m, p) # rs"]) simp
qed

lemma sends_uuid [intro]:
  fixes k :: "string \<Rightarrow> ('d \<times> request list, 'a) async"
  assumes "\<And>u. emits R Q (k u)"
  shows "emits R Q (with_uuid k)"
  unfolding emits_def
proof
  fix h :: "('d \<times> request list) host"
  define u where "u = fst (randomUUID h)"
  define h1 where "h1 = snd (randomUUID h)"
  have "requests h1 = requests h" by (simp add: h1_def randomUUID_def requests_def)
  moreover have "with_uuid k h = k u h1" by (simp add: with_uuid_def split_beta u_def h1_def)
  moreover obtain x h' rs where "k u h1 = Some (x, h')" "Q x" "requests h' = requests h1 @ rs"
      "list_all R rs"
    using assms by (rule emitsE)
  ultimately show "\<exists>x h' rs. with_uuid k h = Some (x, h') \<and> Q x \<and> requests h' = requests h @ rs
      \<and> list_all R rs"
    by simp
qed

lemma sends_if: "(b \<Longrightarrow> emits R Q x) \<Longrightarrow> (\<not> b \<Longrightarrow> emits R Q y) \<Longrightarrow> emits R Q (if b then x else y)"
  by simp

lemma sends_option:
  "(v = None \<Longrightarrow> emits R Q x) \<Longrightarrow> (\<And>a. v = Some a \<Longrightarrow> emits R Q (y a)) \<Longrightarrow>
     emits R Q (case v of None \<Rightarrow> x | Some a \<Rightarrow> y a)"
  by (simp split: option.split)

lemma sends_sum:
  "(\<And>a. v = Inl a \<Longrightarrow> emits R Q (x a)) \<Longrightarrow> (\<And>a. v = Inr a \<Longrightarrow> emits R Q (y a)) \<Longrightarrow>
     emits R Q (case v of Inl a \<Rightarrow> x a | Inr a \<Rightarrow> y a)"
  by (simp split: sum.split)

lemma emits_weaken:
  assumes "emits R P run" and "\<And>x. P x \<Longrightarrow> Q x" and "\<And>r. R r \<Longrightarrow> R' r"
  shows "emits R' Q run"
  unfolding emits_def
proof
  fix h
  from assms(1) obtain x h' rs where "run h = Some (x, h')" "P x" "requests h' = requests h @ rs"
      "list_all R rs" by (rule emitsE)
  with assms(2,3) show "\<exists>x h' rs. run h = Some (x, h') \<and> Q x \<and> requests h' = requests h @ rs \<and> list_all R' rs"
    by (metis list.pred_mono_strong)
qed

lemmas sends_intros = sends_resolve sends_call sends_uuid sends_if sends_option sends_sum

section \<open>The contract of a verb handler\<close>

locale verb_handler =
  fixes run :: "('d \<times> request list, obj tool_result) async" and methods :: "string list"
  assumes contract: "sends (set methods) well_built run"
    and no_authority_method: "list_all (\<lambda>m. \<not> isForbiddenAuthorityVerb m) methods"
begin

lemma settles:
  "\<exists>r h' rs. run h = Some (r, h') \<and> well_built r \<and> requests h' = requests h @ rs
     \<and> list_all (\<lambda>r. fst r \<in> set methods) rs"
  using contract unfolding emits_def by blast

lemma envelope:
  "\<exists>r h'. run h = Some (r, h') \<and> presence_ok r \<and> (conforms JObj r \<or> function_error r)"
  using settles [of h] well_built_conforms [where enc = "\<lambda>x. x"] unfolding well_built_def by blast

lemma never_authority:
  "emits (\<lambda>r. \<not> isForbiddenAuthorityVerb (fst r)) well_built run"
  using contract no_authority_method by (elim emits_weaken) (simp_all add: list_all_iff)

end

section \<open>Dependencies over a logged daemon\<close>

definition logged_deps ::
  "'d service \<Rightarrow> jsnum option \<Rightarrow> string option \<Rightarrow> schema_validator option \<Rightarrow> ('d \<times> request list) delegate_deps" where
  "logged_deps f interval room validator =
     \<lparr>d_daemon = serve (logging f), d_sleep = None, d_now = None, d_pollIntervalMs = interval,
      d_room = room, d_validator = validator\<rparr>"

lemma logged_deps_fields [simp]:
  "d_daemon (logged_deps f interval room validator) = serve (logging f)"
  "d_pollIntervalMs (logged_deps f interval room validator) = interval"
  "d_room (logged_deps f interval room validator) = room"
  "d_validator (logged_deps f interval room validator) = validator"
  "now_of (logged_deps f interval room validator) = clock"
  "sleep_of (logged_deps f interval room validator) = realSleep"
  by (auto simp: logged_deps_def now_of_def sleep_of_def date_now_def fun_eq_iff)

interpretation logged_clock: polling_clock "logged_deps f interval room validator" "\<lambda>h. length (requests h)"
  by unfold_locales (auto simp: realSleep_def requests_def serve_clock serve_logging [unfolded requests_def])

text \<open>\<open>mx_await_result\<close> sends nothing but \<open>invocation.get\<close>.\<close>

definition polls_only :: "('d \<times> request list) host \<Rightarrow> ('d \<times> request list) host \<Rightarrow> bool" where
  "polls_only h h' = (\<exists>rs. requests h' = requests h @ rs \<and> list_all (\<lambda>r. fst r \<in> {''invocation.get''}) rs)"

lemma polls_only_refl: "polls_only h h"
  by (simp add: polls_only_def)

lemma polls_only_trans: "polls_only h h' \<Longrightarrow> polls_only h' h'' \<Longrightarrow> polls_only h h''"
proof -
  assume "polls_only h h'" "polls_only h' h''"
  then obtain rs rs' where "requests h' = requests h @ rs" "requests h'' = requests h' @ rs'"
      "list_all (\<lambda>r. fst r \<in> {''invocation.get''}) rs" "list_all (\<lambda>r. fst r \<in> {''invocation.get''}) rs'"
    unfolding polls_only_def by blast
  then have "requests h'' = requests h @ (rs @ rs')" "list_all (\<lambda>r. fst r \<in> {''invocation.get''}) (rs @ rs')"
    by simp_all
  then show ?thesis unfolding polls_only_def by blast
qed

lemma polls_only_sleep: "polls_only h (realSleep ms h)"
  by (simp add: polls_only_def realSleep_def requests_def)

lemma polls_only_probe: "polls_only h (snd (probe hdl (logged_deps f interval room validator) h))"
  by (simp add: logged_clock.probe_host polls_only_def)

lemma await_loop_polls:
  assumes "await_loop (logged_deps f interval room validator) hdl i deadline current h = Some rh"
  shows "polls_only h (snd rh)"
proof -
  let ?deps = "logged_deps f interval room validator"
  have "deps = ?deps \<longrightarrow> polls_only h (snd rh)"
    if "await_loop deps hdl i deadline current h = Some rh" for deps hdl i deadline current h rh
    using that
  proof (rule await_loop.raw_induct
      [where P = "\<lambda>deps hdl i deadline current h rh. deps = ?deps \<longrightarrow> polls_only h (snd rh)", rotated])
    fix loop deps hdl i deadline current h rh
    assume IH: "\<And>deps hdl i deadline current h rh.
        loop deps hdl i deadline current h = Some rh \<Longrightarrow> deps = ?deps \<longrightarrow> polls_only h (snd rh)"
      and run: "(let remaining = deadline - now_of deps h in
          if remaining \<le> 0 then Some (current, h)
          else let h1 = sleep_of deps (min i remaining) h; current' = fst (probe hdl deps h1);
                   h2 = snd (probe hdl deps h1) in
               if isTerminal (r_status current') then Some (current', h2)
               else loop deps hdl i deadline current' h2) = Some rh"
    show "deps = ?deps \<longrightarrow> polls_only h (snd rh)"
    proof
      assume deps: "deps = ?deps"
      let ?h2 = "snd (probe hdl ?deps (realSleep (min i (deadline - clock h)) h))"
      have step: "polls_only h ?h2" using polls_only_trans [OF polls_only_sleep polls_only_probe] .
      consider (out) "rh = (current, h)" | (last) "snd rh = ?h2"
        | (again) c where "loop ?deps hdl i deadline c ?h2 = Some rh"
        using run unfolding deps logged_deps_fields Let_def by (metis option.inject snd_conv)
      then show "polls_only h (snd rh)"
      proof cases
        case out
        then show ?thesis by (simp add: polls_only_refl)
      next
        case last
        with step show ?thesis by simp
      next
        case again
        with IH have "polls_only ?h2 (snd rh)" by blast
        with step show ?thesis by (rule polls_only_trans)
      qed
    qed
  qed
  with assms show ?thesis by blast
qed

lemma await_sends:
  "sends {''invocation.get''} well_built (mxAwaitResult hdl wait_ms (logged_deps f interval room validator))"
  unfolding emits_def
proof
  fix h
  let ?deps = "logged_deps f interval room validator"
  obtain r h' where r: "mxAwaitResult hdl wait_ms ?deps h = Some (r, h')" "well_built r"
    using logged_clock.await_returns [of hdl wait_ms f interval room validator h] by blast
  let ?h1 = "snd (probe hdl ?deps h)"
  consider "h' = ?h1" | i dl where "await_loop ?deps hdl i dl (fst (probe hdl ?deps h)) ?h1 = Some (r, h')"
    using r(1) by (auto simp: mxAwaitResult_def split_beta Let_def split: if_splits)
  then have "polls_only h h'"
  proof cases
    case 1
    then show ?thesis by (simp add: polls_only_probe)
  next
    case 2
    from await_loop_polls [OF this] show ?thesis
      using polls_only_trans [OF polls_only_probe] by simp
  qed
  with r show "\<exists>x h' rs. mxAwaitResult hdl wait_ms ?deps h = Some (x, h') \<and> well_built x
      \<and> requests h' = requests h @ rs \<and> list_all (\<lambda>r. fst r \<in> {''invocation.get''}) rs"
    unfolding polls_only_def by blast
qed

interpretation await_result: verb_handler
  "mxAwaitResult hdl wait_ms (logged_deps f interval room validator)" "[''invocation.get'']"
proof
  show "sends (set [''invocation.get'']) well_built (mxAwaitResult hdl wait_ms (logged_deps f interval room validator))"
    using await_sends by simp
  show "list_all (\<lambda>m. \<not> isForbiddenAuthorityVerb m) [''invocation.get'']" by code_simp
qed

end
