(* ===== verification/Edges.thy ===== *)
theory Edges
  imports Loom_Prelude
begin

text \<open>
  Duplicate suppression as the source does it: \<open>[...new Set(xs)]\<close> on strings, and lists of graph
  edges pruned through a set of string keys, one per edge, that a template literal builds by
  joining the edge's fields with a separator. The locale states what a key must satisfy for the
  pruning to be exact; the task projections of the registry and of the toolbelt use different
  separators, and each interprets it for the identifiers its separator allows.
\<close>

section \<open>First occurrences\<close>

definition js_unique :: "'a list \<Rightarrow> 'a list" where
  "js_unique xs = rev (remdups (rev xs))"

lemma js_unique_simps [simp]:
  "js_unique [] = []"
  "js_unique (xs @ [x]) = (if x \<in> set xs then js_unique xs else js_unique xs @ [x])"
  by (simp_all add: js_unique_def)

lemma js_unique_set [simp]: "set (js_unique xs) = set xs"
  by (simp add: js_unique_def)

lemma js_unique_distinct [simp]: "distinct (js_unique xs)"
  by (simp add: js_unique_def)

lemma js_unique_id: "distinct xs \<Longrightarrow> js_unique xs = xs"
  by (simp add: js_unique_def distinct_remdups_id)

section \<open>Edges and their keys\<close>

datatype edge_kind = Depends_on | Blocks

definition edge_kind_name :: "edge_kind \<Rightarrow> string" where
  "edge_kind_name k = (case k of Depends_on \<Rightarrow> ''depends_on'' | Blocks \<Rightarrow> ''blocks'')"

record task_edge =
  edge_from :: string
  edge_to :: string
  edge_kind_of :: edge_kind

definition edge_key :: "char \<Rightarrow> task_edge \<Rightarrow> string" where
  "edge_key sep e = edge_kind_name (edge_kind_of e) @ [sep] @ edge_from e @ [sep] @ edge_to e"

text \<open>One step of the loop: \<open>if (seen.has(key)) return; seen.add(key); out.push(edge)\<close>.\<close>

definition push_edge :: "('e \<Rightarrow> string) \<Rightarrow> 'e \<Rightarrow> string list \<times> 'e list \<Rightarrow> string list \<times> 'e list" where
  "push_edge key e = (\<lambda>(seen, out). if key e \<in> set seen then (seen, out) else (seen @ [key e], out @ [e]))"

definition push_edges :: "('e \<Rightarrow> string) \<Rightarrow> 'e list \<Rightarrow> 'e list \<Rightarrow> 'e list" where
  "push_edges key es out = snd (fold (push_edge key) es (map key out, out))"

locale faithful_keys =
  fixes key :: "'e \<Rightarrow> string" and wf :: "'e \<Rightarrow> bool"
  assumes key_inj: "wf e \<Longrightarrow> wf e' \<Longrightarrow> key e = key e' \<Longrightarrow> e = e'"
begin

lemma key_mem: "wf e \<Longrightarrow> list_all wf es \<Longrightarrow> key e \<in> set (map key es) \<longleftrightarrow> e \<in> set es"
  using key_inj by (auto simp: list_all_iff)

lemma fold_push:
  "list_all wf out \<Longrightarrow> list_all wf es \<Longrightarrow> distinct out \<Longrightarrow>
     fold (push_edge key) es (map key out, out) = (map key (js_unique (out @ es)), js_unique (out @ es))"
proof (induction es rule: rev_induct)
  case (snoc e es)
  have wf: "list_all wf (js_unique (out @ es))"
    using snoc.prems by (auto simp: list_all_iff)
  have e: "key e \<in> set (map key (js_unique (out @ es))) \<longleftrightarrow> e \<in> set (out @ es)"
    using key_mem [OF _ wf, of e] snoc.prems by simp
  have "js_unique (out @ es @ [e]) = js_unique ((out @ es) @ [e])" by simp
  with snoc e show ?case unfolding js_unique_simps
    by (simp add: push_edge_def del: js_unique_set set_map)
qed (simp add: js_unique_id)

text \<open>The pruned list is exactly the list of first occurrences.\<close>

lemma push_edges_unique:
  "list_all wf out \<Longrightarrow> list_all wf es \<Longrightarrow> distinct out \<Longrightarrow> push_edges key es out = js_unique (out @ es)"
  by (simp add: push_edges_def fold_push)

end

lemma split_at_separator:
  "c \<notin> set xs \<Longrightarrow> c \<notin> set ys \<Longrightarrow> xs @ c # us = ys @ c # vs \<Longrightarrow> xs = ys \<and> us = vs"
proof (induction xs arbitrary: ys)
  case Nil
  then show ?case by (cases ys) auto
next
  case (Cons x xs)
  then show ?case by (cases ys) auto
qed

lemma edge_kind_name_inj: "edge_kind_name a = edge_kind_name b \<longleftrightarrow> a = b"
  by (cases a; cases b) (simp_all add: edge_kind_name_def)

definition separable :: "char \<Rightarrow> task_edge \<Rightarrow> bool" where
  "separable sep e = (sep \<notin> set (edge_from e) \<and> sep \<notin> set (edge_to e))"

lemma edge_key_inj:
  assumes "sep \<notin> set (edge_kind_name Depends_on)" "sep \<notin> set (edge_kind_name Blocks)"
    and "separable sep e" "separable sep e'" "edge_key sep e = edge_key sep e'"
  shows "e = e'"
proof -
  have kinds: "sep \<notin> set (edge_kind_name k)" for k using assms(1,2) by (cases k) auto
  have key: "edge_kind_name (edge_kind_of e) @ sep # (edge_from e @ sep # edge_to e)
      = edge_kind_name (edge_kind_of e') @ sep # (edge_from e' @ sep # edge_to e')"
    using assms(5) by (simp add: edge_key_def)
  note outer = split_at_separator [OF kinds kinds key]
  have ends: "sep \<notin> set (edge_from e)" "sep \<notin> set (edge_from e')"
    using assms(3,4) by (simp_all add: separable_def)
  note inner = split_at_separator [OF ends conjunct2 [OF outer]]
  show ?thesis using outer inner by (simp add: edge_kind_name_inj)
qed

end
