(* ===== verification/Agents.thy ===== *)
theory Agents
  imports Handler Edges
begin

text \<open>
  Discovery (packages/registry/src/handlers/): the projections of the daemon's agent records
  (agent-projection.ts), \<open>mx_find_agents\<close> (find-agents.ts), \<open>mx_describe_agent\<close>
  (describe-agent.ts), and \<open>mx_workspace_status\<close> (workspace-projection.ts, workspace-status.ts).
  The object literals the source builds are association lists in the source's order.
\<close>

section \<open>Projections\<close>

datatype agent_liveness = active | stale | offline

definition liveness_name :: "agent_liveness \<Rightarrow> string" where
  "liveness_name l = (case l of active \<Rightarrow> ''active'' | stale \<Rightarrow> ''stale'' | offline \<Rightarrow> ''offline'')"

definition liveness_json :: "agent_liveness \<Rightarrow> json" where
  "liveness_json l = JStr (liveness_name l)"

record agent_list_row =
  row_agent :: obj
  row_liveness :: json

definition readLiveness :: "json \<Rightarrow> agent_liveness" where
  "readLiveness x =
     (if x = JStr ''active'' then active else if x = JStr ''stale'' then stale else offline)"

definition readListRow :: "json \<Rightarrow> agent_list_row option" where
  "readListRow row =
     (case asRecord row of
        None \<Rightarrow> None
      | Some r \<Rightarrow>
          (case asRecord (jget r ''agent'') of
             Some agent \<Rightarrow> Some \<lparr>row_agent = agent, row_liveness = jget r ''liveness''\<rparr>
           | None \<Rightarrow>
               (case jget r ''agent_id'' of
                  JStr _ \<Rightarrow> Some \<lparr>row_agent = r, row_liveness = jget r ''liveness''\<rparr>
                | _ \<Rightarrow> None)))"

fun tool_name_of :: "json \<Rightarrow> string option" where
  "tool_name_of (JStr t) = Some t"
| "tool_name_of (JObj r) = readString (jget r ''name'')"
| "tool_name_of _ = None"

definition readToolNames :: "json \<Rightarrow> string list option" where
  "readToolNames tools =
     (case tools of
        JArr ts \<Rightarrow> (let names = List.map_filter tool_name_of ts in if names = [] then None else Some names)
      | _ \<Rightarrow> None)"

definition strings_json :: "string list \<Rightarrow> json" where
  "strings_json xs = JArr (map JStr xs)"

definition projectAgentSummary :: "json \<Rightarrow> json \<Rightarrow> obj" where
  "projectAgentSummary agent liveness =
     (let a = or_default (asRecord agent) [];
          kind = readString (jget a ''kind'') in
      [(''agent_id'', JStr (or_default (readString (jget a ''agent_id'')) []))]
      @ opt_field ''kind'' (map_option JStr kind)
      @ [(''capabilities'', strings_json (readStringArray (jget a ''capabilities''))),
         (''liveness'', liveness_json (readLiveness liveness))])"

definition projectWorkspace :: "json \<Rightarrow> obj option" where
  "projectWorkspace x =
     (case asRecord x of
        None \<Rightarrow> None
      | Some w \<Rightarrow>
          (let cwd = readString (jget w ''cwd'');
               project_id = readString (jget w ''project_id'');
               git_commit = readString (jget w ''git_commit'') in
           if cwd = None \<and> project_id = None \<and> git_commit = None then None
           else Some (opt_field ''cwd'' (map_option JStr cwd)
                      @ opt_field ''project_id'' (map_option JStr project_id)
                      @ opt_field ''git_commit'' (map_option JStr git_commit))))"

definition projectLoad :: "json \<Rightarrow> obj option" where
  "projectLoad x =
     (case asRecord x of
        None \<Rightarrow> None
      | Some l \<Rightarrow>
          (let running = readNumber (jget l ''running_invocations'');
               mx = readNumber (jget l ''max_invocations'') in
           if running = None \<and> mx = None then None
           else Some (opt_field ''running_invocations'' (map_option JNum running)
                      @ opt_field ''max_invocations'' (map_option JNum mx))))"

definition projectAgentDetail :: "json \<Rightarrow> json \<Rightarrow> obj" where
  "projectAgentDetail agent liveness =
     (let a = or_default (asRecord agent) [] in
      [(''agent_id'', JStr (or_default (readString (jget a ''agent_id'')) []))]
      @ opt_field ''kind'' (map_option JStr (readString (jget a ''kind'')))
      @ opt_field ''status'' (map_option JStr (readString (jget a ''status'')))
      @ [(''capabilities'', strings_json (readStringArray (jget a ''capabilities''))),
         (''liveness'', liveness_json (readLiveness liveness))]
      @ opt_field ''workspace'' (map_option JObj (projectWorkspace (jget a ''workspace'')))
      @ opt_field ''load'' (map_option JObj (projectLoad (jget a ''load'')))
      @ opt_field ''last_seen_ts'' (map_option JNum (readNumber (jget a ''last_seen_ts''))))"

record published_tool =
  pt_name :: string
  pt_version :: "string option"
  pt_description :: "string option"
  pt_input_schema :: "obj option"
  pt_output_schema :: "obj option"

definition project_tool :: "json \<Rightarrow> published_tool option" where
  "project_tool s =
     (case asRecord s of
        None \<Rightarrow> None
      | Some r \<Rightarrow>
          (case readString (jget r ''name'') of
             None \<Rightarrow> None
           | Some name \<Rightarrow>
               Some \<lparr>pt_name = name,
                     pt_version = readString (jget r ''version''),
                     pt_description = readString (jget r ''description''),
                     pt_input_schema = asRecord (jget r ''input_schema''),
                     pt_output_schema = asRecord (jget r ''output_schema'')\<rparr>))"

definition projectTools :: "json \<Rightarrow> published_tool list" where
  "projectTools schemas = (case schemas of JArr xs \<Rightarrow> List.map_filter project_tool xs | _ \<Rightarrow> [])"

definition tool_json :: "published_tool \<Rightarrow> json" where
  "tool_json t =
     JObj ([(''name'', JStr (pt_name t))]
       @ opt_field ''version'' (map_option JStr (pt_version t))
       @ opt_field ''description'' (map_option JStr (pt_description t))
       @ opt_field ''input_schema'' (map_option JObj (pt_input_schema t))
       @ opt_field ''output_schema'' (map_option JObj (pt_output_schema t)))"

definition publishedToolNames :: "json \<Rightarrow> string list" where
  "publishedToolNames resp =
     (case asRecord resp of
        None \<Rightarrow> []
      | Some r \<Rightarrow> js_unique (map pt_name (projectTools (jget r ''schemas''))
                              @ or_default (readToolNames (jget r ''tools'')) []))"

section \<open>mx\_find\_agents\<close>

record find_agents_input =
  fa_capability :: "string option"
  fa_tool :: "string option"
  fa_liveness :: "agent_liveness option"

definition matchesLiveness :: "agent_list_row \<Rightarrow> agent_liveness option \<Rightarrow> bool" where
  "matchesLiveness entry want = (case want of None \<Rightarrow> True | Some w \<Rightarrow> readLiveness (row_liveness entry) = w)"

definition matchesCapability :: "agent_list_row \<Rightarrow> string option \<Rightarrow> bool" where
  "matchesCapability entry want =
     (case want of None \<Rightarrow> True
      | Some w \<Rightarrow> w \<in> set (readStringArray (jget (row_agent entry) ''capabilities'')))"

definition resolveToolNames :: "obj \<Rightarrow> ('d, 'z) handler_deps_scheme \<Rightarrow> ('d, string list) async" where
  "resolveToolNames agent deps =
     (case readString (jget agent ''agent_id'') of
        None \<Rightarrow> resolve []
      | Some agentId \<Rightarrow>
          call_or (d_daemon deps) ''agent.tools'' (JObj [(''agent_id'', JStr agentId)])
            (\<lambda>_. resolve []) (\<lambda>resp. resolve (publishedToolNames resp)))"

definition row_tool_names :: "agent_list_row \<Rightarrow> ('d, 'z) handler_deps_scheme \<Rightarrow> ('d, string list) async" where
  "row_tool_names entry deps =
     (case readToolNames (jget (row_agent entry) ''tools'') of
        Some names \<Rightarrow> resolve names
      | None \<Rightarrow> resolveToolNames (row_agent entry) deps)"

fun filterByTool ::
  "agent_list_row list \<Rightarrow> string \<Rightarrow> ('d, 'z) handler_deps_scheme \<Rightarrow> ('d, agent_list_row list) async" where
  "filterByTool [] tool deps = resolve []"
| "filterByTool (entry # rest) tool deps =
     await (row_tool_names entry deps) (\<lambda>names.
       await (filterByTool rest tool deps) (\<lambda>kept.
         resolve (if tool \<in> set names then entry # kept else kept)))"

definition list_rows :: "json \<Rightarrow> agent_list_row list" where
  "list_rows rows = (case rows of JArr xs \<Rightarrow> List.map_filter readListRow xs | _ \<Rightarrow> [])"

definition summaries_json :: "agent_list_row list \<Rightarrow> json" where
  "summaries_json rows =
     JArr (map (\<lambda>e. JObj (projectAgentSummary (JObj (row_agent e)) (row_liveness e))) rows)"

definition mxFindAgents ::
  "find_agents_input \<Rightarrow> ('d, 'z) handler_deps_scheme \<Rightarrow> ('d, obj tool_result) async" where
  "mxFindAgents input deps =
     call_or (d_daemon deps) ''agent.list'' JUndef
       (\<lambda>err. resolve (faultToResult err EMPTY_AUDIT_REF))
       (\<lambda>rows.
          let candidates = filter (\<lambda>e. matchesLiveness e (fa_liveness input)
                                        \<and> matchesCapability e (fa_capability input)) (list_rows rows) in
          await (case fa_tool input of
                     None \<Rightarrow> resolve candidates
                   | Some tool \<Rightarrow> filterByTool candidates tool deps)
            (\<lambda>kept. resolve (ok [(''agents'', summaries_json kept)] EMPTY_AUDIT_REF)))"

section \<open>mx\_describe\_agent\<close>

definition findListEntry :: "json \<Rightarrow> string \<Rightarrow> agent_list_row option" where
  "findListEntry rows agentId =
     List.find (\<lambda>e. jget (row_agent e) ''agent_id'' = JStr agentId) (list_rows rows)"

definition describe_rest :: "string \<Rightarrow> json \<Rightarrow> json \<Rightarrow> obj tool_result" where
  "describe_rest agentId toolsResp listRows =
     (let entry = findListEntry listRows agentId;
          toolsRecord = asRecord toolsResp;
          toolsAgentId = Option.bind toolsRecord (\<lambda>r. readString (jget r ''agent_id'')) in
      if entry = None \<and> toolsAgentId = None then failureResult (Code not_found) EMPTY_AUDIT_REF
      else let merged = spread (or_default toolsRecord [])
                          (case entry of Some e \<Rightarrow> row_agent e | None \<Rightarrow> []);
               agent = projectAgentDetail (JObj merged)
                         (case entry of Some e \<Rightarrow> row_liveness e | None \<Rightarrow> JUndef);
               tools = projectTools (case toolsRecord of Some r \<Rightarrow> jget r ''schemas'' | None \<Rightarrow> JUndef) in
           ok [(''agent'', JObj agent), (''tools'', JArr (map tool_json tools))] EMPTY_AUDIT_REF)"

definition mxDescribeAgent :: "string \<Rightarrow> ('d, 'z) handler_deps_scheme \<Rightarrow> ('d, obj tool_result) async" where
  "mxDescribeAgent agent_id deps =
     call_or (d_daemon deps) ''agent.tools'' (JObj [(''agent_id'', JStr agent_id)])
       (\<lambda>err. resolve (faultToResult err EMPTY_AUDIT_REF))
       (\<lambda>toolsResp.
          call_or (d_daemon deps) ''agent.list'' JUndef
            (\<lambda>_. resolve (describe_rest agent_id toolsResp JUndef))
            (\<lambda>listRows. resolve (describe_rest agent_id toolsResp listRows)))"

section \<open>mx\_workspace\_status\<close>

definition projectWorkspaceMeta :: "json \<Rightarrow> obj" where
  "projectWorkspaceMeta raw =
     (let w = or_default (asRecord raw) [] in
      opt_field ''room_id'' (map_option JStr (readString (jget w ''room_id'')))
      @ opt_field ''name'' (map_option JStr (readString (jget w ''name'')))
      @ opt_field ''canonical_alias'' (map_option JStr (readString (jget w ''canonical_alias'')))
      @ opt_field ''encrypted'' (map_option JBool (readBoolean (jget w ''encrypted''))))"

definition readProjectFields :: "json \<Rightarrow> obj option" where
  "readProjectFields x =
     (case asRecord x of
        None \<Rightarrow> None
      | Some w \<Rightarrow>
          (let project_id = readString (jget w ''project_id'');
               cwd = readString (jget w ''cwd'');
               git_commit = readString (jget w ''git_commit'') in
           if project_id = None \<and> cwd = None \<and> git_commit = None then None
           else Some (opt_field ''project_id'' (map_option JStr project_id)
                      @ opt_field ''cwd'' (map_option JStr cwd)
                      @ opt_field ''git_commit'' (map_option JStr git_commit))))"

definition deriveProject :: "json \<Rightarrow> agent_list_row list \<Rightarrow> obj option" where
  "deriveProject status rows =
     orelse (Option.bind (asRecord status) (\<lambda>s.
               orelse (readProjectFields (jget s ''project'')) (readProjectFields (jget s ''workspace''))))
       (first_some (map (\<lambda>row. readProjectFields (jget (row_agent row) ''workspace'')) rows))"

definition workspace_rest :: "json \<Rightarrow> json \<Rightarrow> obj tool_result" where
  "workspace_rest status listRows =
     (let rows = list_rows listRows in
      ok ([(''workspace'', JObj (projectWorkspaceMeta status)), (''agents'', summaries_json rows)]
          @ opt_field ''project'' (map_option JObj (deriveProject status rows))) EMPTY_AUDIT_REF)"

definition room_params :: "string option \<Rightarrow> json" where
  "room_params room =
     (case room of Some r \<Rightarrow> if r \<noteq> [] then JObj [(''room'', JStr r)] else JUndef | None \<Rightarrow> JUndef)"

definition mxWorkspaceStatus :: "('d, 'z) room_scoped_deps_scheme \<Rightarrow> ('d, obj tool_result) async" where
  "mxWorkspaceStatus deps =
     call_or (d_daemon deps) ''workspace.status'' (room_params (d_room deps))
       (\<lambda>err. resolve (faultToResult err EMPTY_AUDIT_REF))
       (\<lambda>status.
          call_or (d_daemon deps) ''agent.list'' JUndef
            (\<lambda>_. resolve (workspace_rest status JUndef))
            (\<lambda>listRows. resolve (workspace_rest status listRows)))"

section \<open>The handler contract\<close>

lemma resolveToolNames_sends:
  "sends {''agent.list'', ''agent.tools''} (\<lambda>_. True) (resolveToolNames agent (logged_deps f interval room validator))"
  unfolding resolveToolNames_def logged_deps_fields by (intro sends_intros) simp_all

lemma row_tool_names_sends:
  "sends {''agent.list'', ''agent.tools''} (\<lambda>_. True) (row_tool_names entry (logged_deps f interval room validator))"
  unfolding row_tool_names_def by (intro sends_intros resolveToolNames_sends) simp

lemma filterByTool_sends:
  "sends {''agent.list'', ''agent.tools''} (\<lambda>_. True) (filterByTool rows tool (logged_deps f interval room validator))"
proof (induction rows)
  case (Cons e rows)
  show ?case unfolding filterByTool.simps
    by (rule sends_await [OF row_tool_names_sends], rule sends_await [OF Cons.IH], intro sends_intros) simp
qed (auto intro: sends_intros)

interpretation find_agents: verb_handler
  "mxFindAgents input (logged_deps f interval room validator)" "[''agent.list'', ''agent.tools'']"
proof
  show "sends (set [''agent.list'', ''agent.tools'']) well_built
          (mxFindAgents input (logged_deps f interval room validator))"
    unfolding mxFindAgents_def Let_def logged_deps_fields list.set
    by (intro sends_call sends_await [where P = "\<lambda>_. True"] sends_option sends_resolve filterByTool_sends) simp_all
  show "list_all (\<lambda>m. \<not> isForbiddenAuthorityVerb m) [''agent.list'', ''agent.tools'']" by code_simp
qed

lemma well_built_describe_rest [simp]: "well_built (describe_rest agentId toolsResp listRows)"
  by (simp add: describe_rest_def Let_def)

interpretation describe_agent: verb_handler
  "mxDescribeAgent agent_id (logged_deps f interval room validator)" "[''agent.tools'', ''agent.list'']"
proof
  show "sends (set [''agent.tools'', ''agent.list'']) well_built
          (mxDescribeAgent agent_id (logged_deps f interval room validator))"
    unfolding mxDescribeAgent_def logged_deps_fields list.set
    by (intro sends_intros) simp_all
  show "list_all (\<lambda>m. \<not> isForbiddenAuthorityVerb m) [''agent.tools'', ''agent.list'']" by code_simp
qed

lemma well_built_workspace_rest [simp]: "well_built (workspace_rest status listRows)"
  by (simp add: workspace_rest_def Let_def)

interpretation workspace_status: verb_handler
  "mxWorkspaceStatus (logged_deps f interval room validator)" "[''workspace.status'', ''agent.list'']"
proof
  show "sends (set [''workspace.status'', ''agent.list'']) well_built
          (mxWorkspaceStatus (logged_deps f interval room validator))"
    unfolding mxWorkspaceStatus_def logged_deps_fields list.set
    by (intro sends_intros) simp_all
  show "list_all (\<lambda>m. \<not> isForbiddenAuthorityVerb m) [''workspace.status'', ''agent.list'']" by code_simp
qed

section \<open>Results against the declared output schemas\<close>

text \<open>The payload of an \<open>ok\<close> envelope satisfies the output schema its descriptor publishes.\<close>

definition output_ok :: "json \<Rightarrow> obj tool_result \<Rightarrow> bool" where
  "output_ok descriptor r =
     (case r_result r of
        None \<Rightarrow> True
      | Some res \<Rightarrow> draft07 (read_field descriptor ''output_schema'') (JObj res))"

lemma output_ok_failure [simp]:
  "output_ok d (failureResult c aref)" "output_ok d (faultToResult err aref)"
  "output_ok d (running hdl aref)" "output_ok d (errored c msg aref)"
  by (simp_all add: output_ok_def failureResult_def faultToResult_def Let_def envelope_helpers)

lemma json_has_type_values [simp]:
  "json_has_type t (JStr x) \<longleftrightarrow> t = ''string''"
  "json_has_type t (JBool b) \<longleftrightarrow> t = ''boolean''"
  "json_has_type t (JArr xs) \<longleftrightarrow> t = ''array''"
  "json_has_type t (JObj ob) \<longleftrightarrow> t = ''object''"
  "json_has_type t JNull \<longleftrightarrow> t = ''null''"
  "json_has_type ''number'' (JNum n) \<longleftrightarrow> isFinite n"
  by (auto simp: json_has_type_def)

lemma string_items: "list_all (draft07 (JObj [(''type'', JStr ''string'')])) (map JStr xs)"
  by (simp add: list_all_iff const_ok_def)

lemma liveness_enum:
  "JStr ''active'' = liveness_json l \<or> JStr ''stale'' = liveness_json l \<or> JStr ''offline'' = liveness_json l"
  by (cases l) (simp_all add: liveness_json_def liveness_name_def)

lemma liveness_string [simp]: "json_has_type t (liveness_json l) \<longleftrightarrow> t = ''string''" "liveness_json l \<noteq> JUndef"
  by (simp_all add: liveness_json_def)

lemma readNumber_finite: "readNumber v = Some n \<Longrightarrow> isFinite n"
  by (cases v) (auto split: if_splits)

lemmas schema_eval = const_ok_def jget_append strings_json_def string_items liveness_enum

definition summary_schema :: json where
  "summary_schema =
     read_field (read_field (read_field (read_field MX_FIND_AGENTS ''output_schema'') ''properties'') ''agents'') ''items''"

lemma summary_conforms: "draft07 summary_schema (JObj (projectAgentSummary agent liveness))"
proof -
  define a where "a = or_default (asRecord agent) []"
  define kind where "kind = readString (jget a ''kind'')"
  have "projectAgentSummary agent liveness =
      [(''agent_id'', JStr (or_default (readString (jget a ''agent_id'')) []))]
      @ opt_field ''kind'' (map_option JStr kind)
      @ [(''capabilities'', strings_json (readStringArray (jget a ''capabilities''))),
         (''liveness'', liveness_json (readLiveness liveness))]"
    by (simp only: projectAgentSummary_def a_def kind_def Let_def)
  then show ?thesis
    by (cases kind) (simp_all add: summary_schema_def MX_FIND_AGENTS_def schema_eval)
qed

lemma find_agents_output_ok:
  assumes "mxFindAgents input deps h = Some (r, h')"
  shows "output_ok MX_FIND_AGENTS r"
proof -
  have item: "draft07 summary_schema x" if "x \<in> set xs" "summaries_json kept = JArr xs" for kept xs x
    using that summary_conforms by (auto simp: summaries_json_def)
  have ok: "output_ok MX_FIND_AGENTS (ok [(''agents'', summaries_json kept)] EMPTY_AUDIT_REF)" for kept
  proof -
    obtain xs where xs: "summaries_json kept = JArr xs" by (simp add: summaries_json_def)
    have "list_all (draft07 summary_schema) xs" using item [OF _ xs] by (simp add: list_all_iff)
    then show ?thesis
      by (simp add: output_ok_def ok_def xs MX_FIND_AGENTS_def summary_schema_def const_ok_def)
  qed
  show ?thesis
    using assms by (auto simp: mxFindAgents_def call_or_def resolve_def await_def ok Let_def
        split: sum.splits option.splits prod.splits)
qed

definition detail_schema :: json where
  "detail_schema = read_field (read_field (read_field MX_DESCRIBE_AGENT ''output_schema'') ''properties'') ''agent''"

definition tool_schema :: json where
  "tool_schema =
     read_field (read_field (read_field (read_field MX_DESCRIBE_AGENT ''output_schema'') ''properties'') ''tools'') ''items''"

lemma detail_conforms: "draft07 detail_schema (JObj (projectAgentDetail agent liveness))"
proof -
  define a where "a = or_default (asRecord agent) []"
  define kind where "kind = readString (jget a ''kind'')"
  define status where "status = readString (jget a ''status'')"
  define workspace where "workspace = projectWorkspace (jget a ''workspace'')"
  define load where "load = projectLoad (jget a ''load'')"
  define seen where "seen = readNumber (jget a ''last_seen_ts'')"
  have seen: "isFinite n" if "seen = Some n" for n
    using that readNumber_finite by (simp add: seen_def)
  have "projectAgentDetail agent liveness =
      [(''agent_id'', JStr (or_default (readString (jget a ''agent_id'')) []))]
      @ opt_field ''kind'' (map_option JStr kind) @ opt_field ''status'' (map_option JStr status)
      @ [(''capabilities'', strings_json (readStringArray (jget a ''capabilities''))),
         (''liveness'', liveness_json (readLiveness liveness))]
      @ opt_field ''workspace'' (map_option JObj workspace) @ opt_field ''load'' (map_option JObj load)
      @ opt_field ''last_seen_ts'' (map_option JNum seen)"
    by (simp only: projectAgentDetail_def a_def kind_def status_def workspace_def load_def seen_def Let_def)
  then show ?thesis
    by (auto simp: detail_schema_def MX_DESCRIBE_AGENT_def schema_eval jget_opt_field seen list_all_iff)
qed

lemma tool_conforms: "draft07 tool_schema (tool_json t)"
  by (auto simp: tool_json_def tool_schema_def MX_DESCRIBE_AGENT_def schema_eval jget_opt_field list_all_iff)

lemma describe_output_ok: "output_ok MX_DESCRIBE_AGENT (describe_rest agentId toolsResp listRows)"
proof -
  have ok: "output_ok MX_DESCRIBE_AGENT
      (ok [(''agent'', JObj (projectAgentDetail a l)), (''tools'', JArr (map tool_json ts))] aref)" for a l ts aref
  proof -
    have "list_all (draft07 tool_schema) (map tool_json ts)" by (simp add: list_all_iff tool_conforms)
    with detail_conforms [of a l] show ?thesis
      by (simp add: output_ok_def ok_def MX_DESCRIBE_AGENT_def detail_schema_def tool_schema_def const_ok_def)
  qed
  show ?thesis unfolding describe_rest_def Let_def by (simp only: ok output_ok_failure split: if_split) simp
qed

definition meta_schema :: json where
  "meta_schema = read_field (read_field (read_field MX_WORKSPACE_STATUS ''output_schema'') ''properties'') ''workspace''"

definition project_schema :: json where
  "project_schema = read_field (read_field (read_field MX_WORKSPACE_STATUS ''output_schema'') ''properties'') ''project''"

lemma if_None_Some: "(if b then None else Some x) = Some y \<longleftrightarrow> \<not> b \<and> x = y"
  by simp

lemma project_fields_conform: "readProjectFields v = Some p \<Longrightarrow> draft07 project_schema (JObj p)"
proof -
  have *: "draft07 project_schema (JObj (opt_field ''project_id'' (map_option JStr a)
      @ opt_field ''cwd'' (map_option JStr b) @ opt_field ''git_commit'' (map_option JStr c)))" for a b c
    by (auto simp: project_schema_def MX_WORKSPACE_STATUS_def schema_eval jget_opt_field list_all_iff)
  assume p: "readProjectFields v = Some p"
  show ?thesis
  proof (cases "asRecord v")
    case None
    with p show ?thesis by (simp add: readProjectFields_def)
  next
    case (Some w)
    have "p = opt_field ''project_id'' (map_option JStr (readString (jget w ''project_id'')))
        @ opt_field ''cwd'' (map_option JStr (readString (jget w ''cwd'')))
        @ opt_field ''git_commit'' (map_option JStr (readString (jget w ''git_commit'')))"
      using p unfolding readProjectFields_def Let_def Some option.case if_None_Some by (rule sym [OF conjunct2])
    then show ?thesis by (simp only: *)
  qed
qed

lemma deriveProject_conforms: "deriveProject status rows = Some p \<Longrightarrow> draft07 project_schema (JObj p)"
proof -
  assume "deriveProject status rows = Some p"
  then consider v where "readProjectFields v = Some p"
    unfolding deriveProject_def
    by (auto simp: orelse_Some_iff bind_eq_Some_conv simp del: asRecord_Some dest!: first_some_Some)
  then show ?thesis by cases (rule project_fields_conform)
qed

lemma workspace_output_ok: "output_ok MX_WORKSPACE_STATUS (workspace_rest status listRows)"
proof -
  obtain xs where xs: "summaries_json (list_rows listRows) = JArr xs" by (simp add: summaries_json_def)
  have items: "list_all (draft07 summary_schema) xs"
    using xs summary_conforms by (auto simp: list_all_iff summaries_json_def)
  define w where "w = or_default (asRecord status) []"
  define room_id where "room_id = readString (jget w ''room_id'')"
  define name where "name = readString (jget w ''name'')"
  define ali where "ali = readString (jget w ''canonical_alias'')"
  define enc where "enc = readBoolean (jget w ''encrypted'')"
  have meta: "projectWorkspaceMeta status =
      opt_field ''room_id'' (map_option JStr room_id) @ opt_field ''name'' (map_option JStr name)
      @ opt_field ''canonical_alias'' (map_option JStr ali) @ opt_field ''encrypted'' (map_option JBool enc)"
    by (simp only: projectWorkspaceMeta_def w_def room_id_def name_def ali_def enc_def Let_def)
  define project where "project = deriveProject status (list_rows listRows)"
  have proj: "draft07 project_schema (JObj p)" if "project = Some p" for p
    using that deriveProject_conforms by (simp add: project_def)
  have "draft07 meta_schema (JObj (projectWorkspaceMeta status))"
    by (auto simp: meta meta_schema_def MX_WORKSPACE_STATUS_def schema_eval jget_opt_field list_all_iff)
  with items proj show ?thesis
    by (cases project)
       (simp_all add: workspace_rest_def Let_def output_ok_def ok_def xs MX_WORKSPACE_STATUS_def
          summary_schema_def MX_FIND_AGENTS_def meta_schema_def project_schema_def const_ok_def
          list_all_iff jget_append flip: project_def)
qed

text \<open>
  C27. The discovery verbs keep their published contract. Whatever the daemon answers,
  \<open>mx_find_agents\<close>, \<open>mx_describe_agent\<close> and \<open>mx_workspace_status\<close> settle, and a payload they
  return satisfies the output schema of the descriptor that announces the verb.
\<close>

theorem discovery_outputs_conform:
  "(\<exists>r h'. mxFindAgents input (logged_deps f interval room validator) h = Some (r, h')
          \<and> output_ok MX_FIND_AGENTS r)
   \<and> (\<exists>r h'. mxDescribeAgent agent_id (logged_deps f interval room validator) h = Some (r, h')
          \<and> output_ok MX_DESCRIBE_AGENT r)
   \<and> (\<exists>r h'. mxWorkspaceStatus (logged_deps f interval room validator) h = Some (r, h')
          \<and> output_ok MX_WORKSPACE_STATUS r)"
proof (intro conjI)
  show "\<exists>r h'. mxFindAgents input (logged_deps f interval room validator) h = Some (r, h')
          \<and> output_ok MX_FIND_AGENTS r"
    using find_agents.settles [of input f interval room validator h] find_agents_output_ok by blast
  show "\<exists>r h'. mxDescribeAgent agent_id (logged_deps f interval room validator) h = Some (r, h')
          \<and> output_ok MX_DESCRIBE_AGENT r"
    by (simp add: mxDescribeAgent_def call_or_def resolve_def describe_output_ok
        split: prod.split sum.split)
  show "\<exists>r h'. mxWorkspaceStatus (logged_deps f interval room validator) h = Some (r, h')
          \<and> output_ok MX_WORKSPACE_STATUS r"
    by (simp add: mxWorkspaceStatus_def call_or_def resolve_def workspace_output_ok
        split: prod.split sum.split)
qed

end
