(* ===== verification/Session.thy ===== *)
theory Session
  imports Session_Descriptor Agents
begin

text \<open>
  A runtime conversation as an agent registration (packages/toolbelt/src/session.ts) with its
  correlation id (correlation.ts) and its heartbeat loop (heartbeat.ts). A session works over any
  client with a \<open>call\<close> and a \<open>close\<close>; the locale \<open>guarded_client\<close> states what it relies on, and
  the unified client of the toolbelt provides it. Opening is one computation, since no one holds
  the session before it returns; from then on timers, callers and settling promises interleave,
  and the session is a state machine over those events. Diagnostic lines are not modelled.
\<close>

section \<open>Correlation\<close>

definition CORRELATION_PARAM_KEY :: string where
  "CORRELATION_PARAM_KEY = ''correlation_id''"

text \<open>The argument is what \<open>randomUUID()\<close> returned.\<close>

definition newCorrelationId :: "string \<Rightarrow> string" where
  "newCorrelationId uuid = ''corr_'' @ uuid"

definition withCorrelationParam :: "json \<Rightarrow> string \<Rightarrow> json" where
  "withCorrelationParam params correlationId =
     (case params of
        JUndef \<Rightarrow> JObj [(CORRELATION_PARAM_KEY, JStr correlationId)]
      | JNull \<Rightarrow> JObj [(CORRELATION_PARAM_KEY, JStr correlationId)]
      | JObj ob \<Rightarrow>
          if has_key ob CORRELATION_PARAM_KEY then params
          else JObj (ob @ [(CORRELATION_PARAM_KEY, JStr correlationId)])
      | _ \<Rightarrow> params)"

section \<open>The client a session uses\<close>

record 'c client_ops =
  co_call :: "string \<Rightarrow> json \<Rightarrow> 'c \<Rightarrow> (thrown + json) \<times> 'c"
  co_close :: "'c \<Rightarrow> 'c"

definition mx_ops :: "mx_config \<Rightarrow> 'd transports \<Rightarrow> (mx_state \<times> 'd host) client_ops" where
  "mx_ops cfg tr =
     \<lparr>co_call = (\<lambda>m p (st, h). case mx_call cfg tr m p st h of (r, st', h') \<Rightarrow> (r, (st', h'))),
      co_close = (\<lambda>(st, h). (mx_close st, h))\<rparr>"

section \<open>Options and configuration\<close>

record workspace_option =
  wo_cwd :: "string option"
  wo_project_id :: "string option"
  wo_git_commit :: "string option"

record session_options =
  so_injected :: bool
  so_ownsClient :: "bool option"
  so_room :: "string option"
  so_kind :: "string option"
  so_capabilities :: "string list option"
  so_tools :: "json list option"
  so_workspace :: "workspace_option option"
  so_maxInvocations :: "jsnum option"
  so_correlationId :: "string option"
  so_correlationParamMethods :: "string list option"
  so_heartbeatIntervalMs :: "jsnum option"
  so_heartbeat :: bool
  so_heartbeatMethod :: "string option"
  so_deregisterMethod :: "string option"

definition REGISTER_METHOD :: string where "REGISTER_METHOD = ''agent.register''"

definition LIST_METHOD :: string where "LIST_METHOD = ''agent.list''"

definition DEFAULT_HEARTBEAT_INTERVAL_MS :: jsnum where
  "DEFAULT_HEARTBEAT_INTERVAL_MS = Fin 15000"

definition buildRegisterParams :: "session_options \<Rightarrow> obj" where
  "buildRegisterParams opts =
     opt_field ''room'' (map_option JStr (so_room opts))
     @ opt_field ''kind'' (map_option JStr (so_kind opts))
     @ opt_field ''capabilities'' (map_option (\<lambda>xs. JArr (map JStr xs)) (so_capabilities opts))
     @ opt_field ''tools'' (map_option JArr (so_tools opts))
     @ (case so_workspace opts of
          None \<Rightarrow> []
        | Some w \<Rightarrow>
            opt_field ''cwd'' (map_option JStr (wo_cwd w))
            @ opt_field ''project_id'' (map_option JStr (wo_project_id w))
            @ opt_field ''git_commit'' (map_option JStr (wo_git_commit w)))
     @ opt_field ''max_invocations'' (map_option JNum (so_maxInvocations opts))"

record session_config =
  sc_ownsClient :: bool
  sc_correlationId :: string
  sc_correlationParamMethods :: "string list"
  sc_registerParams :: obj
  sc_heartbeatEnabled :: bool
  sc_heartbeatIntervalMs :: jsnum
  sc_heartbeatMethod :: string
  sc_deregisterMethod :: "string option"
  sc_room :: "string option"

definition new_session_config :: "bool \<Rightarrow> string \<Rightarrow> session_options \<Rightarrow> session_config" where
  "new_session_config ownsClient uuid opts =
     \<lparr>sc_ownsClient = ownsClient,
      sc_correlationId = or_default (so_correlationId opts) (newCorrelationId uuid),
      sc_correlationParamMethods = or_default (so_correlationParamMethods opts) [],
      sc_registerParams = buildRegisterParams opts,
      sc_heartbeatEnabled = so_heartbeat opts,
      sc_heartbeatIntervalMs = or_default (so_heartbeatIntervalMs opts) DEFAULT_HEARTBEAT_INTERVAL_MS,
      sc_heartbeatMethod = or_default (so_heartbeatMethod opts) REGISTER_METHOD,
      sc_deregisterMethod = so_deregisterMethod opts,
      sc_room = so_room opts\<rparr>"

section \<open>Opening\<close>

datatype session_state = Opening | Active | Closing | Closed

text \<open>The two flags \<open>startHeartbeat\<close> closes over.\<close>

record heartbeat =
  hb_stopped :: bool
  hb_inFlight :: bool

definition startHeartbeat :: heartbeat where
  "startHeartbeat = \<lparr>hb_stopped = False, hb_inFlight = False\<rparr>"

record session =
  se_config :: session_config
  se_state :: session_state
  se_agentState :: "obj option"
  se_heartbeat :: "heartbeat option"

definition parseAgentState :: "json \<Rightarrow> thrown + obj" where
  "parseAgentState result =
     (case result of
        JObj ob \<Rightarrow>
          (case jget ob ''agent_id'' of
             JStr s \<Rightarrow> if s = [] then Inl (ipc_error protocol ''agent.register returned no agent_id'') else Inr ob
           | _ \<Rightarrow> Inl (ipc_error protocol ''agent.register returned no agent_id''))
      | _ \<Rightarrow> Inl (ipc_error protocol ''agent.register did not return an AgentState object''))"

definition outbound :: "session_config \<Rightarrow> string \<Rightarrow> json \<Rightarrow> json" where
  "outbound cfg m p =
     (if m \<in> set (sc_correlationParamMethods cfg) then withCorrelationParam p (sc_correlationId cfg) else p)"

definition session_call :: "'c client_ops \<Rightarrow> session_config \<Rightarrow> string \<Rightarrow> json \<Rightarrow> 'c \<Rightarrow> (thrown + json) \<times> 'c" where
  "session_call ops cfg m p c = co_call ops m (outbound cfg m p) c"

definition session_start :: "'c client_ops \<Rightarrow> session_config \<Rightarrow> 'c \<Rightarrow> (thrown + session) \<times> 'c" where
  "session_start ops cfg c =
     (case session_call ops cfg REGISTER_METHOD (JObj (sc_registerParams cfg)) c of
        (Inl e, c') \<Rightarrow> (Inl e, c')
      | (Inr result, c') \<Rightarrow>
          (case parseAgentState result of
             Inl e \<Rightarrow> (Inl e, c')
           | Inr agent \<Rightarrow>
               (Inr \<lparr>se_config = cfg, se_state = Active, se_agentState = Some agent,
                     se_heartbeat = (if sc_heartbeatEnabled cfg then Some startHeartbeat else None)\<rparr>, c')))"

definition openSession :: "'c client_ops \<Rightarrow> session_options \<Rightarrow> string \<Rightarrow> 'c \<Rightarrow> (thrown + session) \<times> 'c" where
  "openSession ops opts uuid c =
     (let ownsClient = or_default (so_ownsClient opts) (\<not> so_injected opts) in
      case session_start ops (new_session_config ownsClient uuid opts) c of
        (Inl e, c') \<Rightarrow> (Inl e, if ownsClient then co_close ops c' else c')
      | (Inr s, c') \<Rightarrow> (Inr s, c'))"

section \<open>The operations of an open session\<close>

definition not_registered :: thrown where
  "not_registered = OtherError (JStr ''session is not registered yet'')"

text \<open>\<open>agentId\<close>: a registered agent's id is a string, by \<open>parseAgentState\<close>.\<close>

definition agentId :: "session \<Rightarrow> string option" where
  "agentId s = Option.bind (se_agentState s) (\<lambda>a. readString (jget a ''agent_id''))"

text \<open>\<open>typeof x === 'object'\<close> with \<open>null\<close> excluded: an array row has no \<open>agent\<close> entry.\<close>

definition livenessFor :: "json \<Rightarrow> string \<Rightarrow> agent_liveness" where
  "livenessFor list agent_id =
     (case list of
        JArr rows \<Rightarrow>
          (case List.find (\<lambda>row. field_of (field_of row ''agent'') ''agent_id'' = JStr agent_id) rows of
             None \<Rightarrow> offline
           | Some row \<Rightarrow> readLiveness (field_of row ''liveness''))
      | _ \<Rightarrow> offline)"

definition session_liveness :: "'c client_ops \<Rightarrow> session \<Rightarrow> 'c \<Rightarrow> (thrown + agent_liveness) \<times> 'c" where
  "session_liveness ops s c =
     (let params = JObj ([(''capabilities'', JArr [])] @ opt_field ''room'' (map_option JStr (sc_room (se_config s)))) in
      case session_call ops (se_config s) LIST_METHOD params c of
        (Inl e, c') \<Rightarrow> (Inl e, c')
      | (Inr list, c') \<Rightarrow>
          (case agentId s of None \<Rightarrow> (Inl not_registered, c') | Some a \<Rightarrow> (Inr (livenessFor list a), c')))"

definition session_describe :: "session \<Rightarrow> task_cursor option \<Rightarrow> thrown + session_descriptor" where
  "session_describe s cursor =
     (case se_agentState s of
        None \<Rightarrow> Inl not_registered
      | Some agent \<Rightarrow>
          (case sc_room (se_config s) of
             None \<Rightarrow> Inl (OtherError (JStr ''cannot describe a session without a room (the resumption key)''))
           | Some room \<Rightarrow>
               if room = [] then Inl (OtherError (JStr ''cannot describe a session without a room (the resumption key)''))
               else assertSessionDescriptor (JObj
                 ([(''v'', JNum (Fin 1)), (''agent_id'', jget agent ''agent_id''), (''room'', JStr room),
                   (''correlation_id'', JStr (sc_correlationId (se_config s)))]
                  @ (case jget agent ''kind'' of JStr k \<Rightarrow> if k \<noteq> [] then [(''kind'', JStr k)] else [] | _ \<Rightarrow> [])
                  @ opt_field ''cursor'' (map_option cursor_json cursor)))))"

section \<open>The life of an open session\<close>

datatype origin = Heartbeat | Caller | Deregister

record session_run = session +
  sr_sent :: "(origin \<times> string \<times> json) list"
  sr_notices :: "string list"
  sr_settled :: nat
  sr_deregistering :: bool
  sr_clientClosed :: bool

datatype session_event =
    Fire
  | TickSettled "thrown option"
  | CallMade string json
  | CloseCalled
  | DeregisterSettled
  | ClientClosed

definition session_send :: "origin \<Rightarrow> string \<Rightarrow> json \<Rightarrow> session_run \<Rightarrow> session_run" where
  "session_send from m p s = s\<lparr>sr_sent := sr_sent s @ [(from, m, outbound (se_config s) m p)]\<rparr>"

definition agent_id_params :: "session_run \<Rightarrow> json" where
  "agent_id_params s = JObj [(''agent_id'', case se_agentState s of Some a \<Rightarrow> jget a ''agent_id'' | None \<Rightarrow> JUndef)]"

definition heartbeatTick :: "session_run \<Rightarrow> session_run" where
  "heartbeatTick s =
     (let cfg = se_config s; m = sc_heartbeatMethod cfg in
      session_send Heartbeat m
        (if m = REGISTER_METHOD then JObj (sc_registerParams cfg) else agent_id_params s) s)"

fun codeOf :: "thrown \<Rightarrow> string" where
  "codeOf (TransportError c _ _) = transport_code_name c"
| "codeOf (OtherError _) = ''internal''"

text \<open>The interval callback, and the settling of the tick it started.\<close>

definition heartbeat_fire :: "session_run \<Rightarrow> session_run" where
  "heartbeat_fire s =
     (case se_heartbeat s of
        None \<Rightarrow> s
      | Some hb \<Rightarrow>
          if hb_stopped hb \<or> hb_inFlight hb then s
          else heartbeatTick (s\<lparr>se_heartbeat := Some (hb\<lparr>hb_inFlight := True\<rparr>)\<rparr>))"

definition heartbeat_settle :: "thrown option \<Rightarrow> session_run \<Rightarrow> session_run" where
  "heartbeat_settle err s =
     (case se_heartbeat s of
        None \<Rightarrow> s
      | Some hb \<Rightarrow>
          s\<lparr>se_heartbeat := Some (hb\<lparr>hb_inFlight := False\<rparr>),
            sr_settled := Suc (sr_settled s),
            sr_notices := (if hb_stopped hb then sr_notices s
                           else sr_notices s @ [case err of None \<Rightarrow> ''heartbeat ok'' | Some e \<Rightarrow> ''heartbeat '' @ codeOf e])\<rparr>)"

text \<open>
  \<open>close\<close> up to its first \<open>await\<close>, and what follows the awaited promises. The dropped handle of a
  stopped heartbeat is kept here as the stopped loop.
\<close>

definition session_close :: "session_run \<Rightarrow> session_run" where
  "session_close s =
     (if se_state s = Closing \<or> se_state s = Closed then s
      else let s1 = s\<lparr>se_state := Closing, se_heartbeat := map_option (hb_stopped_update (\<lambda>_. True)) (se_heartbeat s)\<rparr> in
        case (sc_deregisterMethod (se_config s), se_agentState s) of
          (Some m, Some a) \<Rightarrow> (session_send Deregister m (agent_id_params s) s1)\<lparr>sr_deregistering := True\<rparr>
        | _ \<Rightarrow> s1)"

fun session_react :: "session_event \<Rightarrow> session_run \<Rightarrow> session_run" where
  "session_react Fire s = heartbeat_fire s"
| "session_react (TickSettled err) s = heartbeat_settle err s"
| "session_react (CallMade m p) s = session_send Caller m p s"
| "session_react CloseCalled s = session_close s"
| "session_react DeregisterSettled s = s\<lparr>sr_deregistering := False\<rparr>"
| "session_react ClientClosed s =
     s\<lparr>se_state := Closed, sr_clientClosed := sc_ownsClient (se_config s)\<rparr>"

definition in_flight :: "('z) session_scheme \<Rightarrow> bool" where
  "in_flight s = (case se_heartbeat s of Some hb \<Rightarrow> hb_inFlight hb | None \<Rightarrow> False)"

fun session_enabled :: "session_event \<Rightarrow> session_run \<Rightarrow> bool" where
  "session_enabled (TickSettled err) s = in_flight s"
| "session_enabled DeregisterSettled s = sr_deregistering s"
| "session_enabled ClientClosed s = (se_state s = Closing \<and> \<not> sr_deregistering s)"
| "session_enabled _ s = True"

definition session_exec :: "session_event list \<Rightarrow> session_run \<Rightarrow> session_run" where
  "session_exec es s = fold (\<lambda>e s. if session_enabled e s then session_react e s else s) es s"

definition fresh_run :: "session \<Rightarrow> session_run" where
  "fresh_run s =
     session.extend s \<lparr>sr_sent = [], sr_notices = [], sr_settled = 0, sr_deregistering = False, sr_clientClosed = False\<rparr>"

inductive session_reach :: "session \<Rightarrow> session_run \<Rightarrow> bool" for s0 where
  opened: "session_reach s0 (fresh_run s0)"
| event: "session_reach s0 s \<Longrightarrow> session_enabled e s \<Longrightarrow> session_reach s0 (session_react e s)"

section \<open>The contract of the client\<close>

locale guarded_client =
  fixes ops :: "'c client_ops"
  assumes refuses: "carries_credential p \<Longrightarrow>
      \<exists>msg. co_call ops m p c = (Inl (TransportError transport_invalid_args msg JUndef), c)"
    and clean: "co_call ops m p c = (Inr v, c') \<Longrightarrow> \<not> carries_secret_value v"
begin

lemma start_Inr:
  assumes "session_start ops cfg c = (Inr s, c')"
  shows "se_config s = cfg \<and> se_state s = Active \<and> se_heartbeat s = (if sc_heartbeatEnabled cfg then Some startHeartbeat else None)
     \<and> (\<exists>agent a. se_agentState s = Some agent \<and> agentId s = Some a \<and> a \<noteq> [] \<and> \<not> carries_secret_value (JObj agent))"
proof -
  obtain result where result: "session_call ops cfg REGISTER_METHOD (JObj (sc_registerParams cfg)) c = (Inr result, c')"
      "\<exists>agent. parseAgentState result = Inr agent"
    using assms by (auto simp: session_start_def split: prod.splits sum.splits)
  then obtain agent where agent: "parseAgentState result = Inr agent" by blast
  have "\<not> carries_secret_value result"
    using result(1) clean by (simp add: session_call_def)
  moreover have "result = JObj agent \<and> (\<exists>a. jget agent ''agent_id'' = JStr a \<and> a \<noteq> [])"
    using agent by (auto simp: parseAgentState_def split: json.splits if_splits)
  ultimately show ?thesis
    using assms result agent by (auto simp: session_start_def agentId_def)
qed

lemma start_refused:
  assumes "carries_credential (outbound cfg REGISTER_METHOD (JObj (sc_registerParams cfg)))"
  shows "\<exists>msg. session_start ops cfg c = (Inl (TransportError transport_invalid_args msg JUndef), c)"
  using refuses [OF assms, of REGISTER_METHOD c] by (auto simp: session_start_def session_call_def)

end

interpretation mx_guarded: guarded_client "mx_ops cfg tr"
proof
  fix p m and c :: "mx_state \<times> 'a host"
  assume "carries_credential p"
  then obtain e where "assertNoCredentialShapedArgs p ''$'' = Some e"
    using guard_iff by (cases "assertNoCredentialShapedArgs p ''$''") auto
  then show "\<exists>msg. co_call (mx_ops cfg tr) m p c = (Inl (TransportError transport_invalid_args msg JUndef), c)"
    using guard_sound [of p] by (fastforce simp: mx_ops_def mx_call_def split: prod.split)
next
  fix m p v and c c' :: "mx_state \<times> 'a host"
  assume "co_call (mx_ops cfg tr) m p c = (Inr v, c')"
  then show "\<not> carries_secret_value v"
    using redact_clean
    by (auto simp: mx_ops_def mx_call_def split: prod.splits sum.splits option.splits)
qed

section \<open>Lifecycle\<close>

definition sent_by :: "origin \<Rightarrow> session_run \<Rightarrow> (origin \<times> string \<times> json) list" where
  "sent_by g s = filter (\<lambda>x. fst x = g) (sr_sent s)"

definition ending :: "session_run \<Rightarrow> bool" where
  "ending s = (se_state s = Closing \<or> se_state s = Closed)"

definition session_inv :: "session_config \<Rightarrow> session_run \<Rightarrow> bool" where
  "session_inv cfg s =
     (se_config s = cfg \<and> se_state s \<noteq> Opening
      \<and> (ending s \<longrightarrow> (case se_heartbeat s of Some hb \<Rightarrow> hb_stopped hb | None \<Rightarrow> True))
      \<and> length (sent_by Heartbeat s) = sr_settled s + (if in_flight s then 1 else 0)
      \<and> length (sent_by Deregister s) = (if ending s \<and> sc_deregisterMethod cfg \<noteq> None \<and> se_agentState s \<noteq> None then 1 else 0)
      \<and> (sr_deregistering s \<longrightarrow> se_state s = Closing)
      \<and> (sr_clientClosed s \<longleftrightarrow> se_state s = Closed \<and> sc_ownsClient cfg))"

lemmas session_defs = session_send_def sent_by_def ending_def in_flight_def heartbeat_fire_def
  heartbeat_settle_def session_close_def heartbeatTick_def Let_def

text \<open>What each operation does to the fields the invariant speaks of.\<close>

lemma close_fields:
  "se_config (session_close s) = se_config s" "se_agentState (session_close s) = se_agentState s"
  "sr_settled (session_close s) = sr_settled s" "sr_clientClosed (session_close s) = sr_clientClosed s"
  "in_flight (session_close s) = in_flight s" "sent_by Heartbeat (session_close s) = sent_by Heartbeat s"
  by (cases "se_heartbeat s"; simp add: session_close_def session_send_def sent_by_def in_flight_def Let_def
    split: option.split)+

lemma close_ended: "ending s \<Longrightarrow> session_close s = s"
  by (simp add: session_close_def ending_def)

lemma close_active:
  assumes "\<not> ending s"
  shows "se_state (session_close s) = Closing"
    "se_heartbeat (session_close s) = map_option (hb_stopped_update (\<lambda>_. True)) (se_heartbeat s)"
    "length (sent_by Deregister (session_close s))
       = length (sent_by Deregister s) + (if sc_deregisterMethod (se_config s) \<noteq> None \<and> se_agentState s \<noteq> None then 1 else 0)"
  using assms
  by (simp_all add: session_close_def session_send_def sent_by_def ending_def Let_def split: option.split)

lemma inv_session_close: "session_inv cfg s \<Longrightarrow> session_inv cfg (session_close s)"
proof (cases "ending s")
  case False
  moreover from this have "ending (session_close s)" by (simp add: ending_def close_active)
  moreover assume "session_inv cfg s"
  ultimately show ?thesis
    by (simp add: session_inv_def close_fields close_active ending_def option.case_eq_if option.map_sel)
qed (simp add: close_ended)

lemma fire_fields:
  "se_config (heartbeat_fire s) = se_config s" "se_agentState (heartbeat_fire s) = se_agentState s"
  "se_state (heartbeat_fire s) = se_state s" "sr_deregistering (heartbeat_fire s) = sr_deregistering s"
  "sr_settled (heartbeat_fire s) = sr_settled s" "sr_clientClosed (heartbeat_fire s) = sr_clientClosed s"
  "sent_by Deregister (heartbeat_fire s) = sent_by Deregister s"
  by (simp_all add: heartbeat_fire_def heartbeatTick_def session_send_def sent_by_def Let_def split: option.split)
lemma fire_heartbeats:
  "(case se_heartbeat (heartbeat_fire s) of Some hb \<Rightarrow> hb_stopped hb | None \<Rightarrow> True)
     = (case se_heartbeat s of Some hb \<Rightarrow> hb_stopped hb | None \<Rightarrow> True)"
  "length (sent_by Heartbeat (heartbeat_fire s)) + (if in_flight s then 1 else 0)
     = length (sent_by Heartbeat s) + (if in_flight (heartbeat_fire s) then 1 else 0)"
  by (cases "se_heartbeat s"; simp add: heartbeat_fire_def heartbeatTick_def session_send_def sent_by_def in_flight_def Let_def)+

lemma inv_heartbeat_fire: "session_inv cfg s \<Longrightarrow> session_inv cfg (heartbeat_fire s)"
  using fire_heartbeats [of s] by (simp add: session_inv_def fire_fields ending_def)

lemma inv_session_send: "session_inv cfg s \<Longrightarrow> session_inv cfg (session_send Caller m p s)"
  by (simp add: session_inv_def session_send_def sent_by_def ending_def in_flight_def)

lemma inv_heartbeat_settle:
  assumes "session_inv cfg s" and "in_flight s"
  shows "session_inv cfg (heartbeat_settle err s)"
  using assms
  by (cases "se_heartbeat s") (simp_all add: session_inv_def heartbeat_settle_def sent_by_def ending_def in_flight_def)

lemma inv_session_react:
  assumes "session_inv cfg s" and "session_enabled e s"
  shows "session_inv cfg (session_react e s)"
proof (cases e)
  case ClientClosed
  with assms show ?thesis by (simp add: session_inv_def sent_by_def ending_def in_flight_def)
next
  case DeregisterSettled
  with assms show ?thesis by (simp add: session_inv_def sent_by_def ending_def in_flight_def)
qed (use assms in \<open>simp_all add: inv_heartbeat_fire inv_heartbeat_settle inv_session_send inv_session_close\<close>)

lemma session_reach_inv:
  "session_reach s0 s \<Longrightarrow> se_state s0 = Active \<Longrightarrow>
     (case se_heartbeat s0 of Some hb \<Rightarrow> \<not> hb_inFlight hb | None \<Rightarrow> True) \<Longrightarrow> session_inv (se_config s0) s"
proof (induction rule: session_reach.induct)
  case opened
  then show ?case
    by (auto simp: session_inv_def session_defs fresh_run_def session.defs split: option.splits)
qed (simp add: inv_session_react)

lemma ending_quiet:
  assumes "session_inv cfg s" and "ending s" and "session_enabled e s"
  shows "ending (session_react e s) \<and> sent_by Heartbeat (session_react e s) = sent_by Heartbeat s
    \<and> sent_by Deregister (session_react e s) = sent_by Deregister s
    \<and> sr_notices (session_react e s) = sr_notices s"
  using assms by (cases e) (auto simp: session_inv_def session_defs split: option.splits if_splits)

lemma ending_quiet_exec:
  assumes "session_inv cfg s" and "ending s"
  shows "ending (session_exec es s) \<and> sent_by Heartbeat (session_exec es s) = sent_by Heartbeat s
    \<and> sent_by Deregister (session_exec es s) = sent_by Deregister s
    \<and> sr_notices (session_exec es s) = sr_notices s"
  using assms unfolding session_exec_def
proof (induction es arbitrary: s)
  case (Cons e es)
  show ?case
    using Cons.IH [of "session_react e s"] Cons.IH [of s] Cons.prems ending_quiet inv_session_react by auto
qed simp

lemma close_completes:
  "session_inv cfg s \<Longrightarrow> se_state (session_exec [CloseCalled, DeregisterSettled, ClientClosed] s) = Closed"
  by (cases "se_state s") (auto simp: session_exec_def session_inv_def session_defs split: option.splits)

section \<open>Properties\<close>

lemma opened_active:
  assumes "openSession (mx_ops cfg tr) opts uuid c = (Inr s, c')"
  shows "se_state s = Active \<and> se_config s = new_session_config (or_default (so_ownsClient opts) (\<not> so_injected opts)) uuid opts
    \<and> se_heartbeat s = (if so_heartbeat opts then Some startHeartbeat else None)
    \<and> (\<exists>agent a. se_agentState s = Some agent \<and> agentId s = Some a \<and> a \<noteq> [] \<and> \<not> carries_secret_value (JObj agent))"
proof -
  have "session_start (mx_ops cfg tr) (new_session_config (or_default (so_ownsClient opts) (\<not> so_injected opts)) uuid opts) c
      = (Inr s, c')"
    using assms by (auto simp: openSession_def Let_def split: prod.splits sum.splits)
  from mx_guarded.start_Inr [OF this] show ?thesis by (simp add: new_session_config_def)
qed

text \<open>
  C11. A session's life. From the moment a session is open, in every interleaving of timer firings,
  settling heartbeats, calls and closing: heartbeats never overlap (at most one is in flight), at
  most one deregistration is sent, and the client is closed exactly when the session is closed and
  owns it. Once closing has begun, no event makes the session send another heartbeat or report
  one, or leave the closing states; and closing completes, whether the deregistration succeeded
  or failed.
\<close>

theorem session_lifecycle:
  assumes "openSession (mx_ops cfg tr) opts uuid c = (Inr s0, c')" and "session_reach s0 s"
  shows "length (sent_by Heartbeat s) = sr_settled s + (if in_flight s then 1 else 0)
    \<and> length (sent_by Deregister s) \<le> 1
    \<and> (sr_clientClosed s \<longleftrightarrow> se_state s = Closed \<and> or_default (so_ownsClient opts) (\<not> so_injected opts))
    \<and> (ending s \<longrightarrow> (\<forall>es. ending (session_exec es s) \<and> sent_by Heartbeat (session_exec es s) = sent_by Heartbeat s
          \<and> sr_notices (session_exec es s) = sr_notices s))
    \<and> se_state (session_exec [CloseCalled, DeregisterSettled, ClientClosed] s) = Closed"
proof -
  note o = opened_active [OF assms(1)]
  have "session_inv (se_config s0) s"
    using session_reach_inv [OF assms(2)] o by (simp add: startHeartbeat_def)
  with o show ?thesis
    using close_completes ending_quiet_exec [of "se_config s0" s]
    by (auto simp: session_inv_def new_session_config_def)
qed

text \<open>A daemon that registers every agent under one name.\<close>

definition registrar :: "which \<Rightarrow> unit service" where
  "registrar w d t m p = (Inr (JObj [(''agent_id'', JStr ''agent-1'')]), d, 1)"

definition demo_options :: session_options where
  "demo_options =
     \<lparr>so_injected = False, so_ownsClient = None, so_room = Some ''!r'', so_kind = None, so_capabilities = None,
      so_tools = None, so_workspace = None, so_maxInvocations = Some (Fin 1), so_correlationId = None,
      so_correlationParamMethods = None, so_heartbeatIntervalMs = None, so_heartbeat = True,
      so_heartbeatMethod = None, so_deregisterMethod = Some ''agent.deregister''\<rparr>"

definition demo_config :: mx_config where
  "demo_config = \<lparr>mc_preference = ForceIpc, mc_retry = None, mc_socketPath = ''/s'', mc_cliBinLabel = ''mx-agent''\<rparr>"

definition demo_host :: "(unit \<times> sent list) host" where
  "demo_host = \<lparr>clock = 0, uuids = \<lambda>_. ''u'', drawn = 0, peer = ((), [])\<rparr>"

definition demo_open :: "session" where
  "demo_open = projr (fst (openSession (mx_ops demo_config (recorded registrar (\<lambda>_ _. True) (\<lambda>_ _. 0))) demo_options ''1''
     (new_mx_client, demo_host)))"

theorem session_lifecycle_witness:
  "let s = session_react CloseCalled (session_react Fire (fresh_run demo_open)) in
   ending s \<and> length (sent_by Heartbeat s) = 1 \<and> length (sent_by Deregister s) = 1
   \<and> sent_by Heartbeat (session_exec [Fire, TickSettled None, Fire] s) = sent_by Heartbeat s"
proof -
  let ?ops = "mx_ops demo_config (recorded registrar (\<lambda>_ _. True) (\<lambda>_ _. 0))"
  let ?s = "session_react CloseCalled (session_react Fire (fresh_run demo_open))"
  have "fst (openSession ?ops demo_options ''1'' (new_mx_client, demo_host)) = Inr demo_open"
    by code_simp
  then obtain c' where o: "openSession ?ops demo_options ''1'' (new_mx_client, demo_host) = (Inr demo_open, c')"
    by (metis prod.collapse)
  have reach: "session_reach demo_open ?s"
    by (intro session_reach.event session_reach.opened) simp_all
  have "ending ?s" "length (sent_by Heartbeat ?s) = 1" "length (sent_by Deregister ?s) = 1"
    by code_simp+
  with session_lifecycle [OF o reach] show ?thesis by (simp add: Let_def)
qed

text \<open>
  Opening registers once, or leaves nothing behind. Over the unified client, \<open>openSession\<close> sends
  nothing but one \<open>agent.register\<close> request (repeated only where the client may repeat a request);
  it sends nothing at all when the registration would carry a credential. When it succeeds the
  session is active, has a non-empty agent id and an agent record free of secret-shaped values, and
  has a heartbeat if and only if one was asked for. When it fails, a client the session owns is closed.
\<close>

theorem open_session_registers:
  fixes f :: "which \<Rightarrow> 'd service" and exists rnd cfg opts
  defines "ops \<equiv> mx_ops cfg (recorded f exists rnd)"
    and "owns \<equiv> or_default (so_ownsClient opts) (\<not> so_injected opts)"
  shows "\<exists>es. sends_of (snd (snd (openSession ops opts uuid c))) = sends_of (snd c) @ es
    \<and> (let p = outbound (new_session_config owns uuid opts) REGISTER_METHOD (JObj (buildRegisterParams opts)) in
       if carries_credential p then es = [] \<and> isl (fst (openSession ops opts uuid c))
       else resent cfg REGISTER_METHOD p (3 * max_sends cfg) es)
    \<and> (case fst (openSession ops opts uuid c) of
         Inl err \<Rightarrow> if owns then fst (snd (openSession ops opts uuid c)) = new_mx_client else True
       | Inr s \<Rightarrow> se_state s = Active \<and> (se_heartbeat s \<noteq> None \<longleftrightarrow> so_heartbeat opts)
           \<and> (\<exists>agent a. se_agentState s = Some agent \<and> agentId s = Some a \<and> a \<noteq> [] \<and> \<not> carries_secret_value (JObj agent)))"
proof -
  let ?sc = "new_session_config owns uuid opts"
  let ?p = "outbound ?sc REGISTER_METHOD (JObj (buildRegisterParams opts))"
  let ?o = "openSession ops opts uuid c"
  have regs: "sc_registerParams ?sc = buildRegisterParams opts" by (simp add: new_session_config_def)
  have host: "snd (snd ?o) = snd (snd (session_start ops ?sc c))"
    by (auto simp: openSession_def owns_def [symmetric] ops_def mx_ops_def split: prod.splits sum.splits)
  have sends: "\<exists>es. sends_of (snd (snd ?o)) = sends_of (snd c) @ es
      \<and> (if carries_credential ?p then es = [] \<and> isl (fst ?o) else resent cfg REGISTER_METHOD ?p (3 * max_sends cfg) es)"
  proof (cases "carries_credential ?p")
    case True
    then obtain e where "session_start ops ?sc c = (Inl e, c)"
      using mx_guarded.start_refused [of ?sc cfg "recorded f exists rnd" c] by (auto simp: ops_def regs)
    then show ?thesis using True host by (simp add: openSession_def owns_def [symmetric])
  next
    case False
    have "snd (snd (session_start ops ?sc c)) = snd (snd (mx_call cfg (recorded f exists rnd) REGISTER_METHOD ?p (fst c) (snd c)))"
      by (auto simp: session_start_def session_call_def ops_def mx_ops_def regs split: prod.splits sum.splits)
    then show ?thesis
      using False host recorded_log.call_resent [of ?p cfg f exists rnd REGISTER_METHOD "fst c" "snd c"]
      by (auto simp: guard_iff)
  qed
  have outcome: "case fst ?o of
         Inl err \<Rightarrow> if owns then fst (snd ?o) = new_mx_client else True
       | Inr s \<Rightarrow> se_state s = Active \<and> (se_heartbeat s \<noteq> None \<longleftrightarrow> so_heartbeat opts)
           \<and> (\<exists>agent a. se_agentState s = Some agent \<and> agentId s = Some a \<and> a \<noteq> [] \<and> \<not> carries_secret_value (JObj agent))"
  proof (cases "fst ?o")
    case (Inl e)
    then show ?thesis
      by (auto simp: openSession_def owns_def [symmetric] ops_def mx_ops_def mx_close_def new_mx_client_def split: prod.splits sum.splits)
  next
    case (Inr s)
    then have "?o = (Inr s, snd ?o)" by (metis prod.collapse)
    from opened_active [OF this [unfolded ops_def]] Inr show ?thesis by simp
  qed
  from sends outcome show ?thesis by (auto simp: Let_def)
qed

end
