(* ===== verification/Tasks.thy ===== *)
theory Tasks
  imports Agents
begin

text \<open>
  The task verbs (packages/registry/src/handlers/): the projection of the daemon's task records
  (task-projection.ts), the stored action of a task (task-action.ts), and \<open>mx_create_task\<close>,
  \<open>mx_update_task\<close>, \<open>mx_list_tasks\<close> (create-task.ts, update-task.ts, list-tasks.ts), with the
  idempotency keys (packages/registry/src/idempotency.ts).
\<close>

section \<open>Task states\<close>

datatype task_state = Proposed | Pending | Assigned | Executing | Succeeded | Failed | Unknown

definition task_state_name :: "task_state \<Rightarrow> string" where
  "task_state_name s =
     (case s of Proposed \<Rightarrow> ''proposed'' | Pending \<Rightarrow> ''pending'' | Assigned \<Rightarrow> ''assigned''
      | Executing \<Rightarrow> ''executing'' | Succeeded \<Rightarrow> ''succeeded'' | Failed \<Rightarrow> ''failed'' | Unknown \<Rightarrow> ''unknown'')"

definition TASK_STATES :: "task_state list" where
  "TASK_STATES = [Proposed, Pending, Assigned, Executing, Succeeded, Failed]"

definition TASK_STATE_OUTPUTS :: "task_state list" where
  "TASK_STATE_OUTPUTS = TASK_STATES @ [Unknown]"

definition TASK_STATE_MAP :: "(string \<times> task_state) list" where
  "TASK_STATE_MAP =
     [(''proposed'', Proposed), (''new'', Proposed), (''created'', Proposed), (''draft'', Proposed),
      (''pending'', Pending), (''queued'', Pending), (''waiting'', Pending), (''blocked'', Pending),
      (''ready'', Pending),
      (''assigned'', Assigned), (''claimed'', Assigned), (''accepted'', Assigned), (''scheduled'', Assigned),
      (''executing'', Executing), (''running'', Executing), (''in_progress'', Executing),
      (''inprogress'', Executing), (''active'', Executing), (''started'', Executing),
      (''in_flight'', Executing), (''inflight'', Executing),
      (''succeeded'', Succeeded), (''success'', Succeeded), (''done'', Succeeded), (''complete'', Succeeded),
      (''completed'', Succeeded), (''finished'', Succeeded), (''resolved'', Succeeded), (''ok'', Succeeded),
      (''failed'', Failed), (''failure'', Failed), (''error'', Failed), (''errored'', Failed),
      (''faulted'', Failed), (''cancelled'', Failed), (''canceled'', Failed), (''aborted'', Failed)]"

interpretation task_states: token_table TASK_STATE_MAP
  by unfold_locales code_simp

text \<open>The lookup can also answer with an inherited function, as for daemon codes.\<close>

datatype state_value = State task_state | StateFunction string

definition mapTaskState :: "json \<Rightarrow> state_value" where
  "mapTaskState raw =
     (case readString raw of
        None \<Rightarrow> State Unknown
      | Some token \<Rightarrow>
          (case table_get TASK_STATE_MAP (normaliseToken token) of
             Own s \<Rightarrow> State s
           | Inherited f \<Rightarrow> StateFunction f
           | Missing \<Rightarrow> State Unknown))"

section \<open>Projections\<close>

datatype action_kind = Tool | Exec

definition action_kind_name :: "action_kind \<Rightarrow> string" where
  "action_kind_name k = (case k of Tool \<Rightarrow> ''tool'' | Exec \<Rightarrow> ''exec'')"

record task_action =
  a_kind :: action_kind
  a_tool :: "string option"
  a_args :: "obj option"
  a_command :: "string option"
  a_command_args :: "string list option"
  a_cwd :: "string option"

record task_node =
  n_task_id :: string
  n_title :: string
  n_state :: state_value
  n_assignee :: "string option"
  n_depends_on :: "string list"
  n_blocks :: "string list"
  n_action :: "task_action option"
  n_created_at :: "string option"
  n_updated_at :: "string option"

definition readTaskId :: "obj \<Rightarrow> string" where
  "readTaskId raw = or_default (orelse (readString (jget raw ''task_id'')) (readString (jget raw ''id''))) []"

fun action_kind_of :: "json \<Rightarrow> action_kind option" where
  "action_kind_of (JStr k) = (if k = ''tool'' then Some Tool else if k = ''exec'' then Some Exec else None)"
| "action_kind_of _ = None"

definition read_array :: "json \<Rightarrow> string list option" where
  "read_array x = (case x of JArr _ \<Rightarrow> Some (readStringArray x) | _ \<Rightarrow> None)"

definition projectAction :: "json \<Rightarrow> task_action option" where
  "projectAction raw =
     (case asRecord raw of
        None \<Rightarrow> None
      | Some a \<Rightarrow>
          (case action_kind_of (jget a ''kind'') of
             None \<Rightarrow> None
           | Some kind \<Rightarrow>
               Some \<lparr>a_kind = kind,
                     a_tool = readString (jget a ''tool''),
                     a_args = asRecord (jget a ''args''),
                     a_command = readString (jget a ''command''),
                     a_command_args = orelse (read_array (jget a ''command_args''))
                        (if kind = Exec then read_array (jget a ''args'') else None),
                     a_cwd = readString (jget a ''cwd'')\<rparr>))"

definition projectTaskNode :: "json \<Rightarrow> task_node" where
  "projectTaskNode raw =
     (let outer = asRecord raw;
          r = or_default (orelse (Option.bind outer (\<lambda>ob. asRecord (jget ob ''task''))) outer) [] in
      \<lparr>n_task_id = readTaskId r,
       n_title = or_default (readString (jget r ''title'')) [],
       n_state = mapTaskState (nullish (jget r ''state'') (nullish (jget r ''status'') (jget r ''phase''))),
       n_assignee = orelse (readString (jget r ''assignee''))
          (orelse (readString (jget r ''assigned_to'')) (readString (jget r ''assign''))),
       n_depends_on = readStringArray (jget r ''depends_on''),
       n_blocks = readStringArray (jget r ''blocks''),
       n_action = projectAction (jget r ''action''),
       n_created_at = readString (jget r ''created_at''),
       n_updated_at = readString (jget r ''updated_at'')\<rparr>)"

definition projectTaskEdge :: "json \<Rightarrow> task_edge option" where
  "projectTaskEdge raw =
     (case asRecord raw of
        None \<Rightarrow> None
      | Some e \<Rightarrow>
          (case (orelse (readString (jget e ''from''))
                   (orelse (readString (jget e ''source'')) (readString (jget e ''task_id''))),
                 orelse (readString (jget e ''to''))
                   (orelse (readString (jget e ''target'')) (readString (jget e ''depends_on'')))) of
             (Some f, Some t) \<Rightarrow>
               if f = [] \<or> t = [] then None
               else Some \<lparr>edge_from = f, edge_to = t,
                          edge_kind_of = (if jget e ''kind'' = JStr ''blocks'' then Blocks else Depends_on)\<rparr>
           | _ \<Rightarrow> None))"

text \<open>The separator of the registry's edge keys is the NUL character.\<close>

abbreviation NUL :: char where "NUL \<equiv> CHR 0x00"

definition node_edges :: "task_node \<Rightarrow> task_edge list" where
  "node_edges node =
     map (\<lambda>dep. \<lparr>edge_from = n_task_id node, edge_to = dep, edge_kind_of = Depends_on\<rparr>) (n_depends_on node)
     @ map (\<lambda>b. \<lparr>edge_from = n_task_id node, edge_to = b, edge_kind_of = Blocks\<rparr>) (n_blocks node)"

definition real_edge :: "task_edge \<Rightarrow> bool" where
  "real_edge e = (edge_from e \<noteq> [] \<and> edge_to e \<noteq> [])"

definition deriveEdges :: "task_node list \<Rightarrow> task_edge list" where
  "deriveEdges nodes = push_edges (edge_key NUL) (filter real_edge (concat (map node_edges nodes))) []"

definition mergeEdges :: "task_edge list \<Rightarrow> json \<Rightarrow> task_edge list" where
  "mergeEdges derived rawEdges =
     (case rawEdges of
        JArr raws \<Rightarrow> push_edges (edge_key NUL) (List.map_filter projectTaskEdge raws) derived
      | _ \<Rightarrow> derived)"

section \<open>The value a projection denotes\<close>

definition state_json :: "state_value \<Rightarrow> json" where
  "state_json s = (case s of State st \<Rightarrow> JStr (task_state_name st) | StateFunction f \<Rightarrow> JUndef)"

definition action_json :: "task_action \<Rightarrow> json" where
  "action_json a =
     JObj ([(''kind'', JStr (action_kind_name (a_kind a)))]
       @ opt_field ''tool'' (map_option JStr (a_tool a))
       @ opt_field ''args'' (map_option JObj (a_args a))
       @ opt_field ''command'' (map_option JStr (a_command a))
       @ opt_field ''command_args'' (map_option strings_json (a_command_args a))
       @ opt_field ''cwd'' (map_option JStr (a_cwd a)))"

definition node_obj :: "task_node \<Rightarrow> obj" where
  "node_obj n =
     [(''task_id'', JStr (n_task_id n)), (''title'', JStr (n_title n)), (''state'', state_json (n_state n)),
      (''assignee'', str_opt (n_assignee n)), (''depends_on'', strings_json (n_depends_on n)),
      (''blocks'', strings_json (n_blocks n)),
      (''action'', case n_action n of None \<Rightarrow> JNull | Some a \<Rightarrow> action_json a)]
     @ opt_field ''created_at'' (map_option JStr (n_created_at n))
     @ opt_field ''updated_at'' (map_option JStr (n_updated_at n))"

definition edge_json :: "task_edge \<Rightarrow> json" where
  "edge_json e =
     JObj [(''from'', JStr (edge_from e)), (''to'', JStr (edge_to e)),
           (''kind'', JStr (edge_kind_name (edge_kind_of e)))]"

definition taskStateToken :: "obj \<Rightarrow> string option" where
  "taskStateToken ob =
     map_option normaliseToken
       (orelse (readString (jget ob ''state''))
          (orelse (readString (jget ob ''status'')) (readString (jget ob ''phase''))))"

definition taskNodeResponseToResult :: "json \<Rightarrow> obj tool_result" where
  "taskNodeResponseToResult raw =
     (let aref = extractAuditRef (asRecord raw) in
      case asRecord raw of
        None \<Rightarrow> errored (Code internal) (Some ''unrecognised task response'') aref
      | Some ob \<Rightarrow>
          if hasErrorSignal ob then failureResult (failureCode ob (taskStateToken ob)) aref
          else ok (node_obj (projectTaskNode (JObj ob))) aref)"

section \<open>The stored action\<close>

datatype action_dispatch =
    DispatchTool (ad_tool: string) (ad_args: obj)
  | DispatchExec (ad_command: string) (ad_command_args: "string list") (ad_cwd: "string option")

text \<open>The invalid descriptions are a result of the function, \<open>Inl reason\<close>.\<close>

definition actionToDispatch :: "task_action \<Rightarrow> string + action_dispatch" where
  "actionToDispatch action =
     (if a_kind action = Exec then
        (case a_command action of
           Some command \<Rightarrow>
             if command = [] then Inl ''exec action carries no command to run''
             else Inr (DispatchExec command (or_default (a_command_args action) []) (a_cwd action))
         | None \<Rightarrow> Inl ''exec action carries no command to run'')
      else
        (case a_tool action of
           Some tool \<Rightarrow>
             if tool = [] then Inl ''tool action carries no tool to invoke''
             else Inr (DispatchTool tool (or_default (a_args action) []))
         | None \<Rightarrow> Inl ''tool action carries no tool to invoke''))"

definition dispatchToCreateActionParam :: "action_dispatch \<Rightarrow> obj" where
  "dispatchToCreateActionParam dispatch =
     (case dispatch of
        DispatchTool tool args \<Rightarrow>
          [(''kind'', JStr ''tool''), (''tool'', JStr tool)]
          @ (if args \<noteq> [] then [(''args'', JObj args)] else [])
      | DispatchExec command command_args cwd \<Rightarrow>
          [(''kind'', JStr ''exec''), (''command'', JStr command)]
          @ (if command_args \<noteq> [] then [(''args'', strings_json command_args)] else [])
          @ opt_field ''cwd'' (map_option JStr cwd))"

definition buildActionParam :: "task_action \<Rightarrow> obj" where
  "buildActionParam action =
     (case actionToDispatch action of
        Inl _ \<Rightarrow>
          spread ([(''kind'', JStr (action_kind_name (a_kind action)))]
             @ opt_field ''tool'' (map_option JStr (a_tool action))
             @ opt_field ''args'' (map_option JObj (a_args action))
             @ opt_field ''command'' (map_option JStr (a_command action)))
            (opt_field ''args'' (map_option strings_json (a_command_args action))
             @ opt_field ''cwd'' (map_option JStr (a_cwd action)))
      | Inr dispatch \<Rightarrow> dispatchToCreateActionParam dispatch)"

section \<open>Idempotency keys\<close>

definition IDEMPOTENCY_KEY_PREFIX :: string where
  "IDEMPOTENCY_KEY_PREFIX = ''idk_''"

definition newIdempotencyKey :: "(string \<Rightarrow> ('d, 'a) async) \<Rightarrow> ('d, 'a) async" where
  "newIdempotencyKey k = with_uuid (\<lambda>u. k (IDEMPOTENCY_KEY_PREFIX @ u))"

text \<open>\<open>input.idempotency_key ?? newIdempotencyKey()\<close>\<close>

definition key_or_new :: "string option \<Rightarrow> (string \<Rightarrow> ('d, 'a) async) \<Rightarrow> ('d, 'a) async" where
  "key_or_new key k = (case key of Some x \<Rightarrow> k x | None \<Rightarrow> newIdempotencyKey k)"

section \<open>The task verbs\<close>

definition room_missing :: "string option \<Rightarrow> bool" where
  "room_missing room = (case room of None \<Rightarrow> True | Some r \<Rightarrow> r = [])"

record create_task_input =
  ct_title :: string
  ct_depends_on :: "string list option"
  ct_blocks :: "string list option"
  ct_assign :: "string option"
  ct_state :: "task_state option"
  ct_action :: "task_action option"
  ct_idempotency_key :: "string option"

definition create_params :: "create_task_input \<Rightarrow> string \<Rightarrow> string \<Rightarrow> obj" where
  "create_params input room idempotency_key =
     [(''room'', JStr room), (''title'', JStr (ct_title input))]
     @ opt_field ''depends_on'' (map_option strings_json (ct_depends_on input))
     @ opt_field ''blocks'' (map_option strings_json (ct_blocks input))
     @ opt_field ''assign'' (map_option JStr (ct_assign input))
     @ opt_field ''state'' (map_option (\<lambda>s. JStr (task_state_name s)) (ct_state input))
     @ opt_field ''action'' (map_option (\<lambda>a. JObj (buildActionParam a)) (ct_action input))
     @ [(''idempotency_key'', JStr idempotency_key)]"

definition mxCreateTask ::
  "create_task_input \<Rightarrow> ('d, 'z) room_scoped_deps_scheme \<Rightarrow> ('d, obj tool_result) async" where
  "mxCreateTask input deps =
     (if room_missing (d_room deps)
      then resolve (errored (Code internal) (Some ''no workspace room configured for task'') EMPTY_AUDIT_REF)
      else key_or_new (ct_idempotency_key input) (\<lambda>idempotency_key.
             call_or (d_daemon deps) ''task.create''
               (JObj (create_params input (or_default (d_room deps) []) idempotency_key))
               (\<lambda>err. resolve (faultToResult err EMPTY_AUDIT_REF))
               (\<lambda>response. resolve (taskNodeResponseToResult response))))"

record update_task_input =
  ut_task_id :: string
  ut_state :: "task_state option"
  ut_assign :: "string option"
  ut_depends_on :: "string list option"
  ut_blocks :: "string list option"
  ut_idempotency_key :: "string option"

definition update_params :: "update_task_input \<Rightarrow> string \<Rightarrow> string \<Rightarrow> obj" where
  "update_params input room idempotency_key =
     [(''room'', JStr room), (''task_id'', JStr (ut_task_id input))]
     @ opt_field ''state'' (map_option (\<lambda>s. JStr (task_state_name s)) (ut_state input))
     @ opt_field ''assign'' (map_option JStr (ut_assign input))
     @ opt_field ''depends_on'' (map_option strings_json (ut_depends_on input))
     @ opt_field ''blocks'' (map_option strings_json (ut_blocks input))
     @ [(''idempotency_key'', JStr idempotency_key)]"

definition mxUpdateTask ::
  "update_task_input \<Rightarrow> ('d, 'z) room_scoped_deps_scheme \<Rightarrow> ('d, obj tool_result) async" where
  "mxUpdateTask input deps =
     (if room_missing (d_room deps)
      then resolve (errored (Code internal) (Some ''no workspace room configured for task'') EMPTY_AUDIT_REF)
      else key_or_new (ut_idempotency_key input) (\<lambda>idempotency_key.
             call_or (d_daemon deps) ''task.update''
               (JObj (update_params input (or_default (d_room deps) []) idempotency_key))
               (\<lambda>err. resolve (faultToResult err EMPTY_AUDIT_REF))
               (\<lambda>response. resolve (taskNodeResponseToResult response))))"

datatype task_view = View_list | View_graph

record list_tasks_input =
  lt_state :: "task_state option"
  lt_assignee :: "string option"
  lt_view :: "task_view option"

definition readTaskRows :: "json \<Rightarrow> json list" where
  "readTaskRows raw =
     (case raw of
        JArr xs \<Rightarrow> xs
      | JObj r \<Rightarrow> or_default (first_some (map (\<lambda>key. asArray (jget r key)) [''tasks'', ''nodes'', ''items''])) []
      | _ \<Rightarrow> [])"

definition readEdgeRows :: "json \<Rightarrow> json" where
  "readEdgeRows raw =
     (case raw of
        JArr xs \<Rightarrow> raw
      | JObj r \<Rightarrow>
          (case asArray (jget r ''edges'') of
             Some _ \<Rightarrow> jget r ''edges''
           | None \<Rightarrow> (case asArray (jget r ''links'') of Some _ \<Rightarrow> jget r ''links'' | None \<Rightarrow> JUndef))
      | _ \<Rightarrow> JUndef)"

text \<open>What the verb resolves to before it is put in an envelope: the fault, or nodes and edges.\<close>

definition list_filters :: "list_tasks_input \<Rightarrow> string option \<Rightarrow> json" where
  "list_filters input room =
     (let filters = (if room_missing room then [] else [(''room'', JStr (or_default room []))])
                    @ opt_field ''state'' (map_option (\<lambda>s. JStr (task_state_name s)) (lt_state input))
                    @ opt_field ''assignee'' (map_option JStr (lt_assignee input)) in
      if filters \<noteq> [] then JObj filters else JUndef)"

definition tasks_result :: "task_node list \<Rightarrow> task_edge list option \<Rightarrow> obj" where
  "tasks_result tasks edges =
     [(''tasks'', JArr (map (\<lambda>n. JObj (node_obj n)) tasks))]
     @ opt_field ''edges'' (map_option (\<lambda>es. JArr (map edge_json es)) edges)"

text \<open>\<open>listed\<close> keeps the typed nodes: \<open>mx_dispatch_task\<close> reads them from the result.\<close>

definition list_tasks ::
  "list_tasks_input \<Rightarrow> ('d, 'z) room_scoped_deps_scheme
     \<Rightarrow> ('d, obj tool_result + task_node list \<times> task_edge list option) async" where
  "list_tasks input deps =
     (let view = or_default (lt_view input) View_graph;
          listParams = list_filters input (d_room deps) in
      call_or (d_daemon deps) ''task.list'' listParams
        (\<lambda>err. resolve (Inl (faultToResult err EMPTY_AUDIT_REF)))
        (\<lambda>listResponse.
           let tasks = map projectTaskNode (readTaskRows listResponse) in
           if view = View_list then resolve (Inr (tasks, None))
           else let derived = deriveEdges tasks in
                call_or (d_daemon deps) ''task.graph'' listParams
                  (\<lambda>_. resolve (Inr (tasks, Some (mergeEdges derived (readEdgeRows JUndef)))))
                  (\<lambda>graphResponse.
                     resolve (Inr (tasks, Some (mergeEdges derived (readEdgeRows graphResponse)))))))"

definition listed_result :: "obj tool_result + task_node list \<times> task_edge list option \<Rightarrow> obj tool_result" where
  "listed_result x = (case x of Inl r \<Rightarrow> r | Inr (tasks, edges) \<Rightarrow> ok (tasks_result tasks edges) EMPTY_AUDIT_REF)"

definition mxListTasks ::
  "list_tasks_input \<Rightarrow> ('d, 'z) room_scoped_deps_scheme \<Rightarrow> ('d, obj tool_result) async" where
  "mxListTasks input deps = await (list_tasks input deps) (\<lambda>x. resolve (listed_result x))"

section \<open>The handler contract\<close>

lemma sends_key_or_new [intro]: "(\<And>key. emits R Q (k key)) \<Longrightarrow> emits R Q (key_or_new key k)"
  unfolding key_or_new_def newIdempotencyKey_def by (intro sends_option sends_uuid)

lemma well_built_taskNodeResponse [simp]: "well_built (taskNodeResponseToResult raw)"
  by (simp add: taskNodeResponseToResult_def Let_def split: option.split)

interpretation create_task: verb_handler
  "mxCreateTask input (logged_deps f interval room validator)" "[''task.create'']"
proof
  show "sends (set [''task.create'']) well_built (mxCreateTask input (logged_deps f interval room validator))"
    unfolding mxCreateTask_def logged_deps_fields list.set
    by (intro sends_intros sends_key_or_new) simp_all
  show "list_all (\<lambda>m. \<not> isForbiddenAuthorityVerb m) [''task.create'']" by code_simp
qed

interpretation update_task: verb_handler
  "mxUpdateTask input (logged_deps f interval room validator)" "[''task.update'']"
proof
  show "sends (set [''task.update'']) well_built (mxUpdateTask input (logged_deps f interval room validator))"
    unfolding mxUpdateTask_def logged_deps_fields list.set
    by (intro sends_intros sends_key_or_new) simp_all
  show "list_all (\<lambda>m. \<not> isForbiddenAuthorityVerb m) [''task.update'']" by code_simp
qed

lemma list_tasks_sends:
  "sends {''task.list'', ''task.graph''} (\<lambda>x. well_built (listed_result x))
     (list_tasks input (logged_deps f interval room validator))"
  unfolding list_tasks_def Let_def logged_deps_fields
  by (intro sends_intros) (simp_all add: listed_result_def)

interpretation list_tasks: verb_handler
  "mxListTasks input (logged_deps f interval room validator)" "[''task.list'', ''task.graph'']"
proof
  show "sends (set [''task.list'', ''task.graph'']) well_built (mxListTasks input (logged_deps f interval room validator))"
    unfolding mxListTasks_def list.set by (rule sends_await [OF list_tasks_sends]) (rule sends_resolve)
  show "list_all (\<lambda>m. \<not> isForbiddenAuthorityVerb m) [''task.list'', ''task.graph'']" by code_simp
qed

section \<open>Edges\<close>

interpretation registry_keys: faithful_keys "edge_key NUL" "separable NUL"
proof
  fix e e'
  assume "separable NUL e" "separable NUL e'" "edge_key NUL e = edge_key NUL e'"
  moreover have "NUL \<notin> set (edge_kind_name Depends_on)" "NUL \<notin> set (edge_kind_name Blocks)"
    by (simp_all add: edge_kind_name_def)
  ultimately show "e = e'" using edge_key_inj by blast
qed

lemma list_all_filter: "list_all P xs \<Longrightarrow> list_all P (filter Q xs)"
  by (auto simp: list_all_iff)

lemma list_all_unique: "list_all P xs \<Longrightarrow> list_all P (js_unique xs)"
  by (auto simp: list_all_iff)

lemma deriveEdges_unique:
  assumes "list_all (separable NUL) (concat (map node_edges nodes))"
  shows "deriveEdges nodes = js_unique (filter real_edge (concat (map node_edges nodes)))"
  using registry_keys.push_edges_unique [of "[]"] list_all_filter [OF assms]
  by (simp add: deriveEdges_def)

lemma js_unique_append: "js_unique (js_unique xs @ ys) = js_unique (xs @ ys)"
  by (induction ys rule: rev_induct)
     (simp_all add: js_unique_id flip: append_assoc)

text \<open>
  The task graph loses no edge and repeats none. When no task id contains the NUL character
  the edge keys are joined with, the edges of a graph are the dependency and block edges of the
  nodes that have both ends, followed by the daemon's own edges, each at its first occurrence.
\<close>

theorem graph_edges_exact:
  assumes "list_all (separable NUL) (concat (map node_edges nodes))"
    and "list_all (separable NUL) (List.map_filter projectTaskEdge raws)"
  shows "mergeEdges (deriveEdges nodes) (JArr raws)
           = js_unique (filter real_edge (concat (map node_edges nodes)) @ List.map_filter projectTaskEdge raws)"
proof -
  have "list_all (separable NUL) (deriveEdges nodes)"
    unfolding deriveEdges_unique [OF assms(1)] by (intro list_all_unique list_all_filter assms(1))
  moreover have "distinct (deriveEdges nodes)"
    unfolding deriveEdges_unique [OF assms(1)] by simp
  ultimately show ?thesis
    using registry_keys.push_edges_unique assms(2)
    by (simp add: mergeEdges_def deriveEdges_unique [OF assms(1)] js_unique_append)
qed

theorem graph_edges_exact_witness:
  "mergeEdges (deriveEdges [projectTaskNode (JObj [(''id'', JStr ''a''), (''depends_on'', JArr [JStr ''b'', JStr ''b''])])])
     (JArr [JObj [(''from'', JStr ''a''), (''to'', JStr ''b'')], JObj [(''from'', JStr ''b''), (''to'', JStr ''c'')]])
   = [\<lparr>edge_from = ''a'', edge_to = ''b'', edge_kind_of = Depends_on\<rparr>,
      \<lparr>edge_from = ''b'', edge_to = ''c'', edge_kind_of = Depends_on\<rparr>]"
  by (subst graph_edges_exact) code_simp+

section \<open>The stored action survives storage\<close>

lemma readStringArray_strings [simp]: "readStringArray (strings_json xs) = xs"
  by (induction xs) (simp_all add: strings_json_def List.map_filter_def)

lemma read_array_simps [simp]: "read_array JUndef = None" "read_array (JObj ob) = None"
    "read_array (strings_json xs) = Some xs"
  using readStringArray_strings [of xs] by (simp_all add: read_array_def strings_json_def)

lemma asRecord_strings [simp]: "asRecord (strings_json xs) = None"
  by (simp add: strings_json_def)

text \<open>
  C22. What is authored is what runs. If a task action can be dispatched, then the action stored
  with the task by \<open>mx_create_task\<close>, projected back from the daemon's record, dispatches the
  same call: the same tool and arguments, or the same command, arguments and directory.
\<close>

theorem stored_action_roundtrip:
  assumes "actionToDispatch action = Inr dispatch"
  shows "\<exists>action'. projectAction (JObj (buildActionParam action)) = Some action'
           \<and> actionToDispatch action' = Inr dispatch"
proof -
  have param: "buildActionParam action = dispatchToCreateActionParam dispatch"
    using assms by (simp add: buildActionParam_def)
  show ?thesis
  proof (cases dispatch)
    case (DispatchTool tool args)
    with assms have "tool \<noteq> []" by (auto simp: actionToDispatch_def split: if_splits option.splits)
    with DispatchTool show ?thesis
      by (simp add: param dispatchToCreateActionParam_def projectAction_def actionToDispatch_def)
  next
    case (DispatchExec command command_args cwd)
    with assms have "command \<noteq> []" by (auto simp: actionToDispatch_def split: if_splits option.splits)
    with DispatchExec show ?thesis
      by (cases cwd)
         (simp_all add: param dispatchToCreateActionParam_def projectAction_def actionToDispatch_def jget_append)
  qed
qed

theorem stored_action_roundtrip_witness:
  "\<exists>action'. projectAction (JObj (buildActionParam
       \<lparr>a_kind = Exec, a_tool = None, a_args = None, a_command = Some ''npm'',
        a_command_args = Some [''test''], a_cwd = None\<rparr>)) = Some action'
     \<and> actionToDispatch action' = Inr (DispatchExec ''npm'' [''test''] None)"
  by (rule stored_action_roundtrip) code_simp

section \<open>Results against the declared output schemas\<close>

lemma state_enum: "enum_ok (JArr (map (\<lambda>s. JStr (task_state_name s)) TASK_STATE_OUTPUTS)) (JStr (task_state_name s))"
  by (cases s) (simp_all add: TASK_STATE_OUTPUTS_def TASK_STATES_def)

definition has_state :: "task_node \<Rightarrow> bool" where
  "has_state n = (\<exists>s. n_state n = State s)"

definition function_state :: "task_node \<Rightarrow> bool" where
  "function_state n = (\<exists>f. n_state n = StateFunction f)"

lemma function_state_iff: "function_state n \<longleftrightarrow> \<not> has_state n"
  by (cases "n_state n") (simp_all add: function_state_def has_state_def)

lemma mapTaskState_function:
  "(\<exists>s. mapTaskState raw = State s) \<longleftrightarrow>
     (case readString raw of None \<Rightarrow> True | Some token \<Rightarrow> normaliseToken token \<noteq> ''constructor'')"
  by (simp add: mapTaskState_def task_states.lookup_eq split: option.split)

lemma node_conforms:
  assumes "has_state n"
  shows "draft07 (read_field MX_CREATE_TASK ''output_schema'') (JObj (node_obj n))"
    and "draft07 (read_field MX_UPDATE_TASK ''output_schema'') (JObj (node_obj n))"
proof -
  obtain s where s: "n_state n = State s" using assms by (auto simp: has_state_def)
  have enum: "JStr ''proposed'' = JStr (task_state_name s) \<or> JStr ''pending'' = JStr (task_state_name s)
      \<or> JStr ''assigned'' = JStr (task_state_name s) \<or> JStr ''executing'' = JStr (task_state_name s)
      \<or> JStr ''succeeded'' = JStr (task_state_name s) \<or> JStr ''failed'' = JStr (task_state_name s)
      \<or> JStr ''unknown'' = JStr (task_state_name s)"
    by (cases s) (simp_all add: task_state_name_def)
  obtain assignee action where a: "str_opt (n_assignee n) = assignee"
      "json_has_type ''string'' assignee \<or> json_has_type ''null'' assignee" "assignee \<noteq> JUndef"
      "(case n_action n of None \<Rightarrow> JNull | Some a \<Rightarrow> action_json a) = action"
      "json_has_type ''object'' action \<or> json_has_type ''null'' action" "action \<noteq> JUndef"
    by (cases "n_assignee n"; cases "n_action n") (simp_all add: action_json_def)
  show "draft07 (read_field MX_CREATE_TASK ''output_schema'') (JObj (node_obj n))"
    using a enum by (auto simp: MX_CREATE_TASK_def node_obj_def schema_eval jget_opt_field list_all_iff s state_json_def)
  show "draft07 (read_field MX_UPDATE_TASK ''output_schema'') (JObj (node_obj n))"
    using a enum by (auto simp: MX_UPDATE_TASK_def node_obj_def schema_eval jget_opt_field list_all_iff s state_json_def)
qed

lemma listed_conforms: "draft07 (read_field MX_LIST_TASKS ''output_schema'') (JObj (tasks_result tasks edges))"
proof -
  have kinds: "''depends_on'' = edge_kind_name k \<or> ''blocks'' = edge_kind_name k" for k
    by (cases k) (simp_all add: edge_kind_name_def)
  show ?thesis
    by (cases edges)
       (simp_all add: MX_LIST_TASKS_def tasks_result_def schema_eval list_all_iff edge_json_def kinds)
qed

lemma node_response_output:
  "output_ok d (taskNodeResponseToResult raw) \<or>
     (\<exists>n. r_result (taskNodeResponseToResult raw) = Some (node_obj n) \<and> function_state n)"
  if "\<And>n. has_state n \<Longrightarrow> draft07 (read_field d ''output_schema'') (JObj (node_obj n))"
proof (cases "asRecord raw")
  case None
  then show ?thesis by (simp add: taskNodeResponseToResult_def Let_def)
next
  case (Some ob)
  show ?thesis
  proof (cases "hasErrorSignal ob")
    case True
    with Some show ?thesis by (simp add: taskNodeResponseToResult_def Let_def)
  next
    case False
    with Some have r: "taskNodeResponseToResult raw = ok (node_obj (projectTaskNode (JObj ob))) (extractAuditRef (Some ob))"
      by (simp add: taskNodeResponseToResult_def Let_def)
    show ?thesis
      unfolding r using that [of "projectTaskNode (JObj ob)"]
      by (cases "has_state (projectTaskNode (JObj ob))") (auto simp: output_ok_def ok_def function_state_iff)
  qed
qed

text \<open>
  C23. The task verbs keep their published contract. \<open>mx_list_tasks\<close> settles with a payload that
  satisfies its output schema; \<open>mx_create_task\<close> and \<open>mx_update_task\<close> settle with one that
  satisfies theirs, unless the state of the daemon's record is the name of an inherited property.
\<close>

theorem task_outputs_conform:
  "(\<exists>r h'. mxListTasks li (logged_deps f interval room validator) h = Some (r, h') \<and> output_ok MX_LIST_TASKS r)
   \<and> (\<exists>r h'. mxCreateTask ci (logged_deps f interval room validator) h = Some (r, h')
        \<and> (output_ok MX_CREATE_TASK r \<or> (\<exists>n. r_result r = Some (node_obj n) \<and> function_state n)))
   \<and> (\<exists>r h'. mxUpdateTask ui (logged_deps f interval room validator) h = Some (r, h')
        \<and> (output_ok MX_UPDATE_TASK r \<or> (\<exists>n. r_result r = Some (node_obj n) \<and> function_state n)))"
proof (intro conjI)
  have listed: "output_ok MX_LIST_TASKS (ok (tasks_result tasks edges) aref)" for tasks edges aref
    using listed_conforms by (simp add: output_ok_def ok_def)
  show "\<exists>r h'. mxListTasks li (logged_deps f interval room validator) h = Some (r, h') \<and> output_ok MX_LIST_TASKS r"
    unfolding mxListTasks_def list_tasks_def call_or_def resolve_def await_def Let_def logged_deps_fields
    by (simp add: listed_result_def listed split: prod.split sum.split)
  show "\<exists>r h'. mxCreateTask ci (logged_deps f interval room validator) h = Some (r, h')
        \<and> (output_ok MX_CREATE_TASK r \<or> (\<exists>n. r_result r = Some (node_obj n) \<and> function_state n))"
    unfolding mxCreateTask_def call_or_def resolve_def key_or_new_def newIdempotencyKey_def with_uuid_def
      randomUUID_def logged_deps_fields
    using node_response_output [OF node_conforms(1)]
    by (simp split: prod.split sum.split option.split)
  show "\<exists>r h'. mxUpdateTask ui (logged_deps f interval room validator) h = Some (r, h')
        \<and> (output_ok MX_UPDATE_TASK r \<or> (\<exists>n. r_result r = Some (node_obj n) \<and> function_state n))"
    unfolding mxUpdateTask_def call_or_def resolve_def key_or_new_def newIdempotencyKey_def with_uuid_def
      randomUUID_def logged_deps_fields
    using node_response_output [OF node_conforms(2)]
    by (simp split: prod.split sum.split option.split)
qed

end
