(* ===== verification/Plan.thy ===== *)
theory Plan
  imports Session Tasks "HOL-Library.Multiset"
begin

text \<open>
  The durable plan a restarted runtime recovers (packages/toolbelt/src/plan-snapshot.ts): the
  projection of task records, the resumption cursor, the edges, the reconciliation and the
  reconstruction from \<open>task.list\<close>. The toolbelt keeps its own copies of the registry's readers,
  state table and edge derivation; the table is written out again here, and the theorem that
  compares the two projections depends on both.
\<close>

section \<open>Task records\<close>

definition TASK_LIST_METHOD :: string where "TASK_LIST_METHOD = ''task.list''"

record resumed_task =
  rt_task_id :: string
  rt_state :: state_value
  rt_assignee :: "string option"
  rt_depends_on :: "string list"
  rt_blocks :: "string list"

definition RESUMED_STATE_MAP :: "(string \<times> task_state) list" where
  "RESUMED_STATE_MAP =
     [(''proposed'', Proposed), (''new'', Proposed), (''created'', Proposed), (''draft'', Proposed),
      (''pending'', Pending), (''queued'', Pending), (''waiting'', Pending), (''blocked'', Pending),
      (''ready'', Pending),
      (''assigned'', Assigned), (''claimed'', Assigned), (''accepted'', Assigned), (''scheduled'', Assigned),
      (''executing'', Executing), (''running'', Executing), (''in_progress'', Executing),
      (''inprogress'', Executing), (''active'', Executing), (''started'', Executing),
      (''in_flight'', Executing), (''inflight'', Executing),
      (''succeeded'', Succeeded), (''success'', Succeeded), (''done'', Succeeded), (''complete'', Succeeded),
      (''completed'', Succeeded), (''finished'', Succeeded), (''resolved'', Succeeded), (''ok'', Succeeded),
      (''failed'', Failed), (''failure'', Failed), (''error'', Failed), (''errored'', Failed),
      (''faulted'', Failed), (''cancelled'', Failed), (''canceled'', Failed), (''aborted'', Failed)]"

interpretation resumed_states: token_table RESUMED_STATE_MAP
  by unfold_locales code_simp

definition mapResumedTaskState :: "json \<Rightarrow> state_value" where
  "mapResumedTaskState raw =
     (case readString raw of
        None \<Rightarrow> State Unknown
      | Some token \<Rightarrow>
          (case table_get RESUMED_STATE_MAP (normaliseToken token) of
             Own s \<Rightarrow> State s
           | Inherited f \<Rightarrow> StateFunction f
           | Missing \<Rightarrow> State Unknown))"

text \<open>A record is bare or wrapped under \<open>task\<close>.\<close>

definition task_record :: "json \<Rightarrow> obj option" where
  "task_record raw = (let outer = asRecord raw in orelse (Option.bind outer (\<lambda>ob. asRecord (jget ob ''task''))) outer)"

definition projectResumedTask :: "json \<Rightarrow> resumed_task" where
  "projectResumedTask raw =
     (let r = or_default (task_record raw) [] in
      \<lparr>rt_task_id = or_default (orelse (readString (jget r ''task_id'')) (readString (jget r ''id''))) [],
       rt_state = mapResumedTaskState (nullish (jget r ''state'') (nullish (jget r ''status'') (jget r ''phase''))),
       rt_assignee = orelse (readString (jget r ''assignee''))
          (orelse (readString (jget r ''assigned_to'')) (readString (jget r ''assign''))),
       rt_depends_on = readStringArray (jget r ''depends_on''),
       rt_blocks = readStringArray (jget r ''blocks'')\<rparr>)"

fun finite_number :: "json \<Rightarrow> rat option" where
  "finite_number (JNum (Fin r)) = Some r"
| "finite_number _ = None"

definition readTaskRev :: "json \<Rightarrow> rat option" where
  "readTaskRev raw =
     (case task_record raw of
        None \<Rightarrow> None
      | Some r \<Rightarrow> orelse (finite_number (jget r ''state_rev''))
                   (orelse (finite_number (jget r ''rev'')) (finite_number (jget r ''version''))))"

definition readPlanRows :: "json \<Rightarrow> json list" where
  "readPlanRows raw =
     (case raw of
        JArr xs \<Rightarrow> xs
      | JObj r \<Rightarrow>
          or_default (orelse (asArray (jget r ''tasks'')) (orelse (asArray (jget r ''nodes'')) (asArray (jget r ''items'')))) []
      | _ \<Rightarrow> [])"

section \<open>The cursor\<close>

definition raise_rev :: "json \<Rightarrow> rat option \<Rightarrow> rat option" where
  "raise_rev row mx =
     (case readTaskRev row of
        None \<Rightarrow> mx
      | Some r \<Rightarrow> (case mx of None \<Rightarrow> Some r | Some m \<Rightarrow> if r > m then Some r else mx))"

definition advanceCursor :: "task_cursor option \<Rightarrow> json list \<Rightarrow> task_cursor" where
  "advanceCursor prev rows =
     \<lparr>cu_state_rev = fold raise_rev rows (Option.bind prev cu_state_rev),
      cu_token = Option.bind prev cu_token\<rparr>"

section \<open>Edges\<close>

abbreviation SPACE :: char where "SPACE \<equiv> CHR 0x20"

definition resumed_edges :: "resumed_task \<Rightarrow> task_edge list" where
  "resumed_edges t =
     map (\<lambda>dep. \<lparr>edge_from = rt_task_id t, edge_to = dep, edge_kind_of = Depends_on\<rparr>) (rt_depends_on t)
     @ map (\<lambda>b. \<lparr>edge_from = rt_task_id t, edge_to = b, edge_kind_of = Blocks\<rparr>) (rt_blocks t)"

definition derivePlanEdges :: "resumed_task list \<Rightarrow> task_edge list" where
  "derivePlanEdges tasks =
     push_edges (edge_key SPACE) (filter real_edge (concat (map resumed_edges tasks))) []"

section \<open>Reconciliation\<close>

record plan_reconciliation =
  pr_done :: "string list"
  pr_inFlight :: "string list"
  pr_ready :: "string list"
  pr_blocked :: "string list"

definition TERMINAL_STATES :: "task_state list" where "TERMINAL_STATES = [Succeeded, Failed]"

definition IN_FLIGHT_STATES :: "task_state list" where "IN_FLIGHT_STATES = [Executing, Assigned]"

definition in_states :: "task_state list \<Rightarrow> resumed_task \<Rightarrow> bool" where
  "in_states sts t = (case rt_state t of State s \<Rightarrow> s \<in> set sts | StateFunction _ \<Rightarrow> False)"

definition succeeded_ids :: "resumed_task list \<Rightarrow> string list" where
  "succeeded_ids tasks =
     map rt_task_id (filter (\<lambda>t. rt_state t = State Succeeded \<and> rt_task_id t \<noteq> []) tasks)"

definition classify :: "string list \<Rightarrow> resumed_task \<Rightarrow> plan_reconciliation \<Rightarrow> plan_reconciliation" where
  "classify succeeded t r =
     (if in_states TERMINAL_STATES t then r\<lparr>pr_done := pr_done r @ [rt_task_id t]\<rparr>
      else if in_states IN_FLIGHT_STATES t then r\<lparr>pr_inFlight := pr_inFlight r @ [rt_task_id t]\<rparr>
      else if list_all (\<lambda>dep. dep \<in> set succeeded) (rt_depends_on t)
      then r\<lparr>pr_ready := pr_ready r @ [rt_task_id t]\<rparr>
      else r\<lparr>pr_blocked := pr_blocked r @ [rt_task_id t]\<rparr>)"

definition reconcile :: "resumed_task list \<Rightarrow> plan_reconciliation" where
  "reconcile tasks =
     fold (classify (succeeded_ids tasks)) tasks
       \<lparr>pr_done = [], pr_inFlight = [], pr_ready = [], pr_blocked = []\<rparr>"

section \<open>Snapshots\<close>

record plan_snapshot =
  ps_room :: string
  ps_tasks :: "resumed_task list"
  ps_edges :: "task_edge list"
  ps_reconciliation :: plan_reconciliation
  ps_cursor :: task_cursor
  ps_fault :: "transport_code option"

definition buildPlanSnapshot :: "string \<Rightarrow> json list \<Rightarrow> task_cursor option \<Rightarrow> plan_snapshot" where
  "buildPlanSnapshot room rows prevCursor =
     (let tasks = map projectResumedTask rows in
      \<lparr>ps_room = room, ps_tasks = tasks, ps_edges = derivePlanEdges tasks, ps_reconciliation = reconcile tasks,
       ps_cursor = advanceCursor prevCursor rows, ps_fault = None\<rparr>)"

definition faultSnapshot :: "string \<Rightarrow> task_cursor option \<Rightarrow> transport_code \<Rightarrow> plan_snapshot" where
  "faultSnapshot room prevCursor code =
     \<lparr>ps_room = room, ps_tasks = [], ps_edges = [],
      ps_reconciliation = \<lparr>pr_done = [], pr_inFlight = [], pr_ready = [], pr_blocked = []\<rparr>,
      ps_cursor = or_default prevCursor \<lparr>cu_state_rev = None, cu_token = None\<rparr>, ps_fault = Some code\<rparr>"

fun fault_code :: "thrown \<Rightarrow> transport_code" where
  "fault_code (TransportError c _ _) = c"
| "fault_code (OtherError _) = protocol"

definition reconstructPlan ::
  "(string \<Rightarrow> json \<Rightarrow> 'c \<Rightarrow> (thrown + json) \<times> 'c) \<Rightarrow> string \<Rightarrow> task_cursor option \<Rightarrow> 'c \<Rightarrow> plan_snapshot \<times> 'c" where
  "reconstructPlan call room prevCursor c =
     (let params = (if room \<noteq> [] then JObj [(''room'', JStr room)] else JUndef) in
      case call TASK_LIST_METHOD params c of
        (Inl err, c') \<Rightarrow> (faultSnapshot room prevCursor (fault_code err), c')
      | (Inr response, c') \<Rightarrow> (buildPlanSnapshot room (readPlanRows response) prevCursor, c'))"

section \<open>Agreement with the registry\<close>

text \<open>
  The toolbelt's copy of the task projection agrees with the registry's: for every record the
  daemon may send, the resumed task has the id, state, assignee and dependency lists that the
  registry's \<open>mx_list_tasks\<close> shows for it, and the rows of a reply are found in the same places.
\<close>

theorem projections_agree:
  "rt_task_id (projectResumedTask raw) = n_task_id (projectTaskNode raw)
   \<and> rt_state (projectResumedTask raw) = n_state (projectTaskNode raw)
   \<and> rt_assignee (projectResumedTask raw) = n_assignee (projectTaskNode raw)
   \<and> rt_depends_on (projectResumedTask raw) = n_depends_on (projectTaskNode raw)
   \<and> rt_blocks (projectResumedTask raw) = n_blocks (projectTaskNode raw)
   \<and> readPlanRows raw = readTaskRows raw"
proof -
  have "RESUMED_STATE_MAP = TASK_STATE_MAP" by (simp only: RESUMED_STATE_MAP_def TASK_STATE_MAP_def)
  then have "mapResumedTaskState = mapTaskState"
    by (intro ext) (simp only: mapResumedTaskState_def mapTaskState_def)
  moreover have "first_some [x, y, z] = orelse x (orelse y z)" for x y z :: "json list option"
    by (cases x; cases y; cases z) simp_all
  ultimately show ?thesis
    by (simp add: projectResumedTask_def projectTaskNode_def task_record_def readTaskId_def Let_def
        readPlanRows_def readTaskRows_def split: json.split)
qed

section \<open>Edges and reconciliation\<close>

interpretation plan_keys: faithful_keys "edge_key SPACE" "separable SPACE"
  by unfold_locales (rule edge_key_inj [of SPACE], simp_all add: edge_kind_name_def)

text \<open>
  The separator is a space, which a task id may contain: two different edges can then share a key,
  and the second one is lost.
\<close>

definition spaced_tasks :: "resumed_task list" where
  "spaced_tasks =
     [\<lparr>rt_task_id = ''a b'', rt_state = State Pending, rt_assignee = None, rt_depends_on = [''c''], rt_blocks = []\<rparr>,
      \<lparr>rt_task_id = ''a'', rt_state = State Pending, rt_assignee = None, rt_depends_on = [''b c''], rt_blocks = []\<rparr>]"

lemma plan_edge_lost:
  "length (derivePlanEdges spaced_tasks) = 1 \<and> length (js_unique (concat (map resumed_edges spaced_tasks))) = 2"
  by code_simp

text \<open>
  The recovered graph is the graph of the tasks when no task id contains a space: then the
  edges are the dependency and blocking links with two non-empty ends, each once, in the order of
  the tasks.
\<close>

theorem plan_edges_exact:
  assumes "list_all (separable SPACE) (concat (map resumed_edges tasks))"
  shows "derivePlanEdges tasks = js_unique (filter real_edge (concat (map resumed_edges tasks)))"
  using plan_keys.push_edges_unique [of "[]" "filter real_edge (concat (map resumed_edges tasks))"]
    list_all_filter [OF assms]
  by (simp add: derivePlanEdges_def)

theorem plan_edges_exact_witness:
  "derivePlanEdges (map projectResumedTask
      [JObj [(''id'', JStr ''t1''), (''depends_on'', JArr [JStr ''t0'', JStr ''t0'', JStr []])]])
     = [\<lparr>edge_from = ''t1'', edge_to = ''t0'', edge_kind_of = Depends_on\<rparr>]"
proof -
  let ?ts = "map projectResumedTask [JObj [(''id'', JStr ''t1''), (''depends_on'', JArr [JStr ''t0'', JStr ''t0'', JStr []])]]"
  have "list_all (separable SPACE) (concat (map resumed_edges ?ts))" by code_simp
  from plan_edges_exact [OF this] have "derivePlanEdges ?ts = js_unique (filter real_edge (concat (map resumed_edges ?ts)))" .
  also have "\<dots> = [\<lparr>edge_from = ''t1'', edge_to = ''t0'', edge_kind_of = Depends_on\<rparr>]" by code_simp
  finally show ?thesis .
qed

definition actionable :: "resumed_task \<Rightarrow> bool" where
  "actionable t = (\<not> in_states TERMINAL_STATES t \<and> \<not> in_states IN_FLIGHT_STATES t)"

definition prerequisites_met :: "resumed_task list \<Rightarrow> resumed_task \<Rightarrow> bool" where
  "prerequisites_met tasks t =
     list_all (\<lambda>dep. dep \<noteq> [] \<and> list_ex (\<lambda>u. rt_task_id u = dep \<and> rt_state u = State Succeeded) tasks)
       (rt_depends_on t)"

lemma prerequisites_succeeded:
  "list_all (\<lambda>dep. dep \<in> set (succeeded_ids tasks)) deps \<longleftrightarrow>
     list_all (\<lambda>dep. dep \<noteq> [] \<and> list_ex (\<lambda>u. rt_task_id u = dep \<and> rt_state u = State Succeeded) tasks) deps"
  by (rule list_all_cong) (auto simp: succeeded_ids_def list_ex_iff)

lemma fold_classify:
  "fold (classify good) ts r =
     \<lparr>pr_done = pr_done r @ map rt_task_id (filter (in_states TERMINAL_STATES) ts),
      pr_inFlight = pr_inFlight r @ map rt_task_id (filter (\<lambda>t. \<not> in_states TERMINAL_STATES t \<and> in_states IN_FLIGHT_STATES t) ts),
      pr_ready = pr_ready r @ map rt_task_id (filter (\<lambda>t. actionable t \<and> list_all (\<lambda>dep. dep \<in> set good) (rt_depends_on t)) ts),
      pr_blocked = pr_blocked r @ map rt_task_id (filter (\<lambda>t. actionable t \<and> \<not> list_all (\<lambda>dep. dep \<in> set good) (rt_depends_on t)) ts)\<rparr>"
  by (induction ts arbitrary: r) (simp_all add: classify_def actionable_def)

lemma terminal_or_in_flight:
  "in_states TERMINAL_STATES t \<longleftrightarrow> rt_state t = State Succeeded \<or> rt_state t = State Failed"
  "in_states IN_FLIGHT_STATES t \<longleftrightarrow> rt_state t = State Executing \<or> rt_state t = State Assigned"
  by (auto simp: in_states_def TERMINAL_STATES_def IN_FLIGHT_STATES_def split: state_value.split)

lemma state_filters:
  "(\<lambda>t. \<not> in_states TERMINAL_STATES t \<and> in_states IN_FLIGHT_STATES t)
     = (\<lambda>t. rt_state t = State Executing \<or> rt_state t = State Assigned)"
  "in_states TERMINAL_STATES = (\<lambda>t. rt_state t = State Succeeded \<or> rt_state t = State Failed)"
  by (auto simp: terminal_or_in_flight fun_eq_iff)

text \<open>
  C33. Resumption never proposes to redo work. Every task of the plan is classified exactly once, in
  plan order: finished when it succeeded or failed, in flight when it is executing or assigned,
  and otherwise ready precisely when each task it depends on is in the plan and has succeeded,
  blocked if not.
\<close>

theorem reconcile_exact:
  "reconcile tasks =
     \<lparr>pr_done = map rt_task_id (filter (\<lambda>t. rt_state t = State Succeeded \<or> rt_state t = State Failed) tasks),
      pr_inFlight = map rt_task_id (filter (\<lambda>t. rt_state t = State Executing \<or> rt_state t = State Assigned) tasks),
      pr_ready = map rt_task_id (filter (\<lambda>t. actionable t \<and> prerequisites_met tasks t) tasks),
      pr_blocked = map rt_task_id (filter (\<lambda>t. actionable t \<and> \<not> prerequisites_met tasks t) tasks)\<rparr>
   \<and> mset (map rt_task_id tasks) = mset (pr_done (reconcile tasks)) + mset (pr_inFlight (reconcile tasks))
        + mset (pr_ready (reconcile tasks)) + mset (pr_blocked (reconcile tasks))"
proof -
  have eq: "reconcile tasks =
     \<lparr>pr_done = map rt_task_id (filter (\<lambda>t. rt_state t = State Succeeded \<or> rt_state t = State Failed) tasks),
      pr_inFlight = map rt_task_id (filter (\<lambda>t. rt_state t = State Executing \<or> rt_state t = State Assigned) tasks),
      pr_ready = map rt_task_id (filter (\<lambda>t. actionable t \<and> prerequisites_met tasks t) tasks),
      pr_blocked = map rt_task_id (filter (\<lambda>t. actionable t \<and> \<not> prerequisites_met tasks t) tasks)\<rparr>"
    unfolding reconcile_def fold_classify prerequisites_succeeded prerequisites_met_def state_filters(1)
    by (simp add: state_filters(2))
  have "mset (map rt_task_id ts) =
      mset (map rt_task_id (filter (\<lambda>t. rt_state t = State Succeeded \<or> rt_state t = State Failed) ts))
      + mset (map rt_task_id (filter (\<lambda>t. rt_state t = State Executing \<or> rt_state t = State Assigned) ts))
      + mset (map rt_task_id (filter (\<lambda>t. actionable t \<and> prerequisites_met tasks t) ts))
      + mset (map rt_task_id (filter (\<lambda>t. actionable t \<and> \<not> prerequisites_met tasks t) ts))" for ts
    by (induction ts) (auto simp: actionable_def terminal_or_in_flight)
  with eq show ?thesis by simp
qed

section \<open>The cursor is a high-water mark\<close>

definition rev_le :: "rat option \<Rightarrow> rat option \<Rightarrow> bool" where
  "rev_le a b = (case a of None \<Rightarrow> True | Some x \<Rightarrow> (case b of None \<Rightarrow> False | Some y \<Rightarrow> x \<le> y))"

lemma rev_le_refl [simp]: "rev_le a a" and rev_le_trans: "rev_le a b \<Longrightarrow> rev_le b c \<Longrightarrow> rev_le a c"
  by (auto simp: rev_le_def split: option.splits)

lemma raise_rev_bounds: "rev_le mx (raise_rev row mx)" "rev_le (readTaskRev row) (raise_rev row mx)"
  by (auto simp: rev_le_def raise_rev_def split: option.splits)

lemma raise_rev_attained: "raise_rev row mx \<in> {mx, readTaskRev row}"
  by (auto simp: raise_rev_def split: option.splits)

lemma fold_raise:
  "rev_le mx (fold raise_rev rows mx) \<and> list_all (\<lambda>row. rev_le (readTaskRev row) (fold raise_rev rows mx)) rows
     \<and> fold raise_rev rows mx \<in> insert mx (set (map readTaskRev rows))"
proof (induction rows arbitrary: mx)
  case (Cons row rows)
  from Cons.IH [of "raise_rev row mx"] raise_rev_bounds [where mx = mx and row = row] raise_rev_attained [of row mx]
  show ?case by (auto intro: rev_le_trans)
qed simp

text \<open>
  The resumption cursor never moves back: advancing it over a list of task records keeps the
  daemon's token and yields a revision that is at least the previous one and at least that of
  every record, and that is one of these.
\<close>

theorem cursor_high_water:
  "rev_le (Option.bind prev cu_state_rev) (cu_state_rev (advanceCursor prev rows))
   \<and> list_all (\<lambda>row. rev_le (readTaskRev row) (cu_state_rev (advanceCursor prev rows))) rows
   \<and> cu_state_rev (advanceCursor prev rows) \<in> insert (Option.bind prev cu_state_rev) (set (map readTaskRev rows))
   \<and> cu_token (advanceCursor prev rows) = Option.bind prev cu_token"
  using fold_raise [of "Option.bind prev cu_state_rev" rows] by (simp add: advanceCursor_def)

end
