(* ===== verification/Watch.thy ===== *)
theory Watch
  imports Plan
begin

text \<open>
  The task stream and resumption (packages/toolbelt/src/task-watch.ts, resume.ts): the watcher as a
  state machine over its timer, the rows a poll brings, the consumers' \<open>next\<close> calls and \<open>stop\<close>;
  the fetch behind a poll; and \<open>resumeSession\<close>, which opens a session from a descriptor and
  reconstructs the plan.
\<close>

section \<open>The watcher\<close>

definition TASK_WATCH_METHOD :: "string option" where "TASK_WATCH_METHOD = None"

definition MIN_WATCH_INTERVAL_MS :: rat where "MIN_WATCH_INTERVAL_MS = 250"

definition MAX_WATCH_INTERVAL_MS :: rat where "MAX_WATCH_INTERVAL_MS = 30000"

definition DEFAULT_WATCH_INTERVAL_MS :: rat where "DEFAULT_WATCH_INTERVAL_MS = 2000"

definition clampInterval :: "jsnum option \<Rightarrow> rat" where
  "clampInterval ms =
     (case ms of
        Some (Fin v) \<Rightarrow> min MAX_WATCH_INTERVAL_MS (max MIN_WATCH_INTERVAL_MS v)
      | _ \<Rightarrow> DEFAULT_WATCH_INTERVAL_MS)"

record task_delta =
  td_task :: resumed_task
  td_cursor :: task_cursor

text \<open>
  How values print in a template literal: \<open>String(n)\<close> of the runtime, and the source text of an
  inherited function, which a state can be.
\<close>

record printer =
  pn_number :: "rat \<Rightarrow> string"
  pn_function :: "string \<Rightarrow> string"

definition taskSignature :: "printer \<Rightarrow> resumed_task \<Rightarrow> rat option \<Rightarrow> string" where
  "taskSignature pn task r =
     (case r of Some n \<Rightarrow> pn_number pn n | None \<Rightarrow> []) @ [NUL]
     @ (case rt_state task of State st \<Rightarrow> task_state_name st | StateFunction f \<Rightarrow> pn_function pn f) @ [NUL]
     @ or_default (rt_assignee task) []"

text \<open>
  Consumers are numbered by their call of \<open>next\<close>; what each was given is recorded, \<open>None\<close> being the
  end of the stream.
\<close>

record watcher =
  wa_seen :: "(string \<times> string) list"
  wa_buffer :: "task_delta list"
  wa_waiters :: "nat list"
  wa_cursor :: task_cursor
  wa_initialRev :: "rat option"
  wa_stopped :: bool
  wa_inFlight :: bool
  wa_given :: "(nat \<times> task_delta option) list"

definition new_watcher :: "task_cursor option \<Rightarrow> watcher" where
  "new_watcher cursor =
     \<lparr>wa_seen = [], wa_buffer = [], wa_waiters = [],
      wa_cursor = or_default cursor \<lparr>cu_state_rev = None, cu_token = None\<rparr>,
      wa_initialRev = Option.bind cursor cu_state_rev, wa_stopped = False, wa_inFlight = False, wa_given = []\<rparr>"

definition watch_next :: "nat \<Rightarrow> watcher \<Rightarrow> watcher" where
  "watch_next k w =
     (case wa_buffer w of
        d # ds \<Rightarrow> w\<lparr>wa_buffer := ds, wa_given := wa_given w @ [(k, Some d)]\<rparr>
      | [] \<Rightarrow> if wa_stopped w then w\<lparr>wa_given := wa_given w @ [(k, None)]\<rparr>
              else w\<lparr>wa_waiters := wa_waiters w @ [k]\<rparr>)"

definition watch_stop :: "watcher \<Rightarrow> watcher" where
  "watch_stop w =
     (if wa_stopped w then w
      else w\<lparr>wa_stopped := True, wa_waiters := [],
             wa_given := wa_given w @ map (\<lambda>k. (k, None)) (wa_waiters w)\<rparr>)"

definition watch_emit :: "task_delta \<Rightarrow> watcher \<Rightarrow> watcher" where
  "watch_emit d w =
     (case wa_waiters w of
        k # ks \<Rightarrow> w\<lparr>wa_waiters := ks, wa_given := wa_given w @ [(k, Some d)]\<rparr>
      | [] \<Rightarrow> w\<lparr>wa_buffer := wa_buffer w @ [d]\<rparr>)"

text \<open>One iteration of the loop over the rows of a poll.\<close>

definition already_observed :: "watcher \<Rightarrow> string \<Rightarrow> rat option \<Rightarrow> bool" where
  "already_observed w task_id r =
     (map_of (wa_seen w) task_id = None
      \<and> (case (r, wa_initialRev w) of (Some n, Some i) \<Rightarrow> n \<le> i | _ \<Rightarrow> False))"

definition watch_row :: "printer \<Rightarrow> task_cursor \<Rightarrow> json \<Rightarrow> watcher \<Rightarrow> watcher" where
  "watch_row pn nextCursor row w =
     (let task = projectResumedTask row; r = readTaskRev row; signature = taskSignature pn task r in
      if rt_task_id task = [] \<or> map_of (wa_seen w) (rt_task_id task) = Some signature then w
      else let w1 = w\<lparr>wa_seen := map_set (rt_task_id task) signature (wa_seen w)\<rparr> in
        if already_observed w (rt_task_id task) r then w1
        else watch_emit \<lparr>td_task = task, td_cursor = nextCursor\<rparr> w1)"

definition poll_rows :: "printer \<Rightarrow> json list \<Rightarrow> watcher \<Rightarrow> watcher" where
  "poll_rows pn rows w =
     (if wa_stopped w then w
      else let nextCursor = advanceCursor (Some (wa_cursor w)) rows in
        (fold (watch_row pn nextCursor) rows w)\<lparr>wa_cursor := nextCursor\<rparr>)"

text \<open>
  The fetch of a poll: the configured watch method with the cursor, and on its failure, which is
  reported, a full listing. The result pairs the reported codes with the rows or the error.
\<close>

definition cursor_set :: "task_cursor \<Rightarrow> bool" where
  "cursor_set c = (cu_state_rev c \<noteq> None \<or> cu_token c \<noteq> None)"

definition room_obj :: "session \<Rightarrow> obj option" where
  "room_obj s = map_option (\<lambda>r. [(''room'', JStr r)]) (sc_room (se_config s))"

definition list_rows_call :: "'c client_ops \<Rightarrow> session \<Rightarrow> 'c \<Rightarrow> (thrown + json list) \<times> 'c" where
  "list_rows_call ops s c =
     (case session_call ops (se_config s) TASK_LIST_METHOD (or_default (map_option JObj (room_obj s)) JUndef) c of
        (Inl e, c') \<Rightarrow> (Inl e, c')
      | (Inr response, c') \<Rightarrow> (Inr (readPlanRows response), c'))"

definition fetchRows ::
  "'c client_ops \<Rightarrow> session \<Rightarrow> string option \<Rightarrow> task_cursor \<Rightarrow> 'c
     \<Rightarrow> (transport_code list \<times> (thrown + json list)) \<times> 'c" where
  "fetchRows ops s watchMethod cursor c =
     (case watchMethod of
        None \<Rightarrow> (case list_rows_call ops s c of (r, c') \<Rightarrow> (([], r), c'))
      | Some m \<Rightarrow>
          (let watchParams =
             (if cursor_set cursor then JObj (or_default (room_obj s) [] @ [(''cursor'', cursor_json cursor)])
              else or_default (map_option JObj (room_obj s)) JUndef) in
           case session_call ops (se_config s) m watchParams c of
             (Inr response, c') \<Rightarrow> (([], Inr (readPlanRows response)), c')
           | (Inl e, c') \<Rightarrow> (case list_rows_call ops s c' of (r, c'') \<Rightarrow> (([fault_code e], r), c''))))"

section \<open>The watcher's events\<close>

datatype watch_event =
    Tick
  | RowsArrived "json list"
  | FetchFailed
  | NextCalled nat
  | StopCalled

fun watch_react :: "printer \<Rightarrow> watch_event \<Rightarrow> watcher \<Rightarrow> watcher" where
  "watch_react pn Tick w = (if wa_stopped w \<or> wa_inFlight w then w else w\<lparr>wa_inFlight := True\<rparr>)"
| "watch_react pn (RowsArrived rows) w = (poll_rows pn rows w)\<lparr>wa_inFlight := False\<rparr>"
| "watch_react pn FetchFailed w = w\<lparr>wa_inFlight := False\<rparr>"
| "watch_react pn (NextCalled k) w = watch_next k w"
| "watch_react pn StopCalled w = watch_stop w"

fun watch_enabled :: "watch_event \<Rightarrow> watcher \<Rightarrow> bool" where
  "watch_enabled (RowsArrived rows) w = wa_inFlight w"
| "watch_enabled FetchFailed w = wa_inFlight w"
| "watch_enabled _ w = True"

section \<open>The stream as a queue\<close>

text \<open>What a poll adds to the stream, with no consumers in sight.\<close>

definition scan_row ::
  "printer \<Rightarrow> rat option \<Rightarrow> task_cursor \<Rightarrow> json \<Rightarrow> (string \<times> string) list \<times> task_delta list
     \<Rightarrow> (string \<times> string) list \<times> task_delta list" where
  "scan_row pn initial nextCursor row = (\<lambda>(seen, out).
     let task = projectResumedTask row; r = readTaskRev row; signature = taskSignature pn task r in
     if rt_task_id task = [] \<or> map_of seen (rt_task_id task) = Some signature then (seen, out)
     else (map_set (rt_task_id task) signature seen,
           if map_of seen (rt_task_id task) = None \<and> r \<noteq> None \<and> initial \<noteq> None \<and> the r \<le> the initial then out
           else out @ [\<lparr>td_task = task, td_cursor = nextCursor\<rparr>]))"

definition stream_of :: "printer \<Rightarrow> watch_event \<Rightarrow> watcher \<Rightarrow> task_delta list" where
  "stream_of pn e w =
     (case e of
        RowsArrived rows \<Rightarrow>
          if wa_stopped w then []
          else snd (fold (scan_row pn (wa_initialRev w) (advanceCursor (Some (wa_cursor w)) rows)) rows (wa_seen w, []))
      | _ \<Rightarrow> [])"

fun asks :: "watch_event \<Rightarrow> nat list" where
  "asks (NextCalled k) = [k]"
| "asks _ = []"

text \<open>Reachable watchers, with the calls of \<open>next\<close> made so far and the stream so far.\<close>

inductive watch_reach :: "printer \<Rightarrow> task_cursor option \<Rightarrow> nat list \<Rightarrow> task_delta list \<Rightarrow> watcher \<Rightarrow> bool"
  for pn cursor where
  watching: "watch_reach pn cursor [] [] (new_watcher cursor)"
| watched: "watch_reach pn cursor ks ds w \<Longrightarrow> watch_enabled e w \<Longrightarrow>
     watch_reach pn cursor (ks @ asks e) (ds @ stream_of pn e w) (watch_react pn e w)"

definition given_deltas :: "watcher \<Rightarrow> task_delta list" where
  "given_deltas w = List.map_filter snd (wa_given w)"

definition queue_ok :: "nat list \<Rightarrow> task_delta list \<Rightarrow> watcher \<Rightarrow> bool" where
  "queue_ok ks ds w =
     (given_deltas w @ wa_buffer w = ds
      \<and> map fst (wa_given w) @ wa_waiters w = ks
      \<and> (wa_waiters w = [] \<or> wa_buffer w = [])
      \<and> (if wa_stopped w then wa_waiters w = [] else list_all (\<lambda>x. snd x \<noteq> None) (wa_given w)))"

lemma emit_queue:
  assumes "queue_ok ks ds w" and "\<not> wa_stopped w"
  shows "queue_ok ks (ds @ [d]) (watch_emit d w)"
  using assms by (auto simp: queue_ok_def watch_emit_def given_deltas_def map_filter_simps List.map_filter_def split: list.split)

lemma emit_fields [simp]:
  "wa_seen (watch_emit d w) = wa_seen w" "wa_stopped (watch_emit d w) = wa_stopped w"
  "wa_initialRev (watch_emit d w) = wa_initialRev w" "wa_cursor (watch_emit d w) = wa_cursor w"
  by (simp_all add: watch_emit_def split: list.split)

lemma row_fields [simp]:
  "wa_stopped (watch_row pn c row w) = wa_stopped w" "wa_initialRev (watch_row pn c row w) = wa_initialRev w"
  by (simp_all add: watch_row_def Let_def)

lemma queue_update [simp]:
  "queue_ok ks ds (w\<lparr>wa_seen := x\<rparr>) = queue_ok ks ds w"
  "queue_ok ks ds (w\<lparr>wa_cursor := y\<rparr>) = queue_ok ks ds w"
  "queue_ok ks ds (w\<lparr>wa_inFlight := b\<rparr>) = queue_ok ks ds w"
  by (simp_all add: queue_ok_def given_deltas_def)

lemma row_scan:
  assumes "queue_ok ks (ds @ out) w" and "\<not> wa_stopped w"
  shows "wa_seen (watch_row pn c row w) = fst (scan_row pn (wa_initialRev w) c row (wa_seen w, out))
    \<and> queue_ok ks (ds @ snd (scan_row pn (wa_initialRev w) c row (wa_seen w, out))) (watch_row pn c row w)"
  using assms emit_queue [of ks "ds @ out"]
  by (auto simp: watch_row_def scan_row_def already_observed_def Let_def split: option.splits)

lemma rows_scan:
  assumes "queue_ok ks (ds @ out) w" and "\<not> wa_stopped w"
  shows "queue_ok ks (ds @ snd (fold (scan_row pn (wa_initialRev w) c) rows (wa_seen w, out))) (fold (watch_row pn c) rows w)
    \<and> wa_seen (fold (watch_row pn c) rows w) = fst (fold (scan_row pn (wa_initialRev w) c) rows (wa_seen w, out))"
  using assms
proof (induction rows arbitrary: w out)
  case (Cons row rows)
  let ?s = "scan_row pn (wa_initialRev w) c row (wa_seen w, out)"
  from row_scan [OF Cons.prems] have r: "wa_seen (watch_row pn c row w) = fst ?s"
      "queue_ok ks (ds @ snd ?s) (watch_row pn c row w)" by blast+
  from Cons.IH [OF r(2)] Cons.prems(2) r(1) show ?case by simp
qed simp

lemma queue_react:
  assumes "queue_ok ks ds w" and "watch_enabled e w"
  shows "queue_ok (ks @ asks e) (ds @ stream_of pn e w) (watch_react pn e w)"
proof (cases e)
  case (RowsArrived rows)
  show ?thesis
  proof (cases "wa_stopped w")
    case False
    with rows_scan [of ks ds "[]" w pn "advanceCursor (Some (wa_cursor w)) rows" rows] assms RowsArrived show ?thesis
      by (simp add: stream_of_def poll_rows_def Let_def)
  qed (use assms RowsArrived in \<open>simp add: stream_of_def poll_rows_def\<close>)
qed (use assms in \<open>auto simp: stream_of_def queue_ok_def watch_next_def watch_stop_def given_deltas_def
    List.map_filter_def list_all_iff comp_def split: list.splits if_splits\<close>)

lemma reach_queue: "watch_reach pn cursor ks ds w \<Longrightarrow> queue_ok ks ds w"
proof (induction rule: watch_reach.induct)
  case watching
  then show ?case by (simp add: queue_ok_def new_watcher_def given_deltas_def List.map_filter_def)
qed (simp add: queue_react)

section \<open>Properties of the stream\<close>

text \<open>
  C9. The watcher is a faithful queue. In every interleaving of ticks, arriving rows, failed
  fetches, \<open>next\<close> calls and \<open>stop\<close>: the deltas handed to consumers, in the order of their calls,
  followed by the buffered ones, are exactly the stream of changes the polls detected, none lost,
  repeated or reordered; every call of \<open>next\<close> is answered at most once and in order; no consumer
  waits while something is buffered; and once stopped, no consumer is left waiting and none was
  told the stream ended before that.
\<close>

theorem watch_refines_queue:
  assumes "watch_reach pn cursor ks ds w"
  shows "given_deltas w @ wa_buffer w = ds
    \<and> map fst (wa_given w) @ wa_waiters w = ks
    \<and> (wa_waiters w = [] \<or> wa_buffer w = [])
    \<and> (if wa_stopped w then wa_waiters w = [] else list_all (\<lambda>x. snd x \<noteq> None) (wa_given w))"
  using reach_queue [OF assms] unfolding queue_ok_def .

definition demo_printer :: printer where
  "demo_printer = \<lparr>pn_number = (\<lambda>_. ''n''), pn_function = (\<lambda>f. f)\<rparr>"

definition demo_rows :: "json list" where
  "demo_rows = [JObj [(''id'', JStr ''t1''), (''state'', JStr ''running'')], JObj [(''id'', JStr ''t2'')]]"

fun watch_follow :: "printer \<Rightarrow> watch_event list \<Rightarrow> nat list \<times> task_delta list \<times> watcher
    \<Rightarrow> (nat list \<times> task_delta list \<times> watcher) option" where
  "watch_follow pn [] x = Some x"
| "watch_follow pn (e # es) (ks, ds, w) =
     (if watch_enabled e w then watch_follow pn es (ks @ asks e, ds @ stream_of pn e w, watch_react pn e w) else None)"

lemma watch_follow_reach:
  "watch_reach pn cursor ks ds w \<Longrightarrow> watch_follow pn es (ks, ds, w) = Some (ks', ds', w') \<Longrightarrow>
     watch_reach pn cursor ks' ds' w'"
  by (induction es arbitrary: ks ds w) (auto split: if_splits intro: watch_reach.watched)

theorem watch_refines_queue_witness:
  "\<exists>ds w. watch_reach demo_printer None [0, 1] ds w \<and> length ds = 2 \<and> given_deltas w = ds \<and> wa_buffer w = []"
proof -
  let ?r = "watch_follow demo_printer [NextCalled 0, Tick, RowsArrived demo_rows, NextCalled 1] ([], [], new_watcher None)"
  obtain ds w where r: "?r = Some ([0, 1], ds, w)" "length ds = 2" "wa_buffer w = []"
  proof -
    have "?r \<noteq> None \<and> fst (the ?r) = [0, 1] \<and> length (fst (snd (the ?r))) = 2 \<and> wa_buffer (snd (snd (the ?r))) = []"
      by code_simp
    then show ?thesis using that by (cases "the ?r") auto
  qed
  from watch_follow_reach [OF watch_reach.watching r(1)] have reach: "watch_reach demo_printer None [0, 1] ds w" .
  from watch_refines_queue [OF reach] r reach show ?thesis by auto
qed

lemma scan_row_seen:
  "map_of (fst (scan_row pn initial c x so)) k =
     (if k = rt_task_id (projectResumedTask x) \<and> k \<noteq> []
      then Some (taskSignature pn (projectResumedTask x) (readTaskRev x)) else map_of (fst so) k)"
  by (cases so) (auto simp: scan_row_def Let_def map_of_map_set)

lemma scan_seen:
  assumes "distinct (filter (\<lambda>t. t \<noteq> []) (map (\<lambda>row. rt_task_id (projectResumedTask row)) rows))"
    and "row \<in> set rows" and "rt_task_id (projectResumedTask row) \<noteq> []"
  shows "map_of (fst (fold (scan_row pn initial c) rows (seen, out))) (rt_task_id (projectResumedTask row))
     = Some (taskSignature pn (projectResumedTask row) (readTaskRev row))"
  using assms
proof (induction rows arbitrary: seen out rule: rev_induct)
  case (snoc x xs)
  let ?id = "\<lambda>row. rt_task_id (projectResumedTask row)"
  show ?case
  proof (cases "row = x")
    case True
    then show ?thesis using snoc.prems(3) by (simp add: scan_row_seen)
  next
    case False
    with snoc.prems have row: "row \<in> set xs" by simp
    have "?id row \<in> ?id ` set xs" using row by (rule imageI)
    then have "?id row \<noteq> ?id x" using snoc.prems(1,3) by (auto split: if_splits)
    moreover have "map_of (fst (fold (scan_row pn initial c) xs (seen, out))) (?id row)
        = Some (taskSignature pn (projectResumedTask row) (readTaskRev row))"
      using snoc.IH row snoc.prems by (auto split: if_splits)
    ultimately show ?thesis by (simp add: scan_row_seen)
  qed
qed simp

lemma scan_settled:
  assumes "\<And>row. row \<in> set rows \<Longrightarrow> rt_task_id (projectResumedTask row) \<noteq> [] \<Longrightarrow>
      map_of seen (rt_task_id (projectResumedTask row)) = Some (taskSignature pn (projectResumedTask row) (readTaskRev row))"
  shows "fold (scan_row pn initial c) rows (seen, out) = (seen, out)"
  using assms by (induction rows) (auto simp: scan_row_def Let_def)

lemma fold_row_stopped: "wa_stopped (fold (watch_row pn c) rows w) = wa_stopped w"
  by (induction rows arbitrary: w) simp_all

lemma raise_rev_id: "rev_le (readTaskRev row) mx \<Longrightarrow> raise_rev row mx = mx"
  by (auto simp: rev_le_def raise_rev_def split: option.splits)

lemma fold_raise_idem: "fold raise_rev rows (fold raise_rev rows mx) = fold raise_rev rows mx"
proof -
  have "list_all (\<lambda>row. rev_le (readTaskRev row) m) rows \<Longrightarrow> fold raise_rev rows m = m" for m
    by (induction rows) (simp_all add: raise_rev_id)
  with fold_raise show ?thesis by blast
qed

text \<open>
  Polling an unchanged plan is silent. Whatever happened before, if a poll brings rows with
  distinct task ids and the next poll brings the same rows, the second adds nothing to the stream
  and leaves the cursor where it is.
\<close>

theorem watch_dedup:
  assumes "watch_reach pn cursor ks ds w" and "wa_inFlight w"
    and "distinct (filter (\<lambda>t. t \<noteq> []) (map (\<lambda>row. rt_task_id (projectResumedTask row)) rows))"
  shows "stream_of pn (RowsArrived rows) (watch_react pn Tick (watch_react pn (RowsArrived rows) w)) = []
    \<and> wa_cursor (poll_rows pn rows (watch_react pn (RowsArrived rows) w)) = wa_cursor (watch_react pn (RowsArrived rows) w)"
proof (cases "wa_stopped w")
  case True
  then show ?thesis by (simp add: stream_of_def poll_rows_def)
next
  case False
  let ?c = "advanceCursor (Some (wa_cursor w)) rows"
  have seen: "wa_seen (poll_rows pn rows w) = fst (fold (scan_row pn (wa_initialRev w) ?c) rows (wa_seen w, []))"
    using rows_scan [of ks ds "[]" w pn ?c rows] reach_queue [OF assms(1)] False by (simp add: poll_rows_def Let_def)
  have again: "fold (scan_row pn i c) rows (wa_seen (poll_rows pn rows w), out) = (wa_seen (poll_rows pn rows w), out)" for i c out
    unfolding seen by (rule scan_settled) (rule scan_seen [OF assms(3)])
  have "wa_seen (watch_react pn Tick (watch_react pn (RowsArrived rows) w)) = wa_seen (poll_rows pn rows w)"
    by simp
  then have "stream_of pn (RowsArrived rows) (watch_react pn Tick (watch_react pn (RowsArrived rows) w)) = []"
    by (simp add: stream_of_def again)
  moreover have "advanceCursor (Some ?c) rows = ?c"
    by (simp add: advanceCursor_def fold_raise_idem)
  ultimately show ?thesis using False by (simp add: poll_rows_def Let_def fold_row_stopped)
qed

theorem watch_dedup_witness:
  "let w1 = watch_react demo_printer (RowsArrived demo_rows) (watch_react demo_printer Tick (new_watcher None)) in
   length (wa_buffer w1) = 2 \<and> stream_of demo_printer (RowsArrived demo_rows) (watch_react demo_printer Tick w1) = []"
proof -
  let ?w = "watch_react demo_printer Tick (new_watcher None)"
  have reach: "watch_reach demo_printer None ([] @ asks Tick) ([] @ stream_of demo_printer Tick (new_watcher None)) ?w"
    by (rule watch_reach.watched [OF watch_reach.watching]) simp
  have inflight: "wa_inFlight ?w" by (simp add: new_watcher_def)
  have "distinct (filter (\<lambda>t. t \<noteq> []) (map (\<lambda>row. rt_task_id (projectResumedTask row)) demo_rows))"
    by code_simp
  note dedup = watch_dedup [OF reach inflight this]
  have "length (wa_buffer (watch_react demo_printer (RowsArrived demo_rows) ?w)) = 2" by code_simp
  with dedup show ?thesis unfolding Let_def by blast
qed

text \<open>
  A cursor with a daemon token is of no use to the watch backend: the client refuses the request
  before it is sent, so every poll reports \<open>invalid_args\<close> and lists all tasks again.
\<close>

lemma watch_token_gap:
  assumes "cu_token cursor \<noteq> None" and "m \<notin> set (sc_correlationParamMethods (se_config s))"
  shows "fetchRows (mx_ops cfg tr) s (Some m) cursor c =
     (case list_rows_call (mx_ops cfg tr) s c of (r, c') \<Rightarrow> (([transport_invalid_args], r), c'))"
proof -
  let ?p = "JObj (or_default (room_obj s) [] @ [(''cursor'', cursor_json cursor)])"
  have "carries_credential ?p"
    using assms(1) descriptor_keys(8)
    by (auto simp: carries_entries cursor_json_def simp del: carries_credential_simps(7))
  then obtain msg where "co_call (mx_ops cfg tr) m ?p c = (Inl (TransportError transport_invalid_args msg JUndef), c)"
    using mx_guarded.refuses by blast
  then show ?thesis
    using assms by (auto simp: fetchRows_def cursor_set_def session_call_def outbound_def Let_def split: prod.split)
qed

section \<open>Resumption\<close>

text \<open>
  The options of \<open>resumeSession\<close> are those of \<open>openSession\<close> without the four that the descriptor
  and the defaults decide; \<open>options.heartbeat\<close> is either absent or \<open>false\<close>.
\<close>

definition resume_options :: "session_descriptor \<Rightarrow> session_options \<Rightarrow> session_options" where
  "resume_options d options =
     options\<lparr>so_room := Some (sd_room d), so_correlationId := Some (sd_correlation_id d),
             so_kind := orelse (so_kind options) (sd_kind d), so_correlationParamMethods := None,
             so_heartbeatMethod := None, so_deregisterMethod := None\<rparr>"

record resumed_session =
  rs_session :: session
  rs_plan :: plan_snapshot
  rs_resumed :: bool

definition resumeSession ::
  "'c client_ops \<Rightarrow> session_options \<Rightarrow> string \<Rightarrow> json \<Rightarrow> 'c \<Rightarrow> (thrown + resumed_session) \<times> 'c" where
  "resumeSession ops options uuid descriptor c =
     (case assertSessionDescriptor descriptor of
        Inl e \<Rightarrow> (Inl e, c)
      | Inr d \<Rightarrow>
          (case openSession ops (resume_options d options) uuid c of
             (Inl e, c') \<Rightarrow> (Inl e, c')
           | (Inr s, c') \<Rightarrow>
               (case reconstructPlan (session_call ops (se_config s)) (sd_room d) (sd_cursor d) c' of
                  (plan, c'') \<Rightarrow>
                    (Inr \<lparr>rs_session = s, rs_plan = plan, rs_resumed = (agentId s = Some (sd_agent_id d))\<rparr>, c''))))"

definition sent_only :: "string list \<Rightarrow> (mx_state \<times> ('d \<times> sent list) host) \<Rightarrow> (mx_state \<times> ('d \<times> sent list) host) \<Rightarrow> bool" where
  "sent_only ms c c' =
     (\<exists>es. sends_of (snd c') = sends_of (snd c) @ es \<and> list_all (\<lambda>e. en_method e \<in> set ms) es)"

lemma sent_only_trans: "sent_only ms c c' \<Longrightarrow> sent_only ms c' c'' \<Longrightarrow> sent_only ms c c''"
  by (fastforce simp: sent_only_def)

lemma sent_only_refl [simp]: "sent_only ms c c"
  by (simp add: sent_only_def)

lemma sent_only_call:
  assumes "m \<in> set ms"
  shows "sent_only ms c (snd (session_call (mx_ops cfg (recorded f exists rnd)) sc m p c))"
proof (cases "carries_credential (outbound sc m p)")
  case True
  then show ?thesis
    using mx_guarded.refuses [OF True, of cfg "recorded f exists rnd" m c] by (auto simp: session_call_def)
next
  case False
  have "snd (snd (session_call (mx_ops cfg (recorded f exists rnd)) sc m p c))
      = snd (snd (mx_call cfg (recorded f exists rnd) m (outbound sc m p) (fst c) (snd c)))"
    by (simp add: session_call_def mx_ops_def split: prod.split)
  with False assms show ?thesis
    using recorded_log.call_resent [of "outbound sc m p" cfg f exists rnd m "fst c" "snd c"]
    by (force simp: sent_only_def resent_def guard_iff list_all_iff)
qed

lemma sent_only_open:
  assumes "REGISTER_METHOD \<in> set ms"
  shows "sent_only ms c (snd (openSession (mx_ops cfg (recorded f exists rnd)) opts uuid c))"
  using open_session_registers [of cfg f exists rnd opts uuid c] assms
  by (fastforce simp: sent_only_def resent_def list_all_iff Let_def split: if_splits)

lemma reconstructed:
  assumes "reconstructPlan call room prevCursor c = (plan, c')"
  shows "c' = snd (call TASK_LIST_METHOD (if room \<noteq> [] then JObj [(''room'', JStr room)] else JUndef) c)
    \<and> ps_room plan = room \<and> rev_le (Option.bind prevCursor cu_state_rev) (cu_state_rev (ps_cursor plan))"
proof -
  let ?call = "call TASK_LIST_METHOD (if room \<noteq> [] then JObj [(''room'', JStr room)] else JUndef) c"
  have advance: "rev_le (Option.bind prevCursor cu_state_rev) (cu_state_rev (advanceCursor prevCursor rows))" for rows
    using fold_raise [of "Option.bind prevCursor cu_state_rev" rows] by (simp add: advanceCursor_def)
  have keep: "rev_le (Option.bind prevCursor cu_state_rev)
      (cu_state_rev (or_default prevCursor \<lparr>cu_state_rev = None, cu_token = None\<rparr>))"
    by (cases prevCursor) simp_all
  obtain r c1 where r: "?call = (r, c1)" by (rule prod.exhaust)
  with assms advance keep show ?thesis
    by (cases r) (auto simp: reconstructPlan_def buildPlanSnapshot_def faultSnapshot_def Let_def)
qed

text \<open>
  C20. Resumption only reads. An invalid descriptor is refused before anything is sent. Otherwise
  \<open>resumeSession\<close> sends only \<open>agent.register\<close> and \<open>task.list\<close> requests, so it can neither
  dispatch nor change a task; it fails exactly when opening the session fails, whatever the
  listing answers; and the session it returns is active in the descriptor's room under the
  descriptor's correlation id, with a plan for that room whose cursor is not behind the
  descriptor's.
\<close>

theorem resume_only_reads:
  fixes f :: "which \<Rightarrow> 'd service" and exists rnd cfg
  defines "ops \<equiv> mx_ops cfg (recorded f exists rnd)"
  shows "case assertSessionDescriptor descriptor of
     Inl e \<Rightarrow> resumeSession ops options uuid descriptor c = (Inl e, c)
   | Inr d \<Rightarrow>
       sent_only [''agent.register'', ''task.list''] c (snd (resumeSession ops options uuid descriptor c))
       \<and> isl (fst (resumeSession ops options uuid descriptor c)) = isl (fst (openSession ops (resume_options d options) uuid c))
       \<and> (case fst (resumeSession ops options uuid descriptor c) of
            Inl err \<Rightarrow> True
          | Inr rs \<Rightarrow> se_state (rs_session rs) = Active
              \<and> sc_room (se_config (rs_session rs)) = Some (sd_room d)
              \<and> sc_correlationId (se_config (rs_session rs)) = sd_correlation_id d
              \<and> ps_room (rs_plan rs) = sd_room d
              \<and> rev_le (Option.bind (sd_cursor d) cu_state_rev) (cu_state_rev (ps_cursor (rs_plan rs))))"
proof (cases "assertSessionDescriptor descriptor")
  case (Inl e)
  then show ?thesis by (simp add: resumeSession_def)
next
  case (Inr d)
  let ?ms = "[''agent.register'', ''task.list'']"
  obtain r c1 where o: "openSession ops (resume_options d options) uuid c = (r, c1)"
    by (rule prod.exhaust)
  have sent1: "sent_only ?ms c c1"
    using sent_only_open [of ?ms c cfg f exists rnd "resume_options d options" uuid] o
    by (simp add: ops_def REGISTER_METHOD_def)
  show ?thesis
  proof (cases r)
    case (Inl e)
    with Inr o sent1 show ?thesis by (simp add: resumeSession_def)
  next
    case (Inr s)
    let ?call = "session_call ops (se_config s) TASK_LIST_METHOD (if sd_room d \<noteq> [] then JObj [(''room'', JStr (sd_room d))] else JUndef) c1"
    have sent2: "sent_only ?ms c1 (snd ?call)"
      unfolding ops_def by (rule sent_only_call) (simp add: TASK_LIST_METHOD_def)
    obtain plan c2 where p: "reconstructPlan (session_call ops (se_config s)) (sd_room d) (sd_cursor d) c1 = (plan, c2)"
      by (rule prod.exhaust)
    have c2: "c2 = snd ?call" and plan: "ps_room plan = sd_room d
        \<and> rev_le (Option.bind (sd_cursor d) cu_state_rev) (cu_state_rev (ps_cursor plan))"
      using reconstructed [OF p] by blast+
    have act: "se_state s = Active" "se_config s = new_session_config (or_default (so_ownsClient (resume_options d options))
        (\<not> so_injected (resume_options d options))) uuid (resume_options d options)"
      using opened_active o Inr unfolding ops_def by blast+
    from \<open>assertSessionDescriptor descriptor = Inr d\<close> o Inr p plan act sent_only_trans [OF sent1 sent2] c2
    show ?thesis by (simp add: resumeSession_def new_session_config_def resume_options_def)
  qed
qed

end
