(* ===== verification/Mcp_Options.thy ===== *)
theory Mcp_Options
  imports Session
begin

text \<open>
  The options of the MCP server's command line (packages/mcp/src/cli-options.ts): the defaults, the
  one that is checked, and the session options made of them. The values are what Node's \<open>parseArgs\<close>
  returns for the declared options, an absent one \<open>None\<close>; \<open>Number\<close> of a string is an argument.
\<close>

record mcp_values =
  mv_http :: "bool option"
  mv_host :: "string option"
  mv_port :: "string option"
  mv_room :: "string option"
  mv_kind :: "string option"
  mv_correlationId :: "string option"
  mv_cwd :: "string option"
  mv_projectId :: "string option"
  mv_gitCommit :: "string option"
  mv_maxInvocations :: "string option"
  mv_audit :: "bool option"

record mcp_options =
  mo_http :: bool
  mo_host :: string
  mo_port :: jsnum
  mo_room :: "string option"
  mo_kind :: "string option"
  mo_correlationId :: "string option"
  mo_cwd :: "string option"
  mo_projectId :: "string option"
  mo_gitCommit :: "string option"
  mo_maxInvocations :: "jsnum option"
  mo_audit :: bool

text \<open>A positive integer, or the message of the error.\<close>

definition parseMaxInvocations :: "(string \<Rightarrow> jsnum) \<Rightarrow> string option \<Rightarrow> string + jsnum option" where
  "parseMaxInvocations number raw =
     (case raw of
        None \<Rightarrow> Inr None
      | Some s \<Rightarrow>
          (case number s of
             Fin q \<Rightarrow>
               if q = of_int \<lfloor>q\<rfloor> \<and> 0 < q then Inr (Some (Fin q))
               else Inl (''--max-invocations must be a positive integer (received '' @ [CHR 0x27] @ s @ [CHR 0x27] @ '')'')
           | _ \<Rightarrow> Inl (''--max-invocations must be a positive integer (received '' @ [CHR 0x27] @ s @ [CHR 0x27] @ '')'')))"

definition mcp_parseCliArgs ::
  "(string \<Rightarrow> jsnum) \<Rightarrow> mcp_values \<Rightarrow> (string \<Rightarrow> string option) \<Rightarrow> string + mcp_options" where
  "mcp_parseCliArgs number v env =
     (case parseMaxInvocations number (mv_maxInvocations v) of
        Inl e \<Rightarrow> Inl e
      | Inr budget \<Rightarrow>
          Inr \<lparr>mo_http = (mv_http v = Some True), mo_host = or_default (mv_host v) ''127.0.0.1'',
               mo_port = (case mv_port v of Some s \<Rightarrow> number s | None \<Rightarrow> Fin 7800), mo_room = mv_room v, mo_kind = mv_kind v,
               mo_correlationId = mv_correlationId v, mo_cwd = mv_cwd v, mo_projectId = mv_projectId v,
               mo_gitCommit = mv_gitCommit v, mo_maxInvocations = budget,
               mo_audit = (mv_audit v = Some True \<or> env ''MXL_AUDIT_PG'' = Some ''1'')\<rparr>)"

text \<open>The workspace is there only when one of its fields is.\<close>

definition buildSessionOptions :: "mcp_options \<Rightarrow> session_options" where
  "buildSessionOptions opts =
     \<lparr>so_injected = False, so_ownsClient = None, so_room = mo_room opts, so_kind = mo_kind opts, so_capabilities = None,
      so_tools = None,
      so_workspace =
        (if mo_cwd opts = None \<and> mo_projectId opts = None \<and> mo_gitCommit opts = None then None
         else Some \<lparr>wo_cwd = mo_cwd opts, wo_project_id = mo_projectId opts, wo_git_commit = mo_gitCommit opts\<rparr>),
      so_maxInvocations = mo_maxInvocations opts, so_correlationId = mo_correlationId opts,
      so_correlationParamMethods = None, so_heartbeatIntervalMs = None, so_heartbeat = True, so_heartbeatMethod = None,
      so_deregisterMethod = None\<rparr>"

text \<open>A session started from the command line has no budget or a positive whole one.\<close>

lemma session_budget_positive:
  assumes "mcp_parseCliArgs number v env = Inr opts" "so_maxInvocations (buildSessionOptions opts) = Some n"
  shows "\<exists>k. n = Fin (of_int k) \<and> 0 < k"
proof -
  have read: "parseMaxInvocations number (mv_maxInvocations v) = Inr (Some n)"
    using assms by (auto simp: mcp_parseCliArgs_def buildSessionOptions_def split: sum.splits)
  then obtain s where s: "mv_maxInvocations v = Some s"
    by (cases "mv_maxInvocations v") (simp_all add: parseMaxInvocations_def)
  show ?thesis
  proof (cases "number s")
    case (Fin q)
    with read have "n = Fin q" "q = of_int \<lfloor>q\<rfloor>" "0 < q"
      by (simp_all add: s parseMaxInvocations_def split: if_splits)
    then show ?thesis by (intro exI [of _ "\<lfloor>q\<rfloor>"]) (metis of_int_0_less_iff)
  qed (use read in \<open>simp_all add: s parseMaxInvocations_def\<close>)
qed

text \<open>The port is not checked: any text becomes one.\<close>

lemma port_unchecked:
  "mv_maxInvocations v = None \<Longrightarrow> mv_port v = Some s \<Longrightarrow> number s = NaN \<Longrightarrow>
     \<exists>opts. mcp_parseCliArgs number v env = Inr opts \<and> mo_port opts = NaN"
  by (simp add: mcp_parseCliArgs_def parseMaxInvocations_def)

end
