(* ===== verification/Mcp_Cli.thy ===== *)
theory Mcp_Cli
  imports Mcp_Options
begin

text \<open>
  The MCP server's executable (packages/mcp/src/cli.ts): the audit sink it builds, how it starts, and
  how it shuts down. What the packages it calls answer, the transports of the SDK among them, are
  arguments; the shutdown is a machine over the signals of the process and the promises it waits for.
\<close>

section \<open>Start\<close>

text \<open>What creating the PostgreSQL sink, and then migrating it, settles with; a failure carries its name.\<close>

datatype audit_choice = NullSink | PostgresSink

record audit_io =
  ai_create :: "string option"
  ai_migrate :: "string option"

definition buildAuditSink :: "mcp_options \<Rightarrow> audit_io \<Rightarrow> (string + audit_choice) \<times> string list" where
  "buildAuditSink opts aio =
     (if \<not> mo_audit opts then (Inr NullSink, [])
      else case ai_create aio of
             Some e \<Rightarrow> (Inl e, [])
           | None \<Rightarrow> (Inr PostgresSink,
               case ai_migrate aio of None \<Rightarrow> [] | Some nm \<Rightarrow> [''audit migrate skipped (best-effort): '' @ nm]))"

datatype process_action =
    OpenContext | CloseContext | ConnectStdio | ConnectHttp | Listen | CloseServer | CloseHttp | Exit int

text \<open>The stages of a process: it runs, it waits for a step of its shutdown, or it is gone.\<close>

datatype process_stage = Serving | ClosingServer | ClosingHttp | ClosingContext | Gone

record mcp_process =
  pr_stage :: process_stage
  pr_closing :: bool
  pr_listening :: bool
  pr_actions :: "process_action list"

definition act :: "process_action \<Rightarrow> mcp_process \<Rightarrow> mcp_process" where
  "act a p = p\<lparr>pr_actions := pr_actions p @ [a]\<rparr>"

definition exit_with :: "int \<Rightarrow> mcp_process \<Rightarrow> mcp_process" where
  "exit_with n p = (act (Exit n) p)\<lparr>pr_stage := Gone\<rparr>"

text \<open>
  \<open>main\<close> up to the point where it serves, when no signal arrives before: the options, the sink, the
  context and the transport, each of which can fail. A failure is caught by the last lines of the
  file, which exit with 1.
\<close>

definition mcp_main ::
  "string + mcp_options \<Rightarrow> audit_io \<Rightarrow> (string + unit) \<Rightarrow> (string + unit) \<Rightarrow> mcp_process" where
  "mcp_main parsed aio opened attached =
     (let p = \<lparr>pr_stage = Serving, pr_closing = False, pr_listening = False, pr_actions = []\<rparr> in
      case parsed of
        Inl e \<Rightarrow> exit_with 1 p
      | Inr opts \<Rightarrow>
          (case fst (buildAuditSink opts aio) of
             Inl e \<Rightarrow> exit_with 1 p
           | Inr sink \<Rightarrow>
               (let p1 = act OpenContext p in
                case opened of
                  Inl e \<Rightarrow> exit_with 1 p1
                | Inr _ \<Rightarrow>
                    (let p2 = act (if mo_http opts then ConnectHttp else ConnectStdio) p1 in
                     case attached of
                       Inl e \<Rightarrow> exit_with 1 p2
                     | Inr _ \<Rightarrow> if mo_http opts then (act Listen p2)\<lparr>pr_listening := True\<rparr> else p2))))"

section \<open>Shutdown\<close>

text \<open>A signal, or the end of standard input; and the promises of the shutdown, settled either way.\<close>

datatype process_event = Signal string | ServerClosed | HttpClosed | ContextClosed

definition shutdown :: "mcp_process \<Rightarrow> mcp_process" where
  "shutdown p = (if pr_closing p then p else (act CloseServer p)\<lparr>pr_closing := True, pr_stage := ClosingServer\<rparr>)"

definition closeContext :: "mcp_process \<Rightarrow> mcp_process" where
  "closeContext p = (act CloseContext p)\<lparr>pr_stage := ClosingContext\<rparr>"

definition process_react :: "process_event \<Rightarrow> mcp_process \<Rightarrow> mcp_process" where
  "process_react ev p =
     (case (pr_stage p, ev) of
        (Gone, _) \<Rightarrow> p
      | (_, Signal s) \<Rightarrow> shutdown p
      | (ClosingServer, ServerClosed) \<Rightarrow>
          if pr_listening p then (act CloseHttp p)\<lparr>pr_stage := ClosingHttp\<rparr> else closeContext p
      | (ClosingHttp, HttpClosed) \<Rightarrow> closeContext p
      | (ClosingContext, ContextClosed) \<Rightarrow> exit_with 0 p
      | _ \<Rightarrow> p)"

section \<open>Properties\<close>

text \<open>The actions a stage has behind it since the process began to serve.\<close>

definition closed_so_far :: "mcp_process \<Rightarrow> process_action list" where
  "closed_so_far p =
     (let http = (if pr_listening p then [CloseHttp] else []) in
      case pr_stage p of
        Serving \<Rightarrow> []
      | ClosingServer \<Rightarrow> [CloseServer]
      | ClosingHttp \<Rightarrow> [CloseServer, CloseHttp]
      | ClosingContext \<Rightarrow> CloseServer # http @ [CloseContext]
      | Gone \<Rightarrow> CloseServer # http @ [CloseContext, Exit 0])"

definition shutdown_inv :: "process_action list \<Rightarrow> mcp_process \<Rightarrow> bool" where
  "shutdown_inv before p =
     (pr_actions p = before @ closed_so_far p \<and> pr_closing p = (pr_stage p \<noteq> Serving)
      \<and> (pr_stage p = ClosingHttp \<longrightarrow> pr_listening p))"

lemma process_react_inv: "shutdown_inv before p \<Longrightarrow> shutdown_inv before (process_react ev p)"
  by (cases "pr_stage p"; cases ev)
     (auto simp: shutdown_inv_def closed_so_far_def process_react_def shutdown_def closeContext_def exit_with_def
        act_def Let_def)

lemma process_run_inv: "shutdown_inv before p \<Longrightarrow> shutdown_inv before (fold process_react evs p)"
  by (induction evs arbitrary: p) (simp_all add: process_react_inv)

text \<open>
  However many signals arrive and whenever, a serving process is taken down once and in order: the
  server, the HTTP listener if there is one, the context, and only then the exit.
\<close>

lemma shutdown_once:
  assumes "pr_stage p = Serving" "\<not> pr_closing p"
  shows "pr_actions (fold process_react evs p) = pr_actions p @ closed_so_far (fold process_react evs p)"
  using process_run_inv [of "pr_actions p" p evs] assms by (simp add: shutdown_inv_def closed_so_far_def)

text \<open>A signal leads to the exit once every step has settled, whatever it settled with.\<close>

lemma shutdown_completes:
  assumes "pr_stage p = Serving" "\<not> pr_closing p"
  shows "pr_stage (fold process_react [Signal s, ServerClosed, HttpClosed, ContextClosed] p) = Gone"
proof -
  let ?p1 = "process_react (Signal s) p" let ?p2 = "process_react ServerClosed ?p1"
  have p1: "pr_stage ?p1 = ClosingServer" "pr_listening ?p1 = pr_listening p"
    using assms by (simp_all add: process_react_def shutdown_def act_def)
  then have p2: "pr_stage ?p2 = (if pr_listening p then ClosingHttp else ClosingContext)"
    by (simp add: process_react_def closeContext_def act_def)
  then have "pr_stage (process_react HttpClosed ?p2) = ClosingContext"
    by (simp add: process_react_def closeContext_def act_def split: if_splits)
  then have "pr_stage (process_react ContextClosed (process_react HttpClosed ?p2)) = Gone"
    by (simp add: process_react_def exit_with_def)
  then show ?thesis by simp
qed

text \<open>
  A transport that cannot be connected ends the process without closing the context it has opened:
  the registered agent is not deregistered.
\<close>

lemma failed_start_leaves_context:
  "mcp_main (Inr opts) aio (Inr ()) (Inl e) = p \<Longrightarrow> pr_stage p = Gone \<and> CloseContext \<notin> set (pr_actions p)"
  by (auto simp: mcp_main_def exit_with_def act_def Let_def split: sum.splits if_splits)

text \<open>Only an audit database that cannot be opened stops a start; one that cannot be migrated does not.\<close>

lemma migration_best_effort:
  "ai_create aio = None \<Longrightarrow> isl (fst (buildAuditSink opts aio)) = False"
  by (simp add: buildAuditSink_def)

end
