(* ===== verification/Delegation.thy ===== *)
theory Delegation
  imports Tasks
begin

text \<open>
  The verbs that start, stop and feed remote work (packages/registry/src/handlers/):
  \<open>mx_delegate_tool\<close> (delegate-tool.ts), \<open>mx_run_command\<close> (run-command.ts), \<open>mx_cancel\<close> (cancel.ts),
  \<open>mx_share_context\<close> and \<open>mx_get_context\<close> (share-context.ts, get-context.ts, context-response.ts) and
  \<open>mx_dispatch_task\<close> (dispatch-task.ts). \<open>ajv\<close> is the validator \<open>createAjvValidator()\<close> makes, a
  parameter of the definitions that fall back on it.
\<close>

section \<open>mx\_delegate\_tool\<close>

record delegate_tool_input =
  dt_agent :: string
  dt_tool :: string
  dt_args :: obj
  dt_wait_ms :: "jsnum option"
  dt_idempotency_key :: "string option"

abbreviation at_sign :: char where "at_sign \<equiv> CHR ''@''"

text \<open>
  \<open>lastIndexOf\<close>: the part after the last \<open>@\<close> and the part before it. The reference has a version
  when an \<open>@\<close> stands strictly inside it.
\<close>

definition parseToolRef :: "string \<Rightarrow> string \<times> string option" where
  "parseToolRef tool =
     (let after = rev (takeWhile (\<lambda>c. c \<noteq> at_sign) (rev tool));
          before = take (length tool - length after - 1) tool in
      if at_sign \<notin> set tool \<or> before = [] \<or> after = [] then (tool, None) else (before, Some after))"

definition isPositiveWait :: "jsnum option \<Rightarrow> bool" where
  "isPositiveWait w = (case w of Some (Fin r) \<Rightarrow> 0 < r | _ \<Rightarrow> False)"

definition validateArgs :: "published_tool \<Rightarrow> obj \<Rightarrow> schema_validator \<Rightarrow> obj tool_result option" where
  "validateArgs target args validator =
     (case pt_input_schema target of
        None \<Rightarrow> None
      | Some schema \<Rightarrow>
          (case validator (JObj schema) of
             Inl _ \<Rightarrow> None
           | Inr validate \<Rightarrow>
               if \<not> validate (JObj args) then Some (failureResult (Code invalid_args) EMPTY_AUDIT_REF) else None))"

definition find_target :: "string \<Rightarrow> json \<Rightarrow> published_tool option" where
  "find_target tool toolsResp =
     (let (name, version) = parseToolRef tool;
          published = projectTools (case asRecord toolsResp of Some r \<Rightarrow> jget r ''schemas'' | None \<Rightarrow> JUndef) in
      List.find (\<lambda>t. pt_name t = name \<and> (version = None \<or> pt_version t = version)) published)"

text \<open>The inline wait both starting verbs end with.\<close>

definition await_inline ::
  "obj tool_result \<Rightarrow> jsnum option \<Rightarrow> ('d, 'z) handler_deps_scheme \<Rightarrow> ('d, obj tool_result) async" where
  "await_inline result wait_ms deps =
     (case r_handle result of
        Some hdl \<Rightarrow>
          if \<not> isTerminal (r_status result) \<and> isPositiveWait wait_ms \<and> hdl \<noteq> []
          then mxAwaitResult hdl wait_ms deps else resolve result
      | None \<Rightarrow> resolve result)"

definition call_start_params :: "delegate_tool_input \<Rightarrow> string \<Rightarrow> string \<Rightarrow> obj" where
  "call_start_params input room idempotency_key =
     [(''room'', JStr room), (''agent'', JStr (dt_agent input)), (''tool'', JStr (dt_tool input)),
      (''args'', JObj (dt_args input)), (''idempotency_key'', JStr idempotency_key)]"

definition mxDelegateTool ::
  "schema_validator \<Rightarrow> delegate_tool_input \<Rightarrow> ('d, 'z) delegate_deps_scheme \<Rightarrow> ('d, obj tool_result) async" where
  "mxDelegateTool ajv input deps =
     (if room_missing (d_room deps)
      then resolve (errored (Code internal) (Some ''no workspace room configured for delegation'') EMPTY_AUDIT_REF)
      else
        call_or (d_daemon deps) ''agent.tools'' (JObj [(''agent_id'', JStr (dt_agent input))])
          (\<lambda>err. resolve (faultToResult err EMPTY_AUDIT_REF))
          (\<lambda>toolsResp.
             case find_target (dt_tool input) toolsResp of
               None \<Rightarrow> resolve (failureResult (Code not_found) EMPTY_AUDIT_REF)
             | Some target \<Rightarrow>
                 (case validateArgs target (dt_args input) (or_default (d_validator deps) ajv) of
                    Some rejection \<Rightarrow> resolve rejection
                  | None \<Rightarrow>
                      key_or_new (dt_idempotency_key input) (\<lambda>idempotency_key.
                        call_or (d_daemon deps) ''call.start''
                          (JObj (call_start_params input (or_default (d_room deps) []) idempotency_key))
                          (\<lambda>err. resolve (faultToResult err EMPTY_AUDIT_REF))
                          (\<lambda>response. await_inline (callResponseToResult response) (dt_wait_ms input) deps)))))"

section \<open>mx\_run\_command\<close>

record run_command_input =
  rc_agent :: string
  rc_command :: string
  rc_args :: "string list option"
  rc_cwd :: "string option"
  rc_wait_ms :: "jsnum option"
  rc_idempotency_key :: "string option"

definition exec_start_params :: "run_command_input \<Rightarrow> string \<Rightarrow> string \<Rightarrow> obj" where
  "exec_start_params input room idempotency_key =
     [(''room'', JStr room), (''agent'', JStr (rc_agent input)), (''command'', JStr (rc_command input)),
      (''args'', strings_json (or_default (rc_args input) []))]
     @ opt_field ''cwd'' (map_option JStr (rc_cwd input))
     @ [(''idempotency_key'', JStr idempotency_key)]"

definition mxRunCommand ::
  "run_command_input \<Rightarrow> ('d, 'z) room_scoped_deps_scheme \<Rightarrow> ('d, obj tool_result) async" where
  "mxRunCommand input deps =
     (if room_missing (d_room deps)
      then resolve (errored (Code internal) (Some ''no workspace room configured for exec'') EMPTY_AUDIT_REF)
      else key_or_new (rc_idempotency_key input) (\<lambda>idempotency_key.
             call_or (d_daemon deps) ''exec.start''
               (JObj (exec_start_params input (or_default (d_room deps) []) idempotency_key))
               (\<lambda>err. resolve (faultToResult err EMPTY_AUDIT_REF))
               (\<lambda>response. await_inline (callResponseToResult response) (rc_wait_ms input) deps)))"

section \<open>mx\_cancel\<close>

definition UNRECOGNISED_CANCEL_MESSAGE :: string where
  "UNRECOGNISED_CANCEL_MESSAGE = ''unrecognised cancel response''"

definition NOTHING_TO_CANCEL :: "string list" where
  "NOTHING_TO_CANCEL =
     [''already_complete'', ''already_completed'', ''already_done'', ''already_finished'', ''complete'',
      ''completed'', ''succeeded'', ''success'', ''done'', ''finished'', ''resolved'', ''noop'', ''no_op'',
      ''nothing_to_cancel'']"

definition cancel_state :: "obj \<Rightarrow> string option" where
  "cancel_state ob = orelse (readString (jget ob ''state'')) (readString (jget ob ''status''))"

definition stateTokenOf :: "obj \<Rightarrow> string option" where
  "stateTokenOf ob = map_option normaliseToken (cancel_state ob)"

definition readCancelled :: "obj \<Rightarrow> string option \<Rightarrow> bool" where
  "readCancelled ob state =
     (case jget ob ''cancelled'' of
        JBool b \<Rightarrow> b
      | _ \<Rightarrow> (case state of Some s \<Rightarrow> normaliseToken s \<notin> set NOTHING_TO_CANCEL | None \<Rightarrow> True))"

definition cancelResponseToResult :: "json \<Rightarrow> string \<Rightarrow> obj tool_result" where
  "cancelResponseToResult raw hdl =
     (let aref = extractAuditRef (asRecord raw) in
      case asRecord raw of
        None \<Rightarrow> errored (Code internal) (Some UNRECOGNISED_CANCEL_MESSAGE) aref
      | Some ob \<Rightarrow>
          if hasErrorSignal ob then failureResult (failureCode ob (stateTokenOf ob)) aref
          else let state = cancel_state ob in
               ok ([(''handle'', JStr hdl), (''cancelled'', JBool (readCancelled ob state))]
                   @ opt_field ''state'' (map_option JStr state)) aref)"

definition mxCancel :: "string \<Rightarrow> ('d, 'z) handler_deps_scheme \<Rightarrow> ('d, obj tool_result) async" where
  "mxCancel hdl deps =
     call_or (d_daemon deps) ''invocation.cancel'' (JObj [(''invocation_id'', JStr hdl)])
       (\<lambda>err. resolve (faultToResult err EMPTY_AUDIT_REF))
       (\<lambda>response. resolve (cancelResponseToResult response hdl))"

section \<open>mx\_share\_context and mx\_get\_context\<close>

definition UNRECOGNISED_CONTEXT_MESSAGE :: string where
  "UNRECOGNISED_CONTEXT_MESSAGE = ''unrecognised context response''"

definition contextResponseToResult :: "json \<Rightarrow> (obj \<Rightarrow> obj) \<Rightarrow> obj tool_result" where
  "contextResponseToResult raw project =
     (let aref = extractAuditRef (asRecord raw) in
      case asRecord raw of
        None \<Rightarrow> errored (Code internal) (Some UNRECOGNISED_CONTEXT_MESSAGE) aref
      | Some ob \<Rightarrow>
          if hasErrorSignal ob then failureResult (failureCode ob None) aref
          else if readString (jget ob ''context_id'') = None
          then errored (Code internal) (Some UNRECOGNISED_CONTEXT_MESSAGE) aref
          else ok (project ob) aref)"

datatype share_kind = File | Diff | Env

definition share_method :: "share_kind \<Rightarrow> string" where
  "share_method k = (case k of File \<Rightarrow> ''share.file'' | Diff \<Rightarrow> ''share.diff'' | Env \<Rightarrow> ''share.env'')"

text \<open>
  \<open>sc_kind\<close> is \<open>None\<close> for a run-time value outside the declared union (and not the name of an
  inherited property): the table has no method for it.
\<close>

record share_context_input =
  sc_kind :: "share_kind option"
  sc_path :: "string option"
  sc_content :: "string option"
  sc_encoding :: "string option"

definition SHARE_METHOD_FOR_KIND :: "share_kind option \<Rightarrow> string option" where
  "SHARE_METHOD_FOR_KIND kind = map_option share_method kind"

definition projectShare :: "obj \<Rightarrow> obj" where
  "projectShare payload =
     opt_field ''context_id'' (map_option JStr (readString (jget payload ''context_id'')))
     @ opt_field ''sha256'' (map_option JStr (readString (jget payload ''sha256'')))"

definition share_params :: "share_context_input \<Rightarrow> string \<Rightarrow> obj" where
  "share_params input room =
     [(''room'', JStr room)]
     @ opt_field ''path'' (map_option JStr (sc_path input))
     @ opt_field ''content'' (map_option JStr (sc_content input))
     @ opt_field ''encoding'' (map_option JStr (sc_encoding input))"

definition mxShareContext ::
  "share_context_input \<Rightarrow> ('d, 'z) room_scoped_deps_scheme \<Rightarrow> ('d, obj tool_result) async" where
  "mxShareContext input deps =
     (if room_missing (d_room deps)
      then resolve (errored (Code internal) (Some ''no workspace room configured for share'') EMPTY_AUDIT_REF)
      else
        (case SHARE_METHOD_FOR_KIND (sc_kind input) of
           None \<Rightarrow> resolve (failureResult (Code invalid_args) EMPTY_AUDIT_REF)
         | Some mth \<Rightarrow>
             call_or (d_daemon deps) mth (JObj (share_params input (or_default (d_room deps) [])))
               (\<lambda>err. resolve (faultToResult err EMPTY_AUDIT_REF))
               (\<lambda>response. resolve (contextResponseToResult response projectShare))))"

definition readNonNegativeInt :: "json \<Rightarrow> jsnum option" where
  "readNonNegativeInt x =
     (case x of JNum (Fin r) \<Rightarrow> if isInteger (Fin r) \<and> 0 \<le> r then Some (Fin r) else None | _ \<Rightarrow> None)"

definition projectGet :: "obj \<Rightarrow> obj" where
  "projectGet payload =
     opt_field ''context_id'' (map_option JStr (readString (jget payload ''context_id'')))
     @ opt_field ''kind'' (map_option JStr (readString (jget payload ''kind'')))
     @ opt_field ''sha256'' (map_option JStr (readString (jget payload ''sha256'')))
     @ opt_field ''size_bytes'' (map_option JNum (readNonNegativeInt (jget payload ''size_bytes'')))
     @ opt_field ''inline'' (map_option JStr (readString (jget payload ''inline'')))
     @ opt_field ''media_mxc'' (map_option JStr (readString (jget payload ''media_mxc'')))"

definition mxGetContext :: "string \<Rightarrow> ('d, 'z) room_scoped_deps_scheme \<Rightarrow> ('d, obj tool_result) async" where
  "mxGetContext context_id deps =
     (if room_missing (d_room deps)
      then resolve (errored (Code internal) (Some ''no workspace room configured for get'') EMPTY_AUDIT_REF)
      else
        call_or (d_daemon deps) ''share.get''
          (JObj [(''context_id'', JStr context_id), (''room'', JStr (or_default (d_room deps) []))])
          (\<lambda>err. resolve (faultToResult err EMPTY_AUDIT_REF))
          (\<lambda>response. resolve (contextResponseToResult response projectGet)))"

section \<open>mx\_dispatch\_task\<close>

record dispatch_task_input =
  di_task_id :: string
  di_wait_ms :: "jsnum option"
  di_idempotency_key :: "string option"

definition taskDispatchKey :: "string \<Rightarrow> string" where
  "taskDispatchKey task_id = IDEMPOTENCY_KEY_PREFIX @ ''task_'' @ task_id"

text \<open>The checks between the listing and the dispatch: the target and the call, or the refusal.\<close>

definition dispatch_plan :: "string \<Rightarrow> task_node list \<Rightarrow> error_code + string \<times> action_dispatch" where
  "dispatch_plan task_id tasks =
     (case List.find (\<lambda>t. n_task_id t = task_id) tasks of
        None \<Rightarrow> Inl not_found
      | Some node \<Rightarrow>
          if n_state node = State Succeeded \<or> n_state node = State Failed then Inl invalid_args
          else (case n_action node of
             None \<Rightarrow> Inl invalid_args
           | Some action \<Rightarrow>
               (case actionToDispatch action of
                  Inl _ \<Rightarrow> Inl invalid_args
                | Inr dispatch \<Rightarrow>
                    (case n_assignee node of
                       None \<Rightarrow> Inl invalid_args
                     | Some target \<Rightarrow>
                         if target = [] then Inl invalid_args else Inr (target, dispatch)))))"

definition run_dispatch ::
  "schema_validator \<Rightarrow> dispatch_task_input \<Rightarrow> string \<Rightarrow> action_dispatch \<Rightarrow> ('d, 'z) delegate_deps_scheme
     \<Rightarrow> ('d, obj tool_result) async" where
  "run_dispatch ajv input target dispatch deps =
     (let idempotency_key = or_default (di_idempotency_key input) (taskDispatchKey (di_task_id input)) in
      case dispatch of
        DispatchTool tool args \<Rightarrow>
          mxDelegateTool ajv
            \<lparr>dt_agent = target, dt_tool = tool, dt_args = args, dt_wait_ms = di_wait_ms input,
             dt_idempotency_key = Some idempotency_key\<rparr> deps
      | DispatchExec command command_args cwd \<Rightarrow>
          mxRunCommand
            \<lparr>rc_agent = target, rc_command = command, rc_args = Some command_args, rc_cwd = cwd,
             rc_wait_ms = di_wait_ms input, rc_idempotency_key = Some idempotency_key\<rparr> deps)"

definition mxDispatchTask ::
  "schema_validator \<Rightarrow> dispatch_task_input \<Rightarrow> ('d, 'z) delegate_deps_scheme \<Rightarrow> ('d, obj tool_result) async" where
  "mxDispatchTask ajv input deps =
     (if room_missing (d_room deps)
      then resolve (errored (Code internal) (Some ''no workspace room configured for task dispatch'') EMPTY_AUDIT_REF)
      else if di_task_id input = [] then resolve (failureResult (Code invalid_args) EMPTY_AUDIT_REF)
      else await (list_tasks \<lparr>lt_state = None, lt_assignee = None, lt_view = Some View_list\<rparr> deps) (\<lambda>listed.
             case listed of
               Inl fault \<Rightarrow> resolve fault
             | Inr (tasks, edges) \<Rightarrow>
                 (case dispatch_plan (di_task_id input) tasks of
                    Inl code \<Rightarrow> resolve (failureResult (Code code) EMPTY_AUDIT_REF)
                  | Inr (target, dispatch) \<Rightarrow> run_dispatch ajv input target dispatch deps)))"

section \<open>The handler contract\<close>

lemma await_inline_emits:
  assumes "well_built result" and "\<And>p. R (''invocation.get'', p)"
  shows "emits R well_built (await_inline result wait_ms (logged_deps f interval room validator))"
proof -
  have "emits R well_built (mxAwaitResult hdl wait_ms (logged_deps f interval room validator))" for hdl
    by (rule emits_weaken [OF await_sends]) (auto intro: assms(2))
  then show ?thesis
    unfolding await_inline_def using assms(1) by (intro sends_intros)
qed

lemma validateArgs_well_built: "validateArgs target args v = Some r \<Longrightarrow> well_built r"
  by (auto simp: validateArgs_def split: option.splits sum.splits if_splits)

text \<open>What each starting verb may say to the daemon, request by request.\<close>

lemma delegate_emits:
  assumes "\<And>p. R (''invocation.get'', p)" and "\<And>p. R (''agent.tools'', p)"
    and "\<And>key. dt_idempotency_key input \<in> {None, Some key} \<Longrightarrow>
           R (''call.start'', JObj (call_start_params input (or_default room []) key))"
  shows "emits R well_built (mxDelegateTool ajv input (logged_deps f interval room validator))"
  unfolding mxDelegateTool_def logged_deps_fields key_or_new_def newIdempotencyKey_def
  by (intro sends_intros await_inline_emits assms) (auto dest: validateArgs_well_built)

lemma run_command_emits:
  assumes "\<And>p. R (''invocation.get'', p)"
    and "\<And>key. rc_idempotency_key input \<in> {None, Some key} \<Longrightarrow>
           R (''exec.start'', JObj (exec_start_params input (or_default room []) key))"
  shows "emits R well_built (mxRunCommand input (logged_deps f interval room validator))"
  unfolding mxRunCommand_def logged_deps_fields key_or_new_def newIdempotencyKey_def
  by (intro sends_intros await_inline_emits assms) auto

interpretation delegate_tool: verb_handler
  "mxDelegateTool ajv input (logged_deps f interval room validator)"
  "[''agent.tools'', ''call.start'', ''invocation.get'']"
proof
  show "sends (set [''agent.tools'', ''call.start'', ''invocation.get'']) well_built
          (mxDelegateTool ajv input (logged_deps f interval room validator))"
    by (rule delegate_emits) simp_all
  show "list_all (\<lambda>m. \<not> isForbiddenAuthorityVerb m) [''agent.tools'', ''call.start'', ''invocation.get'']"
    by code_simp
qed

interpretation run_command: verb_handler
  "mxRunCommand input (logged_deps f interval room validator)" "[''exec.start'', ''invocation.get'']"
proof
  show "sends (set [''exec.start'', ''invocation.get'']) well_built
          (mxRunCommand input (logged_deps f interval room validator))"
    by (rule run_command_emits) simp_all
  show "list_all (\<lambda>m. \<not> isForbiddenAuthorityVerb m) [''exec.start'', ''invocation.get'']" by code_simp
qed

lemma well_built_cancelResponse [simp]: "well_built (cancelResponseToResult raw hdl)"
  by (simp add: cancelResponseToResult_def Let_def split: option.split)

interpretation cancel: verb_handler "mxCancel hdl (logged_deps f interval room validator)" "[''invocation.cancel'']"
proof
  show "sends (set [''invocation.cancel'']) well_built (mxCancel hdl (logged_deps f interval room validator))"
    unfolding mxCancel_def logged_deps_fields list.set by (intro sends_intros) simp_all
  show "list_all (\<lambda>m. \<not> isForbiddenAuthorityVerb m) [''invocation.cancel'']" by code_simp
qed

lemma well_built_contextResponse [simp]: "well_built (contextResponseToResult raw project)"
  by (simp add: contextResponseToResult_def Let_def split: option.split)

lemma share_method_declared: "share_method k \<in> set [''share.file'', ''share.diff'', ''share.env'']"
  by (cases k) (simp_all add: share_method_def)

interpretation share_context: verb_handler
  "mxShareContext input (logged_deps f interval room validator)" "[''share.file'', ''share.diff'', ''share.env'']"
proof
  show "sends (set [''share.file'', ''share.diff'', ''share.env'']) well_built
          (mxShareContext input (logged_deps f interval room validator))"
    unfolding mxShareContext_def logged_deps_fields SHARE_METHOD_FOR_KIND_def
    using share_method_declared by (intro sends_intros) (auto simp del: list.set)
  show "list_all (\<lambda>m. \<not> isForbiddenAuthorityVerb m) [''share.file'', ''share.diff'', ''share.env'']" by code_simp
qed

interpretation get_context: verb_handler "mxGetContext cid (logged_deps f interval room validator)" "[''share.get'']"
proof
  show "sends (set [''share.get'']) well_built (mxGetContext cid (logged_deps f interval room validator))"
    unfolding mxGetContext_def logged_deps_fields list.set by (intro sends_intros) simp_all
  show "list_all (\<lambda>m. \<not> isForbiddenAuthorityVerb m) [''share.get'']" by code_simp
qed

section \<open>Dispatching a task\<close>

lemma list_view_emits:
  assumes "\<And>p. R (''task.list'', p)"
  shows "emits R (\<lambda>x. well_built (listed_result x))
           (list_tasks \<lparr>lt_state = s, lt_assignee = a, lt_view = Some View_list\<rparr> (logged_deps f interval room validator))"
  unfolding list_tasks_def Let_def logged_deps_fields
  by (intro sends_intros assms) (simp_all add: listed_result_def)

text \<open>The key a dispatch carries: the client's, or the one derived from the task id.\<close>

definition dispatch_key :: "dispatch_task_input \<Rightarrow> string" where
  "dispatch_key input = or_default (di_idempotency_key input) (taskDispatchKey (di_task_id input))"

definition start_request :: "request \<Rightarrow> bool" where
  "start_request r = (fst r = ''call.start'' \<or> fst r = ''exec.start'')"

definition carries_key :: "string \<Rightarrow> request \<Rightarrow> bool" where
  "carries_key key r = (\<exists>ob. snd r = JObj ob \<and> jget ob ''idempotency_key'' = JStr key)"

definition keyed_start :: "string \<Rightarrow> request \<Rightarrow> bool" where
  "keyed_start key r =
     (if start_request r then carries_key key r
      else fst r \<in> {''task.list'', ''agent.tools'', ''invocation.get''})"

lemma keyed_start_others [simp]:
  "keyed_start key (''task.list'', p)" "keyed_start key (''agent.tools'', p)" "keyed_start key (''invocation.get'', p)"
  by (simp_all add: keyed_start_def start_request_def)

lemma keyed_start_params [simp]:
  "keyed_start key (''call.start'', JObj (call_start_params di room key))"
  "keyed_start key (''exec.start'', JObj (exec_start_params ri room key))"
  by (simp_all add: keyed_start_def start_request_def carries_key_def call_start_params_def
      exec_start_params_def jget_append jget_opt_field)

lemma run_dispatch_emits:
  "emits (keyed_start (dispatch_key input)) well_built
     (run_dispatch ajv input target dispatch (logged_deps f interval room validator))"
proof (cases dispatch)
  case (DispatchTool tool args)
  then show ?thesis
    by (auto simp: run_dispatch_def dispatch_key_def Let_def intro!: delegate_emits)
next
  case (DispatchExec command command_args cwd)
  then show ?thesis
    by (auto simp: run_dispatch_def dispatch_key_def Let_def intro!: run_command_emits)
qed

lemma dispatch_emits:
  "emits (keyed_start (dispatch_key input)) well_built (mxDispatchTask ajv input (logged_deps f interval room validator))"
  unfolding mxDispatchTask_def
  by (intro sends_if sends_resolve sends_await [OF list_view_emits] sends_sum)
     (auto simp: listed_result_def intro!: sends_sum sends_resolve run_dispatch_emits
        split: prod.splits)

lemma keyed_start_methods:
  "keyed_start key r \<Longrightarrow> fst r \<in> set [''task.list'', ''agent.tools'', ''invocation.get'', ''call.start'', ''exec.start'']"
  by (auto simp: keyed_start_def start_request_def split: if_splits)

interpretation dispatch_task: verb_handler
  "mxDispatchTask ajv input (logged_deps f interval room validator)"
  "[''task.list'', ''agent.tools'', ''invocation.get'', ''call.start'', ''exec.start'']"
proof
  show "sends (set [''task.list'', ''agent.tools'', ''invocation.get'', ''call.start'', ''exec.start'']) well_built
          (mxDispatchTask ajv input (logged_deps f interval room validator))"
    by (rule emits_weaken [OF dispatch_emits]) (assumption, rule keyed_start_methods)
  show "list_all (\<lambda>m. \<not> isForbiddenAuthorityVerb m)
          [''task.list'', ''agent.tools'', ''invocation.get'', ''call.start'', ''exec.start'']"
    by code_simp
qed

section \<open>Traces\<close>

definition tools_request :: "delegate_tool_input \<Rightarrow> request" where
  "tools_request input = (''agent.tools'', JObj [(''agent_id'', JStr (dt_agent input))])"

definition first_reply :: "'d service \<Rightarrow> request \<Rightarrow> ('d \<times> request list) host \<Rightarrow> thrown + json" where
  "first_reply f req h = fst (serve (logging f) (fst req) (snd req) h)"

lemma call_or_logged:
  "\<exists>h'. requests h' = requests h @ [(m, p)]
     \<and> call_or (serve (logging f)) m p on_err on_ok h =
         (case first_reply f (m, p) h of Inl e \<Rightarrow> on_err e h' | Inr raw \<Rightarrow> on_ok raw h')"
  by (rule exI [of _ "snd (serve (logging f) m p h)"])
     (simp add: call_or_def first_reply_def split_beta split: sum.split)

text \<open>After the checks: one start request, then nothing but polls.\<close>

definition started_once :: "request \<Rightarrow> request list \<Rightarrow> bool" where
  "started_once start rs =
     (\<exists>polls. rs = start # polls \<and> list_all (\<lambda>r. fst r \<in> {''invocation.get''}) polls)"

lemma start_trace:
  "\<exists>r h' rs. call_or (serve (logging f)) m p (\<lambda>err. resolve (faultToResult err EMPTY_AUDIT_REF))
       (\<lambda>response. await_inline (callResponseToResult response) wait_ms (logged_deps f interval room validator)) h
         = Some (r, h') \<and> requests h' = requests h @ rs \<and> started_once (m, p) rs"
proof -
  let ?on_ok = "\<lambda>response. await_inline (callResponseToResult response) wait_ms (logged_deps f interval room validator)"
  obtain h1 where h1: "requests h1 = requests h @ [(m, p)]"
      "call_or (serve (logging f)) m p (\<lambda>err. resolve (faultToResult err EMPTY_AUDIT_REF)) ?on_ok h =
         (case first_reply f (m, p) h of Inl e \<Rightarrow> resolve (faultToResult e EMPTY_AUDIT_REF) h1 | Inr raw \<Rightarrow> ?on_ok raw h1)"
    using call_or_logged by blast
  have "emits (\<lambda>r. fst r \<in> {''invocation.get''}) well_built
      (case first_reply f (m, p) h of Inl e \<Rightarrow> resolve (faultToResult e EMPTY_AUDIT_REF) | Inr raw \<Rightarrow> ?on_ok raw)"
    by (intro sends_sum sends_resolve await_inline_emits) simp_all
  then obtain r h' polls where "(case first_reply f (m, p) h of
        Inl e \<Rightarrow> resolve (faultToResult e EMPTY_AUDIT_REF) | Inr raw \<Rightarrow> ?on_ok raw) h1 = Some (r, h')"
      "requests h' = requests h1 @ polls" "list_all (\<lambda>r. fst r \<in> {''invocation.get''}) polls"
    by (rule emitsE)
  with h1 show ?thesis
    by (intro exI [of _ r] exI [of _ h'] exI [of _ "(m, p) # polls"])
       (simp add: started_once_def split: sum.splits)
qed

lemma key_trace:
  fixes k :: "string \<Rightarrow> ('d \<times> request list, 'a) async"
  obtains u h1 where "requests h1 = requests h" "key_or_new key k h = k u h1" "key \<in> {None, Some u}"
proof (cases key)
  case None
  define h1 where "h1 = snd (randomUUID h)"
  have "requests h1 = requests h" by (simp add: h1_def randomUUID_def requests_def)
  moreover have "key_or_new key k h = k (IDEMPOTENCY_KEY_PREFIX @ fst (randomUUID h)) h1"
    by (simp add: None key_or_new_def newIdempotencyKey_def with_uuid_def split_beta h1_def)
  ultimately show ?thesis using that None by blast
next
  case (Some x)
  then show ?thesis using that [of h x] by (simp add: key_or_new_def)
qed

definition args_refused :: "schema_validator \<Rightarrow> published_tool \<Rightarrow> obj \<Rightarrow> bool" where
  "args_refused validator target args =
     (\<exists>schema validate. pt_input_schema target = Some schema \<and> validator (JObj schema) = Inr validate
        \<and> \<not> validate (JObj args))"

lemma validateArgs_refused:
  "args_refused validator target args \<longleftrightarrow> validateArgs target args validator \<noteq> None"
  by (auto simp: args_refused_def validateArgs_def split: option.split sum.split)

definition delegate_outcome ::
  "schema_validator \<Rightarrow> delegate_tool_input \<Rightarrow> string \<Rightarrow> thrown + json \<Rightarrow> obj tool_result \<Rightarrow> request list \<Rightarrow> bool" where
  "delegate_outcome validate input room reply r rs =
     (case reply of
        Inl err \<Rightarrow> rs = [] \<and> r = faultToResult err EMPTY_AUDIT_REF
      | Inr toolsResp \<Rightarrow>
          (case find_target (dt_tool input) toolsResp of
             None \<Rightarrow> rs = [] \<and> r = failureResult (Code not_found) EMPTY_AUDIT_REF
           | Some target \<Rightarrow>
               if args_refused validate target (dt_args input)
               then rs = [] \<and> r = failureResult (Code invalid_args) EMPTY_AUDIT_REF
               else \<exists>key. dt_idempotency_key input \<in> {None, Some key}
                      \<and> started_once (''call.start'', JObj (call_start_params input room key)) rs))"

lemma delegate_run:
  assumes "room \<noteq> []"
  shows "\<exists>r h' rs. mxDelegateTool ajv input (logged_deps f interval (Some room) validator) h = Some (r, h')
           \<and> requests h' = requests h @ tools_request input # rs
           \<and> delegate_outcome (or_default validator ajv) input room (first_reply f (tools_request input) h) r rs"
proof -
  let ?deps = "logged_deps f interval (Some room) validator"
  define on_ok where "on_ok = (\<lambda>toolsResp. case find_target (dt_tool input) toolsResp of
      None \<Rightarrow> resolve (failureResult (Code not_found) EMPTY_AUDIT_REF)
    | Some target \<Rightarrow> (case validateArgs target (dt_args input) (or_default validator ajv) of
        Some rejection \<Rightarrow> resolve rejection
      | None \<Rightarrow> key_or_new (dt_idempotency_key input) (\<lambda>key.
          call_or (serve (logging f)) ''call.start'' (JObj (call_start_params input room key))
            (\<lambda>err. resolve (faultToResult err EMPTY_AUDIT_REF))
            (\<lambda>response. await_inline (callResponseToResult response) (dt_wait_ms input) ?deps))))"
  have unfold: "mxDelegateTool ajv input ?deps =
      call_or (serve (logging f)) ''agent.tools'' (JObj [(''agent_id'', JStr (dt_agent input))])
        (\<lambda>err. resolve (faultToResult err EMPTY_AUDIT_REF)) on_ok"
    unfolding mxDelegateTool_def logged_deps_fields on_ok_def or_default_simps using assms
    by (simp add: room_missing_def)
  obtain h1 where h1: "requests h1 = requests h @ [tools_request input]"
      "mxDelegateTool ajv input ?deps h = (case first_reply f (tools_request input) h of
          Inl e \<Rightarrow> resolve (faultToResult e EMPTY_AUDIT_REF) h1 | Inr raw \<Rightarrow> on_ok raw h1)"
    using call_or_logged unfolding unfold tools_request_def by blast
  have ok: "\<exists>r h' rs. on_ok raw h1 = Some (r, h') \<and> requests h' = requests h1 @ rs
      \<and> delegate_outcome (or_default validator ajv) input room (Inr raw) r rs" for raw
  proof (cases "find_target (dt_tool input) raw")
    case None
    then show ?thesis by (simp add: on_ok_def delegate_outcome_def resolve_def)
  next
    case (Some target)
    show ?thesis
    proof (cases "validateArgs target (dt_args input) (or_default validator ajv)")
      case None
      obtain u h2 where "requests h2 = requests h1" "dt_idempotency_key input \<in> {None, Some u}"
          "on_ok raw h1 = call_or (serve (logging f)) ''call.start'' (JObj (call_start_params input room u))
            (\<lambda>err. resolve (faultToResult err EMPTY_AUDIT_REF))
            (\<lambda>response. await_inline (callResponseToResult response) (dt_wait_ms input) ?deps) h2"
        unfolding on_ok_def Some None option.case by (rule key_trace)
      with start_trace Some None show ?thesis
        unfolding delegate_outcome_def sum.case validateArgs_refused by fastforce
    next
      case (Some rejection)
      then have "rejection = failureResult (Code invalid_args) EMPTY_AUDIT_REF"
        by (auto simp: validateArgs_def split: option.splits sum.splits if_splits)
      with Some \<open>find_target (dt_tool input) raw = Some target\<close> show ?thesis
        by (simp add: on_ok_def delegate_outcome_def validateArgs_refused resolve_def)
    qed
  qed
  show ?thesis
  proof (cases "first_reply f (tools_request input) h")
    case (Inl e)
    with h1 show ?thesis by (simp add: delegate_outcome_def resolve_def)
  next
    case (Inr raw)
    with h1 ok [of raw] show ?thesis by auto
  qed
qed

text \<open>
  C2. Delegation starts work at most once, and only on arguments the target accepts. With a room
  configured, \<open>mx_delegate_tool\<close> first asks the target agent for its tools. A fault, a tool the
  agent does not publish (or not in the version asked for), or arguments that the published input
  schema rejects end the call there, with the fault, \<open>not_found\<close> or \<open>invalid_args\<close>. Otherwise
  exactly one \<open>call.start\<close> is sent, with the session's room, the model's agent, tool and
  arguments, and the client's idempotency key if there is one; after it only \<open>invocation.get\<close>.
\<close>

theorem delegate_trace:
  assumes "room \<noteq> []"
  shows "\<exists>r h' rs. mxDelegateTool ajv input (logged_deps f interval (Some room) validator) h = Some (r, h')
           \<and> requests h' = requests h @ tools_request input # rs
           \<and> delegate_outcome (or_default validator ajv) input room (first_reply f (tools_request input) h) r rs"
  using assms by (rule delegate_run)

text \<open>A daemon whose agents publish one tool that takes any object.\<close>

definition echo_service :: "unit service" where
  "echo_service d t m p =
     (Inr (if m = ''agent.tools''
           then JObj [(''schemas'', JArr [JObj [(''name'', JStr ''echo''), (''input_schema'', JObj [])]])]
           else JObj [(''state'', JStr ''succeeded'')]), (), 0)"

definition echo_input :: delegate_tool_input where
  "echo_input = \<lparr>dt_agent = ''a'', dt_tool = ''echo'', dt_args = [], dt_wait_ms = None,
                 dt_idempotency_key = Some ''k1''\<rparr>"

theorem delegate_trace_witness:
  "\<exists>r h' rs. mxDelegateTool accept_all echo_input (logged_deps echo_service None (Some ''!room'') None) (idle_host ((), []))
       = Some (r, h')
     \<and> requests h' = tools_request echo_input # rs
     \<and> started_once (''call.start'', JObj (call_start_params echo_input ''!room'' ''k1'')) rs"
proof -
  let ?h = "idle_host ((), []) :: (unit \<times> request list) host"
  have room: "''!room'' \<noteq> []" by simp
  obtain r h' rs where t: "mxDelegateTool accept_all echo_input (logged_deps echo_service None (Some ''!room'') None) ?h
        = Some (r, h')" "requests h' = requests ?h @ tools_request echo_input # rs"
      "delegate_outcome accept_all echo_input ''!room'' (first_reply echo_service (tools_request echo_input) ?h) r rs"
    using delegate_trace [OF room, of accept_all echo_input echo_service None None ?h] by auto
  have reply: "first_reply echo_service (tools_request echo_input) ?h
      = Inr (JObj [(''schemas'', JArr [JObj [(''name'', JStr ''echo''), (''input_schema'', JObj [])]])])"
    by code_simp
  have "delegate_outcome accept_all echo_input ''!room'' (Inr raw) r rs \<Longrightarrow>
      find_target ''echo'' raw = Some target \<Longrightarrow> validateArgs target [] accept_all = None \<Longrightarrow>
      started_once (''call.start'', JObj (call_start_params echo_input ''!room'' ''k1'')) rs" for raw target
    by (simp add: delegate_outcome_def validateArgs_refused echo_input_def)
  moreover have "find_target ''echo'' (JObj [(''schemas'', JArr [JObj [(''name'', JStr ''echo''), (''input_schema'', JObj [])]])])
      = Some \<lparr>pt_name = ''echo'', pt_version = None, pt_description = None, pt_input_schema = Some [], pt_output_schema = None\<rparr>"
    by code_simp
  moreover have "validateArgs \<lparr>pt_name = ''echo'', pt_version = None, pt_description = None, pt_input_schema = Some [],
      pt_output_schema = None\<rparr> [] accept_all = None" by code_simp
  ultimately have "started_once (''call.start'', JObj (call_start_params echo_input ''!room'' ''k1'')) rs"
    using t(3) unfolding reply by blast
  with t show ?thesis by (auto simp: requests_def idle_host_def)
qed

text \<open>
  Re-dispatching a task is idempotent. Every start request a task dispatch sends carries one
  idempotency key: the client's, or else \<open>idk_task_\<close> followed by the task id, which depends on
  nothing but the task; the only other requests are the listing, the tool lookup and polls.
\<close>

theorem dispatch_key_stable:
  "\<exists>r h' rs. mxDispatchTask ajv input (logged_deps f interval room validator) h = Some (r, h')
     \<and> requests h' = requests h @ rs \<and> list_all (keyed_start (dispatch_key input)) rs"
  using dispatch_emits unfolding emits_def by blast

lemma dispatch_plan_Inr:
  "dispatch_plan task_id tasks = Inr (target, dispatch) \<longleftrightarrow>
     (\<exists>node action. List.find (\<lambda>t. n_task_id t = task_id) tasks = Some node
        \<and> n_state node \<noteq> State Succeeded \<and> n_state node \<noteq> State Failed
        \<and> n_action node = Some action \<and> actionToDispatch action = Inr dispatch
        \<and> n_assignee node = Some target \<and> target \<noteq> [])"
  by (auto simp: dispatch_plan_def split: option.splits sum.splits if_splits)

definition list_request :: "string \<Rightarrow> request" where
  "list_request room = (''task.list'', JObj [(''room'', JStr room)])"

text \<open>
  Only a ready task is started. When the task is not listed, is already succeeded or failed,
  has no action that can run, or nobody is assigned to it, the dispatch answers with the failure
  and sends nothing to the daemon after the listing.
\<close>

theorem dispatch_refused:
  assumes "room \<noteq> []" and "di_task_id input \<noteq> []"
    and "first_reply f (list_request room) h = Inr reply"
    and "dispatch_plan (di_task_id input) (map projectTaskNode (readTaskRows reply)) = Inl code"
  shows "\<exists>h'. mxDispatchTask ajv input (logged_deps f interval (Some room) validator) h
               = Some (failureResult (Code code) EMPTY_AUDIT_REF, h')
             \<and> requests h' = requests h @ [list_request room]"
proof -
  have params: "list_filters \<lparr>lt_state = None, lt_assignee = None, lt_view = Some View_list\<rparr> (Some room)
      = snd (list_request room)"
    using assms(1) by (simp add: list_filters_def room_missing_def list_request_def)
  define h1 where "h1 = snd (serve (logging f) ''task.list'' (snd (list_request room)) h)"
  have log: "requests h1 = requests h @ [list_request room]"
    by (simp add: h1_def list_request_def)
  have reply: "fst (serve (logging f) ''task.list'' (snd (list_request room)) h) = Inr reply"
    using assms(3) by (simp add: first_reply_def list_request_def)
  have "list_tasks \<lparr>lt_state = None, lt_assignee = None, lt_view = Some View_list\<rparr>
      (logged_deps f interval (Some room) validator) h = Some (Inr (map projectTaskNode (readTaskRows reply), None), h1)"
    using reply unfolding list_tasks_def Let_def logged_deps_fields params call_or_def h1_def
    by (cases "serve (logging f) ''task.list'' (snd (list_request room)) h") (simp add: resolve_def)
  then have "mxDispatchTask ajv input (logged_deps f interval (Some room) validator) h
      = Some (failureResult (Code code) EMPTY_AUDIT_REF, h1)"
    using assms(1,2,4) by (simp add: mxDispatchTask_def room_missing_def await_def resolve_def)
  with log show ?thesis by blast
qed

definition done_service :: "unit service" where
  "done_service d t m p =
     (Inr (JArr [JObj [(''task_id'', JStr ''t1''), (''state'', JStr ''Done''), (''assignee'', JStr ''a''),
        (''action'', JObj [(''kind'', JStr ''tool''), (''tool'', JStr ''echo'')])]]), (), 0)"

theorem dispatch_refused_witness:
  "\<exists>h'. mxDispatchTask accept_all \<lparr>di_task_id = ''t1'', di_wait_ms = None, di_idempotency_key = None\<rparr>
          (logged_deps done_service None (Some ''!room'') None) (idle_host ((), []))
        = Some (failureResult (Code invalid_args) EMPTY_AUDIT_REF, h')
      \<and> requests h' = requests (idle_host ((), [])) @ [list_request ''!room'']"
  by (rule dispatch_refused [where reply = "JArr [JObj [(''task_id'', JStr ''t1''), (''state'', JStr ''Done''),
        (''assignee'', JStr ''a''), (''action'', JObj [(''kind'', JStr ''tool''), (''tool'', JStr ''echo'')])]]"])
     code_simp+

end
