(* ===== verification/Inputs.thy ===== *)
theory Inputs
  imports Delegation
begin

text \<open>
  The arguments of a tool call as the bindings hand them to the handlers: an untyped object that the
  source casts to the handler's input type. A table gives, verb by verb, the fields of that type
  (the \<open>*Input\<close> interfaces of packages/registry/src/handlers); \<open>typed_args\<close> says when an object has
  the type, and one reader per verb gives the typed value. The theorem of this theory connects the type with
  the input schema the descriptor of the verb publishes.
\<close>

section \<open>Field types\<close>

datatype fkind =
    KStr
  | KNum
  | KStrs
  | KObj
  | KOneOf "string list"
  | KRec "(string \<times> fkind \<times> bool) list"

type_synonym field_type = "string \<times> fkind \<times> bool"

fun has_kind :: "fkind \<Rightarrow> json \<Rightarrow> bool" where
  "has_kind KStr v = (readString v \<noteq> None)"
| "has_kind KNum v = (case v of JNum _ \<Rightarrow> True | _ \<Rightarrow> False)"
| "has_kind KStrs v = (case v of JArr xs \<Rightarrow> list_all (\<lambda>x. readString x \<noteq> None) xs | _ \<Rightarrow> False)"
| "has_kind KObj v = (asRecord v \<noteq> None)"
| "has_kind (KOneOf vs) v = (case v of JStr s \<Rightarrow> s \<in> set vs | _ \<Rightarrow> False)"
| "has_kind (KRec fs) v =
     (case v of
        JObj ob \<Rightarrow> list_all (\<lambda>(k, kd, req). if jget ob k = JUndef then \<not> req else has_kind kd (jget ob k)) fs
      | _ \<Rightarrow> False)"

section \<open>The input types of the verbs\<close>

definition state_names :: "string list" where
  "state_names = map task_state_name TASK_STATES"

definition action_fields :: "field_type list" where
  "action_fields =
     [(''kind'', KOneOf [''tool'', ''exec''], True), (''tool'', KStr, False), (''args'', KObj, False),
      (''command'', KStr, False), (''command_args'', KStrs, False), (''cwd'', KStr, False)]"

definition INPUT_TYPES :: "(string \<times> field_type list) list" where
  "INPUT_TYPES =
     [(''mx_find_agents'',
        [(''capability'', KStr, False), (''tool'', KStr, False),
         (''liveness'', KOneOf [''active'', ''stale'', ''offline''], False)]),
      (''mx_describe_agent'', [(''agent_id'', KStr, True)]),
      (''mx_await_result'', [(''handle'', KStr, True), (''wait_ms'', KNum, False)]),
      (''mx_cancel'', [(''handle'', KStr, True)]),
      (''mx_delegate_tool'',
        [(''agent'', KStr, True), (''tool'', KStr, True), (''args'', KObj, True), (''wait_ms'', KNum, False),
         (''idempotency_key'', KStr, False)]),
      (''mx_run_command'',
        [(''agent'', KStr, True), (''command'', KStr, True), (''args'', KStrs, False), (''cwd'', KStr, False),
         (''wait_ms'', KNum, False), (''idempotency_key'', KStr, False)]),
      (''mx_share_context'',
        [(''kind'', KOneOf [''file'', ''diff'', ''env''], True), (''path'', KStr, False), (''content'', KStr, False),
         (''encoding'', KOneOf [''utf-8'', ''base64''], False)]),
      (''mx_get_context'', [(''context_id'', KStr, True)]),
      (''mx_workspace_status'', []),
      (''mx_create_task'',
        [(''title'', KStr, True), (''depends_on'', KStrs, False), (''blocks'', KStrs, False), (''assign'', KStr, False),
         (''state'', KOneOf state_names, False), (''action'', KRec action_fields, False),
         (''idempotency_key'', KStr, False)]),
      (''mx_update_task'',
        [(''task_id'', KStr, True), (''state'', KOneOf state_names, False), (''assign'', KStr, False),
         (''depends_on'', KStrs, False), (''blocks'', KStrs, False), (''idempotency_key'', KStr, False)]),
      (''mx_list_tasks'',
        [(''state'', KOneOf state_names, False), (''assignee'', KStr, False),
         (''view'', KOneOf [''list'', ''graph''], False)]),
      (''mx_dispatch_task'',
        [(''task_id'', KStr, True), (''wait_ms'', KNum, False), (''idempotency_key'', KStr, False)])]"

definition typed_args :: "string \<Rightarrow> obj \<Rightarrow> bool" where
  "typed_args verb args =
     (case map_of INPUT_TYPES verb of Some fs \<Rightarrow> has_kind (KRec fs) (JObj args) | None \<Rightarrow> False)"

section \<open>The typed values\<close>

text \<open>The value the cast denotes, for arguments of the type.\<close>

definition str_field :: "obj \<Rightarrow> string \<Rightarrow> string" where
  "str_field args k = or_default (readString (jget args k)) []"

definition num_field :: "obj \<Rightarrow> string \<Rightarrow> jsnum option" where
  "num_field args k = (case jget args k of JNum n \<Rightarrow> Some n | _ \<Rightarrow> None)"

definition strs_field :: "obj \<Rightarrow> string \<Rightarrow> string list option" where
  "strs_field args k = read_array (jget args k)"

definition state_field :: "obj \<Rightarrow> string \<Rightarrow> task_state option" where
  "state_field args k = Option.bind (readString (jget args k)) (\<lambda>s. List.find (\<lambda>st. task_state_name st = s) TASK_STATES)"

definition liveness_field :: "obj \<Rightarrow> string \<Rightarrow> agent_liveness option" where
  "liveness_field args k = map_option (\<lambda>s. readLiveness (JStr s)) (readString (jget args k))"

definition share_kind_field :: "obj \<Rightarrow> share_kind option" where
  "share_kind_field args =
     (if jget args ''kind'' = JStr ''file'' then Some File
      else if jget args ''kind'' = JStr ''diff'' then Some Diff
      else if jget args ''kind'' = JStr ''env'' then Some Env else None)"

definition view_field :: "obj \<Rightarrow> task_view option" where
  "view_field args =
     (if jget args ''view'' = JStr ''list'' then Some View_list
      else if jget args ''view'' = JStr ''graph'' then Some View_graph else None)"

definition action_field :: "obj \<Rightarrow> task_action option" where
  "action_field args =
     map_option (\<lambda>a. \<lparr>a_kind = or_default (action_kind_of (jget a ''kind'')) Tool,
       a_tool = readString (jget a ''tool''), a_args = asRecord (jget a ''args''),
       a_command = readString (jget a ''command''), a_command_args = strs_field a ''command_args'',
       a_cwd = readString (jget a ''cwd'')\<rparr>) (asRecord (jget args ''action''))"

abbreviation opt_str :: "obj \<Rightarrow> string \<Rightarrow> string option" where
  "opt_str args k \<equiv> readString (jget args k)"

definition find_agents_of :: "obj \<Rightarrow> find_agents_input" where
  "find_agents_of args =
     \<lparr>fa_capability = opt_str args ''capability'', fa_tool = opt_str args ''tool'',
      fa_liveness = liveness_field args ''liveness''\<rparr>"

definition delegate_tool_of :: "obj \<Rightarrow> delegate_tool_input" where
  "delegate_tool_of args =
     \<lparr>dt_agent = str_field args ''agent'', dt_tool = str_field args ''tool'',
      dt_args = or_default (asRecord (jget args ''args'')) [], dt_wait_ms = num_field args ''wait_ms'',
      dt_idempotency_key = opt_str args ''idempotency_key''\<rparr>"

definition run_command_of :: "obj \<Rightarrow> run_command_input" where
  "run_command_of args =
     \<lparr>rc_agent = str_field args ''agent'', rc_command = str_field args ''command'', rc_args = strs_field args ''args'',
      rc_cwd = opt_str args ''cwd'', rc_wait_ms = num_field args ''wait_ms'',
      rc_idempotency_key = opt_str args ''idempotency_key''\<rparr>"

definition share_context_of :: "obj \<Rightarrow> share_context_input" where
  "share_context_of args =
     \<lparr>sc_kind = share_kind_field args, sc_path = opt_str args ''path'', sc_content = opt_str args ''content'',
      sc_encoding = opt_str args ''encoding''\<rparr>"

definition create_task_of :: "obj \<Rightarrow> create_task_input" where
  "create_task_of args =
     \<lparr>ct_title = str_field args ''title'', ct_depends_on = strs_field args ''depends_on'',
      ct_blocks = strs_field args ''blocks'', ct_assign = opt_str args ''assign'',
      ct_state = state_field args ''state'', ct_action = action_field args,
      ct_idempotency_key = opt_str args ''idempotency_key''\<rparr>"

definition update_task_of :: "obj \<Rightarrow> update_task_input" where
  "update_task_of args =
     \<lparr>ut_task_id = str_field args ''task_id'', ut_state = state_field args ''state'',
      ut_assign = opt_str args ''assign'', ut_depends_on = strs_field args ''depends_on'',
      ut_blocks = strs_field args ''blocks'', ut_idempotency_key = opt_str args ''idempotency_key''\<rparr>"

definition list_tasks_of :: "obj \<Rightarrow> list_tasks_input" where
  "list_tasks_of args =
     \<lparr>lt_state = state_field args ''state'', lt_assignee = opt_str args ''assignee'', lt_view = view_field args\<rparr>"

definition dispatch_task_of :: "obj \<Rightarrow> dispatch_task_input" where
  "dispatch_task_of args =
     \<lparr>di_task_id = str_field args ''task_id'', di_wait_ms = num_field args ''wait_ms'',
      di_idempotency_key = opt_str args ''idempotency_key''\<rparr>"

section \<open>Schemas that guarantee a field type\<close>

fun kind_schema :: "fkind \<Rightarrow> json \<Rightarrow> bool" where
  "kind_schema KStr sub = (jget (entries sub) ''type'' = JStr ''string'')"
| "kind_schema KNum sub = (jget (entries sub) ''type'' = JStr ''integer'')"
| "kind_schema KStrs sub =
     (jget (entries sub) ''type'' = JStr ''array''
      \<and> jget (entries (jget (entries sub) ''items'')) ''type'' = JStr ''string'')"
| "kind_schema KObj sub = (jget (entries sub) ''type'' = JStr ''object'')"
| "kind_schema (KOneOf vs) sub =
     (jget (entries sub) ''type'' = JStr ''string''
      \<and> (case jget (entries sub) ''enum'' of JArr es \<Rightarrow> list_all (\<lambda>e. e \<in> JStr ` set vs) es | _ \<Rightarrow> False))"
| "kind_schema (KRec fs) sub =
     (jget (entries sub) ''type'' = JStr ''object''
      \<and> list_all (\<lambda>(k, kd, req).
           has_key (entries (jget (entries sub) ''properties'')) k
           \<and> kind_schema kd (jget (entries (jget (entries sub) ''properties'')) k)
           \<and> (if req then (case jget (entries sub) ''required'' of JArr ks \<Rightarrow> JStr k \<in> set ks | _ \<Rightarrow> False) else True)) fs)"

text \<open>The keywords of an object schema, one at a time.\<close>

lemma schema_keywords:
  assumes "draft07 (JObj s) v"
  shows "type_ok (jget s ''type'') v" "enum_ok (jget s ''enum'') v" "required_ok (jget s ''required'') v"
    "case jget s ''properties'' of
       JObj ps \<Rightarrow> list_all (\<lambda>(k, sub). has_key (entries v) k \<longrightarrow> draft07 sub (jget (entries v) k)) ps | _ \<Rightarrow> True"
    "if jget s ''items'' = JUndef then True
     else case v of JArr xs \<Rightarrow> list_all (\<lambda>x. draft07 (jget s ''items'') x) xs | _ \<Rightarrow> True"
  using assms unfolding draft07.simps(1) by blast+

lemma typed_schema: "jget (entries sub) k = JStr t \<Longrightarrow> \<exists>s. sub = JObj s"
  by (cases sub) simp_all

lemma schema_type:
  assumes "draft07 sub v" and "jget (entries sub) ''type'' = JStr t"
  shows "json_has_type t v"
proof -
  obtain s where "sub = JObj s" using typed_schema assms(2) by blast
  with schema_keywords(1) [of s v] assms show ?thesis by simp
qed

lemma schema_property:
  assumes "draft07 sub (JObj ob)" and "has_key (entries (jget (entries sub) ''properties'')) k" and "has_key ob k"
  shows "draft07 (jget (entries (jget (entries sub) ''properties'')) k) (jget ob k)"
proof -
  obtain s where s: "sub = JObj s" using assms(2) by (cases sub) simp_all
  obtain ps where ps: "jget s ''properties'' = JObj ps" using assms(2) s by (cases "jget s ''properties''") simp_all
  have "(k, jget ps k) \<in> set ps"
  proof -
    have "map_of ps k \<noteq> None" using assms(2) s ps by (simp add: has_key_def map_of_eq_None_iff)
    then show ?thesis by (auto simp: jget_def dest: map_of_SomeD)
  qed
  moreover have "list_all (\<lambda>(k, sub). has_key ob k \<longrightarrow> draft07 sub (jget ob k)) ps"
    using schema_keywords(4) [of s "JObj ob"] assms(1) s ps by simp
  ultimately show ?thesis using assms(3) s ps by (auto simp: list_all_iff)
qed

lemma schema_required:
  assumes "draft07 sub (JObj ob)" and "jget (entries sub) ''required'' = JArr ks" and "JStr k \<in> set ks"
  shows "jget ob k \<noteq> JUndef"
proof -
  obtain s where s: "sub = JObj s" using assms(2) by (cases sub) simp_all
  have "required_ok (JArr ks) (JObj ob)" using schema_keywords(3) [of s "JObj ob"] assms(1,2) s by simp
  with assms(3) show ?thesis by (auto simp: list_all_iff)
qed

lemma has_type_values:
  "json_has_type ''string'' v \<Longrightarrow> \<exists>s. v = JStr s"
  "json_has_type ''integer'' v \<Longrightarrow> \<exists>n. v = JNum n"
  "json_has_type ''array'' v \<Longrightarrow> \<exists>xs. v = JArr xs"
  "json_has_type ''object'' v \<Longrightarrow> \<exists>ob. v = JObj ob"
  by (cases v; simp add: json_has_type_def)+

lemma schema_record:
  assumes "draft07 sub (JObj ob)" and "has_key (entries (jget (entries sub) ''properties'')) k"
    and "\<And>v. draft07 (jget (entries (jget (entries sub) ''properties'')) k) v \<Longrightarrow> has_kind kd v"
    and "if req then (case jget (entries sub) ''required'' of JArr ks \<Rightarrow> JStr k \<in> set ks | _ \<Rightarrow> False) else True"
  shows "if jget ob k = JUndef then \<not> req else has_kind kd (jget ob k)"
proof (cases "jget ob k = JUndef")
  case True
  have "\<not> req"
  proof
    assume req
    with assms(4) obtain ks where "jget (entries sub) ''required'' = JArr ks" "JStr k \<in> set ks"
      by (cases "jget (entries sub) ''required''") simp_all
    with schema_required [OF assms(1)] True show False by blast
  qed
  with True show ?thesis by simp
next
  case False
  then have "map_of ob k \<noteq> None" by (auto simp: jget_def split: option.splits)
  then have "has_key ob k" by (simp add: has_key_def map_of_eq_None_iff)
  with assms(3) schema_property [OF assms(1,2)] False show ?thesis by simp
qed

lemma schema_guarantees_kind: "kind_schema kd sub \<Longrightarrow> draft07 sub v \<Longrightarrow> has_kind kd v"
proof (induction kd arbitrary: sub v)
  case KStr
  then show ?case using schema_type [OF KStr(2)] has_type_values(1) [of v] by fastforce
next
  case KNum
  then show ?case using schema_type [OF KNum(2)] has_type_values(2) [of v] by fastforce
next
  case KStrs
  let ?items = "jget (entries sub) ''items''"
  obtain xs where xs: "v = JArr xs" using schema_type [OF KStrs(2)] has_type_values(3) [of v] KStrs(1) by auto
  obtain s where s: "sub = JObj s" using typed_schema KStrs(1) by (metis kind_schema.simps(3))
  have "?items \<noteq> JUndef" using KStrs(1) by (cases ?items) simp_all
  then have "draft07 ?items x" if "x \<in> set xs" for x
    using schema_keywords(5) [of s v] KStrs(2) s xs that by (simp add: list_all_iff)
  then have "readString x \<noteq> None" if "x \<in> set xs" for x
    using schema_type [of ?items x "''string''"] has_type_values(1) [of x] KStrs(1) that by auto
  then show ?case using xs by (simp add: list_all_iff)
next
  case KObj
  then show ?case using schema_type [OF KObj(2)] has_type_values(4) [of v] by fastforce
next
  case (KOneOf vs)
  obtain es where es: "jget (entries sub) ''enum'' = JArr es" "list_all (\<lambda>e. e \<in> JStr ` set vs) es"
    using KOneOf.prems(1) by (cases "jget (entries sub) ''enum''") simp_all
  obtain s where s: "sub = JObj s" using typed_schema KOneOf.prems(1) by (metis kind_schema.simps(5))
  have "v \<in> set es" using schema_keywords(2) [of s v] KOneOf.prems(2) es s by (auto simp: list_ex_iff)
  with es(2) show ?case by (auto simp: list_all_iff)
next
  case (KRec fs)
  obtain ob where v: "v = JObj ob"
    using schema_type [OF KRec.prems(2)] has_type_values(4) [of v] KRec.prems(1) by auto
  have "if jget ob k = JUndef then \<not> req else has_kind kd (jget ob k)" if f: "(k, kd, req) \<in> set fs" for k kd req
  proof (rule schema_record [of sub])
    show "draft07 sub (JObj ob)" using KRec.prems(2) v by simp
    show "has_key (entries (jget (entries sub) ''properties'')) k"
      and "if req then (case jget (entries sub) ''required'' of JArr ks \<Rightarrow> JStr k \<in> set ks | _ \<Rightarrow> False) else True"
      using KRec.prems(1) f by (auto simp: list_all_iff)
    have "kind_schema kd (jget (entries (jget (entries sub) ''properties'')) k)"
      using KRec.prems(1) f by (auto simp: list_all_iff)
    then show "draft07 (jget (entries (jget (entries sub) ''properties'')) k) v \<Longrightarrow> has_kind kd v" for v
      using KRec.IH [of "(k, kd, req)" "(kd, req)" kd] f by (simp add: snds.simps fsts.simps)
  qed
  then show ?case unfolding v has_kind.simps json.case list_all_iff by blast
qed

section \<open>Property\<close>

text \<open>The descriptor of every verb publishes a schema that guarantees the input type of its handler.\<close>

definition guarantees :: "json \<Rightarrow> bool" where
  "guarantees d =
     (case map_of INPUT_TYPES (descriptor_name d) of
        Some fs \<Rightarrow> kind_schema (KRec fs) (read_field d ''input_schema'')
      | None \<Rightarrow> False)"

lemma canonical_guarantees: "list_all guarantees CANONICAL_TOOLS"
  by code_simp

lemma canonical_typed:
  assumes "d \<in> set CANONICAL_TOOLS" and "draft07 (read_field d ''input_schema'') (JObj args)"
  shows "typed_args (descriptor_name d) args"
proof -
  have "guarantees d" using canonical_guarantees assms(1) by (simp only: list_all_iff)
  then obtain fs where "map_of INPUT_TYPES (descriptor_name d) = Some fs"
      "kind_schema (KRec fs) (read_field d ''input_schema'')"
    unfolding guarantees_def by (cases "map_of INPUT_TYPES (descriptor_name d)") (simp_all only: option.case)
  with schema_guarantees_kind [OF _ assms(2), of "KRec fs"] show ?thesis
    by (simp only: typed_args_def option.case)
qed

text \<open>
  C18. The published schemas keep the handlers' types. For every canonical tool, arguments that its
  input schema accepts (draft-07) have the type its handler assumes: every required field is
  there, and every field present has the declared type. So a binding that validates against the
  descriptor first never hands a handler a value its unchecked cast is wrong about.
\<close>

theorem schema_guarantees_input:
  assumes "d \<in> set CANONICAL_TOOLS" and "draft07 (read_field d ''input_schema'') (JObj args)"
  shows "typed_args (descriptor_name d) args"
  using assms by (rule canonical_typed)

theorem schema_guarantees_input_witness:
  "typed_args (descriptor_name MX_DELEGATE_TOOL)
     [(''agent'', JStr ''a''), (''tool'', JStr ''t''), (''args'', JObj []), (''wait_ms'', JNum (Fin 5))]"
proof (rule schema_guarantees_input)
  show "MX_DELEGATE_TOOL \<in> set CANONICAL_TOOLS"
    by (simp add: CANONICAL_TOOLS_def CANONICAL_M1_TOOLS_def)
  show "draft07 (read_field MX_DELEGATE_TOOL ''input_schema'')
     (JObj [(''agent'', JStr ''a''), (''tool'', JStr ''t''), (''args'', JObj []), (''wait_ms'', JNum (Fin 5))])"
    by code_simp
qed

end
