(* ===== verification/Audit_Trail.thy ===== *)
theory Audit_Trail
  imports Envelope Edges Ipc
begin

text \<open>
  The audit trail (packages/audit/src): the row a finished call leaves (row.ts, project.ts), the
  sinks that keep rows (sink.ts, postgres.ts) and the tap that records one row per call without
  touching the call's result (with-audit.ts). A sink is an interface, stated as a locale: it keeps
  the first row of every deduplication key. The in-memory sink and the PostgreSQL sink interpret
  it, the latter over any database that executes the one \<open>INSERT\<close> statement as its conflict clause
  says.
\<close>

section \<open>Rows\<close>

record audit_row =
  row_invocation_id :: "string option"
  row_request_id :: "string option"
  row_room :: "string option"
  row_event_id :: "string option"
  row_tool_name :: string
  row_correlation_id :: "string option"
  row_idempotency_key :: "string option"
  row_status :: tool_status
  row_error_code :: "code_value option"
  row_approval_request_id :: "string option"
  row_dedup_key :: string

record audit_context =
  ac_tool_name :: string
  ac_call_id :: string
  ac_correlation_id :: "string option"
  ac_idempotency_key :: "string option"

text \<open>The empty-set sign, in UTF-8.\<close>

definition NULL_INVOCATION :: string where
  "NULL_INVOCATION = [CHR 0xE2, CHR 0x88, CHR 0x85]"

definition deriveDedupKey :: "string \<Rightarrow> tool_status \<Rightarrow> string option \<Rightarrow> string" where
  "deriveDedupKey callId status invocationId =
     callId @ '':'' @ status_name status @ '':'' @ or_default invocationId NULL_INVOCATION"

definition auditRowFrom :: "'a tool_result \<Rightarrow> audit_context \<Rightarrow> audit_row" where
  "auditRowFrom r ctx =
     (let ref = r_audit_ref r in
      \<lparr>row_invocation_id = ref_invocation_id ref, row_request_id = ref_request_id ref,
       row_room = ref_room ref, row_event_id = ref_event_id ref,
       row_tool_name = ac_tool_name ctx, row_correlation_id = ac_correlation_id ctx,
       row_idempotency_key = ac_idempotency_key ctx,
       row_status = r_status r, row_error_code = map_option e_code (r_error r),
       row_approval_request_id = map_option ap_request_id (r_approval r),
       row_dedup_key = deriveDedupKey (ac_call_id ctx) (r_status r) (ref_invocation_id ref)\<rparr>)"

section \<open>Sinks\<close>

text \<open>\<open>record\<close> resolves or rejects; the rows of a sink are what it would show afterwards.\<close>

type_synonym 's sink_record = "audit_row \<Rightarrow> 's \<Rightarrow> (thrown + unit) \<times> 's"

record memory_sink =
  mk_rows :: "audit_row list"
  mk_seen :: "string list"

definition new_memory_sink :: memory_sink where
  "new_memory_sink = \<lparr>mk_rows = [], mk_seen = []\<rparr>"

definition memory_record :: "memory_sink sink_record" where
  "memory_record row s =
     (if row_dedup_key row \<in> set (mk_seen s) then (Inr (), s)
      else (Inr (), s\<lparr>mk_seen := mk_seen s @ [row_dedup_key row], mk_rows := mk_rows s @ [row]\<rparr>))"

definition memory_count :: "memory_sink \<Rightarrow> nat" where
  "memory_count s = length (mk_rows s)"

definition byInvocation :: "string \<Rightarrow> memory_sink \<Rightarrow> audit_row list" where
  "byInvocation i s = filter (\<lambda>r. row_invocation_id r = Some i) (mk_rows s)"

definition byCorrelation :: "string \<Rightarrow> memory_sink \<Rightarrow> audit_row list" where
  "byCorrelation c s = filter (\<lambda>r. row_correlation_id r = Some c) (mk_rows s)"

definition null_record :: "unit sink_record" where
  "null_record row s = (Inr (), s)"

section \<open>PostgreSQL\<close>

text \<open>
  The database is an argument: what a query answers and how it changes the database. The sink
  relies on one statement, and the columns of the row travel as its parameters.
\<close>

definition INSERT_SQL :: string where
  "INSERT_SQL =
     concat (map (\<lambda>line. CHR 0x0A # line)
       [''INSERT INTO mx_audit_log'',
        ''  (invocation_id, request_id, room, event_id,'',
        ''   tool_name, correlation_id, idempotency_key,'',
        ''   status, error_code, approval_request_id, dedup_key)'',
        ''VALUES ($1, $2, $3, $4, $5, $6, $7, $8, $9, $10, $11)'',
        ''ON CONFLICT (dedup_key) DO NOTHING'',
        []])"

definition code_value_json :: "code_value \<Rightarrow> json" where
  "code_value_json c = (case c of Code e \<Rightarrow> JStr (error_code_name e) | FunctionValue f \<Rightarrow> JUndef)"

definition row_params :: "audit_row \<Rightarrow> json list" where
  "row_params row =
     [str_opt (row_invocation_id row), str_opt (row_request_id row), str_opt (row_room row), str_opt (row_event_id row),
      JStr (row_tool_name row), str_opt (row_correlation_id row), str_opt (row_idempotency_key row),
      JStr (status_name (row_status row)), (case row_error_code row of None \<Rightarrow> JNull | Some c \<Rightarrow> code_value_json c),
      str_opt (row_approval_request_id row), JStr (row_dedup_key row)]"

type_synonym 'db pg_query = "string \<Rightarrow> json list \<Rightarrow> 'db \<Rightarrow> (thrown + unit) \<times> 'db"

definition postgres_record :: "'db pg_query \<Rightarrow> 'db sink_record" where
  "postgres_record query row db = query INSERT_SQL (row_params row) db"

text \<open>A migration is the text of a file, which is an argument.\<close>

definition postgres_migrate :: "'db pg_query \<Rightarrow> string \<Rightarrow> 'db \<Rightarrow> (thrown + unit) \<times> 'db" where
  "postgres_migrate query migration_sql db = query migration_sql [] db"

section \<open>The tap\<close>

record audit_base =
  ab_correlation_id :: "string option"
  ab_idempotency_key :: "string option"

record audit_per_call =
  pc_tool_name :: string
  pc_call_id :: string
  pc_idempotency_key :: "string option"

text \<open>\<open>{ ...baseCtx, ...perCall }\<close>\<close>

definition merge_context :: "audit_base \<Rightarrow> audit_per_call \<Rightarrow> audit_context" where
  "merge_context base per =
     \<lparr>ac_tool_name = pc_tool_name per, ac_call_id = pc_call_id per, ac_correlation_id = ab_correlation_id base,
      ac_idempotency_key = orelse (pc_idempotency_key per) (ab_idempotency_key base)\<rparr>"

text \<open>The result, the sink afterwards, and the key of a row that was dropped and logged.\<close>

definition withAudit ::
  "'s sink_record \<Rightarrow> audit_base \<Rightarrow> 'a tool_result \<Rightarrow> audit_per_call \<Rightarrow> 's \<Rightarrow> 'a tool_result \<times> string option \<times> 's" where
  "withAudit sink base r per s =
     (let row = auditRowFrom r (merge_context base per) in
      case sink row s of
        (Inr _, s') \<Rightarrow> (r, None, s')
      | (Inl err, s') \<Rightarrow> (r, Some (row_dedup_key row), s'))"

section \<open>What a sink promises\<close>

lemma push_edges_map:
  "push_edges key (map g es) (map g out) = map g (push_edges (\<lambda>e. key (g e)) es out)"
proof -
  have "fold (push_edge key) (map g es) (seen, map g out) =
      map_prod id (map g) (fold (push_edge (\<lambda>e. key (g e))) es (seen, out))" for seen
  proof (induction es arbitrary: seen out)
    case (Cons a es)
    from Cons.IH [of "seen @ [key (g a)]" "out @ [a]"] Cons.IH [of seen out] show ?case
      by (simp add: push_edge_def)
  qed simp
  then show ?thesis by (simp add: push_edges_def comp_def)
qed

text \<open>
  A sink stores one entry per row, found by the row's key, and keeps the first entry of every key; a
  rejected \<open>record\<close> stores nothing. \<open>wf\<close> is the invariant of the sink's own state.
\<close>

definition record_all :: "'s sink_record \<Rightarrow> audit_row list \<Rightarrow> 's \<Rightarrow> 's" where
  "record_all sink rows s = fold (\<lambda>row s. snd (sink row s)) rows s"

locale audit_sink =
  fixes sink_record :: "'s sink_record" and stored :: "'s \<Rightarrow> 'r list"
    and entry :: "audit_row \<Rightarrow> 'r" and key :: "'r \<Rightarrow> string" and wf :: "'s \<Rightarrow> bool"
  assumes entry_key: "key (entry row) = row_dedup_key row"
    and record_wf: "wf s \<Longrightarrow> wf (snd (sink_record row s))"
    and record_ok: "wf s \<Longrightarrow> sink_record row s = (Inr u, s') \<Longrightarrow>
      stored s' = (if row_dedup_key row \<in> key ` set (stored s) then stored s else stored s @ [entry row])"
    and record_failed: "wf s \<Longrightarrow> sink_record row s = (Inl e, s') \<Longrightarrow> stored s' = stored s"
begin

lemma record_distinct:
  "wf s \<Longrightarrow> distinct (map key (stored s)) \<Longrightarrow> distinct (map key (stored (snd (sink_record row s))))"
  using record_ok [of s row] record_failed [of s row] entry_key [of row]
  by (cases "sink_record row s"; cases "fst (sink_record row s)") auto

lemma record_present:
  "wf s \<Longrightarrow> \<not> isl (fst (sink_record row s)) \<Longrightarrow> row_dedup_key row \<in> key ` set (stored (snd (sink_record row s)))"
  using record_ok [of s row] entry_key [of row]
  by (cases "sink_record row s"; cases "fst (sink_record row s)") auto

lemma record_all_wf: "wf s \<Longrightarrow> wf (record_all sink_record rows s)"
  unfolding record_all_def by (induction rows arbitrary: s) (simp_all add: record_wf)

lemma record_all_distinct:
  "wf s \<Longrightarrow> distinct (map key (stored s)) \<Longrightarrow> distinct (map key (stored (record_all sink_record rows s)))"
  unfolding record_all_def by (induction rows arbitrary: s) (simp_all add: record_wf record_distinct)

text \<open>While nothing fails, what is stored is the recorded rows pruned to the first of each key.\<close>

lemma record_push:
  assumes "wf s" and "\<not> isl (fst (sink_record row s))"
  shows "push_edge key (entry row) (map key (stored s), stored s) =
     (map key (stored (snd (sink_record row s))), stored (snd (sink_record row s)))"
  using assms record_ok [OF assms(1), of row] entry_key [of row]
  by (cases "sink_record row s"; cases "fst (sink_record row s)") (auto simp: push_edge_def)

lemma record_all_stored:
  assumes "wf s" and "\<And>row s. wf s \<Longrightarrow> \<not> isl (fst (sink_record row s))"
  shows "stored (record_all sink_record rows s) = push_edges key (map entry rows) (stored s)"
proof -
  have "fold (push_edge key) (map entry rows) (map key (stored s), stored s) =
      (map key (stored (record_all sink_record rows s)), stored (record_all sink_record rows s))"
    using assms unfolding record_all_def
  proof (induction rows arbitrary: s)
    case (Cons row rows)
    from record_push [OF Cons.prems(1) Cons.prems(2) [OF Cons.prems(1)], of row]
      Cons.IH [OF record_wf [OF Cons.prems(1)] Cons.prems(2)] show ?case by simp
  qed simp
  then show ?thesis by (simp add: push_edges_def)
qed

end

definition memory_wf :: "memory_sink \<Rightarrow> bool" where
  "memory_wf s = (mk_seen s = map row_dedup_key (mk_rows s))"

interpretation memory: audit_sink memory_record mk_rows "\<lambda>row. row" row_dedup_key memory_wf
  by unfold_locales (auto simp: memory_record_def memory_wf_def split: if_splits)

section \<open>The database behind the PostgreSQL sink\<close>

text \<open>
  What the sink relies on: the unique index on \<open>dedup_key\<close> (migrations/0001\_mx\_audit\_log.sql) and the
  conflict clause make the statement keep the first row of every key, and a failed statement
  changes nothing. \<open>table\<close> reads the eleven columns of the stored rows, in insertion order.
\<close>

definition inserts_first :: "'db pg_query \<Rightarrow> ('db \<Rightarrow> json list list) \<Rightarrow> bool" where
  "inserts_first query table =
     (\<forall>params db. case query INSERT_SQL params db of
        (Inr _, db') \<Rightarrow> table db' = (if last params \<in> last ` set (table db) then table db else table db @ [params])
      | (Inl _, db') \<Rightarrow> table db' = table db)"

definition column_key :: "json list \<Rightarrow> string" where
  "column_key params = or_default (readString (last params)) []"

definition keyed_table :: "json list list \<Rightarrow> bool" where
  "keyed_table rows = list_all (\<lambda>params. \<exists>k. last params = JStr k) rows"

lemma keyed_member:
  "keyed_table rows \<Longrightarrow> JStr k \<in> last ` set rows \<longleftrightarrow> k \<in> column_key ` set rows"
proof (induction rows)
  case (Cons x rows)
  then obtain k' where "last x = JStr k'" by (auto simp: keyed_table_def)
  with Cons show ?case by (auto simp: keyed_table_def column_key_def)
qed simp

lemma postgres_insert:
  assumes "inserts_first query table" and "keyed_table (table db)"
  shows "postgres_record query row db = (Inr u, db') \<Longrightarrow>
      table db' = (if row_dedup_key row \<in> column_key ` set (table db) then table db else table db @ [row_params row])"
    and "postgres_record query row db = (Inl e, db') \<Longrightarrow> table db' = table db"
  using assms(1) [unfolded inserts_first_def, THEN spec, of "row_params row", THEN spec, of db]
    keyed_member [OF assms(2), of "row_dedup_key row"]
  by (auto simp: postgres_record_def row_params_def split: prod.splits sum.splits)

lemma postgres_keyed:
  assumes "inserts_first query table" and "keyed_table (table db)"
  shows "keyed_table (table (snd (postgres_record query row db)))"
proof -
  have "keyed_table [row_params row]" by (simp add: keyed_table_def row_params_def)
  with postgres_insert [OF assms, of row] assms(2) show ?thesis
    by (cases "postgres_record query row db"; cases "fst (postgres_record query row db)")
       (auto simp: keyed_table_def split: if_splits)
qed

lemma postgres_sink:
  assumes "inserts_first query table"
  shows "audit_sink (postgres_record query) table row_params column_key (\<lambda>db. keyed_table (table db))"
proof
  show "column_key (row_params row) = row_dedup_key row" for row
    by (simp add: column_key_def row_params_def)
qed (use postgres_insert [OF assms] postgres_keyed [OF assms] in blast)+

text \<open>A database that holds just this table.\<close>

definition one_table :: "json list list pg_query" where
  "one_table text params rows =
     (Inr (), if text \<noteq> INSERT_SQL \<or> last params \<in> last ` set rows then rows else rows @ [params])"

lemma one_table_inserts: "inserts_first one_table (\<lambda>rows. rows)"
  by (simp add: inserts_first_def one_table_def)

interpretation postgres: audit_sink "postgres_record one_table" "\<lambda>rows. rows" row_params column_key keyed_table
  by (rule postgres_sink [OF one_table_inserts])

section \<open>Properties\<close>


definition demo_ref :: audit_ref where
  "demo_ref = \<lparr>ref_invocation_id = Some ''inv-1'', ref_request_id = None, ref_room = None, ref_event_id = None\<rparr>"

definition demo_row :: "string \<Rightarrow> audit_row" where
  "demo_row call = auditRowFrom (ok () demo_ref)
     \<lparr>ac_tool_name = ''mx_find_agents'', ac_call_id = call, ac_correlation_id = None, ac_idempotency_key = None\<rparr>"


lemma status_name_inj: "status_name a = status_name b \<longleftrightarrow> a = b"
  by (cases a; cases b) (simp_all add: status_name_def)

lemma status_name_colon: "CHR '':'' \<notin> set (status_name st)"
  by (cases st) (simp_all add: status_name_def)

definition plain_ids :: "string \<times> tool_status \<times> string option \<Rightarrow> bool" where
  "plain_ids x = (CHR '':'' \<notin> set (fst x) \<and> snd (snd x) \<noteq> Some NULL_INVOCATION)"

interpretation audit_keys: faithful_keys "\<lambda>(c, st, i). deriveDedupKey c st i" plain_ids
proof
  fix x y :: "string \<times> tool_status \<times> string option"
  assume wf: "plain_ids x" "plain_ids y"
    and eq: "(case x of (c, st, i) \<Rightarrow> deriveDedupKey c st i) = (case y of (c, st, i) \<Rightarrow> deriveDedupKey c st i)"
  obtain c st i d su j where xy: "x = (c, st, i)" "y = (d, su, j)" by (cases x; cases y)
  have colon: "CHR '':'' \<notin> set c" "CHR '':'' \<notin> set d" using wf xy by (simp_all add: plain_ids_def)
  have "c @ CHR '':'' # (status_name st @ CHR '':'' # or_default i NULL_INVOCATION)
      = d @ CHR '':'' # (status_name su @ CHR '':'' # or_default j NULL_INVOCATION)"
    using eq xy by (simp add: deriveDedupKey_def)
  note outer = split_at_separator [OF colon this]
  note inner = split_at_separator [OF status_name_colon status_name_colon conjunct2 [OF outer]]
  have "i = j" using inner wf xy by (cases i; cases j) (auto simp: plain_ids_def)
  then show "x = y" using outer inner xy by (simp add: status_name_inj)
qed

lemma push_edges_keys: "key ` set (push_edges key es out) = key ` (set out \<union> set es)"
proof -
  have "set (fst (fold (push_edge key) es (map key out', out'))) = key ` set (snd (fold (push_edge key) es (map key out', out')))
     \<and> key ` set (snd (fold (push_edge key) es (map key out', out'))) = key ` (set out' \<union> set es)" for out'
  proof (induction es arbitrary: out')
    case (Cons e es)
    from Cons.IH [of "out' @ [e]"] Cons.IH [of out'] show ?case by (auto simp: push_edge_def image_iff)
  qed simp
  then show ?thesis by (simp add: push_edges_def)
qed

text \<open>
  Auditing never changes a result, and records each outcome once. Whatever the sink does, the
  tap returns the envelope it was given. With the in-memory sink, it adds exactly one row, holding
  the envelope's status, error code, approval and substrate references and the caller's context,
  unless the sink already has that very outcome (the same call, status and invocation): then it
  adds nothing. Here the call id contains no colon and no invocation is named by the empty-set
  sign, as for the ids that are generated.
\<close>

theorem audit_tap_exact:
  assumes "plain_ids (pc_call_id per, r_status r, ref_invocation_id (r_audit_ref r))"
    and "list_all (\<lambda>(c, x). plain_ids (ac_call_id c, r_status x, ref_invocation_id (r_audit_ref x))) past"
  shows "(let rows = map (\<lambda>(c, x). auditRowFrom x c) past;
              s = record_all memory_record rows new_memory_sink;
              row = auditRowFrom r (merge_context base per) in
          mk_rows (snd (snd (withAudit memory_record base r per s))) =
            (if (pc_call_id per, r_status r, ref_invocation_id (r_audit_ref r))
                  \<in> (\<lambda>(c, x). (ac_call_id c, r_status x, ref_invocation_id (r_audit_ref x))) ` set past
             then mk_rows s else mk_rows s @ [row]))
         \<and> fst (withAudit sink base r per s') = r"
proof -
  define rows where "rows = map (\<lambda>(c, x). auditRowFrom x c) past"
  define s where "s = record_all memory_record rows new_memory_sink"
  define row where "row = auditRowFrom r (merge_context base per)"
  have wf: "memory_wf s"
    unfolding s_def by (rule memory.record_all_wf) (simp add: memory_wf_def new_memory_sink_def)
  have keys: "row_dedup_key ` set (mk_rows s) = row_dedup_key ` set rows"
    unfolding s_def using memory.record_all_stored [of new_memory_sink rows]
    by (simp add: memory_wf_def new_memory_sink_def memory_record_def push_edges_keys)
  let ?id = "\<lambda>(c, x). (ac_call_id c, r_status x, ref_invocation_id (r_audit_ref x))"
  let ?me = "(pc_call_id per, r_status r, ref_invocation_id (r_audit_ref r))"
  have row_key: "row_dedup_key row = (case ?me of (c, st, i) \<Rightarrow> deriveDedupKey c st i)"
    by (simp add: row_def auditRowFrom_def merge_context_def Let_def)
  have rows_keys: "row_dedup_key ` set rows = (\<lambda>(c, st, i). deriveDedupKey c st i) ` ?id ` set past"
    by (auto simp: rows_def auditRowFrom_def Let_def image_image case_prod_unfold)
  have "row_dedup_key row \<in> row_dedup_key ` set (mk_rows s) \<longleftrightarrow> ?me \<in> ?id ` set past"
  proof -
    have "list_all plain_ids (map ?id past)" using assms(2) by (auto simp: list_all_iff case_prod_unfold)
    from audit_keys.key_mem [OF assms(1) this] show ?thesis
      by (simp only: keys rows_keys row_key set_map)
  qed
  then have "mk_rows (snd (memory_record row s)) = (if ?me \<in> ?id ` set past then mk_rows s else mk_rows s @ [row])"
    using wf by (simp add: memory_record_def memory_wf_def)
  moreover have "fst (withAudit sink base r per s') = r"
    by (simp add: withAudit_def Let_def split: prod.split sum.split)
  moreover have "snd (snd (withAudit memory_record base r per s)) = snd (memory_record row s)"
    unfolding withAudit_def row_def [symmetric] Let_def by (simp split: prod.split sum.split)
  ultimately show ?thesis
    unfolding Let_def rows_def [symmetric] s_def [symmetric] row_def [symmetric] by (simp only: simp_thms)
qed

theorem audit_tap_exact_witness:
  "let base = \<lparr>ab_correlation_id = Some ''corr_1'', ab_idempotency_key = None\<rparr>;
       per = \<lparr>pc_tool_name = ''mx_cancel'', pc_call_id = ''c1'', pc_idempotency_key = None\<rparr> in
   mk_rows (snd (snd (withAudit memory_record base (ok () demo_ref) per new_memory_sink)))
     = [auditRowFrom (ok () demo_ref) (merge_context base per)]"
proof -
  let ?base = "\<lparr>ab_correlation_id = Some ''corr_1'', ab_idempotency_key = None\<rparr>"
  let ?per = "\<lparr>pc_tool_name = ''mx_cancel'', pc_call_id = ''c1'', pc_idempotency_key = None\<rparr>"
  have ids: "plain_ids (pc_call_id ?per, r_status (ok () demo_ref), ref_invocation_id (r_audit_ref (ok () demo_ref)))"
    by code_simp
  have none: "list_all (\<lambda>(c, x). plain_ids (ac_call_id c, r_status x, ref_invocation_id (r_audit_ref x)))
      ([] :: (audit_context \<times> unit tool_result) list)" by simp
  from audit_tap_exact [OF ids none, of ?base memory_record new_memory_sink] show ?thesis
    unfolding Let_def by (simp add: record_all_def new_memory_sink_def)
qed

end
