(* ===== verification/Binding.thy ===== *)
theory Binding
  imports Inputs Audit_Trail
begin

text \<open>
  The MCP binding (packages/mcp/src): the dispatch table over the verb handlers (dispatch.ts), the
  serialized result (serialize.ts), the tool list (tools.ts), the server's call handler with its
  audit tap (server.ts) and the binding context (context.ts). The Model Context Protocol SDK that
  receives the handlers is not part of the repository; \<open>ajv\<close> is the validator the delegation
  handlers fall back to.
\<close>

section \<open>Context\<close>

text \<open>What a binding uses of a session: its \<open>call\<close>, its room and its correlation id.\<close>

record 'd session_view =
  sv_daemon :: "'d daemon_call"
  sv_room :: "string option"
  sv_correlationId :: string

record 'd binding_context =
  bc_daemon :: "'d daemon_call"
  bc_room :: "string option"
  bc_correlationId :: "string option"
  bc_closes :: bool

definition session_context :: "bool \<Rightarrow> 'd session_view \<Rightarrow> 'd binding_context" where
  "session_context closes s =
     \<lparr>bc_daemon = sv_daemon s, bc_room = sv_room s, bc_correlationId = Some (sv_correlationId s), bc_closes = closes\<rparr>"

text \<open>\<open>opened\<close> is what \<open>openSession\<close> resolves or rejects with, used when neither is injected.\<close>

definition createBindingContext ::
  "'d session_view option \<Rightarrow> 'd daemon_call option \<Rightarrow> string option \<Rightarrow> thrown + 'd session_view
     \<Rightarrow> thrown + 'd binding_context" where
  "createBindingContext session daemon room opened =
     (case session of
        Some s \<Rightarrow> Inr (session_context False s)
      | None \<Rightarrow>
          (case daemon of
             Some d \<Rightarrow> Inr \<lparr>bc_daemon = d, bc_room = room, bc_correlationId = None, bc_closes = False\<rparr>
           | None \<Rightarrow> (case opened of Inl e \<Rightarrow> Inl e | Inr s \<Rightarrow> Inr (session_context True s))))"

section \<open>Dispatch\<close>

text \<open>
  The handlers read only the dependencies of their own type, so one record serves the three
  functions \<open>handlerDeps\<close>, \<open>roomScopedDeps\<close> and \<open>delegateDeps\<close>.
\<close>

definition delegateDeps :: "'d binding_context \<Rightarrow> 'd delegate_deps" where
  "delegateDeps ctx =
     \<lparr>d_daemon = bc_daemon ctx, d_sleep = None, d_now = None, d_pollIntervalMs = None,
      d_room = bc_room ctx, d_validator = None\<rparr>"

type_synonym 'd dispatch_entry = "obj \<Rightarrow> 'd delegate_deps \<Rightarrow> ('d, obj tool_result) async"

definition DISPATCH :: "schema_validator \<Rightarrow> (string \<times> 'd dispatch_entry) list" where
  "DISPATCH ajv =
     [(''mx_find_agents'', \<lambda>args. mxFindAgents (find_agents_of args)),
      (''mx_describe_agent'', \<lambda>args. mxDescribeAgent (str_field args ''agent_id'')),
      (''mx_await_result'', \<lambda>args. mxAwaitResult (str_field args ''handle'') (num_field args ''wait_ms'')),
      (''mx_cancel'', \<lambda>args. mxCancel (str_field args ''handle'')),
      (''mx_delegate_tool'', \<lambda>args. mxDelegateTool ajv (delegate_tool_of args)),
      (''mx_run_command'', \<lambda>args. mxRunCommand (run_command_of args)),
      (''mx_share_context'', \<lambda>args. mxShareContext (share_context_of args)),
      (''mx_get_context'', \<lambda>args. mxGetContext (str_field args ''context_id'')),
      (''mx_workspace_status'', \<lambda>args. mxWorkspaceStatus),
      (''mx_create_task'', \<lambda>args. mxCreateTask (create_task_of args)),
      (''mx_update_task'', \<lambda>args. mxUpdateTask (update_task_of args)),
      (''mx_list_tasks'', \<lambda>args. mxListTasks (list_tasks_of args)),
      (''mx_dispatch_task'', \<lambda>args. mxDispatchTask ajv (dispatch_task_of args))]"

text \<open>
  A call runs a handler or the fallback, or it leaves what the types promise: the name may be one
  that every object inherits, and the arguments may lack the handler's type, which nothing checks.
\<close>

datatype 'd dispatched =
    Runs "('d, obj tool_result) async"
  | Inherits string
  | IllTyped

definition dispatchCall ::
  "schema_validator \<Rightarrow> string \<Rightarrow> obj option \<Rightarrow> 'd binding_context \<Rightarrow> 'd dispatched" where
  "dispatchCall ajv name args ctx =
     (case table_get (DISPATCH ajv) name of
        Missing \<Rightarrow> Runs (resolve (errored (Code not_found) (Some (''unknown tool: '' @ name)) EMPTY_AUDIT_REF))
      | Inherited f \<Rightarrow> Inherits f
      | Own entry \<Rightarrow>
          if typed_args name (or_default args []) then Runs (entry (or_default args []) (delegateDeps ctx))
          else IllTyped)"

section \<open>Serialization and the tool list\<close>

record call_tool_result =
  ct_structuredContent :: json
  ct_text :: string
  ct_isError :: bool

definition serializeToolResult :: "js_runtime \<Rightarrow> obj tool_result \<Rightarrow> call_tool_result" where
  "serializeToolResult js r =
     (let envelope = envelope_json JObj r in
      \<lparr>ct_structuredContent = envelope, ct_text = stringify js envelope, ct_isError = (r_status r = Error)\<rparr>)"

definition ASYNC_SEMANTICS_META_KEY :: string where
  "ASYNC_SEMANTICS_META_KEY = ''io.mxloom/async_semantics''"

definition toMcpTool :: "json \<Rightarrow> json" where
  "toMcpTool descriptor =
     JObj [(''name'', read_field descriptor ''name''),
           (''description'', read_field descriptor ''description''),
           (''inputSchema'', read_field descriptor ''input_schema''),
           (''outputSchema'', ENVELOPE_SCHEMA),
           (''annotations'', JObj [(''openWorldHint'', JBool True)]),
           (''_meta'', JObj [(ASYNC_SEMANTICS_META_KEY, read_field descriptor ''async_semantics'')])]"

definition buildToolList :: "json list \<Rightarrow> json list" where
  "buildToolList descriptors = map toMcpTool descriptors"

section \<open>The call handler\<close>

definition idempotencyKeyOf :: "obj option \<Rightarrow> string option" where
  "idempotencyKeyOf args = Option.bind args (\<lambda>a. readString (jget a ''idempotency_key''))"

definition audit_base_of :: "'d binding_context \<Rightarrow> audit_base" where
  "audit_base_of ctx = \<lparr>ab_correlation_id = bc_correlationId ctx, ab_idempotency_key = None\<rparr>"

text \<open>
  The outcome of a call: the result with the key of an audit row the sink refused, if any, and the
  host and sink afterwards; or why there is none.
\<close>

datatype ('d, 's) call_outcome =
    Answered call_tool_result "string option" "'d host" 's
  | Pending_forever
  | Left_to string
  | Wrong_type

definition audited_answer ::
  "js_runtime \<Rightarrow> 's sink_record \<Rightarrow> audit_base \<Rightarrow> string \<Rightarrow> obj option \<Rightarrow> obj tool_result \<Rightarrow> 'd host \<Rightarrow> 's
     \<Rightarrow> ('d, 's) call_outcome" where
  "audited_answer js sink base name args r h s =
     (case randomUUID h of (call_id, h') \<Rightarrow>
        (case withAudit sink base r
                \<lparr>pc_tool_name = name, pc_call_id = call_id, pc_idempotency_key = idempotencyKeyOf args\<rparr> s of
           (audited, dropped, s') \<Rightarrow> Answered (serializeToolResult js audited) dropped h' s'))"

definition mcp_call ::
  "js_runtime \<Rightarrow> schema_validator \<Rightarrow> 's sink_record \<Rightarrow> 'd binding_context \<Rightarrow> string \<Rightarrow> obj option
     \<Rightarrow> 'd host \<Rightarrow> 's \<Rightarrow> ('d, 's) call_outcome" where
  "mcp_call js ajv sink ctx name args h s =
     (case dispatchCall ajv name args ctx of
        Inherits f \<Rightarrow> Left_to f
      | IllTyped \<Rightarrow> Wrong_type
      | Runs run \<Rightarrow>
          (case run h of
             None \<Rightarrow> Pending_forever
           | Some (r, h1) \<Rightarrow> audited_answer js sink (audit_base_of ctx) name args r h1 s))"

section \<open>Properties\<close>

definition logged_context :: "'d service \<Rightarrow> string option \<Rightarrow> string option \<Rightarrow> ('d \<times> request list) binding_context" where
  "logged_context f room correlation =
     \<lparr>bc_daemon = serve (logging f), bc_room = room, bc_correlationId = correlation, bc_closes = False\<rparr>"

lemma logged_context_deps [simp]: "delegateDeps (logged_context f room correlation) = logged_deps f None room None"
  by (simp add: delegateDeps_def logged_context_def logged_deps_def)

abbreviation governed :: "('d \<times> request list, obj tool_result) async \<Rightarrow> bool" where
  "governed \<equiv> emits (\<lambda>r. \<not> isForbiddenAuthorityVerb (fst r)) well_built"

lemma entries_governed:
  "list_all (\<lambda>(name, entry). \<forall>args. governed (entry args (logged_deps f None room None))) (DISPATCH ajv)"
  unfolding DISPATCH_def list.pred_inject(2) prod.case
  by (intro conjI allI list.pred_inject(1) find_agents.never_authority describe_agent.never_authority await_result.never_authority
      cancel.never_authority delegate_tool.never_authority run_command.never_authority share_context.never_authority
      get_context.never_authority workspace_status.never_authority create_task.never_authority
      update_task.never_authority list_tasks.never_authority dispatch_task.never_authority)

lemma dispatch_names: "set (map fst (DISPATCH ajv)) = set MODEL_FACING_ALLOWLIST \<and> distinct (map fst (DISPATCH ajv))"
proof -
  have eq: "map fst (DISPATCH ajv) =
      [''mx_find_agents'', ''mx_describe_agent'', ''mx_await_result'', ''mx_cancel'', ''mx_delegate_tool'', ''mx_run_command'',
       ''mx_share_context'', ''mx_get_context'', ''mx_workspace_status'', ''mx_create_task'', ''mx_update_task'',
       ''mx_list_tasks'', ''mx_dispatch_task'']" (is "_ = ?names")
    by (simp add: DISPATCH_def)
  have "set ?names = set MODEL_FACING_ALLOWLIST \<and> distinct ?names" by code_simp
  then show ?thesis unfolding eq .
qed

lemma dispatch_keys: "fst ` set (DISPATCH ajv) = set MODEL_FACING_ALLOWLIST"
  by (rule conjunct1 [OF dispatch_names, unfolded set_map])

lemma table_cases:
  fixes x :: "'d dispatch_entry slot"
  assumes "table_get (DISPATCH ajv) name = x"
  shows "(case x of
      Own entry \<Rightarrow> name \<in> set MODEL_FACING_ALLOWLIST \<and> (name, entry) \<in> set (DISPATCH ajv)
    | Inherited f \<Rightarrow> f = name \<and> name \<in> set object_prototype_keys
    | Missing \<Rightarrow> name \<notin> set MODEL_FACING_ALLOWLIST)"
proof (cases x)
  case (Own entry)
  then have "map_of (DISPATCH ajv) name = Some entry" using assms by simp
  then have "(name, entry) \<in> set (DISPATCH ajv)" by (rule map_of_SomeD)
  moreover from imageI [OF this, of fst] have "name \<in> set MODEL_FACING_ALLOWLIST"
    by (simp only: dispatch_keys fst_conv)
  ultimately show ?thesis unfolding Own slot.case by blast
next
  case (Inherited f)
  then show ?thesis using assms by (auto simp: table_get_Inherited)
next
  case Missing
  then have "map_of (DISPATCH ajv :: (string \<times> 'd dispatch_entry) list) name = None" using assms by simp
  then show ?thesis unfolding Missing slot.case by (simp only: map_of_eq_None_iff dispatch_keys not_False_eq_True)
qed

lemma dispatch_cases:
  fixes f :: "'d service" and ajv
  defines "table \<equiv> DISPATCH ajv :: (string \<times> ('d \<times> request list) dispatch_entry) list"
  shows "(case dispatchCall ajv name args (logged_context f room correlation) of
      Runs run \<Rightarrow> governed run
    | IllTyped \<Rightarrow> name \<in> set MODEL_FACING_ALLOWLIST \<and> \<not> typed_args name (or_default args [])
    | Inherits g \<Rightarrow> g = name \<and> name \<in> set object_prototype_keys)
   \<and> set (map fst table) = set MODEL_FACING_ALLOWLIST"
proof (cases "table_get table name")
  case (Own entry)
  note tab = table_cases [OF Own [unfolded table_def], unfolded slot.case]
  have "governed (entry a (logged_deps f None room None))" for a
    using tab entries_governed [of f room ajv] unfolding list_all_iff by blast
  with tab show ?thesis
    unfolding dispatchCall_def Own [unfolded table_def] slot.case table_def by (simp add: dispatch_keys)
next
  case (Inherited g)
  with table_cases [OF Inherited [unfolded table_def], unfolded slot.case] show ?thesis
    unfolding dispatchCall_def Inherited [unfolded table_def] slot.case table_def by (simp add: dispatch_keys)
next
  case Missing
  have "governed (resolve (errored (Code not_found) (Some m) EMPTY_AUDIT_REF))" for m
    by (intro sends_resolve well_built_helpers(4)) (simp add: FAULT_CODES_def)
  then show ?thesis
    unfolding dispatchCall_def Missing [unfolded table_def] slot.case table_def by (simp add: dispatch_keys)
qed

lemma governed_runs:
  "dispatchCall ajv name args (logged_context f room correlation) = Runs run \<Longrightarrow> governed run"
  using dispatch_cases [where ajv = ajv and name = name and args = args and f = f and room = room
      and correlation = correlation] by simp

text \<open>
  Every tool call is governed. Over any daemon, a call by any name with any arguments either
  runs to a well-built envelope, sending the daemon no trust, policy, authentication or other
  authority verb, an unknown name being answered \<open>not_found\<close>; or it is for a published verb whose
  arguments do not have the handler's type; or its name is one every JavaScript object inherits.
  The published verbs are exactly the keys of the table.
\<close>

theorem dispatch_governed:
  fixes f :: "'d service" and ajv
  defines "table \<equiv> DISPATCH ajv :: (string \<times> ('d \<times> request list) dispatch_entry) list"
  shows "(case dispatchCall ajv name args (logged_context f room correlation) of
      Runs run \<Rightarrow> governed run
    | IllTyped \<Rightarrow> name \<in> set MODEL_FACING_ALLOWLIST \<and> \<not> typed_args name (or_default args [])
    | Inherits g \<Rightarrow> g = name \<and> name \<in> set object_prototype_keys)
   \<and> set (map fst table) = set MODEL_FACING_ALLOWLIST"
  unfolding table_def by (rule dispatch_cases)

text \<open>A canonical tool whose arguments have its type reaches its handler.\<close>

lemma canonical_runs:
  assumes "d \<in> set CANONICAL_TOOLS" and "typed_args (descriptor_name d) args"
  shows "\<exists>run. dispatchCall ajv (descriptor_name d) (Some args) (logged_context f room correlation) = Runs run \<and> governed run"
proof -
  have "list_all (\<lambda>d. descriptor_name d \<notin> set object_prototype_keys) CANONICAL_TOOLS" by code_simp
  then have own: "descriptor_name d \<notin> set object_prototype_keys" using assms(1) unfolding list_all_iff by blast
  have cases: "(case dispatchCall ajv (descriptor_name d) (Some args) (logged_context f room correlation) of
      Runs run \<Rightarrow> governed run
    | IllTyped \<Rightarrow> descriptor_name d \<in> set MODEL_FACING_ALLOWLIST \<and> \<not> typed_args (descriptor_name d) (or_default (Some args) [])
    | Inherits g \<Rightarrow> g = descriptor_name d \<and> descriptor_name d \<in> set object_prototype_keys)"
    by (rule dispatch_cases [where ajv = ajv and name = "descriptor_name d" and args = "Some args", THEN conjunct1])
  show ?thesis
  proof (cases "dispatchCall ajv (descriptor_name d) (Some args) (logged_context f room correlation)")
    case (Runs run)
    with cases show ?thesis by simp
  qed (use cases own assms(2) in simp_all)
qed

lemma mcp_answered:
  assumes "dispatchCall ajv name args ctx = Runs run" and "run h = Some (r, h1)"
  shows "\<exists>dropped s'. mcp_call js ajv sink ctx name args h s
     = Answered (serializeToolResult js r) dropped (snd (randomUUID h1)) s'"
  unfolding mcp_call_def assms dispatched.case option.case prod.case audited_answer_def withAudit_def Let_def
  by (simp split: prod.split sum.split)

text \<open>
  C13. What an MCP client sees. For a call that reaches a handler or the fallback, the server always
  answers, and the structured content is an envelope that satisfies the output schema the tool
  list advertises (unless its error code is an inherited function); the error flag is set exactly
  for faults, so a denial, a pending or an approval result is not an error; the text is the
  serialization of that content; and the audit sink cannot change any of it.
\<close>

theorem mcp_call_contract:
  assumes "dispatchCall ajv name args (logged_context f room correlation) = Runs run"
  shows "\<exists>r dropped h' s'.
     mcp_call js ajv sink (logged_context f room correlation) name args h s
       = Answered (serializeToolResult js r) dropped h' s'
     \<and> (conforms JObj r \<or> function_error r)
     \<and> ct_structuredContent (serializeToolResult js r) = envelope_json JObj r
     \<and> ct_text (serializeToolResult js r) = stringify js (envelope_json JObj r)
     \<and> (ct_isError (serializeToolResult js r) \<longleftrightarrow> r_status r = Error)
     \<and> (\<forall>sink2 s2. \<exists>dropped2 s2'. mcp_call js ajv sink2 (logged_context f room correlation) name args h s2
            = Answered (serializeToolResult js r) dropped2 h' (s2' :: 's2))"
proof -
  obtain r h1 where r: "run h = Some (r, h1)" "well_built r" by (rule emitsE [OF governed_runs [OF assms]]) blast
  have "conforms JObj r \<or> function_error r"
    using well_built_conforms [OF r(2), where enc = "\<lambda>x. x"] by blast
  then show ?thesis
    using mcp_answered [OF assms r(1), of js sink s] mcp_answered [OF assms r(1), of js]
    by (intro exI [of _ r]) (fastforce simp: serializeToolResult_def Let_def)
qed

definition quiet_daemon :: "unit service" where
  "quiet_daemon d t m p = (Inr (JObj [(''cancelled'', JBool True)]), (), 0)"

definition plain_js :: js_runtime where
  "plain_js = \<lparr>parse_json = (\<lambda>_. Inl []), stringify = (\<lambda>_. ''{}''), show_value = (\<lambda>_. [])\<rparr>"

theorem mcp_call_contract_witness:
  "\<exists>r dropped h' s'. mcp_call plain_js accept_all memory_record (logged_context quiet_daemon None None) ''mx_cancel''
       (Some [(''handle'', JStr ''inv-1'')]) (idle_host ((), [])) new_memory_sink
     = Answered (serializeToolResult plain_js r) dropped h' s' \<and> (conforms JObj r \<or> function_error r)"
proof -
  let ?args = "[(''handle'', JStr ''inv-1'')]"
  have own: "table_get (DISPATCH accept_all) ''mx_cancel'' = Own (\<lambda>args. mxCancel (str_field args ''handle''))"
    by (simp add: DISPATCH_def)
  have "typed_args ''mx_cancel'' ?args" by code_simp
  then have "dispatchCall accept_all ''mx_cancel'' (Some ?args) (logged_context quiet_daemon None None)
      = Runs (mxCancel (str_field ?args ''handle'') (logged_deps quiet_daemon None None None))"
    unfolding dispatchCall_def own slot.case or_default_simps logged_context_deps by (simp only: if_True)
  from mcp_call_contract [OF this, of plain_js memory_record "idle_host ((), [])" new_memory_sink]
  show ?thesis by (elim exE conjE) (intro exI conjI, assumption, assumption)
qed

end
