(* ===== verification/Conversion.thy ===== *)
theory Conversion
  imports Inputs Ipc
begin

text \<open>
  What the two converters of a descriptor's input schema share (json-schema-to-zod.ts of
  packages/claude and json-schema-to-typebox.ts of packages/pi): the checks that throw, the walk
  over the properties, the subset they support, and the draft-07 meaning of a node inside the subset.
\<close>

section \<open>Conversion errors and the checks both converters make\<close>

record conversion_error =
  ce_path :: string
  ce_keyword :: string
  ce_detail :: "string option"

text \<open>The message, with an em dash (UTF-8) before a detail that is not empty.\<close>

definition conversion_message :: "string \<Rightarrow> conversion_error \<Rightarrow> string" where
  "conversion_message target e =
     ''Cannot convert JSON Schema to '' @ target @ '' at '' @ ce_path e @ '': unsupported '' @ ce_keyword e
       @ (case ce_detail e of
            None \<Rightarrow> []
          | Some d \<Rightarrow> if d = [] then [] else '' '' @ [CHR 0xE2, CHR 0x80, CHR 0x94] @ '' '' @ d)"

definition UNSUPPORTED_KEYWORDS :: "string list" where
  "UNSUPPORTED_KEYWORDS =
     [''oneOf'', ''anyOf'', ''allOf'', ''not'', ''if'', ''then'', ''else'', ''$ref'', ''$defs'', ''definitions'',
      ''patternProperties'', ''dependentSchemas'', ''dependentRequired'', ''dependencies'', ''propertyNames'',
      ''const'', ''contains'', ''prefixItems'']"

definition SUPPORTED_TYPES :: "string list" where
  "SUPPORTED_TYPES = [''string'', ''integer'', ''number'', ''boolean'', ''array'', ''object'']"

definition conversion_fault :: "string \<Rightarrow> string \<Rightarrow> string \<Rightarrow> conversion_error" where
  "conversion_fault path keyword detail = \<lparr>ce_path = path, ce_keyword = keyword, ce_detail = Some detail\<rparr>"

definition keyword_fault :: "obj \<Rightarrow> string \<Rightarrow> conversion_error option" where
  "keyword_fault node path =
     map_option (\<lambda>keyword. \<lparr>ce_path = path, ce_keyword = keyword, ce_detail = None\<rparr>)
       (List.find (has_key node) UNSUPPORTED_KEYWORDS)"

definition type_fault :: "js_runtime \<Rightarrow> obj \<Rightarrow> string \<Rightarrow> conversion_error option" where
  "type_fault js node path =
     (case jget node ''type'' of
        JUndef \<Rightarrow> Some (conversion_fault path ''type''
                   ''a schema with no `type` is outside the supported subset (no $ref/composition)'')
      | JArr _ \<Rightarrow> Some (conversion_fault path ''type'' ''union (array) `type` is unsupported'')
      | JStr t \<Rightarrow>
          if t \<notin> set SUPPORTED_TYPES then Some \<lparr>ce_path = path, ce_keyword = ''type:'' @ t, ce_detail = None\<rparr>
          else if t \<noteq> ''string'' \<and> has_key node ''enum''
          then Some (conversion_fault path ''enum'' (''enum is unsupported on type:'' @ t))
          else None
      | t \<Rightarrow> Some \<lparr>ce_path = path, ce_keyword = ''type:'' @ show_value js t, ce_detail = None\<rparr>)"

text \<open>The members of an enumeration, or why they are refused.\<close>

definition enum_members :: "string \<Rightarrow> string \<Rightarrow> json \<Rightarrow> conversion_error + string list" where
  "enum_members member_detail path v =
     (case v of
        JArr ms \<Rightarrow>
          if ms = [] then Inl (conversion_fault path ''enum'' ''enum must be a non-empty array'')
          else if list_ex (\<lambda>x. readString x = None) ms then Inl (conversion_fault path ''enum'' member_detail)
          else Inr (List.map_filter readString ms)
      | _ \<Rightarrow> Inl (conversion_fault path ''enum'' ''enum must be a non-empty array''))"

definition additional_fault :: "obj \<Rightarrow> string \<Rightarrow> conversion_error option" where
  "additional_fault node path =
     (case jget node ''additionalProperties'' of
        JUndef \<Rightarrow> None
      | JBool _ \<Rightarrow> None
      | _ \<Rightarrow> Some (conversion_fault path ''additionalProperties''
               ''schema-valued additionalProperties is outside the supported subset (booleans only)''))"

text \<open>\<open>required.includes(key)\<close>, for a \<open>required\<close> that is an array.\<close>

definition required_key :: "obj \<Rightarrow> string \<Rightarrow> bool" where
  "required_key node key = (case jget node ''required'' of JArr ks \<Rightarrow> JStr key \<in> set ks | _ \<Rightarrow> False)"

text \<open>A loop that stops at the first conversion that throws.\<close>

primrec traverse :: "('a \<Rightarrow> 'e + 'b) \<Rightarrow> 'a list \<Rightarrow> 'e + 'b list" where
  "traverse f [] = Inr []"
| "traverse f (x # xs) =
     (case f x of
        Inl e \<Rightarrow> Inl e
      | Inr y \<Rightarrow> (case traverse f xs of Inl e \<Rightarrow> Inl e | Inr ys \<Rightarrow> Inr (y # ys)))"

lemma traverse_cong [fundef_cong]:
  assumes "xs = ys" and "\<And>x. x \<in> set ys \<Longrightarrow> f x = g x"
  shows "traverse f xs = traverse g ys"
  unfolding assms(1) using assms(2) by (induction ys) (simp_all split: sum.split)

lemma traverse_Inr: "traverse f xs = Inr ys \<Longrightarrow> list_all2 (\<lambda>x y. f x = Inr y) xs ys"
  by (induction xs arbitrary: ys) (auto split: sum.splits)

lemma map_sum_InrE:
  assumes "map_sum f g x = Inr y"
  obtains a where "x = Inr a" "y = g a"
  using assms by (cases x) auto

lemma traverse_isl: "isl (traverse f xs) \<longleftrightarrow> list_ex (\<lambda>x. isl (f x)) xs"
  by (induction xs) (auto split: sum.splits)

text \<open>The nodes the walk reaches from a node.\<close>

definition subschemas :: "obj \<Rightarrow> json list" where
  "subschemas node =
     map snd (entries (jget node ''properties'')) @ (if jget node ''items'' = JUndef then [] else [jget node ''items''])"

lemma subschema_size: "sub \<in> set (subschemas node) \<Longrightarrow> size sub < size (JObj node)"
  unfolding subschemas_def
  by (cases "jget node ''properties''")
     (auto intro: schema_entry_size schema_keyword_size simp del: json.size split: if_splits)

lemma subschema_property:
  "jget node ''properties'' = JObj ps \<Longrightarrow> (k, sub) \<in> set ps \<Longrightarrow> sub \<in> set (subschemas node)"
  unfolding subschemas_def by force

lemma subschema_entry: "(k, sub) \<in> set (entries (jget node ''properties'')) \<Longrightarrow> sub \<in> set (subschemas node)"
  unfolding subschemas_def by force

lemma subschema_items: "jget node ''items'' \<noteq> JUndef \<Longrightarrow> jget node ''items'' \<in> set (subschemas node)"
  unfolding subschemas_def by simp

text \<open>The recursive call is an argument of the functions \<open>convert\<close> calls.\<close>

type_synonym 'z converter = "json \<Rightarrow> string \<Rightarrow> conversion_error + 'z"

definition safe_integer :: "rat \<Rightarrow> bool" where
  "safe_integer r = (\<bar>r\<bar> \<le> 2 ^ 53 - 1)"

section \<open>The subset\<close>

text \<open>
  Schemas whose every keyword both sides know: the keywords the converters carry over and the
  draft-07 meaning of this development covers, annotations, finite bounds, and every required key among the
  properties. The keywords of the published descriptors are of this kind.
\<close>

definition PLAIN_KEYWORDS :: "string list" where
  "PLAIN_KEYWORDS =
     [''type'', ''enum'', ''items'', ''properties'', ''required'', ''additionalProperties'', ''minimum'',
      ''description'', ''title'', ''default'', ''$schema'']"

definition plain_node :: "obj \<Rightarrow> bool" where
  "plain_node node =
     (list_all (\<lambda>(k, v). k \<in> set PLAIN_KEYWORDS) node
      \<and> (case jget node ''minimum'' of JNum n \<Rightarrow> isFinite n | _ \<Rightarrow> True)
      \<and> distinct (map fst (entries (jget node ''properties'')))
      \<and> (case jget node ''required'' of
           JArr ks \<Rightarrow> list_all (\<lambda>k. k \<in> (JStr \<circ> fst) ` set (entries (jget node ''properties''))) ks
         | _ \<Rightarrow> True))"

function (sequential) plain_schema :: "json \<Rightarrow> bool" where
  "plain_schema (JObj node) = (plain_node node \<and> list_all plain_schema (subschemas node))"
| "plain_schema _ = True"
  by pat_completeness auto

termination
  by (relation "measure size") (auto simp del: json.size intro: subschema_size)

text \<open>The values a client can send as JSON, with integers every JavaScript number represents exactly.\<close>

fun safe_value :: "json \<Rightarrow> bool" where
  "safe_value JUndef = False"
| "safe_value (JNum n) = (case n of Fin r \<Rightarrow> isInteger n \<longrightarrow> safe_integer r | _ \<Rightarrow> False)"
| "safe_value (JArr xs) = list_all safe_value xs"
| "safe_value (JObj ob) = list_all (\<lambda>(k, v). safe_value v) ob"
| "safe_value _ = True"

section \<open>The draft-07 meaning, without the composing keywords\<close>

lemma keyword_fault_None: "keyword_fault node path = None \<longleftrightarrow> list_all (\<lambda>k. \<not> has_key node k) UNSUPPORTED_KEYWORDS"
  by (auto simp: keyword_fault_def find_None_iff list_all_iff)

lemma has_key_jget: "\<not> has_key ob k \<Longrightarrow> jget ob k = JUndef"
  by (induction ob) auto

lemma list_all_triv [simp]: "list_all (\<lambda>(k, x). True) xs"
  by (induction xs) auto

lemma draft07_unsupported:
  assumes "list_all (\<lambda>k. \<not> has_key node k) UNSUPPORTED_KEYWORDS"
  shows "draft07 (JObj node) v \<longleftrightarrow>
     type_ok (jget node ''type'') v \<and> enum_ok (jget node ''enum'') v
     \<and> required_ok (jget node ''required'') v \<and> minimum_ok (jget node ''minimum'') v
     \<and> (case jget node ''properties'' of
           JObj ps \<Rightarrow> list_all (\<lambda>(k, sub). has_key (entries v) k \<longrightarrow> draft07 sub (jget (entries v) k)) ps
         | _ \<Rightarrow> True)
     \<and> (if jget node ''additionalProperties'' = JUndef then True
         else list_all (\<lambda>(k, x). has_key (entries (jget node ''properties'')) k
                   \<or> draft07 (jget node ''additionalProperties'') x) (entries v))
     \<and> (if jget node ''items'' = JUndef then True
         else case v of JArr xs \<Rightarrow> list_all (\<lambda>x. draft07 (jget node ''items'') x) xs | _ \<Rightarrow> True)"
proof -
  have "jget node k = JUndef" if "k \<in> set UNSUPPORTED_KEYWORDS" for k
    using assms that by (auto simp: list_all_iff intro: has_key_jget)
  then have "jget node ''allOf'' = JUndef" "jget node ''oneOf'' = JUndef" "jget node ''if'' = JUndef"
    by (simp_all add: UNSUPPORTED_KEYWORDS_def)
  moreover have "\<not> has_key node ''const''" using assms by (simp add: UNSUPPORTED_KEYWORDS_def)
  ultimately show ?thesis unfolding draft07.simps(1) const_ok_def by (simp only: json.case if_True simp_thms)
qed

lemma draft07_scalar:
  assumes "list_all (\<lambda>k. \<not> has_key node k) UNSUPPORTED_KEYWORDS" and "asRecord v = None" "asArray v = None"
  shows "draft07 (JObj node) v \<longleftrightarrow>
     type_ok (jget node ''type'') v \<and> enum_ok (jget node ''enum'') v \<and> minimum_ok (jget node ''minimum'') v"
proof -
  have "entries v = []" and "required_ok r v" and "(case v of JArr xs \<Rightarrow> p xs | _ \<Rightarrow> True)" for r p
    using assms(2,3) by (cases v; cases r; simp)+
  then show ?thesis unfolding draft07_unsupported [OF assms(1)]
    by (simp only: simp_thms list.pred_inject has_key_simps if_cancel split: json.split) simp
qed

lemma draft07_array:
  assumes "list_all (\<lambda>k. \<not> has_key node k) UNSUPPORTED_KEYWORDS"
  shows "draft07 (JObj node) (JArr xs) \<longleftrightarrow>
     type_ok (jget node ''type'') (JArr xs) \<and> enum_ok (jget node ''enum'') (JArr xs)
     \<and> (jget node ''items'' = JUndef \<or> list_all (draft07 (jget node ''items'')) xs)"
proof -
  have "required_ok r (JArr xs)" "minimum_ok r (JArr xs)" for r by (cases r; simp)+
  then show ?thesis unfolding draft07_unsupported [OF assms]
    by (simp split: json.split)
qed

lemma draft07_object:
  assumes "list_all (\<lambda>k. \<not> has_key node k) UNSUPPORTED_KEYWORDS"
  shows "draft07 (JObj node) (JObj ob) \<longleftrightarrow>
     type_ok (jget node ''type'') (JObj ob) \<and> enum_ok (jget node ''enum'') (JObj ob)
     \<and> required_ok (jget node ''required'') (JObj ob)
     \<and> list_all (\<lambda>(k, sub). has_key ob k \<longrightarrow> draft07 sub (jget ob k)) (entries (jget node ''properties''))
     \<and> (jget node ''additionalProperties'' = JUndef
        \<or> list_all (\<lambda>(k, x). has_key (entries (jget node ''properties'')) k
                   \<or> draft07 (jget node ''additionalProperties'') x) ob)"
proof -
  have "minimum_ok r (JObj ob)" for r by (cases r) simp_all
  then show ?thesis unfolding draft07_unsupported [OF assms]
    by (simp split: json.split)
qed

text \<open>What an object schema of the subset asks of the properties of a value.\<close>

definition object_ok :: "obj \<Rightarrow> obj \<Rightarrow> bool" where
  "object_ok node ob =
     list_all (\<lambda>(k, sub). if jget ob k = JUndef then \<not> required_key node k else draft07 sub (jget ob k))
       (entries (jget node ''properties''))"

definition closed_ok :: "obj \<Rightarrow> obj \<Rightarrow> bool" where
  "closed_ok node ob =
     (jget node ''additionalProperties'' = JBool False
        \<longrightarrow> list_all (\<lambda>(k, x). k \<in> fst ` set (entries (jget node ''properties''))) ob)"

lemma safe_object:
  assumes "safe_value (JObj ob)"
  shows "has_key ob k \<longleftrightarrow> jget ob k \<noteq> JUndef" "jget ob k \<noteq> JUndef \<Longrightarrow> safe_value (jget ob k)"
  using assms by (induction ob) (auto split: if_splits)

lemma required_ok_keys:
  assumes "plain_node node"
  shows "required_ok (jget node ''required'') (JObj ob) \<longleftrightarrow>
     list_all (\<lambda>(k, sub). required_key node k \<longrightarrow> jget ob k \<noteq> JUndef) (entries (jget node ''properties''))"
proof (cases "jget node ''required''")
  case (JArr ks)
  with assms have "k \<in> (JStr \<circ> fst) ` set (entries (jget node ''properties''))" if "k \<in> set ks" for k
    using that by (simp add: plain_node_def list_all_iff)
  with JArr show ?thesis by (fastforce simp: list_all_iff required_key_def)
qed (simp_all add: required_key_def)

lemma additional_fault_None:
  "additional_fault node path = None \<longleftrightarrow> jget node ''additionalProperties'' \<in> {JUndef, JBool True, JBool False}"
  by (cases "jget node ''additionalProperties''") (auto simp: additional_fault_def)

lemma draft07_object_plain:
  assumes "list_all (\<lambda>k. \<not> has_key node k) UNSUPPORTED_KEYWORDS" and "plain_node node"
    and "additional_fault node path = None" and "safe_value (JObj ob)"
  shows "draft07 (JObj node) (JObj ob) \<longleftrightarrow>
     type_ok (jget node ''type'') (JObj ob) \<and> enum_ok (jget node ''enum'') (JObj ob) \<and> object_ok node ob \<and> closed_ok node ob"
proof -
  have "object_ok node ob \<longleftrightarrow> required_ok (jget node ''required'') (JObj ob)
      \<and> list_all (\<lambda>(k, sub). has_key ob k \<longrightarrow> draft07 sub (jget ob k)) (entries (jget node ''properties''))"
    unfolding required_ok_keys [OF assms(2)] object_ok_def safe_object [OF assms(4)] by (auto simp: list_all_iff)
  moreover have "closed_ok node ob \<longleftrightarrow> jget node ''additionalProperties'' = JUndef
        \<or> list_all (\<lambda>(k, x). has_key (entries (jget node ''properties'')) k
                   \<or> draft07 (jget node ''additionalProperties'') x) ob"
    using assms(3) unfolding additional_fault_None closed_ok_def by (auto simp: list_all_iff has_key_def)
  ultimately show ?thesis unfolding draft07_object [OF assms(1)] by blast
qed

lemma enum_members_Inr:
  assumes "enum_members d path v = Inr ms"
  shows "\<exists>xs. v = JArr xs \<and> xs \<noteq> [] \<and> xs = map JStr ms"
proof -
  obtain xs where xs: "v = JArr xs" "xs \<noteq> []" "list_all (\<lambda>x. readString x \<noteq> None) xs" "ms = List.map_filter readString xs"
    using assms by (cases v) (auto simp: enum_members_def list_all_iff list_ex_iff split: if_splits)
  have "map JStr (List.map_filter readString xs) = xs"
    using xs(3) by (induction xs) (auto simp: List.map_filter_simps)
  with xs show ?thesis by auto
qed

lemma enum_ok_strings: "enum_ok (JArr (map JStr ms)) v \<longleftrightarrow> v \<in> JStr ` set ms"
  by (auto simp: list_ex_iff)

text \<open>What reaching a type branch has checked.\<close>

lemma node_checked:
  assumes "orelse (keyword_fault node path) (type_fault js node path) = None"
  shows "list_all (\<lambda>k. \<not> has_key node k) UNSUPPORTED_KEYWORDS"
    and "\<exists>t. jget node ''type'' = JStr t \<and> t \<in> set SUPPORTED_TYPES \<and> (t \<noteq> ''string'' \<longrightarrow> jget node ''enum'' = JUndef)"
proof -
  show "list_all (\<lambda>k. \<not> has_key node k) UNSUPPORTED_KEYWORDS"
    using assms by (simp only: orelse_eq_None keyword_fault_None)
  have "type_fault js node path = None" using assms by simp
  then obtain t where "jget node ''type'' = JStr t" "t \<in> set SUPPORTED_TYPES" "t = ''string'' \<or> \<not> has_key node ''enum''"
    unfolding type_fault_def by (cases "jget node ''type''") (simp_all split: if_splits)
  with has_key_jget show "\<exists>t. jget node ''type'' = JStr t \<and> t \<in> set SUPPORTED_TYPES
      \<and> (t \<noteq> ''string'' \<longrightarrow> jget node ''enum'' = JUndef)" by blast
qed

lemma supported_types:
  "t \<in> set SUPPORTED_TYPES \<longleftrightarrow> t = ''string'' \<or> t = ''integer'' \<or> t = ''number'' \<or> t = ''boolean'' \<or> t = ''array''
     \<or> t = ''object''"
  unfolding SUPPORTED_TYPES_def by (simp only: list.set insert_iff empty_iff simp_thms)

lemma json_has_type_reads:
  "json_has_type ''string'' v \<longleftrightarrow> readString v \<noteq> None"
  "json_has_type ''number'' v \<longleftrightarrow> readNumber v \<noteq> None"
  "json_has_type ''boolean'' v \<longleftrightarrow> readBoolean v \<noteq> None"
  "json_has_type ''integer'' v \<longleftrightarrow> (\<exists>r. v = JNum (Fin r) \<and> isInteger (Fin r))"
  "json_has_type ''array'' v \<longleftrightarrow> (\<exists>xs. v = JArr xs)"
  "json_has_type ''object'' v \<longleftrightarrow> (\<exists>ob. v = JObj ob)"
  by (cases v; auto simp: json_has_type_def isFinite_def isInteger_def split: jsnum.splits)+

lemma string_draft07:
  assumes "list_all (\<lambda>k. \<not> has_key node k) UNSUPPORTED_KEYWORDS" and "jget node ''type'' = JStr ''string''"
  shows "draft07 (JObj node) v \<longleftrightarrow> readString v \<noteq> None \<and> enum_ok (jget node ''enum'') v"
proof (cases "readString v")
  case None
  have "\<not> type_ok (jget node ''type'') v" using None by (simp only: assms(2) json_has_type_reads type_ok.simps) simp
  then show ?thesis using None unfolding draft07_unsupported [OF assms(1)] by (simp only: simp_thms)
next
  case (Some s)
  have "minimum_ok b (JStr s)" for b by (cases b) simp_all
  then show ?thesis using Some draft07_scalar [OF assms(1), of v]
    by (simp add: assms(2) json_has_type_reads)
qed

lemma scalar_draft07:
  assumes "orelse (keyword_fault node path) (type_fault js node path) = None"
    and "jget node ''type'' = JStr ty" and "ty \<in> {''integer'', ''number'', ''boolean''}"
  shows "draft07 (JObj node) v \<longleftrightarrow> json_has_type ty v \<and> minimum_ok (jget node ''minimum'') v"
proof -
  note kw = node_checked(1) [OF assms(1)]
  have "ty \<noteq> ''string''" using assms(3) by auto
  then have enum_eq: "jget node ''enum'' = JUndef" using node_checked(2) [OF assms(1)] assms(2) by auto
  show ?thesis
  proof (cases "asRecord v = None \<and> asArray v = None")
    case True
    then show ?thesis using draft07_scalar [OF kw, of v] unfolding assms(2) enum_eq by simp
  next
    case False
    then have "\<not> json_has_type ty v" using assms(3) by (cases v) (auto simp: json_has_type_def)
    then show ?thesis unfolding draft07_unsupported [OF kw] assms(2) type_ok.simps by (simp only: simp_thms)
  qed
qed

lemma array_draft07:
  assumes "orelse (keyword_fault node path) (type_fault js node path) = None" and "jget node ''type'' = JStr ''array''"
  shows "draft07 (JObj node) v \<longleftrightarrow>
     (\<exists>xs. v = JArr xs \<and> (jget node ''items'' = JUndef \<or> list_all (draft07 (jget node ''items'')) xs))"
proof -
  note kw = node_checked(1) [OF assms(1)]
  have enum_eq: "jget node ''enum'' = JUndef" using node_checked(2) [OF assms(1)] assms(2) by simp
  show ?thesis
  proof (cases "asArray v")
    case None
    then have "\<not> type_ok (jget node ''type'') v" by (cases v) (simp_all add: assms(2) json_has_type_def)
    with None show ?thesis unfolding draft07_unsupported [OF kw] by auto
  next
    case (Some xs)
    then show ?thesis using draft07_array [OF kw, of xs] enum_eq by (simp add: assms(2) json_has_type_def)
  qed
qed

lemma object_draft07:
  assumes "orelse (keyword_fault node path) (type_fault js node path) = None" and "jget node ''type'' = JStr ''object''"
  shows "draft07 (JObj node) v \<longleftrightarrow> (\<exists>ob. v = JObj ob \<and> required_ok (jget node ''required'') (JObj ob)
     \<and> list_all (\<lambda>(k, sub). has_key ob k \<longrightarrow> draft07 sub (jget ob k)) (entries (jget node ''properties''))
     \<and> (jget node ''additionalProperties'' = JUndef
        \<or> list_all (\<lambda>(k, x). has_key (entries (jget node ''properties'')) k
                   \<or> draft07 (jget node ''additionalProperties'') x) ob))"
proof -
  note kw = node_checked(1) [OF assms(1)]
  have enum_eq: "jget node ''enum'' = JUndef" using node_checked(2) [OF assms(1)] assms(2) by simp
  show ?thesis
  proof (cases "asRecord v")
    case None
    then have "\<not> type_ok (jget node ''type'') v" by (cases v) (simp_all add: assms(2) json_has_type_def)
    with None show ?thesis unfolding draft07_unsupported [OF kw] by auto
  next
    case (Some ob)
    then show ?thesis using draft07_object [OF kw, of ob] enum_eq by (simp add: assms(2) json_has_type_def)
  qed
qed

lemma object_draft07_plain:
  assumes "orelse (keyword_fault node path) (type_fault js node path) = None" and "jget node ''type'' = JStr ''object''"
    and "plain_node node" and "additional_fault node path = None" and "safe_value v"
  shows "draft07 (JObj node) v \<longleftrightarrow> (\<exists>ob. v = JObj ob \<and> object_ok node ob \<and> closed_ok node ob)"
proof (cases "asRecord v")
  case None
  then show ?thesis unfolding object_draft07 [OF assms(1,2)] by auto
next
  case (Some ob)
  have "jget node ''enum'' = JUndef" using node_checked(2) [OF assms(1)] assms(2) by simp
  with Some show ?thesis
    using draft07_object_plain [OF node_checked(1) [OF assms(1)] assms(3,4), of ob] assms(5)
    by (simp add: assms(2) json_has_type_def)
qed

section \<open>Where the converters throw\<close>

text \<open>
  The accepted subset, written down once. The two converters differ in one place: an array without
  \<open>items\<close> is taken by the Zod converter and refused by the TypeBox one.
\<close>

function (sequential) convertible :: "bool \<Rightarrow> json \<Rightarrow> bool" where
  "convertible needs_items (JObj node) =
     (list_all (\<lambda>k. \<not> has_key node k) UNSUPPORTED_KEYWORDS
      \<and> (case jget node ''type'' of
           JStr t \<Rightarrow>
             t \<in> set SUPPORTED_TYPES \<and> (t = ''string'' \<or> \<not> has_key node ''enum'')
             \<and> (t = ''string'' \<longrightarrow> jget node ''enum'' = JUndef \<or>
                  (case jget node ''enum'' of JArr ms \<Rightarrow> ms \<noteq> [] \<and> list_all (\<lambda>x. readString x \<noteq> None) ms | _ \<Rightarrow> False))
             \<and> (t = ''array'' \<longrightarrow>
                  (if jget node ''items'' = JUndef then \<not> needs_items
                   else asArray (jget node ''items'') = None \<and> convertible needs_items (jget node ''items'')))
             \<and> (t = ''object'' \<longrightarrow>
                  jget node ''additionalProperties'' \<in> {JUndef, JBool True, JBool False}
                  \<and> (case jget node ''properties'' of
                       JObj ps \<Rightarrow> list_all (\<lambda>(k, sub). convertible needs_items sub) ps | _ \<Rightarrow> True))
         | _ \<Rightarrow> False))"
| "convertible needs_items _ = False"
  by pat_completeness auto

termination
  by (relation "measure (\<lambda>(n, s). size s)")
     (auto simp del: json.size intro: schema_entry_size schema_keyword_size)

lemma not_isl: "\<not> isl x \<Longrightarrow> \<exists>y. x = Inr y"
  by (cases x) simp_all

lemma isl_map_sum [simp]: "isl (map_sum f g x) \<longleftrightarrow> isl x"
  by (cases x) simp_all

lemma enum_members_isl:
  "isl (enum_members d path v) \<longleftrightarrow>
     \<not> (case v of JArr ms \<Rightarrow> ms \<noteq> [] \<and> list_all (\<lambda>x. readString x \<noteq> None) ms | _ \<Rightarrow> False)"
proof -
  have "list_ex (\<lambda>x. readString x = None) ms \<longleftrightarrow> \<not> list_all (\<lambda>x. readString x \<noteq> None) ms" for ms
    unfolding list_ex_iff list_all_iff by metis
  then show ?thesis by (cases v) (simp_all add: enum_members_def)
qed

lemma type_fault_None:
  "type_fault js node path = None \<longleftrightarrow>
     (\<exists>t. jget node ''type'' = JStr t \<and> t \<in> set SUPPORTED_TYPES \<and> (t = ''string'' \<or> \<not> has_key node ''enum''))"
  unfolding type_fault_def by (cases "jget node ''type''") simp_all

text \<open>What a node must satisfy, given the verdict on its subschemas.\<close>

lemma fault_free:
  "list_all (\<lambda>k. \<not> has_key node k) UNSUPPORTED_KEYWORDS
     \<and> (case jget node ''type'' of JStr t \<Rightarrow> t \<in> set SUPPORTED_TYPES \<and> (t = ''string'' \<or> \<not> has_key node ''enum'') \<and> P t | _ \<Rightarrow> False)
   \<longleftrightarrow> orelse (keyword_fault node path) (type_fault js node path) = None \<and> (\<exists>t. jget node ''type'' = JStr t \<and> P t)"
proof -
  have "(case jget node ''type'' of JStr t \<Rightarrow> t \<in> set SUPPORTED_TYPES \<and> (t = ''string'' \<or> \<not> has_key node ''enum'') \<and> P t | _ \<Rightarrow> False)
      \<longleftrightarrow> (\<exists>t. jget node ''type'' = JStr t \<and> t \<in> set SUPPORTED_TYPES \<and> (t = ''string'' \<or> \<not> has_key node ''enum'')) \<and> (\<exists>t. jget node ''type'' = JStr t \<and> P t)"
    by (cases "jget node ''type''") (simp_all only: json.case json.inject json.distinct simp_thms ex_simps, blast)
  then show ?thesis unfolding orelse_eq_None keyword_fault_None type_fault_None by (simp only: conj_assoc)
qed

definition branch_ok :: "bool \<Rightarrow> obj \<Rightarrow> string \<Rightarrow> bool" where
  "branch_ok needs_items node t =
     ((t = ''string'' \<longrightarrow> jget node ''enum'' = JUndef \<or>
         (case jget node ''enum'' of JArr ms \<Rightarrow> ms \<noteq> [] \<and> list_all (\<lambda>x. readString x \<noteq> None) ms | _ \<Rightarrow> False))
      \<and> (t = ''array'' \<longrightarrow>
           (if jget node ''items'' = JUndef then \<not> needs_items
            else asArray (jget node ''items'') = None \<and> convertible needs_items (jget node ''items'')))
      \<and> (t = ''object'' \<longrightarrow>
           jget node ''additionalProperties'' \<in> {JUndef, JBool True, JBool False}
           \<and> (case jget node ''properties'' of
                JObj ps \<Rightarrow> list_all (\<lambda>(k, sub). convertible needs_items sub) ps | _ \<Rightarrow> True)))"

lemma convertible_node:
  "convertible needs_items (JObj node) \<longleftrightarrow>
     orelse (keyword_fault node path) (type_fault js node path) = None
     \<and> (\<exists>t. jget node ''type'' = JStr t \<and> branch_ok needs_items node t)"
  unfolding fault_free [symmetric] convertible.simps(1) branch_ok_def ..

lemma isl_shape:
  assumes conv: "\<And>sub p. sub \<in> set (subschemas node) \<Longrightarrow> isl (conv sub p) \<longleftrightarrow> \<not> convertible n sub"
    and "jget node ''properties'' = JObj ps"
  shows "isl (traverse (\<lambda>(key, sub). map_sum (\<lambda>e. e) (f key) (conv sub (path @ ''/properties/'' @ key))) ps)
     \<longleftrightarrow> \<not> list_all (\<lambda>(k, sub). convertible n sub) ps"
proof -
  have "isl (conv (snd x) (path @ ''/properties/'' @ fst x)) \<longleftrightarrow> \<not> convertible n (snd x)" if "x \<in> set ps" for x
    using that by (intro conv subschema_property [OF assms(2), of "fst x"]) simp
  then show ?thesis unfolding traverse_isl list_ex_iff list_all_iff case_prod_unfold isl_map_sum by blast
qed

lemma canonical_convertible:
  "list_all (\<lambda>d. convertible True (read_field d ''input_schema'') \<and> convertible False (read_field d ''input_schema'')
     \<and> plain_schema (read_field d ''input_schema'')) CANONICAL_TOOLS"
  by code_simp

definition quiet_js :: js_runtime where
  "quiet_js = \<lparr>parse_json = (\<lambda>_. Inl []), stringify = (\<lambda>_. []), show_value = (\<lambda>_. [])\<rparr>"

end
