(* ===== verification/Zod_Schema.thy ===== *)
theory Zod_Schema
  imports Conversion
begin

text \<open>
  The conversion to Zod (packages/claude/src/json-schema-to-zod.ts). The library is not part of the
  repository: it is a record of the builders the converter calls, an argument of the definitions,
  and a locale states what its documentation promises of the schemas built.
\<close>

section \<open>The converter\<close>

record 'z zod =
  z_string :: 'z
  z_int :: 'z
  z_number :: 'z
  z_boolean :: 'z
  z_unknown :: 'z
  z_array :: "'z \<Rightarrow> 'z"
  z_enum :: "string list \<Rightarrow> 'z"
  z_record :: "'z \<Rightarrow> 'z \<Rightarrow> 'z"
  z_strictObject :: "(string \<times> 'z) list \<Rightarrow> 'z"
  z_looseObject :: "(string \<times> 'z) list \<Rightarrow> 'z"
  z_optional :: "'z \<Rightarrow> 'z"
  z_describe :: "string \<Rightarrow> 'z \<Rightarrow> 'z"
  z_gte :: "jsnum \<Rightarrow> 'z \<Rightarrow> 'z"
  z_lte :: "jsnum \<Rightarrow> 'z \<Rightarrow> 'z"
  z_gt :: "jsnum \<Rightarrow> 'z \<Rightarrow> 'z"
  z_lt :: "jsnum \<Rightarrow> 'z \<Rightarrow> 'z"

datatype open_object = Open_record | Open_passthrough

definition withDescription :: "'z zod \<Rightarrow> obj \<Rightarrow> 'z \<Rightarrow> 'z" where
  "withDescription z node t =
     (case jget node ''description'' of JStr d \<Rightarrow> if d \<noteq> [] then z_describe z d t else t | _ \<Rightarrow> t)"

definition zod_bound :: "(jsnum \<Rightarrow> 'z \<Rightarrow> 'z) \<Rightarrow> json \<Rightarrow> 'z \<Rightarrow> 'z" where
  "zod_bound f b t = (case b of JNum n \<Rightarrow> f n t | _ \<Rightarrow> t)"

definition applyNumericBounds :: "'z zod \<Rightarrow> obj \<Rightarrow> 'z \<Rightarrow> 'z" where
  "applyNumericBounds z node t =
     zod_bound (z_lt z) (jget node ''exclusiveMaximum'')
       (zod_bound (z_gt z) (jget node ''exclusiveMinimum'')
         (zod_bound (z_lte z) (jget node ''maximum'')
           (zod_bound (z_gte z) (jget node ''minimum'') t)))"

definition zod_buildShape :: "'z zod \<Rightarrow> 'z converter \<Rightarrow> obj \<Rightarrow> string \<Rightarrow> conversion_error + (string \<times> 'z) list" where
  "zod_buildShape z conv node path =
     (case jget node ''properties'' of
        JObj ps \<Rightarrow>
          traverse (\<lambda>(key, sub).
            map_sum (\<lambda>e. e) (\<lambda>t. (key, if required_key node key then t else z_optional z t))
              (conv sub (path @ ''/properties/'' @ key))) ps
      | _ \<Rightarrow> Inr [])"

definition zod_convertObject ::
  "'z zod \<Rightarrow> open_object option \<Rightarrow> 'z converter \<Rightarrow> obj \<Rightarrow> string \<Rightarrow> conversion_error + 'z" where
  "zod_convertObject z opts conv node path =
     (case additional_fault node path of
        Some e \<Rightarrow> Inl e
      | None \<Rightarrow>
          if entries (jget node ''properties'') = [] then
            Inr (if jget node ''additionalProperties'' = JBool False then z_strictObject z []
                 else if opts = Some Open_passthrough then z_looseObject z []
                 else z_record z (z_string z) (z_unknown z))
          else map_sum (\<lambda>e. e)
                 (if jget node ''additionalProperties'' = JBool False then z_strictObject z else z_looseObject z)
                 (zod_buildShape z conv node path))"

definition zod_convertString :: "'z zod \<Rightarrow> obj \<Rightarrow> string \<Rightarrow> conversion_error + 'z" where
  "zod_convertString z node path =
     (if jget node ''enum'' = JUndef then Inr (z_string z)
      else map_sum (\<lambda>e. e) (z_enum z)
             (enum_members ''every enum member must be a string in the supported subset'' path (jget node ''enum'')))"

definition zod_convertArray :: "'z zod \<Rightarrow> 'z converter \<Rightarrow> obj \<Rightarrow> string \<Rightarrow> conversion_error + 'z" where
  "zod_convertArray z conv node path =
     (case jget node ''items'' of
        JArr _ \<Rightarrow> Inl (conversion_fault path ''items'' ''tuple `items` is unsupported'')
      | JUndef \<Rightarrow> Inr (z_array z (z_unknown z))
      | items \<Rightarrow> map_sum (\<lambda>e. e) (z_array z) (conv items (path @ ''/items'')))"

definition zod_convertType ::
  "'z zod \<Rightarrow> open_object option \<Rightarrow> 'z converter \<Rightarrow> obj \<Rightarrow> string \<Rightarrow> conversion_error + 'z" where
  "zod_convertType z opts conv node path =
     (let t = jget node ''type'' in
      if t = JStr ''string'' then zod_convertString z node path
      else if t = JStr ''integer'' then Inr (applyNumericBounds z node (z_int z))
      else if t = JStr ''number'' then Inr (applyNumericBounds z node (z_number z))
      else if t = JStr ''boolean'' then Inr (z_boolean z)
      else if t = JStr ''array'' then zod_convertArray z conv node path
      else zod_convertObject z opts conv node path)"

lemma zod_type_cong [fundef_cong]:
  assumes eqs: "z = z'" "opts = opts'" "node = node'" "path = path'"
    and conv: "\<And>sub p. sub \<in> set (subschemas node') \<Longrightarrow> conv sub p = conv' sub p"
  shows "zod_convertType z opts conv node path = zod_convertType z' opts' conv' node' path'"
proof -
  have "zod_buildShape z' conv node' path' = zod_buildShape z' conv' node' path'"
    unfolding zod_buildShape_def
    by (auto split: json.split intro!: traverse_cong arg_cong [where f = "map_sum _ _"] conv
        intro: subschema_property)
  moreover have "zod_convertArray z' conv node' path' = zod_convertArray z' conv' node' path'"
    using conv [OF subschema_items]
    by (cases "jget node' ''items''") (simp_all add: zod_convertArray_def)
  ultimately show ?thesis
    unfolding zod_convertType_def zod_convertObject_def eqs by presburger
qed

function (sequential) zod_convert ::
  "js_runtime \<Rightarrow> 'z zod \<Rightarrow> open_object option \<Rightarrow> json \<Rightarrow> string \<Rightarrow> conversion_error + 'z" where
  "zod_convert js z opts (JObj node) path =
     (case orelse (keyword_fault node path) (type_fault js node path) of
        Some e \<Rightarrow> Inl e
      | None \<Rightarrow> map_sum (\<lambda>e. e) (withDescription z node)
                  (zod_convertType z opts (\<lambda>sub p. zod_convert js z opts sub p) node path))"
| "zod_convert js z opts _ path = Inl (conversion_fault path ''schema'' ''a schema node must be a JSON object'')"
  by pat_completeness auto

termination
  by (relation "measure (\<lambda>(js, z, opts, node, path). size node)")
     (auto simp del: json.size intro: subschema_size)

definition jsonSchemaToZod :: "js_runtime \<Rightarrow> 'z zod \<Rightarrow> open_object option \<Rightarrow> json \<Rightarrow> conversion_error + 'z" where
  "jsonSchemaToZod js z opts schema = zod_convert js z opts schema ''#''"

definition jsonSchemaToZodRawShape ::
  "js_runtime \<Rightarrow> 'z zod \<Rightarrow> open_object option \<Rightarrow> json \<Rightarrow> conversion_error + (string \<times> 'z) list" where
  "jsonSchemaToZodRawShape js z opts schema =
     (case schema of
        JObj node \<Rightarrow>
          if jget node ''type'' \<noteq> JStr ''object''
          then Inl (conversion_fault ''#'' ''type''
                 ''jsonSchemaToZodRawShape requires an object-rooted schema (type:object)'')
          else (case keyword_fault node ''#'' of
                  Some e \<Rightarrow> Inl e
                | None \<Rightarrow> zod_buildShape z (zod_convert js z opts) node ''#'')
      | _ \<Rightarrow> Inl (conversion_fault ''#'' ''type''
               ''jsonSchemaToZodRawShape requires an object-rooted schema (type:object)''))"

section \<open>What the Zod documentation promises\<close>

text \<open>
  \<open>accepts t v\<close>: \<open>t.safeParse(v).success\<close>. Version 4: \<open>z.int()\<close> takes the safe integers only, and the
  entry of a shape is parsed from the value of its key, \<open>undefined\<close> when there is none.
\<close>

locale zod_library =
  fixes z :: "'z zod" and accepts :: "'z \<Rightarrow> json \<Rightarrow> bool"
  assumes string: "accepts (z_string z) v \<longleftrightarrow> readString v \<noteq> None"
    and int: "accepts (z_int z) v \<longleftrightarrow> (\<exists>r. v = JNum (Fin r) \<and> isInteger (Fin r) \<and> safe_integer r)"
    and number: "accepts (z_number z) v \<longleftrightarrow> readNumber v \<noteq> None"
    and boolean: "accepts (z_boolean z) v \<longleftrightarrow> readBoolean v \<noteq> None"
    and unknown: "accepts (z_unknown z) v"
    and array: "accepts (z_array z t) v \<longleftrightarrow> (\<exists>xs. v = JArr xs \<and> list_all (accepts t) xs)"
    and enum: "accepts (z_enum z ms) v \<longleftrightarrow> v \<in> JStr ` set ms"
    and record_of: "accepts (z_record z key t) v \<longleftrightarrow>
      (\<exists>ob. v = JObj ob \<and> list_all (\<lambda>(k, x). accepts key (JStr k) \<and> accepts t x) ob)"
    and strictObject: "accepts (z_strictObject z shape) v \<longleftrightarrow>
      (\<exists>ob. v = JObj ob \<and> list_all (\<lambda>(k, t). accepts t (jget ob k)) shape \<and> list_all (\<lambda>(k, x). k \<in> fst ` set shape) ob)"
    and looseObject: "accepts (z_looseObject z shape) v \<longleftrightarrow>
      (\<exists>ob. v = JObj ob \<and> list_all (\<lambda>(k, t). accepts t (jget ob k)) shape)"
    and optional: "accepts (z_optional z t) v \<longleftrightarrow> v = JUndef \<or> accepts t v"
    and describe: "accepts (z_describe z d t) v \<longleftrightarrow> accepts t v"
    and gte: "accepts (z_gte z (Fin b) t) v \<longleftrightarrow> accepts t v \<and> (\<exists>r. v = JNum (Fin r) \<and> b \<le> r)"

text \<open>A library that keeps what was built.\<close>

datatype bound = Gte | Lte | Gt | Lt

fun in_bound :: "bound \<Rightarrow> jsnum \<Rightarrow> jsnum \<Rightarrow> bool" where
  "in_bound Gte (Fin b) (Fin r) = (b \<le> r)"
| "in_bound Lte (Fin b) (Fin r) = (r \<le> b)"
| "in_bound Gt (Fin b) (Fin r) = (b < r)"
| "in_bound Lt (Fin b) (Fin r) = (r < b)"
| "in_bound _ _ _ = False"

datatype zod_type =
    ZString
  | ZInt
  | ZNumber
  | ZBoolean
  | ZUnknown
  | ZArray zod_type
  | ZEnum "string list"
  | ZRecord zod_type zod_type
  | ZStrict "(string \<times> zod_type) list"
  | ZLoose "(string \<times> zod_type) list"
  | ZOptional zod_type
  | ZDescribe string zod_type
  | ZBound bound jsnum zod_type

definition zod_terms :: "zod_type zod" where
  "zod_terms =
     \<lparr>z_string = ZString, z_int = ZInt, z_number = ZNumber, z_boolean = ZBoolean, z_unknown = ZUnknown,
      z_array = ZArray, z_enum = ZEnum, z_record = ZRecord, z_strictObject = ZStrict, z_looseObject = ZLoose,
      z_optional = ZOptional, z_describe = ZDescribe, z_gte = ZBound Gte, z_lte = ZBound Lte, z_gt = ZBound Gt, z_lt = ZBound Lt\<rparr>"

fun zod_accepts :: "zod_type \<Rightarrow> json \<Rightarrow> bool" where
  "zod_accepts ZString v = (readString v \<noteq> None)"
| "zod_accepts ZInt v = (case v of JNum (Fin r) \<Rightarrow> isInteger (Fin r) \<and> safe_integer r | _ \<Rightarrow> False)"
| "zod_accepts ZNumber v = (readNumber v \<noteq> None)"
| "zod_accepts ZBoolean v = (readBoolean v \<noteq> None)"
| "zod_accepts ZUnknown v = True"
| "zod_accepts (ZArray t) v = (case v of JArr xs \<Rightarrow> list_all (zod_accepts t) xs | _ \<Rightarrow> False)"
| "zod_accepts (ZEnum ms) v = (v \<in> JStr ` set ms)"
| "zod_accepts (ZRecord key t) v =
     (case v of JObj ob \<Rightarrow> list_all (\<lambda>(k, x). zod_accepts key (JStr k) \<and> zod_accepts t x) ob | _ \<Rightarrow> False)"
| "zod_accepts (ZStrict shape) v =
     (case v of
        JObj ob \<Rightarrow> list_all (\<lambda>(k, t). zod_accepts t (jget ob k)) shape \<and> list_all (\<lambda>(k, x). k \<in> fst ` set shape) ob
      | _ \<Rightarrow> False)"
| "zod_accepts (ZLoose shape) v =
     (case v of JObj ob \<Rightarrow> list_all (\<lambda>(k, t). zod_accepts t (jget ob k)) shape | _ \<Rightarrow> False)"
| "zod_accepts (ZOptional t) v = (v = JUndef \<or> zod_accepts t v)"
| "zod_accepts (ZDescribe d t) v = zod_accepts t v"
| "zod_accepts (ZBound k b t) v = (zod_accepts t v \<and> (case v of JNum n \<Rightarrow> in_bound k b n | _ \<Rightarrow> False))"

interpretation zod_terms: zod_library zod_terms zod_accepts
  by unfold_locales (auto simp: zod_terms_def split: json.splits jsnum.splits elim!: in_bound.elims)

section \<open>Zod conversion is exact on the subset\<close>

context zod_library
begin

lemma numeric_bounds:
  assumes "plain_node node" and "\<And>v. accepts t v \<Longrightarrow> \<exists>r. v = JNum (Fin r)"
  shows "accepts (applyNumericBounds z node t) v \<longleftrightarrow> accepts t v \<and> minimum_ok (jget node ''minimum'') v"
proof -
  have "\<not> has_key node k" if "k \<notin> set PLAIN_KEYWORDS" for k
    using assms(1) that by (auto simp: plain_node_def list_all_iff has_key_def)
  then have "jget node k = JUndef" if "k \<notin> set PLAIN_KEYWORDS" for k using that has_key_jget by blast
  then have none: "jget node ''exclusiveMaximum'' = JUndef" "jget node ''exclusiveMinimum'' = JUndef"
      "jget node ''maximum'' = JUndef"
    by (simp_all add: PLAIN_KEYWORDS_def)
  show ?thesis
  proof (cases "jget node ''minimum''")
    case (JNum n)
    with assms(1) obtain b where "n = Fin b" by (cases n) (auto simp: plain_node_def isFinite_def)
    with JNum none assms(2) [of v] show ?thesis
      by (auto simp: applyNumericBounds_def zod_bound_def gte)
  qed (simp_all add: applyNumericBounds_def zod_bound_def none)
qed

lemma described: "accepts (withDescription z node t) v \<longleftrightarrow> accepts t v"
  by (simp add: withDescription_def describe split: json.split)

text \<open>
  What a conversion must achieve: on the values a client can send the schema built accepts what the
  original accepts, and it never takes \<open>undefined\<close>, so only a wrapped property may be absent.
\<close>

definition faithful :: "'z \<Rightarrow> json \<Rightarrow> bool" where
  "faithful t s \<longleftrightarrow> (\<forall>v. safe_value v \<longrightarrow> (accepts t v \<longleftrightarrow> draft07 s v)) \<and> \<not> accepts t JUndef"

lemma shape_faithful:
  assumes conv: "\<And>sub p t. sub \<in> set (subschemas node) \<Longrightarrow> conv sub p = Inr t \<Longrightarrow> faithful t sub"
    and shape: "zod_buildShape z conv node path = Inr shape" and ob: "safe_value (JObj ob)"
  shows "list_all (\<lambda>(k, t). accepts t (jget ob k)) shape \<longleftrightarrow> object_ok node ob"
    and "map fst shape = map fst (entries (jget node ''properties''))"
proof -
  let ?ps = "entries (jget node ''properties'')"
  let ?wrap = "\<lambda>key t. if required_key node key then t else z_optional z t"
  have rel: "list_all2 (\<lambda>(key, sub) (k, u). k = key \<and> (\<exists>p t. conv sub p = Inr t \<and> u = ?wrap key t)) ?ps shape"
  proof (cases "jget node ''properties''")
    case (JObj ps)
    have "list_all2 (\<lambda>x y. (case x of (key, sub) \<Rightarrow>
        map_sum (\<lambda>e. e) (\<lambda>t. (key, ?wrap key t)) (conv sub (path @ ''/properties/'' @ key))) = Inr y) ps shape"
      using shape JObj by (auto simp: zod_buildShape_def intro: traverse_Inr)
    then show ?thesis unfolding JObj entries.simps
      by (rule list_all2_mono) (clarsimp elim!: map_sum_InrE, blast)
  qed (use shape in \<open>simp_all add: zod_buildShape_def\<close>)
  then show "map fst shape = map fst ?ps"
    by (induction rule: list_all2_induct) auto
  have "accepts (?wrap key t) (jget ob key) \<longleftrightarrow>
      (if jget ob key = JUndef then \<not> required_key node key else draft07 sub (jget ob key))"
    if "sub \<in> set (subschemas node)" "conv sub p = Inr t" for key sub p t
    using conv [OF that] safe_object(2) [OF ob, of key] by (auto simp: faithful_def optional)
  note wrapped = this
  have "list_all (\<lambda>(k, t). accepts t (jget ob k)) us \<longleftrightarrow>
      list_all (\<lambda>(k, sub). if jget ob k = JUndef then \<not> required_key node k else draft07 sub (jget ob k)) ps"
    if "list_all2 (\<lambda>(key, sub) (k, u). k = key \<and> (\<exists>p t. conv sub p = Inr t \<and> u = ?wrap key t)) ps us"
      and "\<And>key sub. (key, sub) \<in> set ps \<Longrightarrow> sub \<in> set (subschemas node)" for ps us
    using that
  proof (induction rule: list_all2_induct)
    case (Cons x xs y ys)
    obtain key sub u where xy: "x = (key, sub)" "y = (key, u)" using Cons.hyps(1) by (cases x; cases y) simp
    with Cons.hyps(1) obtain p t where "conv sub p = Inr t" "u = ?wrap key t" by auto
    with wrapped [of sub p t key] Cons.prems [of key sub] xy have
      "accepts u (jget ob key) \<longleftrightarrow> (if jget ob key = JUndef then \<not> required_key node key else draft07 sub (jget ob key))"
      by simp
    moreover have "list_all (\<lambda>(k, t). accepts t (jget ob k)) ys \<longleftrightarrow>
        list_all (\<lambda>(k, sub). if jget ob k = JUndef then \<not> required_key node k else draft07 sub (jget ob k)) xs"
      by (rule Cons.IH, rule Cons.prems, rule list.set_intros(2))
    ultimately show ?case unfolding xy list.pred_inject(2) prod.case by (simp only:)
  qed simp
  from this [OF rel subschema_entry] show "list_all (\<lambda>(k, t). accepts t (jget ob k)) shape \<longleftrightarrow> object_ok node ob"
    unfolding object_ok_def by simp
qed

lemma string_faithful:
  assumes "orelse (keyword_fault node path) (type_fault js node path) = None" and "jget node ''type'' = JStr ''string''"
    and "zod_convertString z node path = Inr t"
  shows "faithful t (JObj node)"
proof (cases "jget node ''enum'' = JUndef")
  case True
  with assms(3) have "t = z_string z" by (simp add: zod_convertString_def)
  then show ?thesis
    unfolding faithful_def string_draft07 [OF node_checked(1) [OF assms(1)] assms(2)] True
    by (simp only: string readString.simps enum_ok.simps simp_thms)
next
  case False
  from assms(3) [unfolded zod_convertString_def if_not_P [OF False]] obtain ms where
    ms: "t = z_enum z ms" "enum_members ''every enum member must be a string in the supported subset'' path (jget node ''enum'') = Inr ms"
    by (rule map_sum_InrE)
  have enum_eq: "jget node ''enum'' = JArr (map JStr ms)" using enum_members_Inr [OF ms(2)] by blast
  show ?thesis
    unfolding faithful_def string_draft07 [OF node_checked(1) [OF assms(1)] assms(2)] ms(1) enum enum_eq enum_ok_strings
    by auto
qed

lemma scalar_faithful:
  assumes "orelse (keyword_fault node path) (type_fault js node path) = None"
    and "jget node ''type'' = JStr ty" and "ty \<in> {''integer'', ''number'', ''boolean''}"
    and "\<And>v. accepts t v \<Longrightarrow> v \<noteq> JUndef"
    and "\<And>v. safe_value v \<Longrightarrow> accepts t v \<longleftrightarrow> json_has_type ty v \<and> minimum_ok (jget node ''minimum'') v"
  shows "faithful t (JObj node)"
  using scalar_draft07 [OF assms(1-3)] assms(4,5) unfolding faithful_def by blast

lemma array_faithful:
  assumes "orelse (keyword_fault node path) (type_fault js node path) = None" and "jget node ''type'' = JStr ''array''"
    and conv: "\<And>sub p t. sub \<in> set (subschemas node) \<Longrightarrow> conv sub p = Inr t \<Longrightarrow> faithful t sub"
    and "zod_convertArray z conv node path = Inr t"
  shows "faithful t (JObj node)"
proof -
  obtain u where u: "t = z_array z u" "jget node ''items'' = JUndef \<and> u = z_unknown z \<or> jget node ''items'' \<noteq> JUndef \<and> faithful u (jget node ''items'')"
    using assms(4) conv [OF subschema_items]
    by (cases "jget node ''items''") (auto simp: zod_convertArray_def elim!: map_sum_InrE)
  then show ?thesis unfolding faithful_def array_draft07 [OF assms(1,2)] u(1) array
    by (auto simp: unknown list_all_iff faithful_def)
qed

lemma object_faithful:
  assumes "orelse (keyword_fault node path) (type_fault js node path) = None" and "jget node ''type'' = JStr ''object''"
    and "plain_node node"
    and conv: "\<And>sub p t. sub \<in> set (subschemas node) \<Longrightarrow> conv sub p = Inr t \<Longrightarrow> faithful t sub"
    and "zod_convertObject z opts conv node path = Inr t"
  shows "faithful t (JObj node)"
proof -
  have af: "additional_fault node path = None"
    using assms(5) unfolding zod_convertObject_def by (simp split: option.splits)
  have obj: "draft07 (JObj node) v \<longleftrightarrow> (\<exists>ob. v = JObj ob \<and> object_ok node ob \<and> closed_ok node ob)"
    if "safe_value v" for v
    using object_draft07_plain [OF assms(1-3) af that] .
  let ?ap = "jget node ''additionalProperties''" and ?ps = "entries (jget node ''properties'')"
  have result: "(\<forall>ob. safe_value (JObj ob) \<longrightarrow> (accepts t (JObj ob) \<longleftrightarrow> object_ok node ob \<and> closed_ok node ob))
      \<and> (\<forall>v. asRecord v = None \<longrightarrow> \<not> accepts t v)"
  proof (cases "?ps = []")
    case True
    from assms(5) [unfolded zod_convertObject_def af option.case if_P [OF True]]
    have "t = (if ?ap = JBool False then z_strictObject z [] else if opts = Some Open_passthrough then z_looseObject z []
        else z_record z (z_string z) (z_unknown z))" by simp
    with True show ?thesis
      by (auto simp: strictObject looseObject record_of string unknown object_ok_def closed_ok_def)
  next
    case False
    from assms(5) [unfolded zod_convertObject_def af option.case if_not_P [OF False]]
    obtain shape where shape: "zod_buildShape z conv node path = Inr shape"
        "t = (if ?ap = JBool False then z_strictObject z else z_looseObject z) shape" by (rule map_sum_InrE)
    have "map fst shape = map fst ?ps"
      by (rule shape_faithful(2) [OF conv shape(1), where ob = "[]"]) simp_all
    then have "fst ` set shape = fst ` set ?ps" by (metis list.set_map)
    with shape_faithful(1) [OF conv shape(1)] show ?thesis by (auto simp: shape(2) strictObject looseObject closed_ok_def)
  qed
  have "accepts t v \<longleftrightarrow> draft07 (JObj node) v" if "safe_value v" for v
    using obj [OF that] result that by (cases v) auto
  moreover have "\<not> accepts t JUndef" using result by simp
  ultimately show ?thesis unfolding faithful_def by blast
qed

lemma type_faithful:
  assumes ok: "orelse (keyword_fault node path) (type_fault js node path) = None" and plain: "plain_node node"
    and conv: "\<And>sub p t. sub \<in> set (subschemas node) \<Longrightarrow> conv sub p = Inr t \<Longrightarrow> faithful t sub"
    and u: "zod_convertType z opts conv node path = Inr u"
  shows "faithful u (JObj node)"
proof -
  obtain ty where ty: "jget node ''type'' = JStr ty" "ty \<in> set SUPPORTED_TYPES" using node_checked(2) [OF ok] by blast
  have num: "json_has_type k v \<Longrightarrow> k \<in> {''integer'', ''number''} \<Longrightarrow> \<exists>r. v = JNum (Fin r)" for k v
    by (cases v) (auto simp: json_has_type_def isFinite_def isInteger_def split: jsnum.splits)
  from ty(2) [unfolded supported_types] show ?thesis
  proof (elim disjE)
    assume 1: "ty = ''string''"
    with u ty(1) show ?thesis using string_faithful [OF ok] by (simp add: zod_convertType_def)
  next
    assume 2: "ty = ''integer''"
    with u ty(1) have u': "u = applyNumericBounds z node (z_int z)" by (simp add: zod_convertType_def)
    have n: "\<exists>r. v = JNum (Fin r)" if "accepts (z_int z) v" for v using that by (auto simp: int)
    have b: "accepts u v \<longleftrightarrow> accepts (z_int z) v \<and> minimum_ok (jget node ''minimum'') v" for v
      unfolding u' by (rule numeric_bounds [OF plain n])
    have "accepts u v \<longleftrightarrow> json_has_type ty v \<and> minimum_ok (jget node ''minimum'') v" if "safe_value v" for v
      using that by (auto simp: 2 b int json_has_type_reads)
    moreover have "v \<noteq> JUndef" if "accepts u v" for v
      using that by (auto simp: b int)
    ultimately show ?thesis by (intro scalar_faithful [OF ok ty(1)]) (simp_all add: 2)
  next
    assume 3: "ty = ''number''"
    with u ty(1) have u': "u = applyNumericBounds z node (z_number z)" by (simp add: zod_convertType_def)
    have n: "\<exists>r. v = JNum (Fin r)" if "accepts (z_number z) v" for v
      using that num [of "''number''" v] by (simp add: number json_has_type_reads)
    have b: "accepts u v \<longleftrightarrow> accepts (z_number z) v \<and> minimum_ok (jget node ''minimum'') v" for v
      unfolding u' by (rule numeric_bounds [OF plain n])
    have "accepts u v \<longleftrightarrow> json_has_type ty v \<and> minimum_ok (jget node ''minimum'') v" for v
      by (simp add: 3 b number json_has_type_reads)
    moreover have "v \<noteq> JUndef" if "accepts u v" for v
      using that by (auto simp: b number)
    ultimately show ?thesis by (intro scalar_faithful [OF ok ty(1)]) (simp_all add: 3)
  next
    assume 4: "ty = ''boolean''"
    with u ty(1) have u': "u = z_boolean z" by (simp add: zod_convertType_def)
    have "minimum_ok b (JBool x)" for b x by (cases b) simp_all
    then have "accepts u v \<longleftrightarrow> json_has_type ty v \<and> minimum_ok (jget node ''minimum'') v" for v
      by (cases v) (simp_all add: 4 u' boolean json_has_type_reads)
    moreover have "v \<noteq> JUndef" if "accepts u v" for v using that by (auto simp: u' boolean)
    ultimately show ?thesis by (intro scalar_faithful [OF ok ty(1)]) (simp_all add: 4)
  next
    assume 5: "ty = ''array''"
    with u ty(1) have "zod_convertArray z conv node path = Inr u" by (simp add: zod_convertType_def)
    from array_faithful [OF ok _ conv this] ty(1) 5 show ?thesis by simp
  next
    assume 6: "ty = ''object''"
    with u ty(1) have "zod_convertObject z opts conv node path = Inr u" by (simp add: zod_convertType_def)
    from object_faithful [OF ok _ plain conv this] ty(1) 6 show ?thesis by simp
  qed
qed

lemma convert_faithful:
  "plain_schema s \<Longrightarrow> zod_convert js z opts s path = Inr t \<Longrightarrow> faithful t s"
proof (induction s arbitrary: path t rule: measure_induct_rule [where f = size])
  case (less s)
  obtain node where s: "s = JObj node" using less.prems(2) by (cases s) simp_all
  have plain: "plain_node node" "\<And>sub. sub \<in> set (subschemas node) \<Longrightarrow> plain_schema sub"
    using less.prems(1) by (simp_all add: s list_all_iff)
  have ok: "orelse (keyword_fault node path) (type_fault js node path) = None"
    using less.prems(2) unfolding s zod_convert.simps(1) by (simp split: option.splits)
  from less.prems(2) [unfolded s zod_convert.simps(1) ok option.case] obtain u where
    u: "zod_convertType z opts (zod_convert js z opts) node path = Inr u" "t = withDescription z node u"
    by (rule map_sum_InrE)
  have "faithful u (JObj node)"
  proof (rule type_faithful [OF ok plain(1) _ u(1)])
    fix sub p t
    assume sub: "sub \<in> set (subschemas node)" "zod_convert js z opts sub p = Inr t"
    show "faithful t sub"
      by (rule less.IH [OF _ plain(2) sub(2)]) (use s subschema_size sub(1) in simp_all)
  qed
  then show ?case unfolding faithful_def u(2) described s .
qed

end

lemma zod_throws_iff: "isl (zod_convert js z opts s path) \<longleftrightarrow> \<not> convertible False s"
proof (induction s arbitrary: path rule: measure_induct_rule [where f = size])
  case (less s)
  show ?case
  proof (cases s)
    case (JObj node)
    let ?conv = "\<lambda>sub p. zod_convert js z opts sub p"
    have conv: "isl (?conv sub p) \<longleftrightarrow> \<not> convertible False sub" if "sub \<in> set (subschemas node)" for sub p
      using less.IH JObj subschema_size [OF that] by blast
    show ?thesis
    proof (cases "orelse (keyword_fault node path) (type_fault js node path)")
      case None
      obtain t where t: "jget node ''type'' = JStr t" "t \<in> set SUPPORTED_TYPES" using node_checked(2) [OF None] by blast
      have str: "isl (zod_convertString z node path) \<longleftrightarrow> \<not> branch_ok False node ''string''"
        unfolding zod_convertString_def branch_ok_def by (simp add: enum_members_isl)
      have arr: "isl (zod_convertArray z ?conv node path) \<longleftrightarrow> \<not> branch_ok False node ''array''"
        using conv [OF subschema_items] by (cases "jget node ''items''") (simp_all add: zod_convertArray_def branch_ok_def)
      have obj: "isl (zod_convertObject z opts ?conv node path) \<longleftrightarrow> \<not> branch_ok False node ''object''"
      proof (cases "additional_fault node path")
        case None
        then have ap: "jget node ''additionalProperties'' \<in> {JUndef, JBool True, JBool False}"
          using additional_fault_None by blast
        show ?thesis
        proof (cases "jget node ''properties''")
          case (JObj ps)
          from isl_shape [OF conv this] have sh: "isl (zod_buildShape z ?conv node path) \<longleftrightarrow> \<not> list_all (\<lambda>(k, sub). convertible False sub) ps"
            unfolding zod_buildShape_def JObj json.case .
          show ?thesis unfolding zod_convertObject_def None option.case branch_ok_def JObj json.case entries.simps
            using ap sh by (cases ps) simp_all
        qed (use ap in \<open>simp_all add: zod_convertObject_def None branch_ok_def\<close>)
      next
        case (Some e)
        then have "\<not> jget node ''additionalProperties'' \<in> {JUndef, JBool True, JBool False}"
          using additional_fault_None [of node path] by simp
        with Some show ?thesis unfolding zod_convertObject_def branch_ok_def by simp
      qed
      have "isl (zod_convertType z opts ?conv node path) \<longleftrightarrow> \<not> branch_ok False node t"
        using t(2) [unfolded supported_types]
        by (elim disjE) (simp_all add: zod_convertType_def t(1) str arr obj, simp_all add: branch_ok_def)
      then show ?thesis unfolding JObj convertible_node [where path = path and js = js] zod_convert.simps(1) None option.case
        by (simp add: t(1))
    qed (simp add: JObj convertible_node [where path = path and js = js] del: convertible.simps)
  qed simp_all
qed

section \<open>Property\<close>

text \<open>
  C16. The Zod schema validates what the published schema does. For a schema of plain keywords, and
  any library that behaves as the Zod documentation says, a schema that converts accepts a JSON
  value exactly when the value is valid for the original (draft-07), as long as the integers in the
  value are exact JavaScript numbers; closed objects stay closed and open ones open.
\<close>

theorem zod_conversion_exact:
  assumes "zod_library z accepts" and "plain_schema s" and "jsonSchemaToZod js z opts s = Inr t" and "safe_value v"
  shows "accepts t v \<longleftrightarrow> draft07 s v"
  using zod_library.convert_faithful [OF assms(1,2) assms(3) [unfolded jsonSchemaToZod_def]] assms(4)
  unfolding zod_library.faithful_def [OF assms(1)] by blast

theorem zod_conversion_exact_witness:
  "\<exists>t. jsonSchemaToZod quiet_js zod_terms None (read_field MX_AWAIT_RESULT ''input_schema'') = Inr t
     \<and> (zod_accepts t (JObj [(''handle'', JStr ''inv-1''), (''wait_ms'', JStr ''soon'')])
        \<longleftrightarrow> draft07 (read_field MX_AWAIT_RESULT ''input_schema'') (JObj [(''handle'', JStr ''inv-1''), (''wait_ms'', JStr ''soon'')]))
     \<and> \<not> draft07 (read_field MX_AWAIT_RESULT ''input_schema'') (JObj [(''handle'', JStr ''inv-1''), (''wait_ms'', JStr ''soon'')])"
proof -
  let ?s = "read_field MX_AWAIT_RESULT ''input_schema''" and ?v = "JObj [(''handle'', JStr ''inv-1''), (''wait_ms'', JStr ''soon'')]"
  have "convertible False ?s" by code_simp
  then have "\<not> isl (jsonSchemaToZod quiet_js zod_terms None ?s)" unfolding jsonSchemaToZod_def zod_throws_iff not_not .
  from not_isl [OF this] obtain t where t: "jsonSchemaToZod quiet_js zod_terms None ?s = Inr t" ..
  have plain: "plain_schema ?s" and safe: "safe_value ?v" and not_valid: "\<not> draft07 ?s ?v" by code_simp+
  show ?thesis
    by (intro exI conjI, rule t, rule zod_conversion_exact [OF zod_terms.zod_library_axioms plain t safe], rule not_valid)
qed

end
