(* ===== verification/Claude.thy ===== *)
theory Claude
  imports Binding Zod_Schema
begin

text \<open>
  The Claude binding (packages/claude/src): the namespaced tool names (names.ts), the resolution of
  deferred results (resolve.ts), the permission callback with its operator prompt (can-use-tool.ts)
  and the in-process tool server (tool-server.ts). The agent SDK that calls them is not part of
  the repository: it is the caller.
\<close>

section \<open>Tool names\<close>

definition DEFAULT_SERVER_NAME :: string where
  "DEFAULT_SERVER_NAME = ''mx''"

definition NAMESPACE_PREFIX :: string where
  "NAMESPACE_PREFIX = ''mcp__''"

definition mxToolName :: "string \<Rightarrow> string option \<Rightarrow> string" where
  "mxToolName verb serverName = NAMESPACE_PREFIX @ or_default serverName DEFAULT_SERVER_NAME @ ''__'' @ verb"

definition mxVerbFromToolName :: "string \<Rightarrow> string option \<Rightarrow> string option" where
  "mxVerbFromToolName toolName serverName =
     (let pre = NAMESPACE_PREFIX @ or_default serverName DEFAULT_SERVER_NAME @ ''__'' in
      if \<not> startsWith toolName pre then None
      else (let verb = drop (length pre) toolName in if startsWith verb ''mx_'' then Some verb else None))"

section \<open>Deferred results\<close>

definition DEFAULT_RESOLVE_TIMEOUT_MS :: jsnum where
  "DEFAULT_RESOLVE_TIMEOUT_MS = Fin 60000"

record 'd resolve_options =
  ro_resolveTimeoutMs :: "jsnum option"
  ro_awaitApproval :: "bool option"
  ro_sleep :: "(rat \<Rightarrow> 'd host \<Rightarrow> 'd host) option"
  ro_now :: "('d host \<Rightarrow> rat) option"
  ro_pollIntervalMs :: "jsnum option"

definition pollToTerminal :: "string \<Rightarrow> 'd daemon_call \<Rightarrow> 'd resolve_options \<Rightarrow> ('d, obj tool_result) async" where
  "pollToTerminal hdl daemon opts =
     mxAwaitResult hdl (Some (or_default (ro_resolveTimeoutMs opts) DEFAULT_RESOLVE_TIMEOUT_MS))
       \<lparr>d_daemon = daemon, d_sleep = ro_sleep opts, d_now = ro_now opts, d_pollIntervalMs = ro_pollIntervalMs opts\<rparr>"

definition resolveDeferred ::
  "obj tool_result \<Rightarrow> 'd daemon_call \<Rightarrow> 'd resolve_options \<Rightarrow> ('d, obj tool_result) async" where
  "resolveDeferred r daemon opts =
     (case r_handle r of
        None \<Rightarrow> resolve r
      | Some hdl \<Rightarrow>
          if r_status r = Running then pollToTerminal hdl daemon opts
          else if r_status r = AwaitingApproval \<and> ro_awaitApproval opts = Some True
          then pollToTerminal hdl daemon opts
          else resolve r)"

section \<open>The permission callback\<close>

definition RISK_BEARING_VERBS :: "string list" where
  "RISK_BEARING_VERBS = [''mx_delegate_tool'', ''mx_run_command'']"

record approval_summary =
  as_tool :: string
  as_agent :: "string option"
  as_command :: "string option"
  as_args_summary :: string
  as_risk :: risk

definition defaultShouldPrompt :: "string \<Rightarrow> obj \<Rightarrow> bool" where
  "defaultShouldPrompt verb input = (verb \<in> set RISK_BEARING_VERBS)"

definition riskHint :: "string \<Rightarrow> risk" where
  "riskHint verb =
     (if verb = ''mx_run_command'' then high else if verb = ''mx_delegate_tool'' then medium else low)"

definition nonSecretKeys :: "obj \<Rightarrow> string list" where
  "nonSecretKeys ob = filter (\<lambda>key. \<not> credential_key key) (map fst ob)"

text \<open>\<open>xs.join(', ')\<close>\<close>

fun join_comma :: "string list \<Rightarrow> string" where
  "join_comma [] = []"
| "join_comma [x] = x"
| "join_comma (x # xs) = x @ '', '' @ join_comma xs"

definition summariseArgs :: "string \<Rightarrow> obj \<Rightarrow> string" where
  "summariseArgs verb input =
     (if verb = ''mx_delegate_tool'' then
        ''tool='' @ or_default (readString (jget input ''tool'')) ''(unknown)'' @ ''; args keys: [''
          @ join_comma (nonSecretKeys (or_default (asRecord (jget input ''args'')) [])) @ '']''
      else if verb = ''mx_run_command'' then
        ''argc='' @ show_nat (length (or_default (asArray (jget input ''args'')) []))
          @ (if readString (jget input ''cwd'') \<noteq> None then ''; cwd set'' else [])
      else ''keys: ['' @ join_comma (nonSecretKeys input) @ '']'')"

definition buildApprovalSummary :: "string \<Rightarrow> obj \<Rightarrow> approval_summary" where
  "buildApprovalSummary verb input =
     \<lparr>as_tool = verb, as_agent = readString (jget input ''agent''), as_command = readString (jget input ''command''),
      as_args_summary = summariseArgs verb input, as_risk = riskHint verb\<rparr>"

datatype permission = Permit obj | Deny string

text \<open>
  What a permission callback does: the summaries it showed an operator and the promise it returns,
  \<open>None\<close> when it never settles. The last argument of a callback is whether the turn is already
  aborted.
\<close>

record gate =
  g_prompts :: "approval_summary list"
  g_result :: "(thrown + permission) option"

type_synonym can_use_tool = "string \<Rightarrow> obj \<Rightarrow> bool \<Rightarrow> gate"

text \<open>
  While the operator decides, the turn may be aborted: the events of the prompt in the order they
  arrive. The decision is a string; anything can come back from a host.
\<close>

datatype prompt_event = Decides string | Rejects thrown | Aborts

datatype decision = Decision string | ABORTED

definition withAbort :: "prompt_event list \<Rightarrow> bool \<Rightarrow> (thrown + decision) option" where
  "withAbort events aborted =
     (if aborted then Some (Inr ABORTED)
      else case events of
             [] \<Rightarrow> None
           | Decides d # _ \<Rightarrow> Some (Inr (Decision d))
           | Rejects e # _ \<Rightarrow> Some (Inl e)
           | Aborts # _ \<Rightarrow> Some (Inr ABORTED))"

definition allowFallback :: can_use_tool where
  "allowFallback toolName input aborted = \<lparr>g_prompts = [], g_result = Some (Inr (Permit input))\<rparr>"

record can_use_options =
  co_onApprovalRequest :: "approval_summary \<Rightarrow> prompt_event list"
  co_shouldPrompt :: "(string \<Rightarrow> obj \<Rightarrow> bool) option"
  co_serverName :: "string option"
  co_fallback :: "can_use_tool option"

definition aborted_message :: "string \<Rightarrow> string" where
  "aborted_message verb = ''approval for '' @ verb @ '' aborted before an operator decision''"

definition decided :: "string \<Rightarrow> obj \<Rightarrow> decision \<Rightarrow> permission" where
  "decided verb input d =
     (case d of
        ABORTED \<Rightarrow> Deny (aborted_message verb)
      | Decision s \<Rightarrow> if s = ''deny'' then Deny (''operator denied '' @ verb) else Permit input)"

definition createMxCanUseTool :: "can_use_options \<Rightarrow> can_use_tool" where
  "createMxCanUseTool opts toolName input aborted =
     (case mxVerbFromToolName toolName (co_serverName opts) of
        None \<Rightarrow> or_default (co_fallback opts) allowFallback toolName input aborted
      | Some verb \<Rightarrow>
          if \<not> or_default (co_shouldPrompt opts) defaultShouldPrompt verb input
          then \<lparr>g_prompts = [], g_result = Some (Inr (Permit input))\<rparr>
          else if aborted then \<lparr>g_prompts = [], g_result = Some (Inr (Deny (aborted_message verb)))\<rparr>
          else (let summary = buildApprovalSummary verb input in
                \<lparr>g_prompts = [summary],
                 g_result = map_option (map_sum (\<lambda>e. e) (decided verb input))
                   (withAbort (co_onApprovalRequest opts summary) aborted)\<rparr>))"

definition wrapCanUseTool :: "can_use_tool \<Rightarrow> can_use_options \<Rightarrow> can_use_tool" where
  "wrapCanUseTool existing opts = createMxCanUseTool (opts\<lparr>co_fallback := Some existing\<rparr>)"

section \<open>The tool server\<close>

text \<open>One tool per descriptor; building the table throws where a schema does not convert.\<close>

record 'z claude_tool =
  cl_name :: json
  cl_description :: json
  cl_shape :: "(string \<times> 'z) list"

definition claude_tools :: "js_runtime \<Rightarrow> 'z zod \<Rightarrow> json list \<Rightarrow> conversion_error + 'z claude_tool list" where
  "claude_tools js z descriptors =
     traverse (\<lambda>d. map_sum (\<lambda>e. e)
       (\<lambda>shape. \<lparr>cl_name = read_field d ''name'', cl_description = read_field d ''description'', cl_shape = shape\<rparr>)
       (jsonSchemaToZodRawShape js z None (read_field d ''input_schema''))) descriptors"

text \<open>The handler of a tool, on the arguments the SDK has parsed with its shape.\<close>

definition claude_call ::
  "js_runtime \<Rightarrow> schema_validator \<Rightarrow> 's sink_record \<Rightarrow> 'd binding_context \<Rightarrow> 'd resolve_options \<Rightarrow> string
     \<Rightarrow> obj option \<Rightarrow> 'd host \<Rightarrow> 's \<Rightarrow> ('d, 's) call_outcome" where
  "claude_call js ajv sink ctx opts name args h s =
     (let toolArgs = or_default args [] in
      case dispatchCall ajv name (Some toolArgs) ctx of
        Inherits f \<Rightarrow> Left_to f
      | IllTyped \<Rightarrow> Wrong_type
      | Runs run \<Rightarrow>
          (case await run (\<lambda>r. resolveDeferred r (bc_daemon ctx) opts) h of
             None \<Rightarrow> Pending_forever
           | Some (r, h1) \<Rightarrow> audited_answer js sink (audit_base_of ctx) name (Some toolArgs) r h1 s))"

section \<open>Properties of the names and the permission callback\<close>

lemma verb_from_name_iff:
  "mxVerbFromToolName toolName server = Some verb \<longleftrightarrow> toolName = mxToolName verb server \<and> startsWith verb ''mx_''"
proof -
  define pre where "pre = NAMESPACE_PREFIX @ or_default server DEFAULT_SERVER_NAME @ ''__''"
  have name: "mxToolName verb server = pre @ verb" by (simp only: mxToolName_def pre_def append_assoc)
  have verb: "mxVerbFromToolName toolName server = (if \<not> startsWith toolName pre then None
      else if startsWith (drop (length pre) toolName) ''mx_'' then Some (drop (length pre) toolName) else None)"
    by (simp only: mxVerbFromToolName_def pre_def Let_def)
  show ?thesis unfolding name verb startsWith_def by (auto simp: prefix_def)
qed

lemma verb_of_name: "startsWith verb ''mx_'' \<Longrightarrow> mxVerbFromToolName (mxToolName verb server) server = Some verb"
  by (rule iffD2 [OF verb_from_name_iff conjI [OF refl]])

text \<open>
  Tool names and verbs match. For any server name, the verb read from a tool name is exactly the
  verb that name was made from: a name that was not made for this server, or not from an
  \<open>mx_\<close> verb, gives none.
\<close>

theorem tool_name_roundtrip:
  "mxVerbFromToolName toolName server = Some verb \<longleftrightarrow> toolName = mxToolName verb server \<and> startsWith verb ''mx_''"
  by (rule verb_from_name_iff)

lemma risk_bearing_names: "list_all (\<lambda>verb. startsWith verb ''mx_'') RISK_BEARING_VERBS"
  by (simp add: RISK_BEARING_VERBS_def startsWith_def)

lemma withAbort_decision:
  "withAbort events aborted = Some (Inr (Decision d)) \<longleftrightarrow> \<not> aborted \<and> (\<exists>rest. events = Decides d # rest)"
  by (auto simp: withAbort_def split: list.splits prompt_event.splits)

lemma decided_Permit: "decided verb input d = Permit out \<longleftrightarrow> out = input \<and> (\<exists>s. d = Decision s \<and> s \<noteq> ''deny'')"
  by (cases d) (auto simp: decided_def)

text \<open>
  C7. No risk without an operator. With the default policy, a call of \<open>mx_delegate_tool\<close> or
  \<open>mx_run_command\<close> is permitted exactly when the turn was not aborted, the operator was shown the
  summary of the call, and the first thing to come back was a decision other than \<open>deny\<close>; an
  abort or a failed prompt that comes first never permits it, and the permitted arguments are the
  ones that were asked for.
\<close>

theorem operator_gate:
  fixes verb input aborted opts
  assumes "verb \<in> set RISK_BEARING_VERBS" and "co_shouldPrompt opts = None"
  defines "asked \<equiv> createMxCanUseTool opts (mxToolName verb (co_serverName opts)) input aborted"
  shows "(g_result asked = Some (Inr (Permit out)) \<longleftrightarrow>
      out = input \<and> \<not> aborted
      \<and> (\<exists>d rest. co_onApprovalRequest opts (buildApprovalSummary verb input) = Decides d # rest \<and> d \<noteq> ''deny''))
    \<and> g_prompts asked = (if aborted then [] else [buildApprovalSummary verb input])"
proof -
  have "startsWith verb ''mx_''" using assms(1) risk_bearing_names by (simp only: list_all_iff)
  note verb = verb_of_name [OF this, of "co_serverName opts"]
  have prompt: "or_default (co_shouldPrompt opts) defaultShouldPrompt verb input" using assms(1,2) by (simp add: defaultShouldPrompt_def)
  let ?events = "co_onApprovalRequest opts (buildApprovalSummary verb input)"
  have asked: "asked = (if aborted then \<lparr>g_prompts = [], g_result = Some (Inr (Deny (aborted_message verb)))\<rparr>
      else \<lparr>g_prompts = [buildApprovalSummary verb input],
        g_result = map_option (map_sum (\<lambda>e. e) (decided verb input)) (withAbort ?events aborted)\<rparr>)"
    unfolding asked_def createMxCanUseTool_def verb option.case using prompt by (simp only: not_True_eq_False if_False Let_def)
  have "map_option (map_sum (\<lambda>e. e) (decided verb input)) w = Some (Inr (Permit out)) \<longleftrightarrow>
      (\<exists>s. w = Some (Inr (Decision s)) \<and> s \<noteq> ''deny'') \<and> out = input" for w :: "(thrown + decision) option"
  proof (cases w)
    case (Some x)
    show ?thesis unfolding Some
    proof (cases x)
      case (Inr d)
      show "map_option (map_sum (\<lambda>e. e) (decided verb input)) (Some x) = Some (Inr (Permit out)) \<longleftrightarrow>
          (\<exists>s. Some x = Some (Inr (Decision s)) \<and> s \<noteq> ''deny'') \<and> out = input"
        unfolding Inr option.map sum.simps map_sum.simps option.inject decided_Permit by blast
    qed simp
  qed simp
  then show ?thesis unfolding asked using withAbort_decision [of ?events aborted] by (cases aborted) auto
qed

definition asking :: "prompt_event list \<Rightarrow> can_use_options" where
  "asking events = \<lparr>co_onApprovalRequest = (\<lambda>_. events), co_shouldPrompt = None, co_serverName = None, co_fallback = None\<rparr>"

theorem operator_gate_witness:
  "g_result (createMxCanUseTool (asking [Decides ''allow'', Aborts]) (mxToolName ''mx_run_command'' None) [(''command'', JStr ''ls'')] False)
     = Some (Inr (Permit [(''command'', JStr ''ls'')]))"
proof -
  have "''mx_run_command'' \<in> set RISK_BEARING_VERBS" by (simp add: RISK_BEARING_VERBS_def)
  moreover have "co_shouldPrompt (asking [Decides ''allow'', Aborts]) = None" by (simp add: asking_def)
  moreover have "co_serverName (asking [Decides ''allow'', Aborts]) = None" by (simp add: asking_def)
  moreover have "\<exists>d rest. co_onApprovalRequest (asking [Decides ''allow'', Aborts]) s = Decides d # rest \<and> d \<noteq> ''deny''" for s
    by (simp add: asking_def)
  ultimately show ?thesis
    using operator_gate [of "''mx_run_command''" "asking [Decides ''allow'', Aborts]" "[(''command'', JStr ''ls'')]" False
        "[(''command'', JStr ''ls'')]"] by (simp only: simp_thms)
qed

text \<open>
  What the default policy lets through: every other verb of the server is permitted without a prompt,
  the ones that start work on another agent through a task among them.
\<close>

lemma task_dispatch_unprompted:
  "co_shouldPrompt opts = None \<Longrightarrow>
     createMxCanUseTool opts (mxToolName ''mx_dispatch_task'' (co_serverName opts)) input aborted
       = \<lparr>g_prompts = [], g_result = Some (Inr (Permit input))\<rparr>"
proof -
  assume "co_shouldPrompt opts = None"
  moreover have "startsWith ''mx_dispatch_task'' ''mx_''" by (simp add: startsWith_def)
  ultimately show ?thesis unfolding createMxCanUseTool_def verb_of_name [OF \<open>startsWith ''mx_dispatch_task'' ''mx_''\<close>]
    by (simp add: defaultShouldPrompt_def RISK_BEARING_VERBS_def)
qed

text \<open>A decision that is neither word permits.\<close>

lemma unknown_decision_permits: "decided verb input (Decision ''whatever'') = Permit input"
  by (simp add: decided_def)

text \<open>A tool outside the server is left to the host's own callback.\<close>

lemma wrapped_foreign:
  "mxVerbFromToolName toolName (co_serverName opts) = None \<Longrightarrow>
     wrapCanUseTool existing opts toolName input aborted = existing toolName input aborted"
  by (simp add: wrapCanUseTool_def createMxCanUseTool_def)

section \<open>The tool server gives its handlers typed arguments\<close>

text \<open>
  What the SDK does with a call before the handler: it parses the arguments with an object of the
  tool's shape, which refuses them unless every entry accepts its value and drops the keys outside
  the shape.
\<close>

definition sdk_parsed :: "('z \<Rightarrow> json \<Rightarrow> bool) \<Rightarrow> (string \<times> 'z) list \<Rightarrow> obj \<Rightarrow> obj \<Rightarrow> bool" where
  "sdk_parsed accepts shape args parsed =
     (list_all (\<lambda>(k, t). accepts t (jget args k)) shape \<and> parsed = filter (\<lambda>(k, v). k \<in> fst ` set shape) args)"

lemma jget_filter: "jget (filter (\<lambda>(k, v). P k) ob) k = (if P k then jget ob k else JUndef)"
  by (induction ob) auto

lemma object_ok_cong:
  assumes "\<And>k. k \<in> fst ` set (entries (jget node ''properties'')) \<Longrightarrow> jget ob' k = jget ob k"
  shows "object_ok node ob' \<longleftrightarrow> object_ok node ob"
proof -
  have "(if jget ob' (fst x) = JUndef then \<not> required_key node (fst x) else draft07 (snd x) (jget ob' (fst x)))
      \<longleftrightarrow> (if jget ob (fst x) = JUndef then \<not> required_key node (fst x) else draft07 (snd x) (jget ob (fst x)))"
    if "x \<in> set (entries (jget node ''properties''))" for x
    unfolding assms [OF imageI [OF that]] ..
  then show ?thesis unfolding object_ok_def list_all_iff case_prod_unfold by blast
qed

lemma canonical_object:
  assumes "d \<in> set CANONICAL_TOOLS"
  obtains node where "read_field d ''input_schema'' = JObj node" "jget node ''type'' = JStr ''object''"
    "plain_schema (JObj node)" "convertible False (JObj node)"
proof -
  have "list_all (\<lambda>d. jget (entries (read_field d ''input_schema'')) ''type'' = JStr ''object'') CANONICAL_TOOLS"
    by code_simp
  then have ty: "jget (entries (read_field d ''input_schema'')) ''type'' = JStr ''object''"
    using assms by (simp only: list_all_iff)
  have pc: "plain_schema (read_field d ''input_schema'')" "convertible False (read_field d ''input_schema'')"
    using canonical_convertible assms by (simp_all only: list_all_iff)
  from typed_schema [OF ty] obtain node where node: "read_field d ''input_schema'' = JObj node" ..
  show thesis
    by (rule that [OF node]) (use ty pc in \<open>simp_all only: node entries.simps\<close>)
qed

lemma claude_args_typed:
  assumes lib: "zod_library z accepts" and d: "d \<in> set CANONICAL_TOOLS"
    and raw: "jsonSchemaToZodRawShape js z opts (read_field d ''input_schema'') = Inr shape"
    and safe: "safe_value (JObj args)" and parsed: "sdk_parsed accepts shape args parsed"
  shows "typed_args (descriptor_name d) parsed"
proof -
  obtain node where node: "read_field d ''input_schema'' = JObj node" "jget node ''type'' = JStr ''object''"
      "plain_schema (JObj node)" "convertible False (JObj node)"
    by (rule canonical_object [OF d])
  have ok: "orelse (keyword_fault node ''#'') (type_fault js node ''#'') = None"
    and branch: "branch_ok False node ''object''"
    using node(4) unfolding convertible_node [where path = "''#''" and js = js] node(2) by simp_all
  then have kf: "keyword_fault node ''#'' = None" by simp
  have af: "additional_fault node ''#'' = None"
    using branch unfolding branch_ok_def additional_fault_None by simp
  have plain: "plain_node node" "\<And>sub. sub \<in> set (subschemas node) \<Longrightarrow> plain_schema sub"
    using node(3) by (simp_all add: list_all_iff)
  have shape: "zod_buildShape z (zod_convert js z opts) node ''#'' = Inr shape"
    using raw unfolding jsonSchemaToZodRawShape_def node(1) json.case node(2) kf by simp
  have conv: "zod_library.faithful accepts t sub"
    if "sub \<in> set (subschemas node)" "zod_convert js z opts sub p = Inr t" for sub p t
    by (rule zod_library.convert_faithful [OF lib plain(2) [OF that(1)] that(2)])
  have keys: "fst ` set shape = fst ` set (entries (jget node ''properties''))"
  proof -
    have "map fst shape = map fst (entries (jget node ''properties''))"
      by (rule zod_library.shape_faithful(2) [OF lib _ shape, where ob = "[]"]) (simp_all add: conv)
    then show ?thesis by (metis list.set_map)
  qed
  have p: "parsed = filter (\<lambda>(k, v). k \<in> fst ` set shape) args"
    and acc: "list_all (\<lambda>(k, t). accepts t (jget args k)) shape"
    using parsed unfolding sdk_parsed_def by blast+
  have "object_ok node args"
    using zod_library.shape_faithful(1) [OF lib _ shape safe] conv acc by blast
  then have obj: "object_ok node parsed"
    using object_ok_cong [of node parsed args] unfolding p keys [symmetric] by (simp add: jget_filter)
  have closed: "closed_ok node parsed" unfolding closed_ok_def p keys by (auto simp: list_all_iff)
  have "safe_value (JObj parsed)" using safe unfolding p by (auto simp: list_all_iff)
  then have "draft07 (JObj node) (JObj parsed)"
    using object_draft07_plain [OF ok node(2) plain(1) af, of "JObj parsed"] obj closed by blast
  then show ?thesis using canonical_typed [OF d] unfolding node(1) by blast
qed

lemma resolve_returns:
  assumes "well_built r" and "ro_sleep opts = None" and "ro_now opts = None"
  shows "\<exists>r' h'. resolveDeferred r (serve (logging f)) opts h = Some (r', h') \<and> well_built r'"
proof -
  have poll: "\<exists>r' h'. pollToTerminal hdl (serve (logging f)) opts h = Some (r', h') \<and> well_built r'" for hdl
  proof -
    have "pollToTerminal hdl (serve (logging f)) opts =
        mxAwaitResult hdl (Some (or_default (ro_resolveTimeoutMs opts) DEFAULT_RESOLVE_TIMEOUT_MS))
          (default_deps (logging f) (ro_pollIntervalMs opts))"
      using assms(2,3) by (simp add: pollToTerminal_def default_deps_def)
    then show ?thesis
      using default_clock.await_returns [of hdl "Some (or_default (ro_resolveTimeoutMs opts) DEFAULT_RESOLVE_TIMEOUT_MS)"
          f "ro_pollIntervalMs opts" h] by fastforce
  qed
  show ?thesis
    using poll assms(1) by (simp add: resolveDeferred_def resolve_def split: option.split)
qed

lemma resolve_settled: "r_status r \<notin> {Running, AwaitingApproval} \<Longrightarrow> resolveDeferred r daemon opts = resolve r"
  by (simp add: resolveDeferred_def split: option.split)

text \<open>
  C14. A call through the Claude tool server always answers. For a canonical tool, whose schema
  converts, on arguments the SDK has parsed with the converted shape, the handler gets the types it
  assumes, the call resolves within its polling budget, and the answer is the serialization of an
  envelope that satisfies the published output schema (unless its error code is an inherited
  function), with the error flag set exactly for faults, whatever the audit sink does.
\<close>

theorem claude_call_contract:
  assumes "zod_library z accepts" and "d \<in> set CANONICAL_TOOLS"
    and "jsonSchemaToZodRawShape js z opts (read_field d ''input_schema'') = Inr shape"
    and "safe_value (JObj args)" and "sdk_parsed accepts shape args parsed"
    and "ro_sleep ropts = None" and "ro_now ropts = None"
  shows "\<exists>r dropped h' s'.
     claude_call js ajv sink (logged_context f room correlation) ropts (descriptor_name d) (Some parsed) h s
       = Answered (serializeToolResult js r) dropped h' s'
     \<and> (conforms JObj r \<or> function_error r) \<and> (ct_isError (serializeToolResult js r) \<longleftrightarrow> r_status r = Error)"
proof -
  have "typed_args (descriptor_name d) parsed" by (rule claude_args_typed [OF assms(1-5)])
  with canonical_runs [OF assms(2)] obtain run where
    run: "dispatchCall ajv (descriptor_name d) (Some parsed) (logged_context f room correlation) = Runs run" "governed run"
    by blast
  obtain r h1 where r: "run h = Some (r, h1)" "well_built r" using emitsE [OF run(2), of h] by blast
  obtain r' h2 where r': "resolveDeferred r (serve (logging f)) ropts h1 = Some (r', h2)" "well_built r'"
    using resolve_returns [OF r(2) assms(6,7)] by blast
  have daemon: "bc_daemon (logged_context f room correlation) = serve (logging f)" by (simp add: logged_context_def)
  have "\<exists>dropped h' s'. claude_call js ajv sink (logged_context f room correlation) ropts (descriptor_name d) (Some parsed) h s
      = Answered (serializeToolResult js r') dropped h' s'"
    unfolding claude_call_def or_default_simps Let_def run(1) dispatched.case await_def r(1) option.case prod.case daemon r'(1)
      audited_answer_def withAudit_def
    by (simp split: prod.split sum.split)
  moreover have "conforms JObj r' \<or> function_error r'"
    using well_built_conforms [OF r'(2), where enc = "\<lambda>x. x"] by blast
  ultimately show ?thesis by (auto simp: serializeToolResult_def Let_def)
qed

definition default_resolve :: "'d resolve_options" where
  "default_resolve = \<lparr>ro_resolveTimeoutMs = None, ro_awaitApproval = None, ro_sleep = None, ro_now = None, ro_pollIntervalMs = None\<rparr>"

theorem claude_call_contract_witness:
  "\<exists>shape r dropped h' s'.
     jsonSchemaToZodRawShape quiet_js zod_terms None (read_field MX_CANCEL ''input_schema'') = Inr shape
     \<and> claude_call quiet_js accept_all memory_record (logged_context quiet_daemon None None) default_resolve
         (descriptor_name MX_CANCEL) (Some [(''handle'', JStr ''inv-1'')]) (idle_host ((), [])) new_memory_sink
       = Answered (serializeToolResult quiet_js r) dropped h' s'"
proof -
  let ?shape = "[(''handle'', ZDescribe (''The deferred handle (an inv_'' @ [CHR 0xE2, CHR 0x80, CHR 0xA6] @ '' invocation id) returned by a prior delegate/run/await call.'') ZString)]"
  have raw: "jsonSchemaToZodRawShape quiet_js zod_terms None (read_field MX_CANCEL ''input_schema'') = Inr ?shape"
    by code_simp
  have canonical: "MX_CANCEL \<in> set CANONICAL_TOOLS" by (simp add: CANONICAL_TOOLS_def CANONICAL_M1_TOOLS_def)
  have safe: "safe_value (JObj [(''handle'', JStr ''inv-1'')])" by simp
  have parsed: "sdk_parsed zod_accepts ?shape [(''handle'', JStr ''inv-1'')] [(''handle'', JStr ''inv-1'')]"
    by (simp add: sdk_parsed_def)
  have "ro_sleep default_resolve = None" "ro_now default_resolve = None" by (simp_all add: default_resolve_def)
  from claude_call_contract [OF zod_terms.zod_library_axioms canonical raw safe parsed this, where ajv = accept_all and sink = memory_record
      and f = quiet_daemon and room = None and correlation = None and h = "idle_host ((), [])" and s = new_memory_sink]
  obtain r dropped h' s' where "claude_call quiet_js accept_all memory_record (logged_context quiet_daemon None None) default_resolve
         (descriptor_name MX_CANCEL) (Some [(''handle'', JStr ''inv-1'')]) (idle_host ((), [])) new_memory_sink
       = Answered (serializeToolResult quiet_js r) dropped h' s'" by (elim exE conjE) (rule that)
  with raw show ?thesis by (intro exI conjI)
qed

end
