(* ===== verification/TypeBox_Schema.thy ===== *)
theory TypeBox_Schema
  imports Zod_Schema
begin

text \<open>
  The conversion to TypeBox (packages/pi/src/json-schema-to-typebox.ts), with the builders the host
  injects (pi-abi.ts) as a record and a locale for what their documentation promises; and the
  subset outside which each of the two converters throws.
\<close>

section \<open>The converter\<close>

text \<open>
  The builders the host injects (pi-abi.ts): \<open>Type\<close> and \<open>StringEnum\<close>. The options of a builder are an
  object.
\<close>

record 'b typebox =
  tb_Object :: "(string \<times> 'b) list \<Rightarrow> obj \<Rightarrow> 'b"
  tb_Optional :: "'b \<Rightarrow> 'b"
  tb_String :: "obj \<Rightarrow> 'b"
  tb_Integer :: "obj \<Rightarrow> 'b"
  tb_Number :: "obj \<Rightarrow> 'b"
  tb_Boolean :: "obj \<Rightarrow> 'b"
  tb_Array :: "'b \<Rightarrow> obj \<Rightarrow> 'b"
  tb_StringEnum :: "string list \<Rightarrow> obj \<Rightarrow> 'b"

datatype typebox_open = Open_open | Open_strip

definition annotations :: "obj \<Rightarrow> obj" where
  "annotations node =
     (case jget node ''description'' of
        JStr d \<Rightarrow> if d \<noteq> [] then [(''description'', JStr d)] else []
      | _ \<Rightarrow> [])"

definition numericBounds :: "obj \<Rightarrow> obj" where
  "numericBounds node =
     List.map_filter (\<lambda>k. case jget node k of JNum n \<Rightarrow> Some (k, JNum n) | _ \<Rightarrow> None)
       [''minimum'', ''maximum'', ''exclusiveMinimum'', ''exclusiveMaximum'']"

definition tb_convertString :: "'b typebox \<Rightarrow> obj \<Rightarrow> string \<Rightarrow> conversion_error + 'b" where
  "tb_convertString b node path =
     (if jget node ''enum'' = JUndef then Inr (tb_String b (annotations node))
      else map_sum (\<lambda>e. e) (\<lambda>ms. tb_StringEnum b ms (annotations node))
             (enum_members
                ''every enum member must be a string in the supported subset (use StringEnum, never Type.Union)''
                path (jget node ''enum'')))"

definition tb_shape :: "'b typebox \<Rightarrow> 'b converter \<Rightarrow> obj \<Rightarrow> string \<Rightarrow> conversion_error + (string \<times> 'b) list" where
  "tb_shape b conv node path =
     (case jget node ''properties'' of
        JObj ps \<Rightarrow>
          traverse (\<lambda>(key, sub).
            map_sum (\<lambda>e. e) (\<lambda>t. (key, if required_key node key then t else tb_Optional b t))
              (conv sub (path @ ''/properties/'' @ key))) ps
      | _ \<Rightarrow> Inr [])"

definition object_options :: "typebox_open option \<Rightarrow> obj \<Rightarrow> obj" where
  "object_options opts node =
     annotations node
       @ (if jget node ''additionalProperties'' = JBool False then [(''additionalProperties'', JBool False)]
          else if opts \<noteq> Some Open_strip then [(''additionalProperties'', JBool True)]
          else [])"

definition tb_convertObject ::
  "'b typebox \<Rightarrow> typebox_open option \<Rightarrow> 'b converter \<Rightarrow> obj \<Rightarrow> string \<Rightarrow> conversion_error + 'b" where
  "tb_convertObject b opts conv node path =
     (case additional_fault node path of
        Some e \<Rightarrow> Inl e
      | None \<Rightarrow> map_sum (\<lambda>e. e) (\<lambda>shape. tb_Object b shape (object_options opts node)) (tb_shape b conv node path))"

definition tb_convertArray :: "'b typebox \<Rightarrow> 'b converter \<Rightarrow> obj \<Rightarrow> string \<Rightarrow> conversion_error + 'b" where
  "tb_convertArray b conv node path =
     (case jget node ''items'' of
        JArr _ \<Rightarrow> Inl (conversion_fault path ''items'' ''tuple `items` is unsupported'')
      | JUndef \<Rightarrow> Inl (conversion_fault path ''items'' ''array requires an `items` schema in the supported subset'')
      | items \<Rightarrow> map_sum (\<lambda>e. e) (\<lambda>t. tb_Array b t (annotations node)) (conv items (path @ ''/items'')))"

definition tb_convertType ::
  "'b typebox \<Rightarrow> typebox_open option \<Rightarrow> 'b converter \<Rightarrow> obj \<Rightarrow> string \<Rightarrow> conversion_error + 'b" where
  "tb_convertType b opts conv node path =
     (let t = jget node ''type'' in
      if t = JStr ''string'' then tb_convertString b node path
      else if t = JStr ''integer'' then Inr (tb_Integer b (annotations node @ numericBounds node))
      else if t = JStr ''number'' then Inr (tb_Number b (annotations node @ numericBounds node))
      else if t = JStr ''boolean'' then Inr (tb_Boolean b (annotations node))
      else if t = JStr ''array'' then tb_convertArray b conv node path
      else tb_convertObject b opts conv node path)"

lemma tb_type_cong [fundef_cong]:
  assumes eqs: "b = b'" "opts = opts'" "node = node'" "path = path'"
    and conv: "\<And>sub p. sub \<in> set (subschemas node') \<Longrightarrow> conv sub p = conv' sub p"
  shows "tb_convertType b opts conv node path = tb_convertType b' opts' conv' node' path'"
proof -
  have "tb_shape b' conv node' path' = tb_shape b' conv' node' path'"
    unfolding tb_shape_def
    by (auto split: json.split intro!: traverse_cong arg_cong [where f = "map_sum _ _"] conv
        intro: subschema_property)
  moreover have "tb_convertArray b' conv node' path' = tb_convertArray b' conv' node' path'"
    using conv [OF subschema_items]
    by (cases "jget node' ''items''") (simp_all add: tb_convertArray_def)
  ultimately show ?thesis
    unfolding tb_convertType_def tb_convertObject_def eqs by presburger
qed

function (sequential) tb_convert ::
  "js_runtime \<Rightarrow> 'b typebox \<Rightarrow> typebox_open option \<Rightarrow> json \<Rightarrow> string \<Rightarrow> conversion_error + 'b" where
  "tb_convert js b opts (JObj node) path =
     (case orelse (keyword_fault node path) (type_fault js node path) of
        Some e \<Rightarrow> Inl e
      | None \<Rightarrow> tb_convertType b opts (\<lambda>sub p. tb_convert js b opts sub p) node path)"
| "tb_convert js b opts _ path = Inl (conversion_fault path ''schema'' ''a schema node must be a JSON object'')"
  by pat_completeness auto

termination
  by (relation "measure (\<lambda>(js, b, opts, node, path). size node)")
     (auto simp del: json.size intro: subschema_size)

definition jsonSchemaToTypeBox :: "js_runtime \<Rightarrow> 'b typebox \<Rightarrow> typebox_open option \<Rightarrow> json \<Rightarrow> conversion_error + 'b" where
  "jsonSchemaToTypeBox js b opts schema = tb_convert js b opts schema ''#''"

section \<open>What the TypeBox documentation promises\<close>

text \<open>
  A TypeBox schema is itself a JSON Schema. \<open>schema_of t\<close> reads its entries: a builder adds its own
  keywords to the options, \<open>Type.Optional\<close> only marks the schema, and \<open>Type.Object\<close> lists the keys
  whose schema is not marked as required.
\<close>

definition object_keywords :: "string list \<Rightarrow> obj \<Rightarrow> obj" where
  "object_keywords req ps =
     (if req = [] then [] else [(''required'', JArr (map JStr req))]) @ [(''properties'', JObj ps)]"

locale typebox_library =
  fixes b :: "'b typebox" and schema_of :: "'b \<Rightarrow> obj" and is_optional :: "'b \<Rightarrow> bool"
  assumes string: "map_of (schema_of (tb_String b opts)) = map_of ((''type'', JStr ''string'') # opts)"
    and integer: "map_of (schema_of (tb_Integer b opts)) = map_of ((''type'', JStr ''integer'') # opts)"
    and number: "map_of (schema_of (tb_Number b opts)) = map_of ((''type'', JStr ''number'') # opts)"
    and boolean: "map_of (schema_of (tb_Boolean b opts)) = map_of ((''type'', JStr ''boolean'') # opts)"
    and array: "map_of (schema_of (tb_Array b t opts))
      = map_of ((''type'', JStr ''array'') # (''items'', JObj (schema_of t)) # opts)"
    and enum: "map_of (schema_of (tb_StringEnum b ms opts))
      = map_of ((''type'', JStr ''string'') # (''enum'', JArr (map JStr ms)) # opts)"
    and object: "map_of (schema_of (tb_Object b shape opts)) = map_of ((''type'', JStr ''object'')
        # object_keywords (map fst (filter (\<lambda>(k, t). \<not> is_optional t) shape)) (map (\<lambda>(k, t). (k, JObj (schema_of t))) shape)
          @ opts)"
    and optional: "map_of (schema_of (tb_Optional b t)) = map_of (schema_of t)" "is_optional (tb_Optional b t)"
    and plain: "\<not> is_optional (tb_String b opts)" "\<not> is_optional (tb_Integer b opts)" "\<not> is_optional (tb_Number b opts)"
      "\<not> is_optional (tb_Boolean b opts)" "\<not> is_optional (tb_Array b t opts)" "\<not> is_optional (tb_StringEnum b ms opts)"
      "\<not> is_optional (tb_Object b shape opts)"

text \<open>The schemas as JSON with the mark beside them.\<close>

definition typebox_terms :: "(bool \<times> obj) typebox" where
  "typebox_terms =
     \<lparr>tb_Object = (\<lambda>shape opts. (False, (''type'', JStr ''object'')
        # object_keywords (map fst (filter (\<lambda>(k, t). \<not> fst t) shape)) (map (\<lambda>(k, t). (k, JObj (snd t))) shape) @ opts)),
      tb_Optional = (\<lambda>t. (True, snd t)),
      tb_String = (\<lambda>opts. (False, (''type'', JStr ''string'') # opts)),
      tb_Integer = (\<lambda>opts. (False, (''type'', JStr ''integer'') # opts)),
      tb_Number = (\<lambda>opts. (False, (''type'', JStr ''number'') # opts)),
      tb_Boolean = (\<lambda>opts. (False, (''type'', JStr ''boolean'') # opts)),
      tb_Array = (\<lambda>t opts. (False, (''type'', JStr ''array'') # (''items'', JObj (snd t)) # opts)),
      tb_StringEnum = (\<lambda>ms opts. (False, (''type'', JStr ''string'') # (''enum'', JArr (map JStr ms)) # opts))\<rparr>"

interpretation typebox_terms: typebox_library typebox_terms snd fst
  by unfold_locales (simp_all add: typebox_terms_def case_prod_unfold)

section \<open>TypeBox conversion is exact on the subset\<close>

lemma draft07_cong: "map_of s = map_of s' \<Longrightarrow> draft07 (JObj s) v \<longleftrightarrow> draft07 (JObj s') v"
proof -
  assume eq: "map_of s = map_of s'"
  have j: "jget s = jget s'" by (rule ext) (simp add: jget_def eq)
  have h: "has_key s k \<longleftrightarrow> has_key s' k" for k
    using arg_cong [OF eq, of "\<lambda>m. m k = None"] by (auto simp: has_key_def map_of_eq_None_iff)
  show ?thesis unfolding draft07.simps(1) const_ok_def j h ..
qed

definition BUILT_KEYWORDS :: "string list" where
  "BUILT_KEYWORDS =
     [''description'', ''minimum'', ''maximum'', ''exclusiveMinimum'', ''exclusiveMaximum'', ''additionalProperties'',
      ''required'', ''properties'', ''items'', ''enum'']"

lemma built_ok:
  assumes "ty \<in> set SUPPORTED_TYPES" and "fst ` set opts \<subseteq> set BUILT_KEYWORDS"
    and "ty = ''string'' \<or> \<not> has_key opts ''enum''"
  shows "orelse (keyword_fault ((''type'', JStr ty) # opts) path) (type_fault js ((''type'', JStr ty) # opts) path) = None"
proof -
  let ?s = "(''type'', JStr ty) # opts"
  have dis: "list_all (\<lambda>k. k \<notin> set BUILT_KEYWORDS \<and> k \<noteq> ''type'') UNSUPPORTED_KEYWORDS" by code_simp
  have "\<not> has_key ?s k" if "k \<notin> set BUILT_KEYWORDS \<and> k \<noteq> ''type''" for k
    using that assms(2) unfolding has_key_def by auto
  then have "list_all (\<lambda>k. \<not> has_key ?s k) UNSUPPORTED_KEYWORDS"
    using dis unfolding list_all_iff by blast
  moreover have "type_fault js ?s path = None"
  proof -
    have t: "jget ?s ''type'' = JStr ty" and e: "has_key ?s ''enum'' = has_key opts ''enum''" by simp_all
    show ?thesis unfolding type_fault_def t json.case e using assms(1,3) by (simp only: not_True_eq_False if_False) (rule if_not_P, blast)
  qed
  ultimately show ?thesis by (simp only: orelse_eq_None keyword_fault_None)
qed

lemma annotations_keys: "has_key (annotations node) k \<Longrightarrow> k = ''description''"
  by (auto simp: annotations_def split: json.splits if_splits)

lemma bounds_keys: "fst ` set (numericBounds node) \<subseteq> set BUILT_KEYWORDS" "\<not> has_key (numericBounds node) ''enum''"
proof -
  have sub: "fst ` set (List.map_filter (\<lambda>k. case jget node k of JNum n \<Rightarrow> Some (k, JNum n) | _ \<Rightarrow> None) ks) \<subseteq> set ks" for ks
  proof (induction ks)
    case (Cons k ks)
    then show ?case by (cases "jget node k") (simp_all add: List.map_filter_simps subset_insertI2)
  qed (simp add: List.map_filter_simps)
  have bounds: "fst ` set (numericBounds node) \<subseteq> {''minimum'', ''maximum'', ''exclusiveMinimum'', ''exclusiveMaximum''}"
    unfolding numericBounds_def by (rule subset_trans [OF sub]) (simp only: list.set subset_refl)
  show "fst ` set (numericBounds node) \<subseteq> set BUILT_KEYWORDS"
    by (rule subset_trans [OF bounds]) (simp add: BUILT_KEYWORDS_def)
  have enum: "''enum'' \<notin> {''minimum'', ''maximum'', ''exclusiveMinimum'', ''exclusiveMaximum''}" by simp
  show "\<not> has_key (numericBounds node) ''enum''" unfolding has_key_def by (rule contra_subsetD [OF bounds enum])
qed

lemma annotations_built: "fst ` set (annotations node) \<subseteq> set BUILT_KEYWORDS"
  using annotations_keys [of node] by (auto simp: has_key_def BUILT_KEYWORDS_def)

lemma bounds_minimum: "minimum_ok (jget (annotations node @ numericBounds node) ''minimum'') v \<longleftrightarrow> minimum_ok (jget node ''minimum'') v"
proof -
  have "\<not> has_key (annotations node) ''minimum''" using annotations_keys [of node "''minimum''"] by auto
  then have "jget (annotations node @ numericBounds node) ''minimum'' = jget (numericBounds node) ''minimum''"
    by (simp only: jget_append if_False)
  also have "\<dots> = (case jget node ''minimum'' of JNum n \<Rightarrow> JNum n | _ \<Rightarrow> JUndef)"
    by (simp add: numericBounds_def List.map_filter_simps split: json.split)
  finally show ?thesis by (cases "jget node ''minimum''") simp_all
qed

lemma object_keywords_simps:
  assumes "\<not> has_key opts ''required''"
  shows "required_ok (jget ((''type'', t) # object_keywords req ps @ opts) ''required'') (JObj ob)
      \<longleftrightarrow> list_all (\<lambda>k. jget ob k \<noteq> JUndef) req"
    and "jget ((''type'', t) # object_keywords req ps @ opts) ''properties'' = JObj ps"
    and "jget ((''type'', t) # object_keywords req ps @ opts) ''additionalProperties'' = jget opts ''additionalProperties''"
  using has_key_jget [OF assms] by (simp_all add: object_keywords_def list.pred_map comp_def)

lemma object_keywords_keys:
  "\<not> has_key (object_keywords req ps) ''enum''" "fst ` set (object_keywords req ps) \<subseteq> set BUILT_KEYWORDS"
proof -
  have "''required'' \<in> set BUILT_KEYWORDS" "''properties'' \<in> set BUILT_KEYWORDS" by (simp_all add: BUILT_KEYWORDS_def)
  then show "fst ` set (object_keywords req ps) \<subseteq> set BUILT_KEYWORDS" by (simp add: object_keywords_def)
qed (simp add: object_keywords_def)

lemma object_options_keys:
  "\<not> has_key (object_options opts node) ''required''" "\<not> has_key (object_options opts node) ''enum''"
  "fst ` set (object_options opts node) \<subseteq> set BUILT_KEYWORDS"
proof -
  have "\<not> has_key (annotations node) ''required''" "\<not> has_key (annotations node) ''enum''"
    using annotations_keys [of node "''required''"] annotations_keys [of node "''enum''"] by auto
  then show "\<not> has_key (object_options opts node) ''required''" "\<not> has_key (object_options opts node) ''enum''"
    by (simp_all add: object_options_def)
  show "fst ` set (object_options opts node) \<subseteq> set BUILT_KEYWORDS"
  proof -
    have "''additionalProperties'' \<in> set BUILT_KEYWORDS" by (simp add: BUILT_KEYWORDS_def)
    with annotations_built [of node] show ?thesis
      unfolding object_options_def set_append image_Un by (simp add: image_subset_iff split: if_split)
  qed
qed

lemma object_options_additional:
  "jget (object_options opts node) ''additionalProperties''
     = (if jget node ''additionalProperties'' = JBool False then JBool False
        else if opts = Some Open_strip then JUndef else JBool True)"
proof -
  have "\<not> has_key (annotations node) ''additionalProperties''"
    using annotations_keys [of node "''additionalProperties''"] by auto
  then show ?thesis unfolding object_options_def jget_append by simp
qed

lemma has_key_map: "has_key (map (\<lambda>(k, t). (k, f t)) xs) k \<longleftrightarrow> k \<in> set (map fst xs)"
  by (induction xs) auto

context typebox_library
begin

definition faithful :: "'b \<Rightarrow> json \<Rightarrow> bool" where
  "faithful t s \<longleftrightarrow> draft07 (JObj (schema_of t)) = draft07 s \<and> \<not> is_optional t"

lemma shape_faithful:
  assumes conv: "\<And>sub p t. sub \<in> set (subschemas node) \<Longrightarrow> conv sub p = Inr t \<Longrightarrow> faithful t sub"
    and shape: "tb_shape b conv node path = Inr shape"
  shows "list_all2 (\<lambda>(key, sub) (k, u). k = key \<and> draft07 (JObj (schema_of u)) = draft07 sub
      \<and> (is_optional u \<longleftrightarrow> \<not> required_key node key)) (entries (jget node ''properties'')) shape"
proof (cases "jget node ''properties''")
  case (JObj ps)
  let ?wrap = "\<lambda>key t. if required_key node key then t else tb_Optional b t"
  have wrapped: "draft07 (JObj (schema_of (?wrap key t))) = draft07 sub \<and> (is_optional (?wrap key t) \<longleftrightarrow> \<not> required_key node key)"
    if "faithful t sub" for key sub t
    using that draft07_cong [OF optional(1), of t] optional(2) [of t] by (auto simp: faithful_def)
  have "list_all2 (\<lambda>x y. (case x of (key, sub) \<Rightarrow>
      map_sum (\<lambda>e. e) (\<lambda>t. (key, ?wrap key t)) (conv sub (path @ ''/properties/'' @ key))) = Inr y) ps shape"
    using shape JObj by (auto simp: tb_shape_def intro: traverse_Inr)
  then show ?thesis unfolding JObj entries.simps
  proof (rule list.rel_mono_strong)
    fix x y
    assume x: "x \<in> set ps" and "y \<in> set shape" and y: "(case x of (key, sub) \<Rightarrow>
      map_sum (\<lambda>e. e) (\<lambda>t. (key, ?wrap key t)) (conv sub (path @ ''/properties/'' @ key))) = Inr y"
    obtain key sub where xk: "x = (key, sub)" by (cases x)
    from y [unfolded xk prod.case] obtain t where t: "conv sub (path @ ''/properties/'' @ key) = Inr t" "y = (key, ?wrap key t)"
      by (rule map_sum_InrE)
    have "faithful t sub" by (rule conv [OF subschema_property [OF JObj x [unfolded xk]] t(1)])
    from wrapped [OF this] show "(\<lambda>(key, sub) (k, u). k = key \<and> draft07 (JObj (schema_of u)) = draft07 sub
      \<and> (is_optional u \<longleftrightarrow> \<not> required_key node key)) x y"
      unfolding xk t(2) prod.case by blast
  qed
qed (use shape in \<open>simp_all add: tb_shape_def\<close>)

lemma shape_required:
  assumes "list_all2 (\<lambda>(key, sub) (k, u). k = key \<and> draft07 (JObj (schema_of u)) = draft07 sub
      \<and> (is_optional u \<longleftrightarrow> \<not> required_key node key)) ps shape"
  shows "list_all (\<lambda>k. jget ob k \<noteq> JUndef) (map fst (filter (\<lambda>(k, t). \<not> is_optional t) shape))
      \<longleftrightarrow> list_all (\<lambda>(k, sub). required_key node k \<longrightarrow> jget ob k \<noteq> JUndef) ps"
    and "list_all (\<lambda>(k, sub). has_key ob k \<longrightarrow> draft07 sub (jget ob k)) (map (\<lambda>(k, t). (k, JObj (schema_of t))) shape)
      \<longleftrightarrow> list_all (\<lambda>(k, sub). has_key ob k \<longrightarrow> draft07 sub (jget ob k)) ps"
    and "map fst shape = map fst ps"
  using assms by (induction rule: list_all2_induct) auto

lemma typed_draft07:
  assumes "map_of (schema_of t) = map_of ((''type'', JStr ty) # opts)"
    and "ty \<in> set SUPPORTED_TYPES" and "fst ` set opts \<subseteq> set BUILT_KEYWORDS" and "ty = ''string'' \<or> \<not> has_key opts ''enum''"
  shows "draft07 (JObj (schema_of t)) v \<longleftrightarrow> draft07 (JObj ((''type'', JStr ty) # opts)) v"
    and "orelse (keyword_fault ((''type'', JStr ty) # opts) path) (type_fault js ((''type'', JStr ty) # opts) path) = None"
  using draft07_cong [OF assms(1)] built_ok [OF assms(2-4)] by blast+

lemma object_faithful:
  assumes ok: "orelse (keyword_fault node path) (type_fault js node path) = None" and ty: "jget node ''type'' = JStr ''object''"
    and plain_node: "plain_node node"
    and conv: "\<And>sub p t. sub \<in> set (subschemas node) \<Longrightarrow> conv sub p = Inr t \<Longrightarrow> faithful t sub"
    and result: "tb_convertObject b opts conv node path = Inr t"
  shows "faithful t (JObj node)"
proof -
  have af: "additional_fault node path = None"
    using result unfolding tb_convertObject_def by (simp split: option.splits)
  from result [unfolded tb_convertObject_def af option.case] obtain shape where
    shape: "tb_shape b conv node path = Inr shape" "t = tb_Object b shape (object_options opts node)"
    by (rule map_sum_InrE)
  let ?req = "map fst (filter (\<lambda>(k, t). \<not> is_optional t) shape)" and ?ps = "map (\<lambda>(k, t). (k, JObj (schema_of t))) shape"
  let ?kw = "object_keywords ?req ?ps @ object_options opts node"
  have keys: "fst ` set ?kw \<subseteq> set BUILT_KEYWORDS" "\<not> has_key ?kw ''enum''"
    using object_options_keys [of opts node] object_keywords_keys [of ?req ?ps] by (simp_all add: image_Un)
  have supported: "''object'' \<in> set SUPPORTED_TYPES" by (simp add: SUPPORTED_TYPES_def)
  note built = typed_draft07 [OF object supported keys(1) disjI2 [OF keys(2)], folded shape(2)]
  have type: "jget ((''type'', JStr ''object'') # ?kw) ''type'' = JStr ''object''" by simp
  note kws = object_keywords_simps [OF object_options_keys(1)]
  have "list_all2 (\<lambda>(key, sub) (k, u). k = key \<and> draft07 (JObj (schema_of u)) = draft07 sub
      \<and> (is_optional u \<longleftrightarrow> \<not> required_key node key)) (entries (jget node ''properties'')) shape"
    by (rule shape_faithful [OF _ shape(1)]) (rule conv)
  note rel = shape_required [OF this]
  have draft: "draft07 (JObj (schema_of t)) v \<longleftrightarrow> draft07 (JObj node) v" for v
  proof (cases "asRecord v")
    case None
    then show ?thesis unfolding built(1) object_draft07 [OF built(2) type] object_draft07 [OF ok ty] by auto
  next
    case (Some ob)
    then have v: "v = JObj ob" by simp
    have keys: "has_key ?ps k \<longleftrightarrow> has_key (entries (jget node ''properties'')) k" for k
      unfolding has_key_map using arg_cong [OF rel(3), of set] by (simp add: has_key_def)
    have "(jget (object_options opts node) ''additionalProperties'' = JUndef
        \<or> list_all (\<lambda>(k, x). has_key ?ps k \<or> draft07 (jget (object_options opts node) ''additionalProperties'') x) ob)
      \<longleftrightarrow> (jget node ''additionalProperties'' = JUndef
        \<or> list_all (\<lambda>(k, x). has_key (entries (jget node ''properties'')) k
             \<or> draft07 (jget node ''additionalProperties'') x) ob)"
      using af unfolding additional_fault_None object_options_additional keys by (auto simp: list_all_iff)
    then show ?thesis
      unfolding v built(1) object_draft07 [OF built(2) type] object_draft07 [OF ok ty] kws entries.simps rel(1,2)
        required_ok_keys [OF plain_node] json.inject by blast
  qed
  have "draft07 (JObj (schema_of t)) = draft07 (JObj node)" by (rule ext) (rule draft)
  with plain(7) shape(2) show ?thesis unfolding faithful_def by simp
qed

lemma string_faithful:
  assumes ok: "orelse (keyword_fault node path) (type_fault js node path) = None" and ty: "jget node ''type'' = JStr ''string''"
    and result: "tb_convertString b node path = Inr t"
  shows "faithful t (JObj node)"
proof -
  have supported: "''string'' \<in> set SUPPORTED_TYPES" by (simp add: SUPPORTED_TYPES_def)
  note whole = string_draft07 [OF node_checked(1) [OF ok] ty]
  show ?thesis
  proof (cases "jget node ''enum'' = JUndef")
    case True
    from result [unfolded tb_convertString_def if_P [OF True]] have t: "t = tb_String b (annotations node)" by simp
    note built = typed_draft07 [OF string supported annotations_built [of node] disjI1 [OF refl], folded t]
    have "\<not> has_key (annotations node) ''enum''" using annotations_keys [of node "''enum''"] by auto
    then have enum: "jget ((''type'', JStr ''string'') # annotations node) ''enum'' = JUndef" by (simp add: has_key_jget)
    have ty': "jget ((''type'', JStr ''string'') # annotations node) ''type'' = JStr ''string''" by simp
    have "draft07 (JObj (schema_of t)) v \<longleftrightarrow> draft07 (JObj node) v" for v
      unfolding built(1) string_draft07 [OF node_checked(1) [OF built(2)] ty'] whole True enum ..
    then show ?thesis unfolding faithful_def fun_eq_iff t using plain(1) by blast
  next
    case False
    from result [unfolded tb_convertString_def if_not_P [OF False]] obtain ms where ms: "t = tb_StringEnum b ms (annotations node)"
      "enum_members ''every enum member must be a string in the supported subset (use StringEnum, never Type.Union)'' path (jget node ''enum'') = Inr ms"
      by (rule map_sum_InrE)
    have enum_eq: "jget node ''enum'' = JArr (map JStr ms)" using enum_members_Inr [OF ms(2)] by blast
    let ?opts = "(''enum'', JArr (map JStr ms)) # annotations node"
    have "''enum'' \<in> set BUILT_KEYWORDS" by (simp add: BUILT_KEYWORDS_def)
    then have keys: "fst ` set ?opts \<subseteq> set BUILT_KEYWORDS" using annotations_built [of node] by simp
    note built = typed_draft07 [OF enum supported keys disjI1 [OF refl], folded ms(1)]
    have enum: "jget ((''type'', JStr ''string'') # ?opts) ''enum'' = JArr (map JStr ms)"
      and ty': "jget ((''type'', JStr ''string'') # ?opts) ''type'' = JStr ''string''" by simp_all
    have "draft07 (JObj (schema_of t)) v \<longleftrightarrow> draft07 (JObj node) v" for v
      unfolding built(1) string_draft07 [OF node_checked(1) [OF built(2)] ty'] whole enum_eq enum ..
    then show ?thesis unfolding faithful_def fun_eq_iff ms(1) using plain(6) by blast
  qed
qed

lemma scalar_faithful:
  assumes ok: "orelse (keyword_fault node path) (type_fault js node path) = None" and ty: "jget node ''type'' = JStr ty"
    and scalar: "ty \<in> {''integer'', ''number'', ''boolean''}"
    and t: "map_of (schema_of t) = map_of ((''type'', JStr ty) # opts)" "\<not> is_optional t"
    and opts: "fst ` set opts \<subseteq> set BUILT_KEYWORDS" "\<not> has_key opts ''enum''"
    and bounds: "\<And>v. json_has_type ty v \<Longrightarrow> minimum_ok (jget opts ''minimum'') v \<longleftrightarrow> minimum_ok (jget node ''minimum'') v"
  shows "faithful t (JObj node)"
proof -
  have supported: "ty \<in> set SUPPORTED_TYPES" using scalar by (auto simp: supported_types)
  note built = typed_draft07 [OF t(1) supported opts(1) disjI2 [OF opts(2)]]
  have ty': "jget ((''type'', JStr ty) # opts) ''type'' = JStr ty"
    and mn: "jget ((''type'', JStr ty) # opts) ''minimum'' = jget opts ''minimum''" by simp_all
  have "draft07 (JObj (schema_of t)) v \<longleftrightarrow> draft07 (JObj node) v" for v
    unfolding built(1) scalar_draft07 [OF built(2) ty' scalar] scalar_draft07 [OF ok ty scalar] mn using bounds by blast
  with t(2) show ?thesis unfolding faithful_def fun_eq_iff by blast
qed

lemma array_faithful:
  assumes ok: "orelse (keyword_fault node path) (type_fault js node path) = None" and ty: "jget node ''type'' = JStr ''array''"
    and conv: "\<And>sub p t. sub \<in> set (subschemas node) \<Longrightarrow> conv sub p = Inr t \<Longrightarrow> faithful t sub"
    and result: "tb_convertArray b conv node path = Inr t"
  shows "faithful t (JObj node)"
proof -
  obtain u where u: "t = tb_Array b u (annotations node)" "jget node ''items'' \<noteq> JUndef" "faithful u (jget node ''items'')"
    using result conv [OF subschema_items]
    by (cases "jget node ''items''") (auto simp: tb_convertArray_def elim!: map_sum_InrE)
  let ?opts = "(''items'', JObj (schema_of u)) # annotations node"
  have "''items'' \<in> set BUILT_KEYWORDS" and supported: "''array'' \<in> set SUPPORTED_TYPES"
    by (simp_all add: BUILT_KEYWORDS_def SUPPORTED_TYPES_def)
  then have keys: "fst ` set ?opts \<subseteq> set BUILT_KEYWORDS" using annotations_built [of node] by simp
  have enum: "\<not> has_key ?opts ''enum''" using annotations_keys [of node "''enum''"] by auto
  note built = typed_draft07 [OF array supported keys disjI2 [OF enum], folded u(1)]
  have ty': "jget ((''type'', JStr ''array'') # ?opts) ''type'' = JStr ''array''"
    and items: "jget ((''type'', JStr ''array'') # ?opts) ''items'' = JObj (schema_of u)" by simp_all
  have eq: "draft07 (JObj (schema_of u)) = draft07 (jget node ''items'')" using u(3) by (simp only: faithful_def)
  have "draft07 (JObj (schema_of t)) v \<longleftrightarrow> draft07 (JObj node) v" for v
    unfolding built(1) array_draft07 [OF built(2) ty'] array_draft07 [OF ok ty] items eq using u(2) by blast
  then show ?thesis unfolding faithful_def fun_eq_iff u(1) using plain(5) by blast
qed

lemma type_faithful:
  assumes ok: "orelse (keyword_fault node path) (type_fault js node path) = None" and plain_node: "plain_node node"
    and conv: "\<And>sub p t. sub \<in> set (subschemas node) \<Longrightarrow> conv sub p = Inr t \<Longrightarrow> faithful t sub"
    and u: "tb_convertType b opts conv node path = Inr u"
  shows "faithful u (JObj node)"
proof -
  obtain ty where ty: "jget node ''type'' = JStr ty" "ty \<in> set SUPPORTED_TYPES" using node_checked(2) [OF ok] by blast
  have bounds: "fst ` set (annotations node @ numericBounds node) \<subseteq> set BUILT_KEYWORDS"
    using annotations_built [of node] bounds_keys(1) [of node] by (simp only: set_append image_Un Un_subset_iff)
  have no_enum: "\<not> has_key (annotations node) ''enum''" using annotations_keys [of node "''enum''"] by auto
  from ty(2) [unfolded supported_types] show ?thesis
  proof (elim disjE)
    assume 1: "ty = ''string''"
    with u ty(1) show ?thesis using string_faithful [OF ok] by (simp add: tb_convertType_def)
  next
    assume 2: "ty = ''integer''"
    with u ty(1) have u': "u = tb_Integer b (annotations node @ numericBounds node)" by (simp add: tb_convertType_def)
    show ?thesis unfolding u'
      by (rule scalar_faithful [OF ok ty(1) _ integer [of "annotations node @ numericBounds node", folded 2] plain(2) bounds])
         (simp_all add: 2 no_enum bounds_keys(2) bounds_minimum)
  next
    assume 3: "ty = ''number''"
    with u ty(1) have u': "u = tb_Number b (annotations node @ numericBounds node)" by (simp add: tb_convertType_def)
    show ?thesis unfolding u'
      by (rule scalar_faithful [OF ok ty(1) _ number [of "annotations node @ numericBounds node", folded 3] plain(3) bounds])
         (simp_all add: 3 no_enum bounds_keys(2) bounds_minimum)
  next
    assume 4: "ty = ''boolean''"
    with u ty(1) have u': "u = tb_Boolean b (annotations node)" by (simp add: tb_convertType_def)
    have "minimum_ok m v" if "json_has_type ty v" for m v using that by (cases v; cases m) (simp_all add: 4 json_has_type_def)
    then show ?thesis unfolding u'
      by (intro scalar_faithful [OF ok ty(1) _ boolean [of "annotations node", folded 4] plain(4) annotations_built no_enum])
         (simp_all add: 4)
  next
    assume 5: "ty = ''array''"
    with u ty(1) have "tb_convertArray b conv node path = Inr u" by (simp add: tb_convertType_def)
    from array_faithful [OF ok _ conv this] ty(1) 5 show ?thesis by simp
  next
    assume 6: "ty = ''object''"
    with u ty(1) have "tb_convertObject b opts conv node path = Inr u" by (simp add: tb_convertType_def)
    from object_faithful [OF ok _ plain_node conv this] ty(1) 6 show ?thesis by simp
  qed
qed

lemma convert_faithful:
  "plain_schema s \<Longrightarrow> tb_convert js b opts s path = Inr t \<Longrightarrow> faithful t s"
proof (induction s arbitrary: path t rule: measure_induct_rule [where f = size])
  case (less s)
  obtain node where s: "s = JObj node" using less.prems(2) by (cases s) simp_all
  have plain: "plain_node node" "\<And>sub. sub \<in> set (subschemas node) \<Longrightarrow> plain_schema sub"
    using less.prems(1) by (simp_all add: s list_all_iff)
  have ok: "orelse (keyword_fault node path) (type_fault js node path) = None"
    using less.prems(2) unfolding s tb_convert.simps(1) by (simp split: option.splits)
  have u: "tb_convertType b opts (tb_convert js b opts) node path = Inr t"
    using less.prems(2) unfolding s tb_convert.simps(1) ok option.case .
  show ?case unfolding s
  proof (rule type_faithful [OF ok plain(1) _ u])
    fix sub p t
    assume sub: "sub \<in> set (subschemas node)" "tb_convert js b opts sub p = Inr t"
    show "faithful t sub"
      by (rule less.IH [OF _ plain(2) sub(2)]) (use s subschema_size sub(1) in simp_all)
  qed
qed

end

lemma tb_throws_iff: "isl (tb_convert js b opts s path) \<longleftrightarrow> \<not> convertible True s"
proof (induction s arbitrary: path rule: measure_induct_rule [where f = size])
  case (less s)
  show ?case
  proof (cases s)
    case (JObj node)
    let ?conv = "\<lambda>sub p. tb_convert js b opts sub p"
    have conv: "isl (?conv sub p) \<longleftrightarrow> \<not> convertible True sub" if "sub \<in> set (subschemas node)" for sub p
      using less.IH JObj subschema_size [OF that] by blast
    show ?thesis
    proof (cases "orelse (keyword_fault node path) (type_fault js node path)")
      case None
      obtain t where t: "jget node ''type'' = JStr t" "t \<in> set SUPPORTED_TYPES" using node_checked(2) [OF None] by blast
      have str: "isl (tb_convertString b node path) \<longleftrightarrow> \<not> branch_ok True node ''string''"
        unfolding tb_convertString_def branch_ok_def by (simp add: enum_members_isl)
      have arr: "isl (tb_convertArray b ?conv node path) \<longleftrightarrow> \<not> branch_ok True node ''array''"
        using conv [OF subschema_items] by (cases "jget node ''items''") (simp_all add: tb_convertArray_def branch_ok_def)
      have obj: "isl (tb_convertObject b opts ?conv node path) \<longleftrightarrow> \<not> branch_ok True node ''object''"
      proof (cases "additional_fault node path")
        case None
        then have ap: "jget node ''additionalProperties'' \<in> {JUndef, JBool True, JBool False}"
          using additional_fault_None by blast
        show ?thesis
        proof (cases "jget node ''properties''")
          case (JObj ps)
          from isl_shape [OF conv this] have sh: "isl (tb_shape b ?conv node path) \<longleftrightarrow> \<not> list_all (\<lambda>(k, sub). convertible True sub) ps"
            unfolding tb_shape_def JObj json.case .
          show ?thesis unfolding tb_convertObject_def None option.case branch_ok_def JObj json.case
            using ap sh by simp
        qed (use ap in \<open>simp_all add: tb_convertObject_def tb_shape_def None branch_ok_def\<close>)
      next
        case (Some e)
        then have "\<not> jget node ''additionalProperties'' \<in> {JUndef, JBool True, JBool False}"
          using additional_fault_None [of node path] by simp
        with Some show ?thesis unfolding tb_convertObject_def branch_ok_def by simp
      qed
      have "isl (tb_convertType b opts ?conv node path) \<longleftrightarrow> \<not> branch_ok True node t"
        using t(2) [unfolded supported_types]
        by (elim disjE) (simp_all add: tb_convertType_def t(1) str arr obj, simp_all add: branch_ok_def)
      then show ?thesis unfolding JObj convertible_node [where path = path and js = js] tb_convert.simps(1) None option.case
        by (simp add: t(1))
    qed (simp add: JObj convertible_node [where path = path and js = js] del: convertible.simps)
  qed simp_all
qed

section \<open>Properties\<close>

text \<open>
  C17. Both converters fail closed, and only outside the subset: for every schema, with any library,
  the conversion to Zod throws exactly when the schema is not in the supported subset, and the
  conversion to TypeBox exactly when it is not in the subset that also asks every array for its
  items. The input schema of every canonical tool is in the subset, so the tool tables of both
  bindings can be built.
\<close>

theorem converters_fail_closed:
  "(isl (jsonSchemaToZod js z zopts s) \<longleftrightarrow> \<not> convertible False s)
   \<and> (isl (jsonSchemaToTypeBox js b topts s) \<longleftrightarrow> \<not> convertible True s)
   \<and> list_all (\<lambda>d. convertible True (read_field d ''input_schema'') \<and> convertible False (read_field d ''input_schema'')) CANONICAL_TOOLS"
  using canonical_convertible
  by (simp add: jsonSchemaToZod_def jsonSchemaToTypeBox_def zod_throws_iff tb_throws_iff list_all_iff)

text \<open>
  The TypeBox schema is the published schema. For a schema of plain keywords, and builders that
  behave as the TypeBox documentation says, the schema that is built and the original have the same
  meaning (draft-07), for every value and in both treatments of open objects.
\<close>

theorem typebox_conversion_exact:
  assumes "typebox_library b schema_of is_optional" and "plain_schema s" and "jsonSchemaToTypeBox js b opts s = Inr t"
  shows "draft07 (JObj (schema_of t)) v \<longleftrightarrow> draft07 s v"
  using typebox_library.convert_faithful [OF assms(1,2) assms(3) [unfolded jsonSchemaToTypeBox_def]]
  unfolding typebox_library.faithful_def [OF assms(1)] by simp

theorem typebox_conversion_exact_witness:
  "\<exists>t. jsonSchemaToTypeBox quiet_js typebox_terms (Some Open_strip) (read_field MX_CREATE_TASK ''input_schema'') = Inr t
     \<and> (\<forall>v. draft07 (JObj (snd t)) v \<longleftrightarrow> draft07 (read_field MX_CREATE_TASK ''input_schema'') v)"
proof -
  let ?s = "read_field MX_CREATE_TASK ''input_schema''"
  have "convertible True ?s" by code_simp
  then have "\<not> isl (jsonSchemaToTypeBox quiet_js typebox_terms (Some Open_strip) ?s)"
    unfolding jsonSchemaToTypeBox_def tb_throws_iff not_not .
  from not_isl [OF this] obtain t where t: "jsonSchemaToTypeBox quiet_js typebox_terms (Some Open_strip) ?s = Inr t" ..
  have plain: "plain_schema ?s" by code_simp
  show ?thesis
    by (intro exI conjI allI, rule t, rule typebox_conversion_exact [OF typebox_terms.typebox_library_axioms plain t])
qed

end
