(* ===== verification/Pi.thy ===== *)
theory Pi
  imports Binding TypeBox_Schema
begin

text \<open>
  The Pi binding (packages/pi/src): its names (names.ts), context (context.ts), dispatch table
  (dispatch.ts), serialized results (serialize.ts), tool definitions that validate before they
  dispatch (tools.ts) and their registration (register.ts). The host, its TypeBox builders and the
  compiled validators are arguments. The dispatch table and the context are copies of the ones of
  the MCP binding, and are shown to be the same.
\<close>

section \<open>Names and context\<close>

definition mxToolNames :: "string list" where
  "mxToolNames = map descriptor_name CANONICAL_TOOLS"

definition isMxToolName :: "string \<Rightarrow> bool" where
  "isMxToolName name = list_ex (\<lambda>d. descriptor_name d = name) CANONICAL_TOOLS"

definition createPiBindingContext ::
  "'d session_view option \<Rightarrow> 'd daemon_call option \<Rightarrow> string option \<Rightarrow> thrown + 'd session_view
     \<Rightarrow> thrown + 'd binding_context" where
  "createPiBindingContext session daemon room opened =
     (case session of
        Some s \<Rightarrow> Inr \<lparr>bc_daemon = sv_daemon s, bc_room = sv_room s, bc_correlationId = Some (sv_correlationId s), bc_closes = False\<rparr>
      | None \<Rightarrow>
          (case daemon of
             Some d \<Rightarrow> Inr \<lparr>bc_daemon = d, bc_room = room, bc_correlationId = None, bc_closes = False\<rparr>
           | None \<Rightarrow>
               (case opened of
                  Inl e \<Rightarrow> Inl e
                | Inr s \<Rightarrow> Inr \<lparr>bc_daemon = sv_daemon s, bc_room = sv_room s,
                    bc_correlationId = Some (sv_correlationId s), bc_closes = True\<rparr>)))"

section \<open>Dispatch\<close>

definition pi_delegateDeps :: "'d binding_context \<Rightarrow> 'd delegate_deps" where
  "pi_delegateDeps ctx =
     \<lparr>d_daemon = bc_daemon ctx, d_sleep = None, d_now = None, d_pollIntervalMs = None,
      d_room = bc_room ctx, d_validator = None\<rparr>"

definition PI_DISPATCH :: "schema_validator \<Rightarrow> (string \<times> 'd dispatch_entry) list" where
  "PI_DISPATCH ajv =
     [(''mx_find_agents'', \<lambda>args. mxFindAgents (find_agents_of args)),
      (''mx_describe_agent'', \<lambda>args. mxDescribeAgent (str_field args ''agent_id'')),
      (''mx_await_result'', \<lambda>args. mxAwaitResult (str_field args ''handle'') (num_field args ''wait_ms'')),
      (''mx_cancel'', \<lambda>args. mxCancel (str_field args ''handle'')),
      (''mx_delegate_tool'', \<lambda>args. mxDelegateTool ajv (delegate_tool_of args)),
      (''mx_run_command'', \<lambda>args. mxRunCommand (run_command_of args)),
      (''mx_share_context'', \<lambda>args. mxShareContext (share_context_of args)),
      (''mx_get_context'', \<lambda>args. mxGetContext (str_field args ''context_id'')),
      (''mx_workspace_status'', \<lambda>args. mxWorkspaceStatus),
      (''mx_create_task'', \<lambda>args. mxCreateTask (create_task_of args)),
      (''mx_update_task'', \<lambda>args. mxUpdateTask (update_task_of args)),
      (''mx_list_tasks'', \<lambda>args. mxListTasks (list_tasks_of args)),
      (''mx_dispatch_task'', \<lambda>args. mxDispatchTask ajv (dispatch_task_of args))]"

definition pi_dispatchCall ::
  "schema_validator \<Rightarrow> string \<Rightarrow> obj option \<Rightarrow> 'd binding_context \<Rightarrow> 'd dispatched" where
  "pi_dispatchCall ajv name args ctx =
     (case table_get (PI_DISPATCH ajv) name of
        Missing \<Rightarrow> Runs (resolve (errored (Code not_found) (Some (''unknown tool: '' @ name)) EMPTY_AUDIT_REF))
      | Inherited f \<Rightarrow> Inherits f
      | Own entry \<Rightarrow>
          if typed_args name (or_default args []) then Runs (entry (or_default args []) (pi_delegateDeps ctx))
          else IllTyped)"

lemma pi_context_same: "createPiBindingContext = createBindingContext"
  by (intro ext) (simp add: createPiBindingContext_def createBindingContext_def session_context_def split: option.split sum.split)

lemma pi_deps_same: "pi_delegateDeps = delegateDeps"
  by (rule ext) (simp add: pi_delegateDeps_def delegateDeps_def)

lemma pi_table_same: "PI_DISPATCH = DISPATCH"
  by (rule ext) (simp only: PI_DISPATCH_def DISPATCH_def)

lemma pi_dispatch_same: "pi_dispatchCall = dispatchCall"
  by (intro ext) (simp only: pi_dispatchCall_def dispatchCall_def pi_deps_same pi_table_same)

section \<open>Serialization\<close>

record agent_tool_result =
  ar_text :: string
  ar_details :: json

definition toEnvelope :: "obj tool_result \<Rightarrow> json" where
  "toEnvelope r = envelope_json JObj r"

definition serializePiToolResult :: "js_runtime \<Rightarrow> obj tool_result \<Rightarrow> agent_tool_result" where
  "serializePiToolResult js r = \<lparr>ar_text = stringify js (toEnvelope r), ar_details = toEnvelope r\<rparr>"

section \<open>Tool definitions\<close>

definition pi_idempotencyKeyOf :: "obj \<Rightarrow> string option" where
  "pi_idempotencyKeyOf args = readString (jget args ''idempotency_key'')"

text \<open>\<open>errors\<close> is \<open>validate.errors\<close> after a failed validation: objects, the first of which is rendered.\<close>

definition invalidArgsMessage :: "string \<Rightarrow> json \<Rightarrow> string" where
  "invalidArgsMessage name errors =
     (case asArray errors of
        Some (first # _) \<Rightarrow>
          ''invalid arguments for '' @ name
            @ (case readString (jget (entries first) ''instancePath'') of
                 Some p \<Rightarrow> if p \<noteq> [] then '' at '' @ p else [] | None \<Rightarrow> [])
            @ (case readString (jget (entries first) ''message'') of
                 Some m \<Rightarrow> if m \<noteq> [] then '': '' @ m else [] | None \<Rightarrow> [])
      | _ \<Rightarrow> ''invalid arguments for '' @ name)"

definition em_dash :: string where
  "em_dash = [CHR 0xE2, CHR 0x80, CHR 0x94]"

definition descriptor_description :: "json \<Rightarrow> string" where
  "descriptor_description d = or_default (readString (read_field d ''description'')) []"

definition promptFor :: "json \<Rightarrow> string \<times> string list" where
  "promptFor d =
     (let name = descriptor_name d in
      (name @ '' '' @ em_dash @ '' '' @ descriptor_description d,
       [name @ '': '' @ descriptor_description d]
         @ (if read_field d ''async_semantics'' = JStr ''deferred'' then
              [name @ '' may return status \"running\" or \"awaiting_approval\" with a \"handle\". When it does, ''
                 @ ''call mx_await_result with that handle to obtain the terminal result '' @ em_dash @ '' do not retry ''
                 @ name @ ''.'']
            else [])
         @ [''Read the returned envelope's \"status\"/\"error\": \"denied\" is a governance outcome to replan ''
              @ ''around (not a transport error to retry); \"ok\" carries the result.'']))"

record 'b pi_tool =
  pt_name :: string
  pt_description :: string
  pt_promptSnippet :: string
  pt_promptGuidelines :: "string list"
  pt_parameters :: 'b
  pt_validate :: "json \<Rightarrow> bool"

datatype pi_fault = Conversion_failed conversion_error | Compile_failed string

definition buildToolDefinition ::
  "js_runtime \<Rightarrow> 'b typebox \<Rightarrow> typebox_open option \<Rightarrow> schema_validator \<Rightarrow> json \<Rightarrow> pi_fault + 'b pi_tool" where
  "buildToolDefinition js builders opts validator d =
     (case jsonSchemaToTypeBox js builders opts (read_field d ''input_schema'') of
        Inl e \<Rightarrow> Inl (Conversion_failed e)
      | Inr parameters \<Rightarrow>
          (case validator (read_field d ''input_schema'') of
             Inl e \<Rightarrow> Inl (Compile_failed e)
           | Inr validate \<Rightarrow>
               Inr \<lparr>pt_name = descriptor_name d, pt_description = descriptor_description d,
                    pt_promptSnippet = fst (promptFor d), pt_promptGuidelines = snd (promptFor d),
                    pt_parameters = parameters, pt_validate = validate\<rparr>))"

definition createPiToolDefinitions ::
  "js_runtime \<Rightarrow> 'b typebox \<Rightarrow> typebox_open option \<Rightarrow> schema_validator \<Rightarrow> json list option \<Rightarrow> pi_fault + 'b pi_tool list" where
  "createPiToolDefinitions js builders opts validator descriptors =
     traverse (buildToolDefinition js builders opts validator) (or_default descriptors CANONICAL_TOOLS)"

text \<open>
  The \<open>execute\<close> method of a tool. A validator that throws and a sink that throws before its promise
  are outside the model, so the two \<open>catch\<close> blocks are never entered: the handlers never reject.
\<close>

datatype ('d, 's) pi_outcome =
    Pi_answered agent_tool_result "string option" "'d host" 's
  | Pi_pending
  | Pi_left_to string
  | Pi_wrong_type

definition pi_produce ::
  "schema_validator \<Rightarrow> (json \<Rightarrow> json) \<Rightarrow> 'd binding_context \<Rightarrow> 'b pi_tool \<Rightarrow> obj \<Rightarrow> 'd dispatched" where
  "pi_produce ajv errors ctx tool args =
     (if \<not> pt_validate tool (JObj args)
      then Runs (resolve (errored (Code invalid_args) (Some (invalidArgsMessage (pt_name tool) (errors (JObj args)))) EMPTY_AUDIT_REF))
      else pi_dispatchCall ajv (pt_name tool) (Some args) ctx)"

definition pi_execute ::
  "js_runtime \<Rightarrow> schema_validator \<Rightarrow> (json \<Rightarrow> json) \<Rightarrow> 's sink_record \<Rightarrow> 'd binding_context \<Rightarrow> 'b pi_tool
     \<Rightarrow> string \<Rightarrow> obj option \<Rightarrow> 'd host \<Rightarrow> 's \<Rightarrow> ('d, 's) pi_outcome" where
  "pi_execute js ajv errors sink ctx tool toolCallId params h s =
     (let args = or_default params [] in
      case pi_produce ajv errors ctx tool args of
        Inherits f \<Rightarrow> Pi_left_to f
      | IllTyped \<Rightarrow> Pi_wrong_type
      | Runs run \<Rightarrow>
          (case run h of
             None \<Rightarrow> Pi_pending
           | Some (envelope, h1) \<Rightarrow>
               (case withAudit sink (audit_base_of ctx) envelope
                       \<lparr>pc_tool_name = pt_name tool, pc_call_id = toolCallId, pc_idempotency_key = pi_idempotencyKeyOf args\<rparr> s of
                  (audited, dropped, s') \<Rightarrow> Pi_answered (serializePiToolResult js audited) dropped h1 s')))"

section \<open>Registration\<close>

text \<open>The host keeps the tools it is given; \<open>register\<close> is its \<open>registerTool\<close>.\<close>

definition registerMxTools ::
  "('b pi_tool \<Rightarrow> 'h \<Rightarrow> 'h) \<Rightarrow> pi_fault + 'b pi_tool list \<Rightarrow> 'h \<Rightarrow> (pi_fault + 'b pi_tool list) \<times> 'h" where
  "registerMxTools register created host =
     (case created of
        Inl e \<Rightarrow> (Inl e, host)
      | Inr tools \<Rightarrow> (Inr tools, fold register tools host))"

definition createMxPiExtension ::
  "('b pi_tool \<Rightarrow> 'h \<Rightarrow> 'h) \<Rightarrow> pi_fault + 'b pi_tool list \<Rightarrow> pi_fault + ('h \<Rightarrow> 'h)" where
  "createMxPiExtension register created = map_sum (\<lambda>e. e) (fold register) created"

section \<open>Properties\<close>

lemma built_tool:
  assumes "buildToolDefinition js b opts (\<lambda>s. Inr (draft07 s)) d = Inr tool"
  shows "pt_name tool = descriptor_name d" "pt_validate tool = draft07 (read_field d ''input_schema'')"
  using assms unfolding buildToolDefinition_def by (auto split: sum.splits)

lemma pi_answers:
  assumes "pi_produce ajv errors ctx tool (or_default params []) = Runs run" and "run h = Some (r, h')"
  shows "\<exists>dropped s'. pi_execute js ajv errors sink ctx tool call params h s
     = Pi_answered (serializePiToolResult js r) dropped h' s'"
  unfolding pi_execute_def Let_def assms(1) dispatched.case assms(2) option.case prod.case withAudit_def
  by (simp split: prod.split sum.split)

lemma pi_valid_runs:
  assumes "d \<in> set CANONICAL_TOOLS" and "buildToolDefinition js b opts (\<lambda>s. Inr (draft07 s)) d = Inr tool"
    and "draft07 (read_field d ''input_schema'') (JObj args)"
  shows "\<exists>run. pi_produce ajv errors (logged_context f room correlation) tool args = Runs run \<and> governed run
     \<and> dispatchCall ajv (descriptor_name d) (Some args) (logged_context f room correlation) = Runs run"
proof -
  have "pi_produce ajv errors (logged_context f room correlation) tool args
      = dispatchCall ajv (descriptor_name d) (Some args) (logged_context f room correlation)"
    unfolding pi_produce_def built_tool [OF assms(2)] pi_dispatch_same by (rule if_not_P) (simp only: assms(3) simp_thms)
  with canonical_runs [OF assms(1) canonical_typed [OF assms(1,3)], of ajv f room correlation] show ?thesis by auto
qed

lemma pi_tool_builds:
  assumes "convertible True (read_field d ''input_schema'')"
  shows "\<exists>tool. buildToolDefinition js b opts (\<lambda>s. Inr (draft07 s)) d = Inr tool"
proof -
  have "\<not> isl (jsonSchemaToTypeBox js b opts (read_field d ''input_schema''))"
    using assms unfolding jsonSchemaToTypeBox_def tb_throws_iff by simp
  from not_isl [OF this] show ?thesis unfolding buildToolDefinition_def by auto
qed

lemma pi_valid:
  assumes "d \<in> set CANONICAL_TOOLS" and "buildToolDefinition js b opts (\<lambda>s. Inr (draft07 s)) d = Inr tool"
    and "draft07 (read_field d ''input_schema'') (JObj args)"
  shows "\<exists>r dropped h' s' rs.
        pi_execute js ajv errors sink (logged_context f room correlation) tool call (Some args) h s
          = Pi_answered (serializePiToolResult js r) dropped h' s'
        \<and> (conforms JObj r \<or> function_error r) \<and> requests h' = requests h @ rs
        \<and> list_all (\<lambda>r. \<not> isForbiddenAuthorityVerb (fst r)) rs"
proof -
  from pi_valid_runs [OF assms] obtain run where
    run: "pi_produce ajv errors (logged_context f room correlation) tool args = Runs run" "governed run" by blast
  obtain r h' rs where r: "run h = Some (r, h')" "well_built r" "requests h' = requests h @ rs"
      "list_all (\<lambda>r. \<not> isForbiddenAuthorityVerb (fst r)) rs"
    by (rule emitsE [OF run(2)])
  have conf: "conforms JObj r \<or> function_error r" using well_built_conforms [OF r(2), where enc = "\<lambda>x. x"] by blast
  from pi_answers [where params = "Some args" and js = js and sink = sink and call = call and s = s, unfolded or_default_simps, OF run(1) r(1)] obtain dropped s' where
    ans: "pi_execute js ajv errors sink (logged_context f room correlation) tool call (Some args) h s
      = Pi_answered (serializePiToolResult js r) dropped h' s'" by (elim exE) (rule that)
  show ?thesis by (intro exI conjI, rule ans, rule conf, rule r(3), rule r(4))
qed

lemma pi_invalid:
  assumes "buildToolDefinition js b opts (\<lambda>s. Inr (draft07 s)) d = Inr tool"
    and "\<not> draft07 (read_field d ''input_schema'') (JObj args)"
  shows "\<exists>m dropped s'.
        pi_execute js ajv errors sink (logged_context f room correlation) tool call (Some args) h s
          = Pi_answered (serializePiToolResult js (errored (Code invalid_args) (Some m) EMPTY_AUDIT_REF)) dropped h s'"
proof -
  have "pi_produce ajv errors (logged_context f room correlation) tool args
      = Runs (resolve (errored (Code invalid_args) (Some (invalidArgsMessage (pt_name tool) (errors (JObj args)))) EMPTY_AUDIT_REF))"
    using assms(2) unfolding pi_produce_def built_tool [OF assms(1)] by (rule if_P)
  from pi_answers [where params = "Some args" and js = js and sink = sink and call = call and s = s and h = h,
      unfolded or_default_simps, OF this, unfolded resolve_def, OF refl] show ?thesis
    by (elim exE) (intro exI)
qed

text \<open>
  Pi validates before it dispatches. For a canonical tool, built with a validator that decides
  draft-07 validity, a call with invalid arguments is answered with an \<open>invalid_args\<close> envelope and
  leaves the host as it was: nothing is sent to the daemon. A call with valid arguments reaches its
  handler with the types it assumes and is answered with an envelope that satisfies the published
  output schema (unless its error code is an inherited function), after requests none of which is
  an authority verb. There is no other outcome.
\<close>

theorem pi_validates_first:
  assumes "d \<in> set CANONICAL_TOOLS" and "buildToolDefinition js b opts (\<lambda>s. Inr (draft07 s)) d = Inr tool"
  shows "if draft07 (read_field d ''input_schema'') (JObj args)
     then \<exists>r dropped h' s' rs.
        pi_execute js ajv errors sink (logged_context f room correlation) tool call (Some args) h s
          = Pi_answered (serializePiToolResult js r) dropped h' s'
        \<and> (conforms JObj r \<or> function_error r) \<and> requests h' = requests h @ rs
        \<and> list_all (\<lambda>r. \<not> isForbiddenAuthorityVerb (fst r)) rs
     else \<exists>m dropped s'.
        pi_execute js ajv errors sink (logged_context f room correlation) tool call (Some args) h s
          = Pi_answered (serializePiToolResult js (errored (Code invalid_args) (Some m) EMPTY_AUDIT_REF)) dropped h s'"
proof (cases "draft07 (read_field d ''input_schema'') (JObj args)")
  case True
  show ?thesis unfolding if_P [OF True] by (rule pi_valid [OF assms True])
next
  case False
  show ?thesis unfolding if_not_P [OF False] by (rule pi_invalid [OF assms(2) False])
qed

theorem pi_validates_first_witness:
  "\<exists>tool m dropped s'. buildToolDefinition quiet_js typebox_terms None (\<lambda>s. Inr (draft07 s)) MX_CANCEL = Inr tool
     \<and> pi_execute quiet_js accept_all (\<lambda>_. JArr []) memory_record (logged_context quiet_daemon None None) tool ''call-1''
         (Some [(''handle'', JNull)]) (idle_host ((), [])) new_memory_sink
       = Pi_answered (serializePiToolResult quiet_js (errored (Code invalid_args) (Some m) EMPTY_AUDIT_REF)) dropped
           (idle_host ((), [])) s'"
proof -
  have canonical: "MX_CANCEL \<in> set CANONICAL_TOOLS" by (simp add: CANONICAL_TOOLS_def CANONICAL_M1_TOOLS_def)
  have "convertible True (read_field MX_CANCEL ''input_schema'')" by code_simp
  from pi_tool_builds [OF this] obtain tool where
    tool: "buildToolDefinition quiet_js typebox_terms None (\<lambda>s. Inr (draft07 s)) MX_CANCEL = Inr tool" ..
  have invalid: "\<not> draft07 (read_field MX_CANCEL ''input_schema'') (JObj [(''handle'', JNull)])" by code_simp
  note answered = pi_validates_first [OF canonical tool, where args = "[(''handle'', JNull)]" and ajv = accept_all
        and errors = "\<lambda>_. JArr []" and sink = memory_record and f = quiet_daemon and room = None and correlation = None
        and call = "''call-1''" and h = "idle_host ((), [])" and s = new_memory_sink, unfolded if_not_P [OF invalid]]
  show ?thesis by (rule exE [OF answered], elim exE, intro exI, rule conjI, rule tool)
qed

end
