(* ===== verification/Adw_Common.thy ===== *)
theory Adw_Common
  imports Cli
begin

text \<open>
  The pieces the workflow runner shares (adw_sdlc/src/): its errors (errors.ts), the runner
  contract's types (invoker.ts), prompt templates, agent output and command lines (common.ts), the
  environment of an agent (env.ts), the model table (models.ts), prices (pricing.ts) and the runner
  registry (registry.ts). A regular expression of common.ts is a scanner that follows the matcher's
  order of alternatives; character classes are the ASCII ones.
\<close>

section \<open>Errors and runner types\<close>

datatype runner_id = claude_runner | codex_runner | opencode_runner | pi_runner

definition runner_name :: "runner_id \<Rightarrow> string" where
  "runner_name r =
     (case r of
        claude_runner \<Rightarrow> ''claude''
      | codex_runner \<Rightarrow> ''codex''
      | opencode_runner \<Rightarrow> ''opencode''
      | pi_runner \<Rightarrow> ''pi'')"

definition RUNNER_IDS :: "runner_id list" where
  "RUNNER_IDS = [claude_runner, codex_runner, opencode_runner, pi_runner]"

text \<open>
  What an operation throws: an \<open>AdwError\<close> with its message, its subclass
  \<open>RunnerNotInstalledError\<close>, or anything else.
\<close>

datatype adw_failure =
    AdwError string
  | RunnerNotInstalledError runner_id string
  | OtherThrown json

fun is_adw_error :: "adw_failure \<Rightarrow> bool" where
  "is_adw_error (AdwError _) = True"
| "is_adw_error (RunnerNotInstalledError _ _) = True"
| "is_adw_error (OtherThrown _) = False"

text \<open>An undefined count is \<open>None\<close>; the cost is undefined, \<open>null\<close> or a number.\<close>

record phase_usage =
  inputTokens :: "rat option"
  outputTokens :: "rat option"
  cachedInputTokens :: "rat option"
  reasoningTokens :: "rat option"
  costUsd :: "jsnum option option"

definition no_usage :: phase_usage where
  "no_usage = \<lparr>inputTokens = None, outputTokens = None, cachedInputTokens = None,
               reasoningTokens = None, costUsd = None\<rparr>"

datatype stop_signal = sig_none | sig_timeout | sig_cancelled | sig_budget

text \<open>
  The runtime of the workflow runner also prints with an indent of two, coerces a value to a
  number, prints the properties an object literal inherits, and brings text to Unicode's canonical
  decomposition; \<open>REPO_ROOT\<close> and the override of the agents directory are settings of the process.
\<close>

record adw_runtime = js_runtime +
  pretty :: "json \<Rightarrow> string"
  to_number :: "json \<Rightarrow> jsnum"
  show_inherited :: "string \<Rightarrow> string"
  nfd :: "string \<Rightarrow> string"
  REPO_ROOT :: string
  agentsDirOverride :: "string option"

abbreviation nl :: char where
  "nl \<equiv> CHR 0x0A"

abbreviation apostrophe :: char where
  "apostrophe \<equiv> CHR 0x27"

section \<open>Substrings\<close>

fun index_of :: "string \<Rightarrow> string \<Rightarrow> nat option" where
  "index_of pat s =
     (if prefix pat s then Some 0
      else case s of [] \<Rightarrow> None | c # t \<Rightarrow> map_option Suc (index_of pat t))"

declare index_of.simps [simp del]

fun last_index_of :: "char \<Rightarrow> string \<Rightarrow> nat option" where
  "last_index_of c [] = None"
| "last_index_of c (x # xs) =
     (case last_index_of c xs of Some i \<Rightarrow> Some (Suc i) | None \<Rightarrow> if x = c then Some 0 else None)"

fun join_with :: "string \<Rightarrow> string list \<Rightarrow> string" where
  "join_with sep [] = []"
| "join_with sep [x] = x"
| "join_with sep (x # y # ys) = x @ sep @ join_with sep (y # ys)"

definition parse_digits :: "string \<Rightarrow> nat" where
  "parse_digits ds = foldl (\<lambda>n c. 10 * n + (of_char c - 48)) 0 ds"

text \<open>\<open>path.join\<close> of a clean directory and a clean relative path.\<close>

definition path_join :: "string \<Rightarrow> string \<Rightarrow> string" where
  "path_join dir name = dir @ ''/'' @ name"

section \<open>Prompt templates\<close>

definition frontmatter_end :: string where
  "frontmatter_end = [nl] @ ''---'' @ [nl]"

definition stripFrontmatter :: "string \<Rightarrow> string" where
  "stripFrontmatter text =
     (if \<not> startsWith text (''---'' @ [nl]) then text
      else case index_of frontmatter_end (drop 4 text) of
             None \<Rightarrow> text
           | Some i \<Rightarrow> drop (4 + i + length frontmatter_end) text)"

text \<open>
  The replacement string of \<open>replaceAll\<close> is itself a pattern: \<open>$$\<close> stands for a dollar sign,
  \<open>$&\<close> for the match, a dollar with a backtick or an apostrophe for what precedes or follows it.
\<close>

fun expand_replacement :: "string \<Rightarrow> string \<Rightarrow> string \<Rightarrow> string \<Rightarrow> string" where
  "expand_replacement before m after [] = []"
| "expand_replacement before m after [c] = [c]"
| "expand_replacement before m after (c # d # rest) =
     (if c = CHR ''$'' \<and> d = CHR ''$'' then CHR ''$'' # expand_replacement before m after rest
      else if c = CHR ''$'' \<and> d = CHR ''&'' then m @ expand_replacement before m after rest
      else if c = CHR ''$'' \<and> d = CHR 0x60 then before @ expand_replacement before m after rest
      else if c = CHR ''$'' \<and> d = apostrophe then after @ expand_replacement before m after rest
      else c # expand_replacement before m after (d # rest))"

text \<open>The counter skips the characters of a match already replaced.\<close>

fun replace_scan :: "string \<Rightarrow> string \<Rightarrow> string \<Rightarrow> nat \<Rightarrow> string \<Rightarrow> string" where
  "replace_scan pat repl before k [] = []"
| "replace_scan pat repl before (Suc k) (c # s) = replace_scan pat repl (before @ [c]) k s"
| "replace_scan pat repl before 0 (c # s) =
     (if prefix pat (c # s)
      then expand_replacement before pat (drop (length pat) (c # s)) repl
             @ replace_scan pat repl (before @ [c]) (length pat - 1) s
      else c # replace_scan pat repl (before @ [c]) 0 s)"

definition replaceAll :: "string \<Rightarrow> string \<Rightarrow> string \<Rightarrow> string" where
  "replaceAll s pat repl = replace_scan pat repl [] 0 s"

definition sliceArgs :: "string list \<Rightarrow> string \<Rightarrow> string option \<Rightarrow> adw_failure + string" where
  "sliceArgs args start len =
     (let n = parse_digits start in
      if n = 0 then Inl (AdwError ''argument slices are 1-indexed'')
      else Inr (join_with '' ''
             (case len of
                None \<Rightarrow> drop (n - 1) args
              | Some l \<Rightarrow> take (parse_digits l) (drop (n - 1) args))))"

text \<open>A match of \<open>\$\{@:(\d+)(?::(\d+))?\}\<close> at the head of the text: its groups and its length.\<close>

definition slice_at :: "string \<Rightarrow> (string \<times> string option \<times> nat) option" where
  "slice_at s =
     (if \<not> prefix ''${@:'' s then None
      else (let r = drop 4 s; d1 = takeWhile is_digit r; r1 = dropWhile is_digit r in
            if d1 = [] then None
            else case r1 of
                   [] \<Rightarrow> None
                 | c # r2 \<Rightarrow>
                     if c = CHR ''}'' then Some (d1, None, 5 + length d1)
                     else if c = CHR '':'' then
                       (let d2 = takeWhile is_digit r2; r3 = dropWhile is_digit r2 in
                        if d2 = [] \<or> r3 = [] \<or> hd r3 \<noteq> CHR ''}'' then None
                        else Some (d1, Some d2, 6 + length d1 + length d2))
                     else None))"

fun slice_scan :: "string list \<Rightarrow> nat \<Rightarrow> string \<Rightarrow> adw_failure + string" where
  "slice_scan args k [] = Inr []"
| "slice_scan args (Suc k) (c # s) = slice_scan args k s"
| "slice_scan args 0 (c # s) =
     (case slice_at (c # s) of
        None \<Rightarrow> map_sum id (\<lambda>t. c # t) (slice_scan args 0 s)
      | Some (start, len, n) \<Rightarrow>
          (case sliceArgs args start len of
             Inl e \<Rightarrow> Inl e
           | Inr v \<Rightarrow> map_sum id (\<lambda>t. v @ t) (slice_scan args (n - 1) s)))"

text \<open>\<open>\$(\d+)\<close>: the positional arguments, empty where the index is out of range.\<close>

fun position_scan :: "string list \<Rightarrow> nat \<Rightarrow> string \<Rightarrow> string" where
  "position_scan args k [] = []"
| "position_scan args (Suc k) (c # s) = position_scan args k s"
| "position_scan args 0 (c # s) =
     (let ds = takeWhile is_digit s; n = parse_digits ds in
      if c = CHR ''$'' \<and> ds \<noteq> []
      then (if 1 \<le> n \<and> n \<le> length args then args ! (n - 1) else []) @ position_scan args (length ds) s
      else c # position_scan args 0 s)"

definition substituteArgs :: "string \<Rightarrow> string list \<Rightarrow> adw_failure + string" where
  "substituteArgs text args =
     (let allArgs = join_with '' '' args;
          out = replaceAll (replaceAll text ''$ARGUMENTS'' allArgs) ''$@'' allArgs in
      map_sum id (position_scan args 0) (slice_scan args 0 out))"

text \<open>\<open>readFileSync\<close> is an argument: the text, or \<open>None\<close> when it throws.\<close>

definition renderPromptFile :: "(string \<Rightarrow> string option) \<Rightarrow> string \<Rightarrow> string list \<Rightarrow> adw_failure + string" where
  "renderPromptFile read path args =
     (case read path of
        None \<Rightarrow> Inl (AdwError (''prompt template not found: '' @ path))
      | Some text \<Rightarrow> substituteArgs (stripFrontmatter text) args)"

section \<open>Agent output\<close>

definition fence :: string where
  "fence = replicate 3 (CHR 0x60)"

text \<open>
  A match of \<open>FENCE_RE\<close> at the head of the text: the body and the length of the match. The
  whitespace before the body is matched greedily, so its last line break is tried first.
\<close>

definition fence_at :: "string \<Rightarrow> (string \<times> nat) option" where
  "fence_at s =
     (if \<not> prefix fence s then None
      else (let r = drop 3 s;
                tag = (if prefix ''json'' r then 4 else 0);
                r1 = drop tag r;
                ws = takeWhile is_space r1 in
            first_some (map (\<lambda>i. case index_of (nl # fence) (drop (Suc i) r1) of
                                   None \<Rightarrow> None
                                 | Some j \<Rightarrow> Some (take j (drop (Suc i) r1), 3 + tag + Suc i + j + 4))
                         (rev (filter (\<lambda>i. ws ! i = nl) [0..<length ws])))))"

fun fence_scan :: "nat \<Rightarrow> string \<Rightarrow> string list" where
  "fence_scan k [] = []"
| "fence_scan (Suc k) (c # s) = fence_scan k s"
| "fence_scan 0 (c # s) =
     (case fence_at (c # s) of
        None \<Rightarrow> fence_scan 0 s
      | Some (body, n) \<Rightarrow> body # fence_scan (n - 1) s)"

definition extractBraced :: "string \<Rightarrow> string" where
  "extractBraced text =
     (let arrayStart = index_of ''['' text; arrayEnd = last_index_of (CHR '']'') text;
          objStart = index_of ''{'' text; objEnd = last_index_of (CHR ''}'') text in
      case (objStart, objEnd) of
        (Some a, Some b) \<Rightarrow>
          if arrayStart = None \<or> a < the arrayStart then drop a (take (Suc b) text)
          else (case (arrayStart, arrayEnd) of
                  (Some a', Some b') \<Rightarrow> drop a' (take (Suc b') text)
                | _ \<Rightarrow> text)
      | _ \<Rightarrow>
          (case (arrayStart, arrayEnd) of
             (Some a', Some b') \<Rightarrow> drop a' (take (Suc b') text)
           | _ \<Rightarrow> text))"

datatype expectation = expect_object | expect_array

fun js_typeof :: "json \<Rightarrow> string" where
  "js_typeof JUndef = ''undefined''"
| "js_typeof JNull = ''object''"
| "js_typeof (JBool _) = ''boolean''"
| "js_typeof (JNum _) = ''number''"
| "js_typeof (JStr _) = ''string''"
| "js_typeof (JArr _) = ''object''"
| "js_typeof (JObj _) = ''object''"

definition is_array :: "json \<Rightarrow> bool" where
  "is_array v = (asArray v \<noteq> None)"

definition parseJson :: "adw_runtime \<Rightarrow> string option \<Rightarrow> expectation option \<Rightarrow> adw_failure + json" where
  "parseJson js text expect =
     (case text of
        None \<Rightarrow> Inl (AdwError ''no JSON to parse: empty agent output'')
      | Some t \<Rightarrow>
          (let bodies = fence_scan 0 t;
               candidate = js_trim (if bodies = [] then t else last bodies);
               chosen = (if startsWith candidate ''{'' \<or> startsWith candidate ''['' then candidate
                         else extractBraced candidate) in
           case parse_json js chosen of
             Inl msg \<Rightarrow>
               Inl (AdwError (''could not parse JSON from agent output: '' @ msg @ '' (saw: ''
                      @ stringify js (JStr (take 200 chosen)) @ '')''))
           | Inr result \<Rightarrow>
               if expect = Some expect_object \<and> asRecord result = None
               then Inl (AdwError (''expected a JSON object, got ''
                           @ (if is_array result then ''array'' else js_typeof result)))
               else if expect = Some expect_array \<and> \<not> is_array result
               then Inl (AdwError (''expected a JSON array, got '' @ js_typeof result))
               else Inr result))"

section \<open>Command lines\<close>

text \<open>A match of the word pattern at the head of the text: the word and the length of the match.\<close>

definition word_at :: "string \<Rightarrow> (string \<times> nat) option" where
  "word_at s =
     (case s of
        [] \<Rightarrow> None
      | c # t \<Rightarrow>
          if c = apostrophe \<and> apostrophe \<in> set t
          then (let w = takeWhile (\<lambda>x. x \<noteq> apostrophe) t in Some (w, length w + 2))
          else if c = CHR 0x22 \<and> CHR 0x22 \<in> set t
          then (let w = takeWhile (\<lambda>x. x \<noteq> CHR 0x22) t in Some (w, length w + 2))
          else (let w = takeWhile (\<lambda>x. \<not> is_space x) s in if w = [] then None else Some (w, length w)))"

fun word_scan :: "nat \<Rightarrow> string \<Rightarrow> string list" where
  "word_scan k [] = []"
| "word_scan (Suc k) (c # s) = word_scan k s"
| "word_scan 0 (c # s) =
     (case word_at (c # s) of
        None \<Rightarrow> word_scan 0 s
      | Some (w, n) \<Rightarrow> w # word_scan (n - 1) s)"

definition shellSplit :: "string \<Rightarrow> string list" where
  "shellSplit command = word_scan 0 command"

section \<open>The environment of an agent\<close>

definition ADW_BASE_ENV_ALLOW :: "string list" where
  "ADW_BASE_ENV_ALLOW =
     [''HOME'', ''USER'', ''PATH'', ''SHELL'', ''TERM'', ''LANG'', ''LC_ALL'', ''TMPDIR'']"

definition ADW_ENV_DENY_PREFIXES :: "string list" where
  "ADW_ENV_DENY_PREFIXES = [''MATRIX_'', ''MX_AGENT_'']"

definition RUNNER_ENV_ALLOW :: "runner_id \<Rightarrow> string list" where
  "RUNNER_ENV_ALLOW r =
     (case r of
        claude_runner \<Rightarrow>
          [''ANTHROPIC_API_KEY'', ''ANTHROPIC_AUTH_TOKEN'', ''CLAUDE_CODE_OAUTH_TOKEN'', ''CLAUDE_BIN'',
           ''CLAUDE_CODE_PATH'']
      | codex_runner \<Rightarrow> [''CODEX_API_KEY'', ''OPENAI_API_KEY'', ''CODEX_BIN'', ''CODEX_HOME'']
      | opencode_runner \<Rightarrow>
          [''ANTHROPIC_API_KEY'', ''OPENAI_API_KEY'', ''OPENCODE_SERVER_PASSWORD'', ''OPENCODE_BIN'',
           ''XDG_DATA_HOME'']
      | pi_runner \<Rightarrow>
          [''ANTHROPIC_API_KEY'', ''OPENAI_API_KEY'', ''PI_BIN'', ''PI_MODEL'', ''PI_THINKING'',
           ''PI_CODING_AGENT_DIR'', ''PI_CODING_AGENT_SESSION_DIR''])"

definition env_allowlist :: "bool \<Rightarrow> runner_id option \<Rightarrow> string list \<Rightarrow> string list" where
  "env_allowlist allowGhToken runner extraAllow =
     ADW_BASE_ENV_ALLOW
       @ (if allowGhToken then [''GH_TOKEN'', ''GH_BIN''] else [])
       @ (case runner of None \<Rightarrow> [] | Some r \<Rightarrow> RUNNER_ENV_ALLOW r)
       @ filter (\<lambda>key. \<not> list_ex (startsWith key) ADW_ENV_DENY_PREFIXES) extraAllow"

definition adwSubprocessEnv ::
  "bool \<Rightarrow> runner_id option \<Rightarrow> string list \<Rightarrow> environment \<Rightarrow> (string \<times> string) list" where
  "adwSubprocessEnv allowGhToken runner extraAllow source =
     fold (\<lambda>key env. case source key of Some v \<Rightarrow> map_set key v env | None \<Rightarrow> env)
       (env_allowlist allowGhToken runner extraAllow) []"

section \<open>Models and prices\<close>

datatype tier = cheap | mid | capable

definition PHASE_TIER :: "(string \<times> tier) list" where
  "PHASE_TIER =
     [(''classify'', cheap), (''plan'', capable), (''implement'', capable), (''tests'', mid),
      (''resolve'', mid), (''e2e'', mid), (''review'', capable), (''patch'', capable), (''document'', mid)]"

definition TIER_MODELS :: "runner_id \<Rightarrow> tier \<Rightarrow> string" where
  "TIER_MODELS r t =
     (case r of
        claude_runner \<Rightarrow> (case t of cheap \<Rightarrow> ''claude-haiku-4-5'' | mid \<Rightarrow> ''claude-sonnet-4-6''
                           | capable \<Rightarrow> ''claude-opus-4-8'')
      | pi_runner \<Rightarrow> (case t of cheap \<Rightarrow> ''haiku'' | mid \<Rightarrow> ''sonnet'' | capable \<Rightarrow> ''opus'')
      | codex_runner \<Rightarrow> (case t of cheap \<Rightarrow> ''gpt-5.4-mini'' | mid \<Rightarrow> ''gpt-5.4'' | capable \<Rightarrow> ''gpt-5.5'')
      | opencode_runner \<Rightarrow> (case t of cheap \<Rightarrow> ''anthropic/claude-haiku-4-5''
                             | mid \<Rightarrow> ''anthropic/claude-sonnet-4-6''
                             | capable \<Rightarrow> ''anthropic/claude-opus-4-8''))"

definition CLASSIFY_MODEL :: string where
  "CLASSIFY_MODEL = ''claude-haiku-4-5''"

text \<open>
  The phases the callers pass are the keys of \<open>PHASE_TIER\<close>. An inherited key would select no model,
  which reads as the empty string here.
\<close>

definition modelForPhase :: "string \<Rightarrow> runner_id \<Rightarrow> string \<Rightarrow> environment \<Rightarrow> string" where
  "modelForPhase phase runner cliModel env =
     (if cliModel \<noteq> [] then cliModel
      else case env (''MX_AGENT_MODEL_'' @ toUpperCase phase) of
        Some (c # cs) \<Rightarrow> c # cs
      | _ \<Rightarrow>
          (case table_get PHASE_TIER phase of
             Own t \<Rightarrow> TIER_MODELS runner t
           | Missing \<Rightarrow> TIER_MODELS runner mid
           | Inherited _ \<Rightarrow> []))"

record price_entry =
  inputUsdPerMTok :: rat
  outputUsdPerMTok :: rat
  cacheReadUsdPerMTok :: "rat option"
  cacheWrite5mUsdPerMTok :: "rat option"

definition PRICES :: "(string \<times> price_entry) list" where
  "PRICES =
     [(''claude-haiku-4-5'', \<lparr>inputUsdPerMTok = 1, outputUsdPerMTok = 5, cacheReadUsdPerMTok = Some (1 / 10),
                              cacheWrite5mUsdPerMTok = Some (5 / 4)\<rparr>),
      (''gpt-5.4-mini'', \<lparr>inputUsdPerMTok = 3 / 4, outputUsdPerMTok = 9 / 2,
                          cacheReadUsdPerMTok = Some (3 / 40), cacheWrite5mUsdPerMTok = None\<rparr>),
      (''gpt-5.4'', \<lparr>inputUsdPerMTok = 5 / 2, outputUsdPerMTok = 15, cacheReadUsdPerMTok = Some (1 / 4),
                     cacheWrite5mUsdPerMTok = None\<rparr>),
      (''gpt-5.5'', \<lparr>inputUsdPerMTok = 5, outputUsdPerMTok = 30, cacheReadUsdPerMTok = Some (1 / 2),
                     cacheWrite5mUsdPerMTok = None\<rparr>)]"

text \<open>
  \<open>None\<close> is the result \<open>null\<close>. A model named after an inherited property finds an entry
  whose prices are undefined, so its cost is \<open>NaN\<close>.
\<close>

definition model_cost :: "string \<Rightarrow> phase_usage \<Rightarrow> jsnum option" where
  "model_cost model usage =
     (let unreported = inputTokens usage = None \<and> outputTokens usage = None \<and> cachedInputTokens usage = None in
      case table_get PRICES model of
        Missing \<Rightarrow> None
      | Inherited _ \<Rightarrow> if unreported then None else Some NaN
      | Own entry \<Rightarrow>
          if unreported then None
          else (let cacheRead = or_default (cacheReadUsdPerMTok entry) (inputUsdPerMTok entry) in
                Some (Fin ((or_default (inputTokens usage) 0 * inputUsdPerMTok entry
                            + or_default (outputTokens usage) 0 * outputUsdPerMTok entry
                            + or_default (cachedInputTokens usage) 0 * cacheRead) / 1000000))))"

section \<open>The runner registry\<close>

definition DEFAULT_RUNNER :: runner_id where
  "DEFAULT_RUNNER = claude_runner"

definition resolveRunnerId :: "string option \<Rightarrow> adw_failure + runner_id" where
  "resolveRunnerId raw =
     (case raw of
        None \<Rightarrow> Inr DEFAULT_RUNNER
      | Some s \<Rightarrow>
          if s = [] then Inr DEFAULT_RUNNER
          else case find (\<lambda>r. runner_name r = s) RUNNER_IDS of
                 Some r \<Rightarrow> Inr r
               | None \<Rightarrow> Inl (AdwError (''unknown runner: '' @ [apostrophe] @ s @ [apostrophe] @ '' (valid: ''
                            @ join_with '', '' (map runner_name RUNNER_IDS) @ '')'')))"

definition adapter_module :: "runner_id \<Rightarrow> string" where
  "adapter_module r =
     (case r of
        claude_runner \<Rightarrow> ''./runners/runner-claude.js''
      | codex_runner \<Rightarrow> ''./runners/runner-codex.js''
      | opencode_runner \<Rightarrow> ''./runners/runner-opencode.js''
      | pi_runner \<Rightarrow> ''./runners/runner-pi.js'')"

definition adapter_package :: "runner_id \<Rightarrow> string" where
  "adapter_package r =
     (case r of
        claude_runner \<Rightarrow> ''@anthropic-ai/claude-agent-sdk''
      | codex_runner \<Rightarrow> ''@openai/codex-sdk''
      | opencode_runner \<Rightarrow> ''@opencode-ai/sdk''
      | pi_runner \<Rightarrow> ''@earendil-works/pi-coding-agent'')"

function isModuleNotFound :: "json \<Rightarrow> nat \<Rightarrow> bool" where
  "isModuleNotFound err depth =
     (if js_typeof err \<noteq> ''object'' \<or> err = JNull \<or> depth > 4 then False
      else if field_of err ''code'' \<in> {JStr ''ERR_MODULE_NOT_FOUND'', JStr ''MODULE_NOT_FOUND''} then True
      else if (case field_of err ''message'' of
                 JStr msg \<Rightarrow>
                   list_ex (\<lambda>t. index_of t msg \<noteq> None)
                     [''Cannot find module'', ''Cannot find package'', ''Failed to resolve import'',
                      ''Failed to load url'']
               | _ \<Rightarrow> False) then True
      else isModuleNotFound (field_of err ''cause'') (Suc depth))"
  by pat_completeness auto

termination by (relation "measure (\<lambda>(_, depth). 5 - depth)") auto

declare isModuleNotFound.simps [simp del]

text \<open>
  Loading an adapter: \<open>import\<close> rejects with an error or yields the module, whose \<open>createRunner\<close> is
  absent (\<open>None\<close>), rejects, or yields a runner. A runner is any value with an \<open>id\<close>.
\<close>

definition loadRunner ::
  "(string \<Rightarrow> json + (adw_failure + 'r) option) \<Rightarrow> ('r \<Rightarrow> runner_id) \<Rightarrow> runner_id \<Rightarrow> adw_failure + 'r" where
  "loadRunner import_module runner_ident r =
     (case import_module (adapter_module r) of
        Inl err \<Rightarrow>
          if isModuleNotFound err 0 then Inl (RunnerNotInstalledError r (adapter_package r))
          else Inl (OtherThrown err)
      | Inr None \<Rightarrow>
          Inl (AdwError (''runner adapter '' @ [apostrophe] @ adapter_module r @ [apostrophe]
                 @ '' does not export createRunner()''))
      | Inr (Some (Inl e)) \<Rightarrow> Inl e
      | Inr (Some (Inr runner)) \<Rightarrow>
          if runner_ident runner \<noteq> r
          then Inl (AdwError (''runner adapter mismatch: asked for '' @ [apostrophe] @ runner_name r @ [apostrophe]
                 @ '', got '' @ [apostrophe] @ runner_name (runner_ident runner) @ [apostrophe]))
          else Inr runner)"

section \<open>Properties\<close>

definition quote_word :: "string \<Rightarrow> string" where
  "quote_word w = apostrophe # w @ [apostrophe]"

lemma word_scan_drop: "word_scan k s = word_scan 0 (drop k s)"
  by (induction k s rule: word_scan.induct) (simp_all split: option.split)

lemma take_quoted: "apostrophe \<notin> set w \<Longrightarrow> takeWhile (\<lambda>x. x \<noteq> apostrophe) (w @ apostrophe # s) = w"
  by (induction w) auto

lemma word_at_quoted: "apostrophe \<notin> set w \<Longrightarrow> word_at (quote_word w @ s) = Some (w, length w + 2)"
  by (simp add: word_at_def quote_word_def take_quoted Let_def)

lemma scan_quoted:
  assumes "apostrophe \<notin> set w"
  shows "word_scan 0 (quote_word w @ s) = w # word_scan 0 s"
  using word_at_quoted [OF assms, of s]
  by (simp add: quote_word_def word_scan_drop [of "Suc _"])

lemma scan_blank: "word_scan 0 ('' '' @ s) = word_scan 0 s"
proof -
  have "is_space (CHR '' '')" by code_simp
  then have "word_at (CHR '' '' # s) = None" by (simp add: word_at_def Let_def)
  then show ?thesis by simp
qed

text \<open>
  A quoted command line splits into its arguments. Joining arguments, each between
  apostrophes, with blanks gives a command line that \<open>shellSplit\<close> takes apart into the very
  same arguments, empty ones and ones with blanks or double quotes included, provided none
  contains an apostrophe.
\<close>

theorem shell_words_roundtrip:
  assumes "list_all (\<lambda>w. apostrophe \<notin> set w) ws"
  shows "shellSplit (join_with '' '' (map quote_word ws)) = ws"
  using assms
proof (induction ws rule: induct_list012)
  case 1
  then show ?case by (simp add: shellSplit_def)
next
  case (2 w)
  then have "word_scan 0 (quote_word w @ []) = w # word_scan 0 []" by (intro scan_quoted) simp
  then show ?case by (simp add: shellSplit_def)
next
  case (3 w v ws)
  have "word_scan 0 (quote_word w @ '' '' @ join_with '' '' (map quote_word (v # ws)))
      = w # word_scan 0 ('' '' @ join_with '' '' (map quote_word (v # ws)))"
    using 3(3) by (intro scan_quoted) simp
  moreover have "\<dots> = w # v # ws"
    unfolding scan_blank using 3(2,3) by (simp add: shellSplit_def)
  ultimately show ?case by (simp add: shellSplit_def)
qed

theorem shell_words_roundtrip_witness:
  "shellSplit (join_with '' '' (map quote_word [''git'', ''commit'', ''-m'', ''a b'', [], [CHR 0x22]]))
     = [''git'', ''commit'', ''-m'', ''a b'', [], [CHR 0x22]]"
  by (rule shell_words_roundtrip) code_simp

text \<open>
  The text of an argument is not safe from the template language: the issue text a template
  inserts is read as a replacement pattern, and its own \<open>$1\<close> are substituted again.
\<close>

lemma dollar_arguments_mangled:
  "substituteArgs ''fix: $@'' [''costs $$5''] = Inr ''fix: costs ''"
  "substituteArgs ''fix: $@'' [''use $&!''] = Inr ''fix: use $@!''"
  "substituteArgs ''fix: $@'' [''see $1''] = Inr ''fix: see see $1''"
  by code_simp+

lemma env_allowlist_entries:
  "list_all (\<lambda>key. \<not> list_ex (startsWith key) ADW_ENV_DENY_PREFIXES) (env_allowlist gh runner extra)"
proof -
  let ?ok = "list_all (\<lambda>key. \<not> list_ex (startsWith key) ADW_ENV_DENY_PREFIXES)"
  have "?ok ADW_BASE_ENV_ALLOW" "?ok [''GH_TOKEN'', ''GH_BIN'']"
    "?ok (RUNNER_ENV_ALLOW claude_runner)" "?ok (RUNNER_ENV_ALLOW codex_runner)"
    "?ok (RUNNER_ENV_ALLOW opencode_runner)" "?ok (RUNNER_ENV_ALLOW pi_runner)"
    by code_simp+
  moreover have "?ok (filter (\<lambda>key. \<not> list_ex (startsWith key) ADW_ENV_DENY_PREFIXES) extra)"
    by (simp add: list_all_iff)
  moreover have "?ok []" by (rule list.pred_inject)
  ultimately show ?thesis
    unfolding env_allowlist_def list_all_append
    by (cases gh; cases runner rule: option.exhaust [case_names None Some]; cases "the runner")
       (simp_all only: if_True if_False option.case option.sel simp_thms)
qed

lemma adw_env_lookup:
  "map_of (adwSubprocessEnv gh runner extra source) k =
     (if k \<in> set (env_allowlist gh runner extra) then source k else None)"
  unfolding adwSubprocessEnv_def env_fold by simp

lemma gh_token_withheld:
  "\<not> list_ex (\<lambda>key. key = ''GH_TOKEN'' \<or> key = ''GH_BIN'') (env_allowlist False (Some r) [])"
proof -
  let ?gh = "\<lambda>r. list_ex (\<lambda>key. key = ''GH_TOKEN'' \<or> key = ''GH_BIN'') (env_allowlist False (Some r) [])"
  have "\<not> ?gh claude_runner" "\<not> ?gh codex_runner" "\<not> ?gh opencode_runner" "\<not> ?gh pi_runner"
    by code_simp+
  then show ?thesis by (cases r) (simp_all only: simp_thms)
qed

end
