(* ===== verification/Adw_State.thy ===== *)
theory Adw_State
  imports Adw_Common
begin

text \<open>
  The persistent state of a workflow run (adw_sdlc/src/state.ts): the record of a run, its JSON
  document, and the reader that rebuilds it from whatever the state file holds.
\<close>

section \<open>Identifiers and paths\<close>

definition STATE_FILENAME :: string where
  "STATE_FILENAME = ''state.json''"

definition is_lower_hex :: "char \<Rightarrow> bool" where
  "is_lower_hex c = (in_range 48 57 c \<or> in_range 97 102 c)"

definition ADW_ID_RE :: re where
  "ADW_ID_RE = rrep 8 (RCls is_lower_hex)"

definition PHASE_RE :: re where
  "PHASE_RE = rplus (RCls (\<lambda>c. is_alnum c \<or> c = CHR ''_'' \<or> c = CHR ''-''))"

definition agentsDir :: "adw_runtime \<Rightarrow> string" where
  "agentsDir js = or_default (agentsDirOverride js) (path_join (REPO_ROOT js) ''agents'')"

definition validateAdwId :: "adw_runtime \<Rightarrow> string \<Rightarrow> adw_failure + string" where
  "validateAdwId js adwId =
     (if adwId = [] \<or> \<not> matches ADW_ID_RE adwId
      then Inl (AdwError (''invalid adw_id (want 8 hex chars): '' @ stringify js (JStr adwId)))
      else Inr adwId)"

definition safePhase :: "adw_runtime \<Rightarrow> string \<Rightarrow> adw_failure + string" where
  "safePhase js phase =
     (if phase = [] \<or> \<not> matches PHASE_RE phase
      then Inl (AdwError (''invalid phase name: '' @ stringify js (JStr phase)))
      else Inr phase)"

section \<open>The record\<close>

record adw_state =
  adwId :: string
  schemaVersion :: jsnum
  issueNumber :: "string option"
  issueClass :: "string option"
  branchName :: "string option"
  base :: string
  planFile :: "string option"
  prNumber :: "jsnum option"
  prUrl :: "string option"
  commitMessage :: "string option"
  prBody :: "string option"
  reviewFindings :: "obj list"
  completedPhases :: "string list"
  engine :: "string option"
  runner :: "string option"
  totalCostUsd :: "jsnum option option"

text \<open>The defaults of the constructor, for an id that \<open>validateAdwId\<close> has accepted.\<close>

definition new_state :: "string \<Rightarrow> adw_state" where
  "new_state i =
     \<lparr>adwId = i, schemaVersion = Fin 1, issueNumber = None, issueClass = None, branchName = None,
      base = ''main'', planFile = None, prNumber = None, prUrl = None, commitMessage = None, prBody = None,
      reviewFindings = [], completedPhases = [], engine = None, runner = None, totalCostUsd = None\<rparr>"

definition workspace :: "adw_runtime \<Rightarrow> adw_state \<Rightarrow> string" where
  "workspace js s = path_join (agentsDir js) (adwId s)"

definition statePath :: "adw_runtime \<Rightarrow> adw_state \<Rightarrow> string" where
  "statePath js s = path_join (workspace js s) STATE_FILENAME"

definition isDone :: "adw_state \<Rightarrow> string \<Rightarrow> bool" where
  "isDone s phase = (phase \<in> set (completedPhases s))"

definition markDone :: "string \<Rightarrow> adw_state \<Rightarrow> adw_state" where
  "markDone phase s =
     (if phase \<in> set (completedPhases s) then s
      else s\<lparr>completedPhases := completedPhases s @ [phase]\<rparr>)"

section \<open>The document\<close>

definition num_opt :: "jsnum option \<Rightarrow> json" where
  "num_opt n = (case n of None \<Rightarrow> JNull | Some x \<Rightarrow> JNum x)"

definition adw_state_json :: "adw_state \<Rightarrow> json" where
  "adw_state_json s =
     JObj ([(''adw_id'', JStr (adwId s)),
            (''schema_version'', JNum (schemaVersion s)),
            (''issue_number'', str_opt (issueNumber s)),
            (''issue_class'', str_opt (issueClass s)),
            (''branch_name'', str_opt (branchName s)),
            (''base'', JStr (base s)),
            (''plan_file'', str_opt (planFile s)),
            (''pr_number'', num_opt (prNumber s)),
            (''pr_url'', str_opt (prUrl s)),
            (''commit_message'', str_opt (commitMessage s)),
            (''pr_body'', str_opt (prBody s)),
            (''review_findings'', JArr (map JObj (reviewFindings s))),
            (''completed_phases'', JArr (map JStr (completedPhases s)))]
           @ opt_field ''engine'' (map_option JStr (engine s))
           @ opt_field ''runner'' (map_option JStr (runner s))
           @ opt_field ''total_cost_usd'' (map_option num_opt (totalCostUsd s)))"

fun asStringOrNull :: "json \<Rightarrow> string option" where
  "asStringOrNull (JStr s) = Some s"
| "asStringOrNull _ = None"

fun as_number :: "json \<Rightarrow> jsnum option" where
  "as_number (JNum n) = Some n"
| "as_number _ = None"

text \<open>The fields \<open>load\<close> reads, each with its fallback.\<close>

definition state_fields :: "obj \<Rightarrow> string \<Rightarrow> adw_state" where
  "state_fields doc i =
     \<lparr>adwId = i,
      schemaVersion = or_default (as_number (jget doc ''schema_version'')) (Fin 1),
      issueNumber = asStringOrNull (jget doc ''issue_number''),
      issueClass = asStringOrNull (jget doc ''issue_class''),
      branchName = asStringOrNull (jget doc ''branch_name''),
      base = or_default (asStringOrNull (jget doc ''base'')) ''main'',
      planFile = asStringOrNull (jget doc ''plan_file''),
      prNumber = as_number (jget doc ''pr_number''),
      prUrl = asStringOrNull (jget doc ''pr_url''),
      commitMessage = asStringOrNull (jget doc ''commit_message''),
      prBody = asStringOrNull (jget doc ''pr_body''),
      reviewFindings =
        (case jget doc ''review_findings'' of JArr fs \<Rightarrow> List.map_filter asRecord fs | _ \<Rightarrow> []),
      completedPhases =
        (case jget doc ''completed_phases'' of JArr ps \<Rightarrow> List.map_filter asStringOrNull ps | _ \<Rightarrow> []),
      engine = asStringOrNull (jget doc ''engine''),
      runner = asStringOrNull (jget doc ''runner''),
      totalCostUsd =
        (case jget doc ''total_cost_usd'' of JNum n \<Rightarrow> Some (Some n) | JNull \<Rightarrow> Some None | _ \<Rightarrow> None)\<rparr>"

text \<open>The part of \<open>load\<close> after \<open>JSON.parse\<close>; the constructor's refusal of the id is caught.\<close>

definition state_of_json :: "adw_runtime \<Rightarrow> json \<Rightarrow> adw_state option" where
  "state_of_json js data =
     (case data of
        JObj doc \<Rightarrow>
          (case jget doc ''adw_id'' of
             JStr i \<Rightarrow>
               (case validateAdwId js i of Inl _ \<Rightarrow> None | Inr i' \<Rightarrow> Some (state_fields doc i'))
           | _ \<Rightarrow> None)
      | _ \<Rightarrow> None)"

text \<open>\<open>save\<close> writes this text; \<open>load\<close> reads the file of the id it is given (\<open>None\<close>: \<open>readFileSync\<close> throws).\<close>

definition state_text :: "adw_runtime \<Rightarrow> adw_state \<Rightarrow> string" where
  "state_text js s = pretty js (adw_state_json s) @ [nl]"

definition load_path :: "adw_runtime \<Rightarrow> string \<Rightarrow> string" where
  "load_path js i = path_join (path_join (agentsDir js) i) STATE_FILENAME"

definition load_state :: "adw_runtime \<Rightarrow> (string \<Rightarrow> string option) \<Rightarrow> string \<Rightarrow> adw_failure + adw_state option" where
  "load_state js read i =
     (case validateAdwId js i of
        Inl e \<Rightarrow> Inl e
      | Inr _ \<Rightarrow>
          (case read (load_path js i) of
             None \<Rightarrow> Inr None
           | Some raw \<Rightarrow>
               (case parse_json js raw of Inl _ \<Rightarrow> Inr None | Inr data \<Rightarrow> Inr (state_of_json js data))))"

section \<open>Properties\<close>

lemma completed_markDone [simp]:
  "set (completedPhases (markDone p s)) = insert p (set (completedPhases s))"
  by (auto simp: markDone_def)

lemma distinct_markDone [simp]: "distinct (completedPhases (markDone p s)) = distinct (completedPhases s)"
  by (simp add: markDone_def)

lemma isDone_markDone [simp]: "isDone (markDone p s) q \<longleftrightarrow> q = p \<or> isDone s q"
  by (auto simp: isDone_def)

lemma as_string_or_null [simp]: "asStringOrNull (str_opt s) = s"
  by (cases s) simp_all

lemma as_number_num_opt [simp]: "as_number (num_opt n) = n"
  by (cases n) (simp_all add: num_opt_def)

lemma records_back [simp]: "List.map_filter asRecord (map JObj fs) = fs"
  by (induction fs) (simp_all add: List.map_filter_simps)

lemma strings_back [simp]: "List.map_filter asStringOrNull (map JStr ps) = ps"
  by (induction ps) (simp_all add: List.map_filter_simps)

definition valid_id :: "string \<Rightarrow> bool" where
  "valid_id i = (i \<noteq> [] \<and> matches ADW_ID_RE i)"

lemma validateAdwId_Inr: "validateAdwId js i = Inr i' \<longleftrightarrow> valid_id i \<and> i' = i"
  by (auto simp: validateAdwId_def valid_id_def)

lemma valid_id_validate: "valid_id i \<Longrightarrow> validateAdwId js i = Inr i"
  by (simp add: validateAdwId_Inr)

lemma state_json_back:
  assumes "valid_id (adwId s)"
  shows "state_of_json js (adw_state_json s) = Some s"
proof -
  have opt: "asStringOrNull (or_default (map_option JStr x) JUndef) = x" for x
    by (cases x) simp_all
  have cost: "(case or_default (map_option num_opt x) JUndef of
      JNum n \<Rightarrow> Some (Some n) | JNull \<Rightarrow> Some None | _ \<Rightarrow> None) = x" for x
    by (cases x rule: option.exhaust; cases "the x") (simp_all add: num_opt_def)
  show ?thesis
    using assms
    by (simp add: adw_state_json_def state_of_json_def state_fields_def jget_append jget_opt_field opt cost valid_id_validate)
qed

lemma loaded_id:
  assumes "state_of_json js data = Some s"
  shows "valid_id (adwId s)"
proof -
  obtain doc where data: "data = JObj doc"
    using assms by (cases data) (simp_all add: state_of_json_def)
  obtain i where i: "jget doc ''adw_id'' = JStr i"
    using assms unfolding data by (cases "jget doc ''adw_id''") (simp_all add: state_of_json_def)
  obtain i' where i': "validateAdwId js i = Inr i'"
    using assms unfolding data by (cases "validateAdwId js i") (simp_all add: state_of_json_def i)
  then have "s = state_fields doc i'" using assms by (simp add: state_of_json_def data i)
  with i' show ?thesis by (simp add: state_fields_def validateAdwId_Inr)
qed

lemma load_state_cases:
  "case load_state js read i of
     Inl e \<Rightarrow> \<not> valid_id i
   | Inr None \<Rightarrow> valid_id i
   | Inr (Some s) \<Rightarrow> valid_id i \<and> valid_id (adwId s)"
proof (cases "validateAdwId js i")
  case (Inl e)
  then have "\<not> valid_id i" using valid_id_validate by fastforce
  with Inl show ?thesis by (simp add: load_state_def)
next
  case (Inr i')
  then have "valid_id i" by (simp add: validateAdwId_Inr)
  with Inr show ?thesis by (auto simp: load_state_def loaded_id split: option.split sum.split)
qed

text \<open>
  C34. A saved run resumes as it was. The file \<open>save\<close> writes for a state with a valid id is the
  file \<open>load\<close> reads for that id, and what it reads back is the same state in every field,
  optional ones included; and whatever a state file holds, \<open>load\<close> throws exactly on an invalid
  id and otherwise yields no state or one whose id is valid.
\<close>

theorem state_file_roundtrip:
  assumes "valid_id (adwId s)" and "parse_json js (state_text js s) = Inr (adw_state_json s)"
  shows "load_state js (files(statePath js s \<mapsto> state_text js s)) (adwId s) = Inr (Some s)
         \<and> (case load_state js files i of
              Inl e \<Rightarrow> \<not> valid_id i
            | Inr None \<Rightarrow> valid_id i
            | Inr (Some t) \<Rightarrow> valid_id i \<and> valid_id (adwId t))"
proof
  have "load_path js (adwId s) = statePath js s"
    by (simp add: load_path_def statePath_def workspace_def)
  with assms show "load_state js (files(statePath js s \<mapsto> state_text js s)) (adwId s) = Inr (Some s)"
    by (simp add: load_state_def valid_id_validate state_json_back)
qed (rule load_state_cases)

definition demo_state :: adw_state where
  "demo_state =
     (new_state ''0badcafe'')\<lparr>issueNumber := Some ''12'', branchName := Some ''feat/12-0badcafe-x'',
        prNumber := Some (Fin 7), completedPhases := [''setup'', ''classify''], engine := Some ''ts'',
        reviewFindings := [[(''severity'', JStr ''blocker'')]], totalCostUsd := Some None\<rparr>"

definition demo_adw_js :: adw_runtime where
  "demo_adw_js =
     \<lparr>parse_json = (\<lambda>_. Inr (adw_state_json demo_state)), stringify = (\<lambda>_. []), show_value = (\<lambda>_. ''7''),
      pretty = (\<lambda>_. ''{}''), to_number = (\<lambda>_. NaN),
      show_inherited = id, nfd = id, REPO_ROOT = ''/repo'', agentsDirOverride = None\<rparr>"

lemma demo_id: "valid_id (adwId demo_state)"
  by code_simp

theorem state_file_roundtrip_witness:
  "load_state demo_adw_js [''/repo/agents/0badcafe/state.json'' \<mapsto> ''{}'' @ [nl]] ''0badcafe'' = Inr (Some demo_state)"
proof -
  have "adwId demo_state = ''0badcafe''" by code_simp
  moreover have "statePath demo_adw_js demo_state = ''/repo/agents/0badcafe/state.json''" by code_simp
  moreover have "state_text demo_adw_js demo_state = ''{}'' @ [nl]" by (simp add: state_text_def demo_adw_js_def)
  moreover have "parse_json demo_adw_js (state_text demo_adw_js demo_state) = Inr (adw_state_json demo_state)"
    by (simp add: demo_adw_js_def)
  ultimately show ?thesis using state_file_roundtrip [of demo_state demo_adw_js Map.empty] demo_id by metis
qed

text \<open>\<open>load\<close> does not compare the id it is asked for with the id the document carries.\<close>

lemma load_foreign_id:
  assumes "valid_id i" "valid_id (adwId s)" "parse_json js raw = Inr (adw_state_json s)"
  shows "load_state js [load_path js i \<mapsto> raw] i = Inr (Some s)"
  using assms by (simp add: load_state_def valid_id_validate state_json_back)

end
