(* ===== verification/Adw_Phases.thy ===== *)
theory Adw_Phases
  imports Adw_State
begin

text \<open>
  The phases of a workflow run (adw_sdlc/src/phases.ts): the phase list, the gates of the
  conditional phases, and the prompt an agent phase is given.
\<close>

section \<open>Phases\<close>

datatype agent_phase =
    ph_classify | ph_plan | ph_implement | ph_tests | ph_resolve | ph_e2e | ph_review | ph_patch | ph_document

definition AGENT_PHASES :: "agent_phase list" where
  "AGENT_PHASES =
     [ph_classify, ph_plan, ph_implement, ph_tests, ph_resolve, ph_e2e, ph_review, ph_patch, ph_document]"

definition phase_name :: "agent_phase \<Rightarrow> string" where
  "phase_name p =
     (case p of
        ph_classify \<Rightarrow> ''classify''
      | ph_plan \<Rightarrow> ''plan''
      | ph_implement \<Rightarrow> ''implement''
      | ph_tests \<Rightarrow> ''tests''
      | ph_resolve \<Rightarrow> ''resolve''
      | ph_e2e \<Rightarrow> ''e2e''
      | ph_review \<Rightarrow> ''review''
      | ph_patch \<Rightarrow> ''patch''
      | ph_document \<Rightarrow> ''document'')"

definition DEFAULT_PHASES :: "agent_phase list" where
  "DEFAULT_PHASES = AGENT_PHASES"

definition CONDITIONAL_PHASES :: "agent_phase set" where
  "CONDITIONAL_PHASES = {ph_e2e, ph_document}"

definition TEMPLATE :: "agent_phase \<Rightarrow> string" where
  "TEMPLATE p =
     (case p of
        ph_resolve \<Rightarrow> ''resolve_failed_test''
      | ph_e2e \<Rightarrow> ''e2e_tests''
      | ph_review \<Rightarrow> ''review_phase''
      | _ \<Rightarrow> phase_name p)"

definition phase_of_name :: "string \<Rightarrow> agent_phase option" where
  "phase_of_name s = find (\<lambda>p. phase_name p = s) AGENT_PHASES"

fun checked_phases :: "string list \<Rightarrow> adw_failure + agent_phase list" where
  "checked_phases [] = Inr []"
| "checked_phases (s # ss) =
     (case phase_of_name s of
        None \<Rightarrow> Inl (AdwError (''unknown phase: '' @ s @ '' (known: '' @ join_with '', '' (map phase_name AGENT_PHASES) @ '')''))
      | Some p \<Rightarrow> map_sum id (Cons p) (checked_phases ss))"

definition parsePhases :: "string option \<Rightarrow> adw_failure + agent_phase list" where
  "parsePhases csv =
     (case csv of
        None \<Rightarrow> Inr DEFAULT_PHASES
      | Some s \<Rightarrow>
          if s = [] then Inr DEFAULT_PHASES
          else (let items = filter (\<lambda>p. p \<noteq> []) (map js_trim (split_on (CHR '','') s)) in
                if items = [] then Inl (AdwError ''no phases given'') else checked_phases items))"

section \<open>Gates of the conditional phases\<close>

definition CROSS_BOUNDARY_HINTS :: "string list" where
  "CROSS_BOUNDARY_HINTS =
     [''ipc'', ''daemon'', ''matrix'', ''signing'', ''signed'', ''signature'', ''trust'', ''policy'', ''sandbox'',
      ''pty'', ''stream'', ''artifact'', ''exec'', ''login'', ''sync'', ''scheduler'', ''mcp'', ''binding'',
      ''runner'', ''delegate'', ''delegation'', ''approval'', ''approvals'', ''workspace'', ''discovery'',
      ''audit'', ''session'', ''e2ee'', ''recovery'', ''auth'']"

definition DOC_HINTS :: "string list" where
  "DOC_HINTS =
     [''cli'', ''help'', ''public api'', ''protocol'', ''schema'', ''user-visible'', ''user facing'',
      ''user-facing'', ''config'', ''command'', ''flag'', ''endpoint'', ''migration'']"

definition is_word_char :: "char \<Rightarrow> bool" where
  "is_word_char c = (is_alnum c \<or> c = CHR ''_'')"

definition word_next :: "string \<Rightarrow> bool" where
  "word_next s = (case s of [] \<Rightarrow> False | c # _ \<Rightarrow> is_word_char c)"

text \<open>
  \<open>\b<hint>\b\<close> at the current position or later; the flag says whether the character before the
  position is a word character. The hint is escaped, so it matches literally.
\<close>

fun hint_scan :: "string \<Rightarrow> bool \<Rightarrow> string \<Rightarrow> bool" where
  "hint_scan hint before [] = False"
| "hint_scan hint before (c # s) =
     ((prefix hint (c # s) \<and> before \<noteq> is_word_char c
        \<and> is_word_char (last hint) \<noteq> word_next (drop (length hint) (c # s)))
      \<or> hint_scan hint (is_word_char c) s)"

definition hintIn :: "string \<Rightarrow> string list \<Rightarrow> string option" where
  "hintIn text hints = find (\<lambda>hint. hint_scan hint False text) hints"

record gate_decision =
  runIt :: bool
  reason :: string

definition gateE2e :: "string \<Rightarrow> gate_decision" where
  "gateE2e signal =
     (case hintIn (toLowerCase signal) CROSS_BOUNDARY_HINTS of
        Some hit \<Rightarrow> \<lparr>runIt = True, reason = ''change touches cross-boundary flows ('' @ hit @ '')''\<rparr>
      | None \<Rightarrow> \<lparr>runIt = False, reason = ''no cross-boundary surface detected''\<rparr>)"

definition doc_like :: "string \<Rightarrow> bool" where
  "doc_like f = (f = ''README.md'' \<or> startsWith f ''docs/'' \<or> startsWith f ''wiki/'' \<or> endsWith f ''.md'')"

definition gateDocument :: "string \<Rightarrow> string list \<Rightarrow> gate_decision" where
  "gateDocument signal changedFiles =
     (if list_ex doc_like changedFiles
      then \<lparr>runIt = True, reason = ''documentation files changed''\<rparr>
      else case hintIn (toLowerCase signal) DOC_HINTS of
             Some hit \<Rightarrow> \<lparr>runIt = True, reason = ''user-visible/API/protocol surface affected ('' @ hit @ '')''\<rparr>
           | None \<Rightarrow> \<lparr>runIt = False, reason = ''internal-only change; no docs update needed''\<rparr>)"

definition gateConditional :: "agent_phase \<Rightarrow> string \<Rightarrow> string list \<Rightarrow> adw_failure + gate_decision" where
  "gateConditional p signal changedFiles =
     (if p = ph_e2e then Inr (gateE2e signal)
      else if p = ph_document then Inr (gateDocument signal changedFiles)
      else Inl (AdwError (''not a conditional phase: '' @ phase_name p)))"

section \<open>Prompts\<close>

text \<open>The template file is looked for with \<open>existsSync\<close>, an argument here.\<close>

definition templatePath :: "adw_runtime \<Rightarrow> (string \<Rightarrow> bool) \<Rightarrow> string \<Rightarrow> string \<Rightarrow> string" where
  "templatePath js exists_file runner_nm name =
     (let claude = path_join (path_join (path_join (REPO_ROOT js) ''.claude'') ''commands'') (name @ ''.md'') in
      if runner_nm = ''claude'' \<and> exists_file claude then claude
      else path_join (path_join (path_join (REPO_ROOT js) ''.pi'') ''prompts'') (name @ ''.md''))"

definition em_dash :: string where
  "em_dash = [CHR 0xE2, CHR 0x80, CHR 0x94]"

definition PHASE_PREAMBLE_SHARED :: string where
  "PHASE_PREAMBLE_SHARED =
     ''You are running as a single automated phase of the ADW pipeline.'' @ [nl]
     @ ''The orchestrator performs ALL git and GitHub work for this run: do NOT run git or gh, do NOT ''
     @ ''create/switch/commit/push branches, and do NOT open, merge, or comment on pull requests. ''
     @ ''If the task section below tells you to do any of that, skip those steps.'' @ [nl]
     @ ''You have no GitHub access in this phase; all issue context you need is provided inline.'' @ [nl]"

definition PHASE_CONTEXT :: "agent_phase \<Rightarrow> string option" where
  "PHASE_CONTEXT p =
     (case p of
        ph_implement \<Rightarrow> Some
          (''Scope for this phase: make the code change only. Focused tests are added in a ''
           @ ''separate `tests` phase '' @ em_dash @ '' do not do broad test work here. If $1 names a spec file that exists, ''
           @ ''treat it as the source of truth; otherwise (e.g. $1 is a placeholder note, not a path) treat ''
           @ ''the inline issue context as the spec and implement directly '' @ em_dash @ '' do NOT stop merely because no ''
           @ ''spec file path was provided.'' @ [nl])
      | ph_tests \<Rightarrow> Some (''Scope for this phase: add or strengthen focused, non-e2e tests for the change.'' @ [nl])
      | ph_e2e \<Rightarrow> Some
          (''The orchestrator already decided this phase should run; do the work rather than ''
           @ ''re-deciding whether e2e coverage is warranted.'' @ [nl])
      | ph_document \<Rightarrow> Some
          (''The orchestrator already decided documentation is warranted; update the existing ''
           @ ''docs surface (README/docs/wiki/help) only. Do not create an app_docs/ tree.'' @ [nl])
      | _ \<Rightarrow> None)"

text \<open>A JSON shape is written with double quotes in place of the marks below.\<close>

definition quoted :: "string \<Rightarrow> string" where
  "quoted s = map (\<lambda>c. if c = CHR ''~'' then CHR 0x22 else c) s"

definition OUTPUT_CONTRACT :: "agent_phase \<Rightarrow> string" where
  "OUTPUT_CONTRACT p =
     (let count = quoted ''{~resolved~: 0, ~remaining~: 0, ~summary~: ~<short>~}'' in
      case p of
        ph_classify \<Rightarrow> quoted ''{~issue_class~: ~feat|fix|docs|chore|ci|test|refactor~, ~reason~: ~<one sentence>~}''
      | ph_plan \<Rightarrow> quoted ''{~plan_file~: ~specs/<file>.md~, ~spec_created~: true, ~summary~: ~<short>~}''
      | ph_implement \<Rightarrow> quoted ''{~summary~: ~<short>~, ~files_changed~: [~<path>~, ~...~]}''
      | ph_tests \<Rightarrow> quoted ''{~tests_added~: true, ~summary~: ~<short>~}''
      | ph_resolve \<Rightarrow> count
      | ph_e2e \<Rightarrow> quoted ''{~e2e_added~: true, ~summary~: ~<short>~}''
      | ph_review \<Rightarrow> quoted (''{~findings~: [{~severity~: ~blocker|tech_debt|skippable~, ~description~: ~<what>~, ''
          @ ''~location~: ~<file:line>~}], ~wrote_commit_message~: true, ~wrote_pr_body~: true}'')
      | ph_patch \<Rightarrow> count
      | ph_document \<Rightarrow> quoted
          ''{~docs_updated~: true, ~files~: [~docs/<file>~], ~wrote_commit_message~: true, ~wrote_pr_body~: true}'')"

definition ARTIFACT_PHASES :: "agent_phase set" where
  "ARTIFACT_PHASES = {ph_review, ph_document}"

definition commitMessagePath :: "adw_runtime \<Rightarrow> adw_state \<Rightarrow> string" where
  "commitMessagePath js s = path_join (workspace js s) ''commit_message.txt''"

definition prBodyPath :: "adw_runtime \<Rightarrow> adw_state \<Rightarrow> string" where
  "prBodyPath js s = path_join (workspace js s) ''pr_body.md''"

definition buildFooter :: "adw_runtime \<Rightarrow> agent_phase \<Rightarrow> adw_state \<Rightarrow> bool \<Rightarrow> string" where
  "buildFooter js p s emitJsonContract =
     join_with [nl]
       ((if p \<in> ARTIFACT_PHASES
         then [''Author these files first (this keeps large free-form text out of the JSON, which'',
               ''the pipeline parses mechanically):'',
               ''- Write the full commit message (subject + body, ending with a line `closes #<issue>`) to: ''
                 @ commitMessagePath js s,
               ''- Write the complete PR body (Markdown) to: '' @ prBodyPath js s,
               ''Set the matching wrote_* booleans to true once each file is written.'',
               []]
         else [])
        @ (if emitJsonContract
           then [''## Required output'', [],
                 ''End your reply with EXACTLY one fenced ```json block matching this shape, and nothing after it:'',
                 [], fence @ ''json'', OUTPUT_CONTRACT p, fence]
           else []))"

definition composePhasePrompt ::
  "adw_runtime \<Rightarrow> (string \<Rightarrow> string option) \<Rightarrow> agent_phase \<Rightarrow> string list \<Rightarrow> adw_state \<Rightarrow> string \<Rightarrow> bool
     \<Rightarrow> adw_failure + string" where
  "composePhasePrompt js read p templateArgs s runner_nm emitJsonContract =
     (let tpath = templatePath js (\<lambda>f. read f \<noteq> None) runner_nm (TEMPLATE p) in
      if read tpath = None
      then Inl (AdwError (''prompt template not found for phase '' @ phase_name p @ '': '' @ tpath))
      else case renderPromptFile read tpath templateArgs of
             Inl e \<Rightarrow> Inl e
           | Inr body \<Rightarrow>
               (let preamble = PHASE_PREAMBLE_SHARED @ or_default (PHASE_CONTEXT p) [];
                    footer = buildFooter js p s emitJsonContract in
                Inr (preamble @ [nl] @ ''---'' @ [nl, nl] @ body
                  @ (if footer = [] then [nl]
                     else [nl, nl] @ ''---'' @ [nl, nl] @ footer @ [nl]))))"

section \<open>Facts\<close>

lemma phase_name_inj: "phase_name p = phase_name q \<longleftrightarrow> p = q"
proof -
  have "distinct (map phase_name AGENT_PHASES)" by code_simp
  moreover have "r \<in> set AGENT_PHASES" for r by (cases r) (simp_all add: AGENT_PHASES_def)
  ultimately show ?thesis by (auto simp: distinct_map dest: inj_onD)
qed

lemma phase_name_reserved: "phase_name p \<noteq> ''setup''" "phase_name p \<noteq> ''merge''"
proof -
  have "list_all (\<lambda>p. phase_name p \<noteq> ''setup'' \<and> phase_name p \<noteq> ''merge'') AGENT_PHASES" by code_simp
  moreover have "p \<in> set AGENT_PHASES" by (cases p) (simp_all add: AGENT_PHASES_def)
  ultimately show "phase_name p \<noteq> ''setup''" "phase_name p \<noteq> ''merge''" by (simp_all add: list_all_iff)
qed

end
