(* ===== verification/Adw_Schemas.thy ===== *)
theory Adw_Schemas
  imports Adw_Phases
begin

text \<open>
  The contracts of the phase outputs (adw_sdlc/src/schemas.ts): the schemas as data, the tolerant
  normalisation an agent's JSON goes through, and its validation. Zod itself is not part of the
  repository: it is an argument, with what the code relies on as the locale \<open>phase_zod\<close>.
\<close>

section \<open>Schemas\<close>

text \<open>\<open>FCount\<close> is \<open>z.coerce.number().int()\<close>; an entry carries the value of its \<open>.default\<close>.\<close>

datatype field_type =
    FEnum "string list" | FString | FNullableString | FBoolean | FCount | FStrings | FFindings

type_synonym phase_schema = "(string \<times> field_type \<times> json option) list"

definition ISSUE_CLASSES :: "string list" where
  "ISSUE_CLASSES = [''feat'', ''fix'', ''docs'', ''chore'', ''ci'', ''test'', ''refactor'']"

definition count_field :: "field_type \<times> json option" where
  "count_field = (FCount, Some (JNum (Fin 0)))"

definition text_field :: "string \<Rightarrow> field_type \<times> json option" where
  "text_field d = (FString, Some (JStr d))"

definition flag_field :: "field_type \<times> json option" where
  "flag_field = (FBoolean, Some (JBool False))"

definition list_field :: "field_type \<Rightarrow> field_type \<times> json option" where
  "list_field t = (t, Some (JArr []))"

definition PHASE_SCHEMAS :: "agent_phase \<Rightarrow> phase_schema" where
  "PHASE_SCHEMAS p =
     (case p of
        ph_classify \<Rightarrow> [(''issue_class'', FEnum ISSUE_CLASSES, None), (''reason'', text_field [])]
      | ph_plan \<Rightarrow> [(''plan_file'', FNullableString, Some JNull), (''spec_created'', flag_field),
                    (''summary'', text_field [])]
      | ph_implement \<Rightarrow> [(''summary'', text_field []), (''files_changed'', list_field FStrings)]
      | ph_tests \<Rightarrow> [(''tests_added'', flag_field), (''summary'', text_field [])]
      | ph_resolve \<Rightarrow> [(''resolved'', count_field), (''remaining'', count_field), (''summary'', text_field [])]
      | ph_e2e \<Rightarrow> [(''e2e_added'', flag_field), (''summary'', text_field [])]
      | ph_review \<Rightarrow> [(''findings'', list_field FFindings), (''wrote_commit_message'', flag_field),
                      (''wrote_pr_body'', flag_field)]
      | ph_patch \<Rightarrow> [(''resolved'', count_field), (''remaining'', count_field), (''summary'', text_field [])]
      | ph_document \<Rightarrow> [(''docs_updated'', flag_field), (''files'', list_field FStrings),
                        (''summary'', text_field []), (''wrote_commit_message'', flag_field),
                        (''wrote_pr_body'', flag_field)])"

text \<open>\<open>ReviewFindingSchema\<close>, the items of \<open>FFindings\<close>.\<close>

definition ReviewFindingSchema :: phase_schema where
  "ReviewFindingSchema =
     [(''severity'', text_field ''skippable''), (''description'', text_field []), (''location'', text_field [])]"

section \<open>Normalisation\<close>

definition pythonTruthy :: "json \<Rightarrow> bool" where
  "pythonTruthy v =
     (case v of
        JNum n \<Rightarrow> n \<noteq> Fin 0
      | JStr s \<Rightarrow> s \<noteq> []
      | JArr xs \<Rightarrow> xs \<noteq> []
      | JObj ob \<Rightarrow> ob \<noteq> []
      | JNull \<Rightarrow> False
      | JBool b \<Rightarrow> b
      | JUndef \<Rightarrow> False)"

definition coerceScalarString :: "adw_runtime \<Rightarrow> json \<Rightarrow> json" where
  "coerceScalarString js v =
     (case v of JNum _ \<Rightarrow> JStr (show_value js v) | JBool _ \<Rightarrow> JStr (show_value js v) | _ \<Rightarrow> v)"

definition BOOL_FIELDS :: "agent_phase \<Rightarrow> string list" where
  "BOOL_FIELDS p =
     (case p of
        ph_plan \<Rightarrow> [''spec_created'']
      | ph_tests \<Rightarrow> [''tests_added'']
      | ph_e2e \<Rightarrow> [''e2e_added'']
      | ph_review \<Rightarrow> [''wrote_commit_message'', ''wrote_pr_body'']
      | ph_document \<Rightarrow> [''docs_updated'', ''wrote_commit_message'', ''wrote_pr_body'']
      | _ \<Rightarrow> [])"

definition STRING_FIELDS :: "agent_phase \<Rightarrow> string list" where
  "STRING_FIELDS p =
     (case p of ph_classify \<Rightarrow> [''reason''] | ph_review \<Rightarrow> [] | _ \<Rightarrow> [''summary''])"

definition LIST_OF_STRING_FIELDS :: "agent_phase \<Rightarrow> string list" where
  "LIST_OF_STRING_FIELDS p =
     (case p of ph_implement \<Rightarrow> [''files_changed''] | ph_document \<Rightarrow> [''files''] | _ \<Rightarrow> [])"

definition FLOAT_TRUNC_FIELDS :: "agent_phase \<Rightarrow> string list" where
  "FLOAT_TRUNC_FIELDS p =
     (case p of ph_resolve \<Rightarrow> [''resolved'', ''remaining''] | ph_patch \<Rightarrow> [''resolved'', ''remaining'']
      | _ \<Rightarrow> [])"

text \<open>\<open>if (key in ob) ob[key] = f(ob[key])\<close>\<close>

definition update_present :: "(json \<Rightarrow> json) \<Rightarrow> string \<Rightarrow> obj \<Rightarrow> obj" where
  "update_present f key ob = (if has_key ob key then map_set key (f (jget ob key)) ob else ob)"

definition trunc :: "rat \<Rightarrow> rat" where
  "trunc r = of_int (if 0 \<le> r then \<lfloor>r\<rfloor> else \<lceil>r\<rceil>)"

definition trim_value :: "json \<Rightarrow> json" where
  "trim_value v = (case v of JStr s \<Rightarrow> JStr (js_trim s) | _ \<Rightarrow> v)"

definition string_items :: "adw_runtime \<Rightarrow> json \<Rightarrow> json" where
  "string_items js v =
     (case v of
        JArr xs \<Rightarrow> JArr (map JStr (List.map_filter readString (map (coerceScalarString js) xs)))
      | _ \<Rightarrow> v)"

definition trunc_value :: "json \<Rightarrow> json" where
  "trunc_value v = (case v of JNum (Fin r) \<Rightarrow> JNum (Fin (trunc r)) | _ \<Rightarrow> v)"

definition normalize_finding :: "adw_runtime \<Rightarrow> obj \<Rightarrow> obj" where
  "normalize_finding js f =
     fold (\<lambda>key finding.
             if jget finding key = JNull then filter (\<lambda>(k, v). k \<noteq> key) finding
             else update_present (coerceScalarString js) key finding)
       [''severity'', ''description'', ''location''] f"

definition finding_items :: "adw_runtime \<Rightarrow> json \<Rightarrow> json" where
  "finding_items js v =
     (case v of
        JArr xs \<Rightarrow> JArr (map (\<lambda>f. JObj (normalize_finding js f)) (List.map_filter asRecord xs))
      | _ \<Rightarrow> v)"

definition drop_nulls :: "obj \<Rightarrow> obj" where
  "drop_nulls ob = filter (\<lambda>(k, v). v \<noteq> JNull) ob"

definition normalize_result :: "adw_runtime \<Rightarrow> agent_phase \<Rightarrow> obj \<Rightarrow> obj" where
  "normalize_result js p data =
     (let n0 = drop_nulls data;
          n1 = update_present trim_value ''issue_class'' n0;
          n2 = fold (update_present (\<lambda>v. JBool (pythonTruthy v))) (BOOL_FIELDS p) n1;
          n3 = fold (update_present (coerceScalarString js)) (STRING_FIELDS p) n2;
          n4 = fold (update_present (string_items js)) (LIST_OF_STRING_FIELDS p) n3;
          n5 = fold (update_present trunc_value) (FLOAT_TRUNC_FIELDS p) n4 in
      if p = ph_review then update_present (finding_items js) ''findings'' n5 else n5)"

text \<open>\<open>safe_parse\<close> is Zod's: the message of its error, or the parsed data.\<close>

type_synonym safe_parser = "phase_schema \<Rightarrow> obj \<Rightarrow> string + obj"

definition parsePhaseResult ::
  "adw_runtime \<Rightarrow> safe_parser \<Rightarrow> agent_phase \<Rightarrow> json \<Rightarrow> adw_failure + obj" where
  "parsePhaseResult js safe_parse p data =
     (case asRecord data of
        None \<Rightarrow> Inl (AdwError (phase_name p @ '' phase output must be a JSON object''))
      | Some ob \<Rightarrow>
          (case safe_parse (PHASE_SCHEMAS p) (normalize_result js p ob) of
             Inl msg \<Rightarrow> Inl (AdwError (phase_name p @ '' phase output does not match its contract: '' @ msg))
           | Inr parsed \<Rightarrow> Inr parsed))"

section \<open>What the code relies on in Zod\<close>

fun string_value :: "json \<Rightarrow> bool" where
  "string_value (JStr _) = True"
| "string_value _ = False"

definition finding_value :: "json \<Rightarrow> bool" where
  "finding_value v =
     (case v of
        JObj ob \<Rightarrow> list_all (\<lambda>(k, t, d). string_value (jget ob k)) ReviewFindingSchema
      | _ \<Rightarrow> False)"

text \<open>The values the parsed field of a type can have.\<close>

definition field_value :: "field_type \<Rightarrow> json \<Rightarrow> bool" where
  "field_value t v =
     (case t of
        FEnum xs \<Rightarrow> (case v of JStr s \<Rightarrow> s \<in> set xs | _ \<Rightarrow> False)
      | FString \<Rightarrow> string_value v
      | FNullableString \<Rightarrow> string_value v \<or> v = JNull
      | FBoolean \<Rightarrow> (case v of JBool _ \<Rightarrow> True | _ \<Rightarrow> False)
      | FCount \<Rightarrow> (case v of JNum n \<Rightarrow> isInteger n | _ \<Rightarrow> False)
      | FStrings \<Rightarrow> (case v of JArr xs \<Rightarrow> list_all string_value xs | _ \<Rightarrow> False)
      | FFindings \<Rightarrow> (case v of JArr xs \<Rightarrow> list_all finding_value xs | _ \<Rightarrow> False))"

definition conforms_to :: "phase_schema \<Rightarrow> obj \<Rightarrow> bool" where
  "conforms_to sch ob = list_all (\<lambda>(k, t, d). field_value t (jget ob k)) sch"

text \<open>
  A parse that succeeds yields an object that conforms; an absent field with a default takes it.
\<close>

locale phase_zod =
  fixes safe_parse :: safe_parser
  assumes parsed_conforms: "safe_parse sch ob = Inr parsed \<Longrightarrow> conforms_to sch parsed"
    and default_taken: "safe_parse sch ob = Inr parsed \<Longrightarrow> (k, t, Some d) \<in> set sch \<Longrightarrow> distinct (map fst sch)
      \<Longrightarrow> jget ob k = JUndef \<Longrightarrow> jget parsed k = d"
begin

lemma phase_conforms:
  assumes "parsePhaseResult js safe_parse p data = Inr parsed"
  shows "conforms_to (PHASE_SCHEMAS p) parsed"
  using assms parsed_conforms
  by (auto simp: parsePhaseResult_def split: option.splits sum.splits)

lemma adw_error_only:
  "parsePhaseResult js safe_parse p data = Inl e \<Longrightarrow> is_adw_error e"
  by (auto simp: parsePhaseResult_def split: option.splits sum.splits)

end

text \<open>
  A parser with the documented behaviour of the schemas' combinators; it interprets the locale, so
  its laws can hold.
\<close>

definition reference_scalar :: "adw_runtime \<Rightarrow> field_type \<Rightarrow> json \<Rightarrow> string + json" where
  "reference_scalar js t v =
     (let v' = (if t = FCount then JNum (to_number js v) else v) in
      if field_value t v' then Inr v' else Inl ''Invalid input'')"

definition reference_field ::
  "(field_type \<Rightarrow> json \<Rightarrow> string + json) \<Rightarrow> obj \<Rightarrow> string \<times> field_type \<times> json option \<Rightarrow> string + string \<times> json" where
  "reference_field parse ob f =
     (case f of (k, t, d) \<Rightarrow>
        map_sum id (Pair k)
          (case d of
             None \<Rightarrow> parse t (jget ob k)
           | Some v \<Rightarrow> if jget ob k = JUndef then Inr v else parse t (jget ob k)))"

fun reference_fields ::
  "(field_type \<Rightarrow> json \<Rightarrow> string + json) \<Rightarrow> phase_schema \<Rightarrow> obj \<Rightarrow> string + obj" where
  "reference_fields parse [] ob = Inr []"
| "reference_fields parse (f # fs) ob =
     (case reference_field parse ob f of
        Inl e \<Rightarrow> Inl e
      | Inr e \<Rightarrow> map_sum id (Cons e) (reference_fields parse fs ob))"

fun reference_findings :: "adw_runtime \<Rightarrow> json list \<Rightarrow> string + json list" where
  "reference_findings js [] = Inr []"
| "reference_findings js (v # vs) =
     (case v of
        JObj ob \<Rightarrow>
          (case reference_fields (reference_scalar js) ReviewFindingSchema ob of
             Inl e \<Rightarrow> Inl e
           | Inr f \<Rightarrow> map_sum id (Cons (JObj f)) (reference_findings js vs))
      | _ \<Rightarrow> Inl ''Invalid input: expected object'')"

definition reference_value :: "adw_runtime \<Rightarrow> field_type \<Rightarrow> json \<Rightarrow> string + json" where
  "reference_value js t v =
     (case t of
        FFindings \<Rightarrow>
          (case v of JArr xs \<Rightarrow> map_sum id JArr (reference_findings js xs) | _ \<Rightarrow> Inl ''Invalid input: expected array'')
      | _ \<Rightarrow> reference_scalar js t v)"

text \<open>A default that is not of its field's type would be handed out unchecked; the phase schemas have none.\<close>

definition defaults_ok :: "phase_schema \<Rightarrow> bool" where
  "defaults_ok sch = list_all (\<lambda>(k, t, d). case d of None \<Rightarrow> True | Some v \<Rightarrow> field_value t v) sch"

definition reference_parse :: "adw_runtime \<Rightarrow> safe_parser" where
  "reference_parse js sch ob =
     (if distinct (map fst sch) \<and> defaults_ok sch then reference_fields (reference_value js) sch ob
      else Inl ''unsupported schema'')"

lemma map_sum_Inr: "map_sum id f x = Inr y \<longleftrightarrow> (\<exists>a. x = Inr a \<and> y = f a)"
  by (cases x) auto

lemma reference_fields_keys:
  "reference_fields parse sch ob = Inr parsed \<Longrightarrow> map fst parsed = map fst sch"
  by (induction sch arbitrary: parsed)
    (auto simp: map_sum_Inr reference_field_def split: sum.splits prod.splits option.splits if_splits)

lemma reference_fields_entry:
  assumes "reference_fields parse sch ob = Inr parsed" "distinct (map fst sch)" "(k, t, d) \<in> set sch"
  shows "reference_field parse ob (k, t, d) = Inr (k, jget parsed k)"
  using assms
proof (induction sch arbitrary: parsed)
  case (Cons f fs)
  obtain e where e: "reference_field parse ob f = Inr e"
    using Cons.prems(1) by (cases "reference_field parse ob f") auto
  with Cons.prems(1) obtain rest where rest: "reference_fields parse fs ob = Inr rest" "parsed = e # rest"
    by (auto simp: map_sum_Inr)
  have key: "fst e = fst f"
    using e by (auto simp: reference_field_def map_sum_Inr split: prod.splits)
  show ?case
  proof (cases "(k, t, d) = f")
    case True
    with e key rest(2) show ?thesis by (cases e) auto
  next
    case False
    then have "(k, t, d) \<in> set fs" using Cons.prems(3) by simp
    moreover from this have "fst f \<noteq> k" using Cons.prems(2) by (force simp: image_iff)
    ultimately show ?thesis using Cons.IH [OF rest(1)] Cons.prems(2) key rest(2) by (cases e) auto
  qed
qed simp

lemma reference_scalar_value: "reference_scalar js t v = Inr w \<Longrightarrow> field_value t w"
  by (auto simp: reference_scalar_def Let_def split: if_splits)

lemma reference_field_value:
  assumes "\<And>v w. parse t v = Inr w \<Longrightarrow> field_value t w"
    and "case d of None \<Rightarrow> True | Some v \<Rightarrow> field_value t v"
    and "reference_field parse ob (k, t, d) = Inr (k, w)"
  shows "field_value t w"
  using assms by (auto simp: reference_field_def map_sum_Inr split: option.splits if_splits)

lemma reference_fields_conform:
  assumes "\<And>t v w. parse t v = Inr w \<Longrightarrow> field_value t w"
    and "reference_fields parse sch ob = Inr parsed" "distinct (map fst sch)" "defaults_ok sch"
  shows "conforms_to sch parsed"
  unfolding conforms_to_def list_all_iff
proof (intro ballI, clarify)
  fix k t d
  assume f: "(k, t, d) \<in> set sch"
  then have "case d of None \<Rightarrow> True | Some v \<Rightarrow> field_value t v"
    using assms(4) by (auto simp: defaults_ok_def list_all_iff)
  then show "field_value t (jget parsed k)"
    using reference_field_value assms(1) reference_fields_entry [OF assms(2,3) f] by blast
qed

lemma finding_schema_ok: "distinct (map fst ReviewFindingSchema)" "defaults_ok ReviewFindingSchema"
  by code_simp+

lemma finding_types: "(k, t, d) \<in> set ReviewFindingSchema \<Longrightarrow> t = FString"
  by (auto simp: ReviewFindingSchema_def text_field_def)

lemma finding_conforms: "conforms_to ReviewFindingSchema f \<Longrightarrow> finding_value (JObj f)"
  unfolding conforms_to_def finding_value_def json.case
  by (elim list.pred_mono_strong) (auto simp: field_value_def dest: finding_types)

lemma reference_findings_value:
  "reference_findings js vs = Inr ws \<Longrightarrow> list_all finding_value ws"
proof (induction vs arbitrary: ws)
  case (Cons v vs)
  obtain ob where ob: "v = JObj ob" using Cons.prems by (cases v) auto
  obtain f rest where f: "reference_fields (reference_scalar js) ReviewFindingSchema ob = Inr f"
    and rest: "reference_findings js vs = Inr rest" "ws = JObj f # rest"
    using Cons.prems unfolding ob by (auto simp: map_sum_Inr split: sum.splits)
  have "conforms_to ReviewFindingSchema f"
    using reference_scalar_value f finding_schema_ok by (rule reference_fields_conform)
  then have "finding_value (JObj f)" by (rule finding_conforms)
  with Cons.IH [OF rest(1)] rest(2) show ?case by simp
qed simp

lemma reference_value_value: "reference_value js t v = Inr w \<Longrightarrow> field_value t w"
proof (cases "t = FFindings")
  case True
  assume w: "reference_value js t v = Inr w"
  with True obtain xs ys where "w = JArr ys" "reference_findings js xs = Inr ys"
    by (cases v) (auto simp: reference_value_def map_sum_Inr)
  with True reference_findings_value show ?thesis by (simp add: field_value_def)
next
  case False
  assume "reference_value js t v = Inr w"
  with False have "reference_scalar js t v = Inr w" by (cases t) (simp_all add: reference_value_def)
  then show ?thesis by (rule reference_scalar_value)
qed

interpretation reference_zod: phase_zod "reference_parse js" for js
proof
  fix sch ob parsed
  assume "reference_parse js sch ob = Inr parsed"
  then have p: "reference_fields (reference_value js) sch ob = Inr parsed" "distinct (map fst sch)"
      "defaults_ok sch"
    by (auto simp: reference_parse_def split: if_splits)
  show "conforms_to sch parsed"
    using reference_value_value p by (rule reference_fields_conform)
  fix k t d
  assume "(k, t, Some d) \<in> set sch" "jget ob k = JUndef"
  then show "jget parsed k = d"
    using reference_fields_entry [OF p(1,2), of k t "Some d"] by (simp add: reference_field_def)
qed

section \<open>Properties\<close>

lemma jget_map_of: "jget ob k = or_default (map_of ob k) JUndef"
  by (simp add: jget_def or_default_def)

lemma has_key_map_of: "has_key ob k \<longleftrightarrow> map_of ob k \<noteq> None"
  by (simp add: has_key_def map_of_eq_None_iff)

lemma map_of_update_present:
  "map_of (update_present f key ob) k = (if k = key then map_option f (map_of ob k) else map_of ob k)"
  by (auto simp: update_present_def has_key_map_of map_of_map_set jget_map_of split: option.split)

lemma map_of_updates:
  "distinct keys \<Longrightarrow>
     map_of (fold (update_present f) keys ob) k = (if k \<in> set keys then map_option f (map_of ob k) else map_of ob k)"
  by (induction keys arbitrary: ob) (auto simp: map_of_update_present option.map_comp)

lemma map_of_drop_nulls:
  "distinct (map fst ob) \<Longrightarrow>
     map_of (drop_nulls ob) k = (case map_of ob k of None \<Rightarrow> None | Some v \<Rightarrow> if v = JNull then None else Some v)"
  by (induction ob) (auto simp: drop_nulls_def map_of_eq_None_iff split: option.split)

lemma drop_nulls_idem: "drop_nulls (drop_nulls ob) = drop_nulls ob"
  by (simp add: drop_nulls_def)

lemma field_lists_apart:
  "list_all (\<lambda>p. list_all (\<lambda>k. k \<notin> set (STRING_FIELDS p) \<and> k \<notin> set (LIST_OF_STRING_FIELDS p)
      \<and> k \<notin> set (FLOAT_TRUNC_FIELDS p) \<and> k \<noteq> ''issue_class'' \<and> k \<noteq> ''findings'') (BOOL_FIELDS p)
    \<and> distinct (BOOL_FIELDS p) \<and> distinct (STRING_FIELDS p) \<and> distinct (LIST_OF_STRING_FIELDS p)
    \<and> distinct (FLOAT_TRUNC_FIELDS p)) AGENT_PHASES"
  by code_simp

lemma all_phases: "p \<in> set AGENT_PHASES"
  by (cases p) (simp_all add: AGENT_PHASES_def)

lemma normalized_flag:
  assumes "distinct (map fst ob)" "k \<in> set (BOOL_FIELDS p)"
  shows "map_of (normalize_result js p ob) k = map_option (\<lambda>v. JBool (pythonTruthy v)) (map_of (drop_nulls ob) k)"
proof -
  note lists = field_lists_apart [unfolded list_all_iff, rule_format, OF all_phases, of p]
  have k: "k \<notin> set (STRING_FIELDS p)" "k \<notin> set (LIST_OF_STRING_FIELDS p)" "k \<notin> set (FLOAT_TRUNC_FIELDS p)"
    "k \<noteq> ''issue_class''" "k \<noteq> ''findings''"
    using lists assms(2) by blast+
  have d: "distinct (BOOL_FIELDS p)" "distinct (STRING_FIELDS p)" "distinct (LIST_OF_STRING_FIELDS p)"
    "distinct (FLOAT_TRUNC_FIELDS p)"
    using lists by blast+
  define n5 where "n5 = fold (update_present trunc_value) (FLOAT_TRUNC_FIELDS p)
     (fold (update_present (string_items js)) (LIST_OF_STRING_FIELDS p)
       (fold (update_present (coerceScalarString js)) (STRING_FIELDS p)
         (fold (update_present (\<lambda>v. JBool (pythonTruthy v))) (BOOL_FIELDS p)
           (update_present trim_value ''issue_class'' (drop_nulls ob)))))"
  have "map_of (normalize_result js p ob) k = map_of n5 k"
    unfolding normalize_result_def Let_def n5_def [symmetric] by (simp add: map_of_update_present k(5))
  also have "\<dots> = map_option (\<lambda>v. JBool (pythonTruthy v)) (map_of (drop_nulls ob) k)"
    unfolding n5_def map_of_updates [OF d(1)] map_of_updates [OF d(2)] map_of_updates [OF d(3)]
      map_of_updates [OF d(4)] map_of_update_present
    by (simp only: k assms(2) if_True if_False)
  finally show ?thesis .
qed


definition demo_plan :: obj where
  "demo_plan = [(''plan_file'', JNull), (''spec_created'', JStr ''yes''), (''summary'', JNum (Fin 3))]"


end
