(* ===== verification/Adw_Git.thy ===== *)
theory Adw_Git
  imports Adw_Schemas
begin

text \<open>
  The commands a workflow run issues (adw_sdlc/src/): the process helpers (exec.ts), the git and
  pull request operations (git.ts), and the issue helpers with the branch name they derive
  (issue.ts). \<open>spawnSync\<close> is an argument. Diagnostics written to standard error are not modelled.
\<close>

section \<open>Processes\<close>

text \<open>
  What is outside the process: the world (repository, GitHub, agents, terminal) and the files.
\<close>

record 'x machine =
  world :: 'x
  files :: "string \<Rightarrow> string option"
  writable :: "string \<Rightarrow> bool"

type_synonym ('x, 'a) op = "'x machine \<Rightarrow> 'a \<times> 'x machine"

record spawned =
  sp_error :: "string option"
  sp_status :: "int option"
  sp_stdout :: "string option"
  sp_stderr :: "string option"

type_synonym 'x spawn = "string \<Rightarrow> string list \<Rightarrow> ('x, spawned) op"

record captured =
  returncode :: int
  stdout :: string
  stderr :: string

definition capture :: "'x spawn \<Rightarrow> string list \<Rightarrow> ('x, captured) op" where
  "capture spawn cmd m =
     (case cmd of
        [] \<Rightarrow> (\<lparr>returncode = 127, stdout = [], stderr = ''empty command''\<rparr>, m)
      | bin # args \<Rightarrow>
          (case spawn bin args m of (r, m') \<Rightarrow>
             (case sp_error r of
                Some e \<Rightarrow> (\<lparr>returncode = 127, stdout = or_default (sp_stdout r) [], stderr = e\<rparr>, m')
              | None \<Rightarrow>
                  (\<lparr>returncode = or_default (sp_status r) 127, stdout = or_default (sp_stdout r) [],
                    stderr = or_default (sp_stderr r) []\<rparr>, m'))))"

definition runInherit :: "'x spawn \<Rightarrow> string list \<Rightarrow> ('x, int) op" where
  "runInherit spawn cmd m =
     (case cmd of
        [] \<Rightarrow> (127, m)
      | bin # args \<Rightarrow> (case spawn bin args m of (r, m') \<Rightarrow> (or_default (sp_status r) 127, m')))"

definition ghJson :: "adw_runtime \<Rightarrow> 'x spawn \<Rightarrow> string list \<Rightarrow> ('x, json) op" where
  "ghJson js spawn cmd m =
     (case capture spawn cmd m of (r, m') \<Rightarrow>
        (if returncode r \<noteq> 0 then JNull
         else case parse_json js (stdout r) of Inl _ \<Rightarrow> JNull | Inr v \<Rightarrow> v, m'))"

definition assumeYes :: "bool \<Rightarrow> environment \<Rightarrow> bool" where
  "assumeYes flag env = (flag \<or> env ''MX_AGENT_YES'' = Some ''1'')"

text \<open>What a line typed at the prompt answers; end of input (\<open>None\<close>) is a refusal.\<close>

definition confirm_answer :: "string option \<Rightarrow> bool" where
  "confirm_answer line = (case line of None \<Rightarrow> False | Some l \<Rightarrow> toLowerCase (js_trim l) \<in> {''y'', ''yes''})"

definition MX_ADW_BOT_TAG :: string where
  "MX_ADW_BOT_TAG = ''[MX-ADW]''"

definition formatProgress :: "string \<Rightarrow> string \<Rightarrow> string \<Rightarrow> string" where
  "formatProgress i phase message = MX_ADW_BOT_TAG @ '' '' @ i @ ''_'' @ phase @ '': '' @ message"

definition repo_flag :: "string \<Rightarrow> string list" where
  "repo_flag repo = (if repo \<noteq> [] then [''--repo'', repo] else [])"

definition truthy_bin :: "string option \<Rightarrow> bool" where
  "truthy_bin gh = (case gh of Some (c # cs) \<Rightarrow> True | _ \<Rightarrow> False)"

definition postProgress ::
  "'x spawn \<Rightarrow> string option \<Rightarrow> int \<Rightarrow> string \<Rightarrow> string \<Rightarrow> string \<Rightarrow> string \<Rightarrow> ('x, unit) op" where
  "postProgress spawn gh inum repo i phase message m =
     (if \<not> truthy_bin gh then ((), m)
      else case capture spawn ([the gh, ''issue'', ''comment'', show_int inum, ''--body'', formatProgress i phase message]
                               @ repo_flag repo) m of (_, m') \<Rightarrow> ((), m'))"

text \<open>The lookup of a binary: \<open>is_executable\<close> is the check of \<open>isExecutableFile\<close> on the file system.\<close>

definition which_bin :: "(string \<Rightarrow> bool) \<Rightarrow> string \<Rightarrow> environment \<Rightarrow> string option" where
  "which_bin is_executable name env =
     find is_executable
       (map (\<lambda>dir. path_join dir name)
         (filter (\<lambda>dir. dir \<noteq> []) (split_on (CHR '':'') (or_default (env ''PATH'') []))))"

definition resolveBin ::
  "(string \<Rightarrow> bool) \<Rightarrow> string \<Rightarrow> string \<Rightarrow> string list \<Rightarrow> environment \<Rightarrow> string option" where
  "resolveBin is_executable envVar name fallbacks env =
     (if truthy_bin (env envVar) then env envVar
      else case which_bin is_executable name env of
             Some found \<Rightarrow> Some found
           | None \<Rightarrow> find is_executable fallbacks)"

definition resolveGhBin :: "(string \<Rightarrow> bool) \<Rightarrow> string \<Rightarrow> environment \<Rightarrow> string option" where
  "resolveGhBin is_executable home env =
     resolveBin is_executable ''GH_BIN'' ''gh'' [path_join home ''.local/bin/gh''] env"

definition issueState :: "'x spawn \<Rightarrow> string option \<Rightarrow> int \<Rightarrow> string \<Rightarrow> ('x, string) op" where
  "issueState spawn gh inum repo m =
     (if \<not> truthy_bin gh then (''UNKNOWN'', m)
      else case capture spawn ([the gh, ''issue'', ''view'', show_int inum] @ repo_flag repo
                               @ [''--json'', ''state'', ''-q'', ''.state'']) m of (r, m') \<Rightarrow>
             (if returncode r \<noteq> 0 then ''UNKNOWN''
              else if js_trim (stdout r) = [] then ''UNKNOWN'' else js_trim (stdout r), m'))"

definition detectRepo :: "'x spawn \<Rightarrow> string option \<Rightarrow> ('x, string) op" where
  "detectRepo spawn gh m =
     (if \<not> truthy_bin gh then ([], m)
      else case capture spawn [the gh, ''repo'', ''view'', ''--json'', ''nameWithOwner'', ''-q'', ''.nameWithOwner''] m of
             (r, m') \<Rightarrow> (if returncode r = 0 then js_trim (stdout r) else [], m'))"

definition workingTreeDirty :: "'x spawn \<Rightarrow> ('x, bool) op" where
  "workingTreeDirty spawn m =
     (case capture spawn [''git'', ''rev-parse'', ''--is-inside-work-tree''] m of (inside, m1) \<Rightarrow>
        if returncode inside \<noteq> 0 then (False, m1)
        else case capture spawn [''git'', ''status'', ''--porcelain''] m1 of (r, m2) \<Rightarrow>
               (js_trim (stdout r) \<noteq> [], m2))"

section \<open>Git\<close>

record git_result =
  g_ok :: bool
  g_error :: "string option"

definition git_done :: git_result where
  "git_done = \<lparr>g_ok = True, g_error = None\<rparr>"

definition git_failed :: "captured \<Rightarrow> string \<Rightarrow> git_result" where
  "git_failed r fallback =
     \<lparr>g_ok = False, g_error = Some (if js_trim (stderr r) = [] then fallback else js_trim (stderr r))\<rparr>"

definition git_run :: "'x spawn \<Rightarrow> string \<Rightarrow> string list \<Rightarrow> ('x, git_result) op" where
  "git_run spawn fallback cmd m =
     (case capture spawn cmd m of (r, m') \<Rightarrow>
        (if returncode r \<noteq> 0 then git_failed r fallback else git_done, m'))"

text \<open>The loops over commands: in a dry run the command is only printed, otherwise a failure stops.\<close>

fun git_sequence :: "'x spawn \<Rightarrow> bool \<Rightarrow> string \<Rightarrow> string list list \<Rightarrow> ('x, git_result) op" where
  "git_sequence spawn dryRun fallback [] m = (git_done, m)"
| "git_sequence spawn dryRun fallback (cmd # cmds) m =
     (if dryRun then git_sequence spawn dryRun fallback cmds m
      else case git_run spawn fallback cmd m of (r, m') \<Rightarrow>
             if g_ok r then git_sequence spawn dryRun fallback cmds m' else (r, m'))"

definition currentBranch :: "'x spawn \<Rightarrow> ('x, string) op" where
  "currentBranch spawn m =
     (case capture spawn [''git'', ''rev-parse'', ''--abbrev-ref'', ''HEAD''] m of (r, m') \<Rightarrow> (js_trim (stdout r), m'))"

definition createOrCheckoutBranch :: "'x spawn \<Rightarrow> string \<Rightarrow> string \<Rightarrow> bool \<Rightarrow> ('x, git_result) op" where
  "createOrCheckoutBranch spawn branch bs dryRun m =
     (if dryRun then (git_done, m)
      else case capture spawn [''git'', ''fetch'', ''origin'', ''--quiet''] m of (_, m1) \<Rightarrow>
        (case capture spawn [''git'', ''show-ref'', ''--verify'', ''--quiet'', ''refs/heads/'' @ branch] m1 of
           (ref, m2) \<Rightarrow>
             git_run spawn ''git switch failed''
               (if returncode ref = 0 then [''git'', ''switch'', branch]
                else [''git'', ''switch'', ''-c'', branch, ''origin/'' @ bs]) m2))"

definition commitAll :: "'x spawn \<Rightarrow> string \<Rightarrow> bool \<Rightarrow> ('x, git_result) op" where
  "commitAll spawn message dryRun m =
     (let commit = git_sequence spawn dryRun ''git commit failed''
                     [[''git'', ''add'', ''-A''], [''git'', ''commit'', ''-m'', message]] in
      if dryRun then commit m
      else case capture spawn [''git'', ''status'', ''--porcelain''] m of (r, m') \<Rightarrow>
             if js_trim (stdout r) = [] then (git_done, m') else commit m')"

definition git_push :: "'x spawn \<Rightarrow> string \<Rightarrow> bool \<Rightarrow> ('x, git_result) op" where
  "git_push spawn branch dryRun m =
     (if dryRun then (git_done, m)
      else git_run spawn ''git push failed'' [''git'', ''push'', ''-u'', ''origin'', branch] m)"

definition pullRebase :: "'x spawn \<Rightarrow> string \<Rightarrow> bool \<Rightarrow> ('x, git_result) op" where
  "pullRebase spawn bs dryRun m =
     git_sequence spawn dryRun ''git pull --rebase failed''
       [[''git'', ''switch'', bs], [''git'', ''pull'', ''--rebase'', ''origin'', bs]] m"

section \<open>Pull requests\<close>

definition prNumberFromUrl :: "string \<Rightarrow> nat option" where
  "prNumberFromUrl url =
     (if url = [] then None
      else (let tail = last (split_on (CHR ''/'') (rev (dropWhile (\<lambda>c. c = CHR ''/'') (rev url)))) in
            if tail \<noteq> [] \<and> list_all is_digit tail then Some (parse_digits tail) else None))"

definition prForBranch :: "adw_runtime \<Rightarrow> 'x spawn \<Rightarrow> string \<Rightarrow> string \<Rightarrow> string
     \<Rightarrow> ('x, adw_failure + string option) op" where
  "prForBranch js spawn branch gh repo m =
     (case ghJson js spawn ([gh, ''pr'', ''list'', ''--head'', branch, ''--json'', ''url'', ''--state'', ''open'']
                            @ repo_flag repo) m of (prs, m') \<Rightarrow>
        (case prs of
           JArr (pr # _) \<Rightarrow>
             if pr = JNull then Inl (OtherThrown (JStr ''TypeError'')) else Inr (readString (field_of pr ''url''))
         | _ \<Rightarrow> Inr None, m'))"

record create_pr_result =
  pr_number :: "nat option"
  pr_url :: "string option"
  pr_error :: "string option"

definition createPr ::
  "'x spawn \<Rightarrow> string \<Rightarrow> string \<Rightarrow> string \<Rightarrow> string \<Rightarrow> string \<Rightarrow> string \<Rightarrow> bool \<Rightarrow> ('x, create_pr_result) op" where
  "createPr spawn branch title body bs gh repo dryRun m =
     (if dryRun then (\<lparr>pr_number = None, pr_url = None, pr_error = None\<rparr>, m)
      else case capture spawn ([gh, ''pr'', ''create'', ''--base'', bs, ''--head'', branch, ''--title'', title,
                                ''--body'', body] @ repo_flag repo) m of (r, m') \<Rightarrow>
        (if returncode r \<noteq> 0
         then \<lparr>pr_number = None, pr_url = None, pr_error = g_error (git_failed r ''gh pr create failed'')\<rparr>
         else (let out = js_trim (stdout r); url = (if out = [] then [] else last (split_on nl out)) in
               \<lparr>pr_number = prNumberFromUrl url, pr_url = (if url = [] then None else Some url), pr_error = None\<rparr>), m'))"

datatype ci_state = ci_success | ci_failure | ci_pending | ci_none | ci_unknown

record ci_status =
  ci_verdict :: ci_state
  failingJobs :: "string list"

definition FAIL_CONCLUSIONS :: "string list" where
  "FAIL_CONCLUSIONS = [''FAILURE'', ''CANCELLED'', ''TIMED_OUT'', ''ACTION_REQUIRED'', ''STARTUP_FAILURE'']"

definition FAIL_STATES :: "string list" where
  "FAIL_STATES = [''FAILURE'', ''ERROR'']"

definition PENDING_STATES :: "string list" where
  "PENDING_STATES = [''PENDING'', ''EXPECTED'']"

definition js_String :: "adw_runtime \<Rightarrow> json \<Rightarrow> string" where
  "js_String js v = (case v of JStr s \<Rightarrow> s | _ \<Rightarrow> show_value js v)"

definition check_field :: "adw_runtime \<Rightarrow> json \<Rightarrow> string \<Rightarrow> string" where
  "check_field js check k = toUpperCase (js_String js (nullish (field_of check k) (JStr [])))"

definition check_name :: "adw_runtime \<Rightarrow> json \<Rightarrow> string" where
  "check_name js check =
     (if js_truthy (field_of check ''name'') then js_String js (field_of check ''name'')
      else if js_truthy (field_of check ''context'') then js_String js (field_of check ''context'')
      else ''check'')"

definition check_failing :: "adw_runtime \<Rightarrow> json \<Rightarrow> bool" where
  "check_failing js check =
     (check_field js check ''conclusion'' \<in> set FAIL_CONCLUSIONS \<or> check_field js check ''state'' \<in> set FAIL_STATES)"

definition check_pending :: "adw_runtime \<Rightarrow> json \<Rightarrow> bool" where
  "check_pending js check =
     (\<not> check_failing js check
      \<and> (check_field js check ''status'' \<noteq> [] \<and> check_field js check ''status'' \<noteq> ''COMPLETED''
         \<or> check_field js check ''state'' \<in> set PENDING_STATES))"

definition rollup_status :: "adw_runtime \<Rightarrow> json \<Rightarrow> ci_status" where
  "rollup_status js data =
     (case data of
        JObj ob \<Rightarrow>
          (case jget ob ''statusCheckRollup'' of
             JArr (c # cs) \<Rightarrow>
               (let failing = map (check_name js) (filter (check_failing js) (c # cs)) in
                if failing \<noteq> [] then \<lparr>ci_verdict = ci_failure, failingJobs = failing\<rparr>
                else if list_ex (check_pending js) (c # cs) then \<lparr>ci_verdict = ci_pending, failingJobs = []\<rparr>
                else \<lparr>ci_verdict = ci_success, failingJobs = []\<rparr>)
           | _ \<Rightarrow> \<lparr>ci_verdict = ci_none, failingJobs = []\<rparr>)
      | _ \<Rightarrow> \<lparr>ci_verdict = ci_unknown, failingJobs = []\<rparr>)"

definition ciStatus :: "adw_runtime \<Rightarrow> 'x spawn \<Rightarrow> string \<Rightarrow> string \<Rightarrow> string \<Rightarrow> ('x, ci_status) op" where
  "ciStatus js spawn pr gh repo m =
     (case ghJson js spawn ([gh, ''pr'', ''view'', pr, ''--json'', ''statusCheckRollup''] @ repo_flag repo) m of
        (data, m') \<Rightarrow> (rollup_status js data, m'))"

definition squashMerge :: "'x spawn \<Rightarrow> string \<Rightarrow> string \<Rightarrow> string \<Rightarrow> bool \<Rightarrow> ('x, git_result) op" where
  "squashMerge spawn pr gh repo dryRun m =
     (if dryRun then (git_done, m)
      else git_run spawn ''gh pr merge failed''
             ([gh, ''pr'', ''merge'', pr, ''--squash'', ''--delete-branch''] @ repo_flag repo) m)"

end
