(* ===== verification/Adw_Issue.thy ===== *)
theory Adw_Issue
  imports Adw_Git
begin

text \<open>
  The issue a run works on (adw_sdlc/src/issue.ts): its context, the branch name derived from it,
  and its status on the project board.
\<close>

section \<open>Branch names\<close>

definition TYPE_PREFIX :: "(string \<times> string) list" where
  "TYPE_PREFIX =
     [(''type/feature'', ''feat''), (''type/chore'', ''chore''), (''type/test'', ''test''),
      (''type/docs'', ''docs''), (''type/spike'', ''spike''), (''type:bug'', ''fix''), (''type:docs'', ''docs''),
      (''type:ci'', ''ci''), (''type:testing'', ''test''), (''bug'', ''fix''), (''docs'', ''docs''),
      (''documentation'', ''docs''), (''tech-debt'', ''refactor''), (''infra'', ''ci''), (''ci'', ''ci''),
      (''test'', ''test''), (''testing'', ''test''), (''feature'', ''feat''), (''chore'', ''chore'')]"

text \<open>A label named after an inherited property selects that property, printed where the prefix is used.\<close>

definition branchPrefix :: "adw_runtime \<Rightarrow> string list \<Rightarrow> string" where
  "branchPrefix js labels =
     fold (\<lambda>label prefix.
             case table_get TYPE_PREFIX (toLowerCase label) of
               Own p \<Rightarrow> p
             | Inherited f \<Rightarrow> show_inherited js f
             | Missing \<Rightarrow> prefix) labels ''feat''"

text \<open>\<open>replace(/^Phase issue [0-9]+: */, '')\<close>\<close>

definition strip_phase_title :: "string \<Rightarrow> string" where
  "strip_phase_title title =
     (if \<not> prefix ''Phase issue '' title then title
      else (let r = drop 12 title; r1 = dropWhile is_digit r in
            if takeWhile is_digit r = [] \<or> \<not> prefix '':'' r1 then title
            else dropWhile (\<lambda>c. c = CHR '' '') (drop 1 r1)))"

text \<open>The combining marks U+0300 to U+036F: CC 80 to CC BF and CD 80 to CD AF in UTF-8.\<close>

fun strip_marks :: "string \<Rightarrow> string" where
  "strip_marks (c # d # s) =
     (if of_char c = (204 :: nat) \<and> in_range 128 191 d \<or> of_char c = (205 :: nat) \<and> in_range 128 175 d
      then strip_marks s else c # strip_marks (d # s))"
| "strip_marks s = s"

text \<open>\<open>replace(/[^a-z0-9]+/g, '-')\<close>; the flag says that the current run was already written.\<close>

fun dash_runs :: "bool \<Rightarrow> string \<Rightarrow> string" where
  "dash_runs b [] = []"
| "dash_runs b (c # s) =
     (if is_lower_alnum c then c # dash_runs False s
      else if b then dash_runs True s
      else CHR ''-'' # dash_runs True s)"

definition is_dash :: "char \<Rightarrow> bool" where
  "is_dash c = (c = CHR ''-'')"

definition trim_end_dashes :: "string \<Rightarrow> string" where
  "trim_end_dashes s = rev (dropWhile is_dash (rev s))"

definition slugifyTitle :: "adw_runtime \<Rightarrow> string \<Rightarrow> string" where
  "slugifyTitle js title =
     (let slug = trim_end_dashes (dropWhile is_dash
                   (dash_runs False (toLowerCase (strip_marks (nfd js (strip_phase_title title)))))) in
      trim_end_dashes (take 40 slug))"

definition deriveBranch :: "adw_runtime \<Rightarrow> int \<Rightarrow> string \<Rightarrow> string list \<Rightarrow> string option \<Rightarrow> string" where
  "deriveBranch js inum title labels i =
     (let mid = (case i of Some (c # cs) \<Rightarrow> (c # cs) @ ''-'' | _ \<Rightarrow> []) in
      branchPrefix js labels @ ''/'' @ show_int inum @ ''-'' @ mid @ slugifyTitle js title)"

section \<open>The issue\<close>

record issue_context =
  title :: string
  body :: string
  labels :: "string list"

definition no_issue :: issue_context where
  "no_issue = \<lparr>title = [], body = [], labels = []\<rparr>"

definition label_name :: "adw_runtime \<Rightarrow> json \<Rightarrow> string" where
  "label_name js label =
     (case label of
        JObj ob \<Rightarrow> js_String js (nullish (jget ob ''name'') (JStr []))
      | _ \<Rightarrow> [])"

definition issue_of_json :: "adw_runtime \<Rightarrow> json \<Rightarrow> issue_context option" where
  "issue_of_json js data =
     (case data of
        JObj doc \<Rightarrow>
          Some \<lparr>title = or_default (readString (jget doc ''title'')) [],
                body = or_default (readString (jget doc ''body'')) [],
                labels = (case jget doc ''labels'' of JArr ls \<Rightarrow> map (label_name js) ls | _ \<Rightarrow> [])\<rparr>
      | _ \<Rightarrow> None)"

definition fetchIssue ::
  "adw_runtime \<Rightarrow> 'x spawn \<Rightarrow> string option \<Rightarrow> int \<Rightarrow> string \<Rightarrow> ('x, issue_context option) op" where
  "fetchIssue js spawn gh inum repo m =
     (if \<not> truthy_bin gh then (None, m)
      else case ghJson js spawn ([the gh, ''issue'', ''view'', show_int inum] @ repo_flag repo
                                 @ [''--json'', ''title,body,labels'']) m of
             (data, m') \<Rightarrow> (issue_of_json js data, m'))"

section \<open>The board\<close>

definition find_record :: "json \<Rightarrow> string \<Rightarrow> (obj \<Rightarrow> bool) \<Rightarrow> obj option" where
  "find_record doc k P =
     (case field_of doc k of
        JArr xs \<Rightarrow> find P (List.map_filter asRecord xs)
      | _ \<Rightarrow> None)"

definition nonempty_string :: "json \<Rightarrow> string option" where
  "nonempty_string v = (case v of JStr (c # cs) \<Rightarrow> Some (c # cs) | _ \<Rightarrow> None)"

definition record_id :: "obj option \<Rightarrow> string option" where
  "record_id r = (case r of None \<Rightarrow> None | Some ob \<Rightarrow> nonempty_string (jget ob ''id''))"

text \<open>Best effort: every missing piece ends the update. \<open>PROJECT_NUMBER\<close> is read from the environment.\<close>

definition setStatus ::
  "adw_runtime \<Rightarrow> 'x spawn \<Rightarrow> environment \<Rightarrow> string \<Rightarrow> string \<Rightarrow> int \<Rightarrow> string \<Rightarrow> ('x, unit) op" where
  "setStatus js spawn env gh owner inum targetStatus m =
     (let projectNumber = or_default (env ''PROJECT_NUMBER'') ''1'';
          gh_project = (\<lambda>verb rest. ghJson js spawn
             ([gh, ''project'', verb, projectNumber, ''--owner'', owner, ''--format'', ''json''] @ rest)) in
      case gh_project ''view'' [] m of (proj, m1) \<Rightarrow>
        (case nonempty_string (field_of proj ''id'') of
           None \<Rightarrow> ((), m1)
         | Some projId \<Rightarrow>
             (case gh_project ''item-list'' [''--limit'', ''300''] m1 of (items, m2) \<Rightarrow>
                (case record_id (find_record items ''items''
                        (\<lambda>it. field_of (jget it ''content'') ''number'' = JNum (Fin (of_int inum)))) of
                   None \<Rightarrow> ((), m2)
                 | Some itemId \<Rightarrow>
                     (case gh_project ''field-list'' [] m2 of (fs, m3) \<Rightarrow>
                        (case find_record fs ''fields'' (\<lambda>f. jget f ''name'' = JStr ''Status'') of
                           None \<Rightarrow> ((), m3)
                         | Some statusField \<Rightarrow>
                             (case record_id (find_record (JObj statusField) ''options''
                                     (\<lambda>ob. jget ob ''name'' = JStr targetStatus)) of
                                None \<Rightarrow> ((), m3)
                              | Some optionId \<Rightarrow>
                                  (case runInherit spawn
                                     [gh, ''project'', ''item-edit'', ''--id'', itemId, ''--project-id'', projId,
                                      ''--field-id'', js_String js (jget statusField ''id''),
                                      ''--single-select-option-id'', optionId] m3 of
                                     (_, m4) \<Rightarrow> ((), m4)))))))))"

section \<open>Properties\<close>

definition slug_char :: "char \<Rightarrow> bool" where
  "slug_char c = (is_lower_alnum c \<or> is_dash c)"

definition no_double_dash :: "string \<Rightarrow> bool" where
  "no_double_dash s = successively (\<lambda>a b. \<not> (is_dash a \<and> is_dash b)) s"

lemma dash_runs_chars: "list_all slug_char (dash_runs b s)"
  by (induction b s rule: dash_runs.induct) (simp_all add: slug_char_def is_dash_def)

lemma alnum_not_dash: "is_lower_alnum c \<Longrightarrow> \<not> is_dash c"
  by (auto simp: is_dash_def is_lower_alnum_def in_range_def)

lemma dash_runs_hd: "dash_runs True s \<noteq> [] \<Longrightarrow> \<not> is_dash (hd (dash_runs True s))"
  by (induction s) (auto simp: alnum_not_dash)

lemma dash_runs_single: "no_double_dash (dash_runs b s)"
proof (induction b s rule: dash_runs.induct)
  case (2 b c s)
  then show ?case
    using dash_runs_hd [of s]
    by (auto simp: no_double_dash_def successively_Cons alnum_not_dash)
qed (simp add: no_double_dash_def)

lemma sublist_list_all: "sublist xs ys \<Longrightarrow> list_all P ys \<Longrightarrow> list_all P xs"
  by (auto simp: sublist_def)

lemma sublist_no_double: "sublist xs ys \<Longrightarrow> no_double_dash ys \<Longrightarrow> no_double_dash xs"
  by (auto simp: sublist_def no_double_dash_def successively_append_iff)

lemma trim_end_prefix: "prefix (trim_end_dashes s) s"
proof -
  have "s = trim_end_dashes s @ rev (takeWhile is_dash (rev s))"
    unfolding trim_end_dashes_def by (metis rev_append rev_rev_ident takeWhile_dropWhile_id)
  then show ?thesis by (metis prefixI)
qed

lemma trim_end_last: "trim_end_dashes s \<noteq> [] \<Longrightarrow> \<not> is_dash (last (trim_end_dashes s))"
  unfolding trim_end_dashes_def using hd_dropWhile [of is_dash "rev s"] by (simp add: last_rev)

lemma prefix_hd: "prefix xs ys \<Longrightarrow> xs \<noteq> [] \<Longrightarrow> hd xs = hd ys"
  by (auto simp: prefix_def)

lemma slug_parts:
  "\<exists>t. sublist (slugifyTitle js s) (dash_runs False t) \<and> length (slugifyTitle js s) \<le> 40
       \<and> (slugifyTitle js s \<noteq> [] \<longrightarrow> \<not> is_dash (hd (slugifyTitle js s)) \<and> \<not> is_dash (last (slugifyTitle js s)))"
proof -
  define t where "t = toLowerCase (strip_marks (nfd js (strip_phase_title s)))"
  define u where "u = dropWhile is_dash (dash_runs False t)"
  define v where "v = take 40 (trim_end_dashes u)"
  have slug: "slugifyTitle js s = trim_end_dashes v"
    by (simp add: slugifyTitle_def Let_def t_def u_def v_def)
  have pre: "prefix (trim_end_dashes v) u"
    using trim_end_prefix [of v] trim_end_prefix [of u] take_is_prefix [of 40 "trim_end_dashes u"]
    unfolding v_def by (meson prefix_order.trans)
  have "suffix u (dash_runs False t)" unfolding u_def by (rule suffix_dropWhile)
  with pre have "sublist (trim_end_dashes v) (dash_runs False t)"
    by (meson prefix_imp_sublist sublist_order.order_trans suffix_imp_sublist)
  moreover have "length (trim_end_dashes v) \<le> 40"
    using prefix_length_le [OF trim_end_prefix [of v]] by (simp add: v_def)
  moreover have "\<not> is_dash (hd (trim_end_dashes v))" if "trim_end_dashes v \<noteq> []"
    using prefix_hd [OF pre that] hd_dropWhile [of is_dash "dash_runs False t"] that pre
    unfolding u_def by fastforce
  ultimately show ?thesis unfolding slug using trim_end_last [of v] by blast
qed


text \<open>A label named after an inherited property replaces the prefix with the text of that property.\<close>

lemma constructor_label_prefix: "branchPrefix js [''constructor''] = show_inherited js ''constructor''"
proof -
  have "table_get TYPE_PREFIX (toLowerCase ''constructor'') = Inherited ''constructor''" by code_simp
  then show ?thesis by (simp only: branchPrefix_def fold.simps o_def slot.case id_def)
qed

end
