(* ===== verification/Adw_Run.thy ===== *)
theory Adw_Run
  imports Adw_Issue
begin

text \<open>
  One agent phase (adw_sdlc/src/run-phase.ts): prompt, invocation of the runner, extraction of the
  result with one nudged retry, and usage accounting; and the structured model call of the
  classify phase (structured-call.ts). The runner and the model client are arguments.
\<close>

section \<open>Files\<close>

definition write_file :: "string \<Rightarrow> string \<Rightarrow> ('x, adw_failure + unit) op" where
  "write_file path text m =
     (if writable m path then (Inr (), m\<lparr>files := (files m)(path \<mapsto> text)\<rparr>)
      else (Inl (OtherThrown (JStr ''EACCES'')), m))"

text \<open>\<open>phaseDir\<close>: the directory is named after a checked phase name; creating it always succeeds here.\<close>

definition phaseDir :: "adw_runtime \<Rightarrow> adw_state \<Rightarrow> string \<Rightarrow> adw_failure + string" where
  "phaseDir js s phase = map_sum id (path_join (workspace js s)) (safePhase js phase)"

section \<open>Runners\<close>

record phase_request =
  rq_phase :: agent_phase
  rq_prompt :: string
  rq_model :: string
  rq_cwd :: string
  rq_env :: "(string \<times> string) list"
  rq_schema :: "json option"
  rq_maxBudgetUsd :: "jsnum option"
  rq_transcriptPath :: string
  rq_timeoutMs :: int

record phase_result =
  structured :: "obj option"
  transcriptText :: string
  usage :: phase_usage
  signal :: stop_signal
  sessionId :: "string option"

record 'x agent_runner =
  runner_ident :: runner_id
  nativeSchema :: bool
  runner_start :: "('x, adw_failure + unit) op option"
  runPhase :: "phase_request \<Rightarrow> ('x, adw_failure + phase_result) op"
  runner_stop :: "('x, adw_failure + unit) op option"

text \<open>What the process gives a phase besides its request.\<close>

record phase_tools =
  safeParse :: safe_parser
  toJSONSchema :: "phase_schema \<Rightarrow> json"
  process_env :: environment

record 'x phase_call =
  ca_phase :: agent_phase
  ca_templateArgs :: "string list"
  ca_runner :: "'x agent_runner"
  ca_cliModel :: string
  ca_env :: "(string \<times> string) list"
  ca_timeoutMs :: int
  ca_maxBudgetUsd :: "jsnum option"

record phase_outcome =
  out_data :: obj
  out_usage :: phase_usage
  out_sessionId :: "string option"

definition NUDGE :: string where
  "NUDGE = [nl, nl] @ ''Respond with ONLY the required JSON object in a '' @ fence @ ''json fenced block, nothing else.''"

section \<open>Usage\<close>

definition addCounts :: "rat option \<Rightarrow> rat option \<Rightarrow> rat option" where
  "addCounts a b = (if a = None \<and> b = None then None else Some (or_default a 0 + or_default b 0))"

definition js_add :: "jsnum \<Rightarrow> jsnum \<Rightarrow> jsnum" where
  "js_add a b =
     (case (a, b) of
        (Fin x, Fin y) \<Rightarrow> Fin (x + y)
      | (NaN, _) \<Rightarrow> NaN
      | (_, NaN) \<Rightarrow> NaN
      | (PosInf, NegInf) \<Rightarrow> NaN
      | (NegInf, PosInf) \<Rightarrow> NaN
      | (Fin _, y) \<Rightarrow> y
      | (x, _) \<Rightarrow> x)"

definition mergeUsage :: "phase_usage \<Rightarrow> phase_usage \<Rightarrow> phase_usage" where
  "mergeUsage a b =
     \<lparr>inputTokens = addCounts (inputTokens a) (inputTokens b),
      outputTokens = addCounts (outputTokens a) (outputTokens b),
      cachedInputTokens = addCounts (cachedInputTokens a) (cachedInputTokens b),
      reasoningTokens = addCounts (reasoningTokens a) (reasoningTokens b),
      costUsd =
        (case (costUsd a, costUsd b) of
           (Some None, _) \<Rightarrow> Some None
         | (_, Some None) \<Rightarrow> Some None
         | (None, None) \<Rightarrow> None
         | (Some (Some x), None) \<Rightarrow> Some (Some (js_add x (Fin 0)))
         | (None, Some (Some y)) \<Rightarrow> Some (Some (js_add (Fin 0) y))
         | (Some (Some x), Some (Some y)) \<Rightarrow> Some (Some (js_add x y)))\<rparr>"

section \<open>A phase\<close>

definition extract_result :: "adw_runtime \<Rightarrow> safe_parser \<Rightarrow> agent_phase \<Rightarrow> phase_result \<Rightarrow> adw_failure + obj" where
  "extract_result js safe_parse p result =
     (case structured result of
        Some ob \<Rightarrow> parsePhaseResult js safe_parse p (JObj ob)
      | None \<Rightarrow>
          (case parseJson js (Some (transcriptText result)) (Some expect_object) of
             Inl e \<Rightarrow> Inl e
           | Inr payload \<Rightarrow> parsePhaseResult js safe_parse p payload))"

definition phase_request_of ::
  "adw_runtime \<Rightarrow> phase_tools \<Rightarrow> 'x phase_call \<Rightarrow> string \<Rightarrow> string \<Rightarrow> string \<Rightarrow> phase_request" where
  "phase_request_of js tools ca dir text transcriptName =
     \<lparr>rq_phase = ca_phase ca, rq_prompt = text,
      rq_model = modelForPhase (phase_name (ca_phase ca)) (runner_ident (ca_runner ca)) (ca_cliModel ca)
                   (process_env tools),
      rq_cwd = REPO_ROOT js, rq_env = ca_env ca,
      rq_schema = (if nativeSchema (ca_runner ca) then Some (toJSONSchema tools (PHASE_SCHEMAS (ca_phase ca))) else None),
      rq_maxBudgetUsd = ca_maxBudgetUsd ca, rq_transcriptPath = path_join dir transcriptName,
      rq_timeoutMs = ca_timeoutMs ca\<rparr>"

definition stop_reason :: "agent_phase \<Rightarrow> stop_signal \<Rightarrow> string option" where
  "stop_reason p s =
     (case s of
        sig_timeout \<Rightarrow> Some (phase_name p @ '' phase runner timed out without parseable output'')
      | sig_budget \<Rightarrow> Some (phase_name p @ '' phase hit the native budget cap without parseable output'')
      | sig_cancelled \<Rightarrow> Some (phase_name p @ '' phase was cancelled without parseable output'')
      | sig_none \<Rightarrow> None)"

text \<open>The retry repeats the JSON contract also for a runner with a native schema.\<close>

definition phase_prompt :: "adw_runtime \<Rightarrow> 'x phase_call \<Rightarrow> adw_state \<Rightarrow> bool \<Rightarrow> 'x machine \<Rightarrow> adw_failure + string" where
  "phase_prompt js ca s emitJsonContract m =
     composePhasePrompt js (files m) (ca_phase ca) (ca_templateArgs ca) s (runner_name (runner_ident (ca_runner ca)))
       emitJsonContract"

definition retry_phase ::
  "adw_runtime \<Rightarrow> phase_tools \<Rightarrow> 'x phase_call \<Rightarrow> adw_state \<Rightarrow> string \<Rightarrow> string \<Rightarrow> phase_result
     \<Rightarrow> ('x, adw_failure + phase_outcome) op" where
  "retry_phase js tools ca s dir prompt first m =
     (case (if nativeSchema (ca_runner ca) then phase_prompt js ca s True m else Inr prompt) of
        Inl e \<Rightarrow> (Inl e, m)
      | Inr retryPrompt \<Rightarrow>
          (case runPhase (ca_runner ca) (phase_request_of js tools ca dir (retryPrompt @ NUDGE) ''transcript-2.log'') m of
             (Inl e, m') \<Rightarrow> (Inl e, m')
           | (Inr second, m') \<Rightarrow>
               (map_sum id (\<lambda>ob. \<lparr>out_data = ob, out_usage = mergeUsage (usage first) (usage second),
                                  out_sessionId = sessionId second\<rparr>)
                  (extract_result js (safeParse tools) (ca_phase ca) second), m')))"

definition runAgentPhase ::
  "adw_runtime \<Rightarrow> phase_tools \<Rightarrow> 'x phase_call \<Rightarrow> adw_state \<Rightarrow> ('x, adw_failure + phase_outcome) op" where
  "runAgentPhase js tools ca s m =
     (case phase_prompt js ca s (\<not> nativeSchema (ca_runner ca)) m of
        Inl e \<Rightarrow> (Inl e, m)
      | Inr prompt \<Rightarrow>
          (case phaseDir js s (phase_name (ca_phase ca)) of
             Inl e \<Rightarrow> (Inl e, m)
           | Inr dir \<Rightarrow>
               (case write_file (path_join dir ''prompt.txt'') prompt m of
                  (Inl e, m1) \<Rightarrow> (Inl e, m1)
                | (Inr _, m1) \<Rightarrow>
                    (case runPhase (ca_runner ca) (phase_request_of js tools ca dir prompt ''transcript.log'') m1 of
                       (Inl e, m2) \<Rightarrow> (Inl e, m2)
                     | (Inr first, m2) \<Rightarrow>
                         (case extract_result js (safeParse tools) (ca_phase ca) first of
                            Inr ob \<Rightarrow>
                              (Inr \<lparr>out_data = ob, out_usage = usage first, out_sessionId = sessionId first\<rparr>, m2)
                          | Inl err \<Rightarrow>
                              if \<not> is_adw_error err then (Inl err, m2)
                              else case stop_reason (ca_phase ca) (signal first) of
                                     Some msg \<Rightarrow> (Inl (AdwError msg), m2)
                                   | None \<Rightarrow> retry_phase js tools ca s dir prompt first m2)))))"

section \<open>The structured model call\<close>

record parsed_message =
  parsed_output :: json
  msg_usage :: "phase_usage option"

record client_params =
  cp_model :: string
  cp_max_tokens :: int
  cp_content :: string

type_synonym 'x model_client = "client_params \<Rightarrow> ('x, adw_failure + parsed_message) op"

definition STRUCTURED_NUDGE :: string where
  "STRUCTURED_NUDGE =
     [nl, nl] @ ''Respond with ONLY the required structured output. Do not refuse; pick the closest match.''"

definition add_reported :: "rat option \<Rightarrow> rat option \<Rightarrow> rat option" where
  "add_reported acc n = (case n of None \<Rightarrow> acc | Some x \<Rightarrow> Some (or_default acc 0 + x))"

text \<open>The three counters the SDK reports; an absent one is \<open>None\<close>.\<close>

definition accumulateUsage :: "phase_usage \<Rightarrow> parsed_message \<Rightarrow> phase_usage" where
  "accumulateUsage u message =
     (case msg_usage message of
        None \<Rightarrow> u
      | Some reported \<Rightarrow>
          u\<lparr>inputTokens := add_reported (inputTokens u) (inputTokens reported),
            outputTokens := add_reported (outputTokens u) (outputTokens reported),
            cachedInputTokens := add_reported (cachedInputTokens u) (cachedInputTokens reported)\<rparr>)"

definition structuredCall ::
  "'x model_client \<Rightarrow> (json \<Rightarrow> string + obj) \<Rightarrow> string \<Rightarrow> string option \<Rightarrow> int option
     \<Rightarrow> ('x, adw_failure + obj \<times> phase_usage) op" where
  "structuredCall client schema_parse prompt model_opt maxTokens_opt m =
     (let model = or_default model_opt CLASSIFY_MODEL;
          maxTokens = or_default maxTokens_opt 1024;
          finish = (\<lambda>parsed u.
             (let u' = u\<lparr>costUsd := Some (model_cost model u)\<rparr> in
              case schema_parse parsed of Inl msg \<Rightarrow> Inl (OtherThrown (JStr msg)) | Inr v \<Rightarrow> Inr (v, u'))) in
      case client \<lparr>cp_model = model, cp_max_tokens = maxTokens, cp_content = prompt\<rparr> m of
        (Inl e, m1) \<Rightarrow> (Inl e, m1)
      | (Inr first, m1) \<Rightarrow>
          (let u1 = accumulateUsage no_usage first; parsed1 = nullish (parsed_output first) JNull in
           if parsed1 \<noteq> JNull then (finish parsed1 u1, m1)
           else case client \<lparr>cp_model = model, cp_max_tokens = maxTokens * 2,
                             cp_content = prompt @ STRUCTURED_NUDGE\<rparr> m1 of
                  (Inl e, m2) \<Rightarrow> (Inl e, m2)
                | (Inr second, m2) \<Rightarrow>
                    (let u2 = accumulateUsage u1 second; parsed2 = nullish (parsed_output second) JNull in
                     if parsed2 = JNull
                     then (Inl (AdwError ''structured call returned no parsed output (refusal or truncation) after retry''), m2)
                     else (finish parsed2 u2, m2))))"

end
