(* ===== verification/Workflow.thy ===== *)
theory Workflow
  imports Adw_Run
begin

text \<open>
  The effects of the orchestrator (adw_sdlc/src/orchestrator.ts): its options and injected
  dependencies, computations that may throw over the run's state and the machine, the ghost log of
  what a run asks of its dependencies, and the default dependencies.
\<close>

section \<open>Options\<close>

text \<open>An absent option is \<open>None\<close>; counts are the integers the command line parses.\<close>

record run_options =
  ro_base :: "string option"
  ro_phases :: "string option"
  ro_adwId :: "string option"
  ro_resume :: "bool option"
  ro_noProgress :: "bool option"
  ro_inheritEnv :: "bool option"
  ro_maxResolve :: "int option"
  ro_maxPatch :: "int option"
  ro_maxCiFix :: "int option"
  ro_ciPollIntervalMs :: "int option"
  ro_ciMaxPolls :: "int option"
  ro_testCmd :: "string option"
  ro_model :: "string option"
  ro_repo :: "string option"
  ro_timeoutMs :: "int option"
  ro_verify :: "bool option"
  ro_force :: "bool option"
  ro_allowDirty :: "bool option"
  ro_yes :: "bool option"
  ro_dryRun :: "bool option"
  ro_maxBudgetUsd :: "jsnum option"

record resolved_options =
  op_base :: string
  op_resume :: bool
  op_noProgress :: bool
  op_inheritEnv :: bool
  op_maxResolve :: int
  op_maxPatch :: int
  op_maxCiFix :: int
  op_ciPollIntervalMs :: int
  op_ciMaxPolls :: int
  op_testCmd :: string
  op_model :: string
  op_timeoutMs :: int
  op_verify :: bool
  op_force :: bool
  op_allowDirty :: bool
  op_yes :: bool
  op_dryRun :: bool
  op_phases :: "string option"
  op_adwId :: "string option"
  op_repo :: "string option"
  op_maxBudgetUsd :: "jsnum option"

definition resolveOptions :: "run_options \<Rightarrow> resolved_options" where
  "resolveOptions options =
     \<lparr>op_base = or_default (ro_base options) ''main'', op_resume = or_default (ro_resume options) False,
      op_noProgress = or_default (ro_noProgress options) False, op_inheritEnv = or_default (ro_inheritEnv options) False,
      op_maxResolve = or_default (ro_maxResolve options) 3, op_maxPatch = or_default (ro_maxPatch options) 2,
      op_maxCiFix = or_default (ro_maxCiFix options) 3,
      op_ciPollIntervalMs = or_default (ro_ciPollIntervalMs options) 30000,
      op_ciMaxPolls = or_default (ro_ciMaxPolls options) 40, op_testCmd = or_default (ro_testCmd options) [],
      op_model = or_default (ro_model options) [], op_timeoutMs = or_default (ro_timeoutMs options) 0,
      op_verify = or_default (ro_verify options) True, op_force = or_default (ro_force options) False,
      op_allowDirty = or_default (ro_allowDirty options) False, op_yes = or_default (ro_yes options) False,
      op_dryRun = or_default (ro_dryRun options) False, op_phases = ro_phases options, op_adwId = ro_adwId options,
      op_repo = ro_repo options, op_maxBudgetUsd = ro_maxBudgetUsd options\<rparr>"

section \<open>Dependencies\<close>

record run_cmd_result =
  rc :: int
  cmd_output :: string

text \<open>
  \<open>OrchestratorDeps\<close>. An operation whose implementation can reject returns a sum. \<open>o_makeAdwId\<close>
  is the random source of \<open>makeAdwId\<close>.
\<close>

record 'x deps =
  o_env :: "(string \<times> string option) list"
  o_isatty :: "('x, bool) op"
  o_confirm :: "string \<Rightarrow> ('x, bool) op"
  o_wait :: "int \<Rightarrow> ('x, unit) op"
  o_runCmd :: "string list \<Rightarrow> ('x, run_cmd_result) op"
  o_capture :: "string list \<Rightarrow> ('x, captured) op"
  o_workingTreeDirty :: "('x, bool) op"
  o_changedFiles :: "string \<Rightarrow> ('x, string list) op"
  o_resolveGhBin :: "string option"
  o_detectRepo :: "string option \<Rightarrow> ('x, string) op"
  o_issueState :: "string option \<Rightarrow> int \<Rightarrow> string \<Rightarrow> ('x, string) op"
  o_postProgress :: "string option \<Rightarrow> int \<Rightarrow> string \<Rightarrow> string \<Rightarrow> string \<Rightarrow> string \<Rightarrow> ('x, unit) op"
  o_fetchIssue :: "string option \<Rightarrow> int \<Rightarrow> string \<Rightarrow> ('x, issue_context option) op"
  o_setStatus :: "string \<Rightarrow> string \<Rightarrow> int \<Rightarrow> string \<Rightarrow> ('x, adw_failure + unit) op"
  o_createOrCheckoutBranch :: "string \<Rightarrow> string \<Rightarrow> ('x, git_result) op"
  o_commitAll :: "string \<Rightarrow> ('x, git_result) op"
  o_push :: "string \<Rightarrow> ('x, git_result) op"
  o_pullRebase :: "string \<Rightarrow> ('x, git_result) op"
  o_prForBranch :: "string \<Rightarrow> string \<Rightarrow> string \<Rightarrow> ('x, adw_failure + string option) op"
  o_createPr :: "string \<Rightarrow> string \<Rightarrow> string \<Rightarrow> string \<Rightarrow> string \<Rightarrow> string \<Rightarrow> ('x, create_pr_result) op"
  o_ciStatus :: "string \<Rightarrow> string \<Rightarrow> string \<Rightarrow> ('x, ci_status) op"
  o_squashMerge :: "string \<Rightarrow> string \<Rightarrow> string \<Rightarrow> ('x, git_result) op"
  o_runAgentPhase :: "'x phase_call \<Rightarrow> adw_state \<Rightarrow> ('x, adw_failure + phase_outcome) op"
  o_classify :: "string \<Rightarrow> int option \<Rightarrow> ('x, adw_failure + obj \<times> phase_usage) op"
  o_makeAdwId :: "('x, string) op"

definition env_of :: "(string \<times> string option) list \<Rightarrow> environment" where
  "env_of env k = (case map_of env k of Some v \<Rightarrow> v | None \<Rightarrow> None)"

definition definedEnv :: "(string \<times> string option) list \<Rightarrow> (string \<times> string) list" where
  "definedEnv env = List.map_filter (\<lambda>(k, v). map_option (Pair k) v) env"

section \<open>Computations\<close>

text \<open>
  What a run asks of its dependencies, in order, with the replies the properties speak about. The
  log is a ghost: no operation reads it.
\<close>

datatype event =
    Ran "string list" int
  | Branched string bool
  | Committed string bool
  | Pushed string bool
  | Rebased string
  | FoundPr "string option"
  | OpenedPr "nat option"
  | PolledCi string ci_state
  | Slept int
  | Confirmed bool
  | Merged string bool
  | Invoked agent_phase "(string \<times> string) list"
  | Classified string
  | Posted string string
  | IssueSeen string
  | Saved adw_state
  | Touched string

record 'x run =
  machine :: "'x machine"
  adw :: adw_state
  trace :: "event list"

type_synonym ('x, 'a) task = "'x run \<Rightarrow> (adw_failure + 'a) \<times> 'x run"

definition ret :: "'a \<Rightarrow> ('x, 'a) task" where
  "ret a r = (Inr a, r)"

definition throw :: "adw_failure \<Rightarrow> ('x, 'a) task" where
  "throw e r = (Inl e, r)"

definition andThen :: "('x, 'a) task \<Rightarrow> ('a \<Rightarrow> ('x, 'b) task) \<Rightarrow> ('x, 'b) task" where
  "andThen t k r = (case t r of (Inl e, r') \<Rightarrow> (Inl e, r') | (Inr a, r') \<Rightarrow> k a r')"

text \<open>A call of a dependency, and one whose rejection is thrown.\<close>

definition ask :: "('x, 'a) op \<Rightarrow> ('a \<Rightarrow> event) \<Rightarrow> ('x, 'a) task" where
  "ask f ev r = (case f (machine r) of (a, m) \<Rightarrow> (Inr a, r\<lparr>machine := m, trace := trace r @ [ev a]\<rparr>))"

definition attempt_op :: "('x, adw_failure + 'a) op \<Rightarrow> (adw_failure + 'a \<Rightarrow> event) \<Rightarrow> ('x, 'a) task" where
  "attempt_op f ev r = (case f (machine r) of (x, m) \<Rightarrow> (x, r\<lparr>machine := m, trace := trace r @ [ev x]\<rparr>))"

definition reads :: "('x run \<Rightarrow> 'a) \<Rightarrow> ('x, 'a) task" where
  "reads f r = (Inr (f r), r)"

definition modify :: "(adw_state \<Rightarrow> adw_state) \<Rightarrow> ('x, unit) task" where
  "modify f r = (Inr (), r\<lparr>adw := f (adw r)\<rparr>)"

text \<open>\<open>try { ... } finally { ... }\<close>: the cleanup's own rejection replaces the outcome.\<close>

definition finally_do :: "('x, 'a) task \<Rightarrow> ('x, unit) task \<Rightarrow> ('x, 'a) task" where
  "finally_do t cleanup r =
     (case t r of (res, r') \<Rightarrow>
        (case cleanup r' of (Inl e, r'') \<Rightarrow> (Inl e, r'') | (Inr _, r'') \<Rightarrow> (res, r'')))"

text \<open>\<open>state.save()\<close>: best effort.\<close>

definition save :: "adw_runtime \<Rightarrow> ('x, unit) task" where
  "save js r =
     (Inr (), r\<lparr>machine := snd (write_file (statePath js (adw r)) (state_text js (adw r)) (machine r)),
                trace := trace r @ [Saved (adw r)]\<rparr>)"

definition mark_and_save :: "adw_runtime \<Rightarrow> string \<Rightarrow> ('x, unit) task" where
  "mark_and_save js phase = andThen (modify (markDone phase)) (\<lambda>_. save js)"

lemmas task_defs = ret_def throw_def andThen_def ask_def attempt_op_def reads_def modify_def

section \<open>The default dependencies\<close>

text \<open>The pieces of the host that the default dependencies are built from.\<close>

record 'x system =
  sy_spawn :: "'x spawn"
  sy_env :: "(string \<times> string option) list"
  sy_isatty :: "('x, bool) op"
  sy_line :: "string \<Rightarrow> ('x, string option) op"
  sy_wait :: "int \<Rightarrow> ('x, unit) op"
  sy_executable :: "string \<Rightarrow> bool"
  sy_home :: string
  sy_client :: "int option \<Rightarrow> 'x model_client"
  sy_random :: "('x, string) op"

definition changedFiles :: "'x spawn \<Rightarrow> string \<Rightarrow> ('x, string list) op" where
  "changedFiles spawn bs m =
     (case capture spawn [''git'', ''diff'', ''origin/'' @ bs, ''--name-only''] m of (r, m') \<Rightarrow>
        (if returncode r \<noteq> 0 then []
         else filter (\<lambda>l. l \<noteq> []) (map js_trim (split_on nl (stdout r))), m'))"

definition op_map :: "('a \<Rightarrow> 'b) \<Rightarrow> ('x, 'a) op \<Rightarrow> ('x, 'b) op" where
  "op_map g f m = (case f m of (a, m') \<Rightarrow> (g a, m'))"

definition defaultDeps :: "adw_runtime \<Rightarrow> phase_tools \<Rightarrow> 'x system \<Rightarrow> 'x deps" where
  "defaultDeps js tools sys =
     (let spawn = sy_spawn sys; env = env_of (sy_env sys) in
      \<lparr>o_env = sy_env sys,
       o_isatty = sy_isatty sys,
       o_confirm = (\<lambda>prompt. op_map confirm_answer (sy_line sys prompt)),
       o_wait = sy_wait sys,
       o_runCmd = (\<lambda>cmd. op_map (\<lambda>r. \<lparr>rc = returncode r, cmd_output = stdout r @ stderr r\<rparr>) (capture spawn cmd)),
       o_capture = capture spawn,
       o_workingTreeDirty = workingTreeDirty spawn,
       o_changedFiles = changedFiles spawn,
       o_resolveGhBin = resolveGhBin (sy_executable sys) (sy_home sys) env,
       o_detectRepo = detectRepo spawn,
       o_issueState = issueState spawn,
       o_postProgress = postProgress spawn,
       o_fetchIssue = fetchIssue js spawn,
       o_setStatus = (\<lambda>gh owner inum st. op_map Inr (setStatus js spawn env gh owner inum st)),
       o_createOrCheckoutBranch = (\<lambda>branch bs. createOrCheckoutBranch spawn branch bs False),
       o_commitAll = (\<lambda>msg. commitAll spawn msg False),
       o_push = (\<lambda>branch. git_push spawn branch False),
       o_pullRebase = (\<lambda>bs. pullRebase spawn bs False),
       o_prForBranch = prForBranch js spawn,
       o_createPr = (\<lambda>branch t b bs gh repo. createPr spawn branch t b bs gh repo False),
       o_ciStatus = ciStatus js spawn,
       o_squashMerge = (\<lambda>pr gh repo. squashMerge spawn pr gh repo False),
       o_runAgentPhase = runAgentPhase js tools,
       o_classify = (\<lambda>prompt timeout. structuredCall (sy_client sys timeout)
          (\<lambda>v. case asRecord v of None \<Rightarrow> Inl ''expected object'' | Some ob \<Rightarrow> safeParse tools (PHASE_SCHEMAS ph_classify) ob)
          prompt None None),
       o_makeAdwId = sy_random sys\<rparr>)"

section \<open>Reasoning about computations\<close>

text \<open>
  \<open>triple P t Q E\<close>: from a state with \<open>P\<close>, \<open>t\<close> either yields a value and a state related by \<open>Q\<close>, or
  throws in a state with \<open>E\<close>. \<open>yields P t\<close> speaks about the value alone.
\<close>

definition triple ::
  "('x run \<Rightarrow> bool) \<Rightarrow> ('x, 'a) task \<Rightarrow> ('a \<Rightarrow> 'x run \<Rightarrow> bool) \<Rightarrow> ('x run \<Rightarrow> bool) \<Rightarrow> bool" where
  "triple P t Q E = (\<forall>r. P r \<longrightarrow> (case t r of (Inr a, r') \<Rightarrow> Q a r' | (Inl e, r') \<Rightarrow> E r'))"

definition yields :: "('a \<Rightarrow> bool) \<Rightarrow> ('x, 'a) task \<Rightarrow> bool" where
  "yields P t = (\<forall>r a r'. t r = (Inr a, r') \<longrightarrow> P a)"

lemma yields_ret: "P a \<Longrightarrow> yields P (ret a)"
  by (simp add: yields_def ret_def)

lemma yields_andThen: "(\<And>a. yields P (k a)) \<Longrightarrow> yields P (andThen t k)"
  by (auto simp: yields_def andThen_def split: prod.splits sum.splits)

lemma yields_if: "(b \<Longrightarrow> yields P s) \<Longrightarrow> (\<not> b \<Longrightarrow> yields P t) \<Longrightarrow> yields P (if b then s else t)"
  by simp

lemma yields_throw: "yields P (throw e)"
  by (simp add: yields_def throw_def)

lemma yieldsD: "yields P t \<Longrightarrow> t r = (Inr a, r') \<Longrightarrow> P a"
  unfolding yields_def by blast

lemmas yields_intros = yields_ret yields_andThen yields_if yields_throw

lemma tripleI:
  assumes "\<And>r a r'. P r \<Longrightarrow> t r = (Inr a, r') \<Longrightarrow> Q a r'" and "\<And>r e r'. P r \<Longrightarrow> t r = (Inl e, r') \<Longrightarrow> E r'"
  shows "triple P t Q E"
  unfolding triple_def using assms by (auto split: prod.split sum.split)

lemma tripleD: "triple P t Q E \<Longrightarrow> P r \<Longrightarrow> t r = (Inr a, r') \<Longrightarrow> Q a r'"
  unfolding triple_def by fastforce

lemma tripleD_error: "triple P t Q E \<Longrightarrow> P r \<Longrightarrow> t r = (Inl e, r') \<Longrightarrow> E r'"
  unfolding triple_def by fastforce

lemma triple_ret: "(\<And>r. P r \<Longrightarrow> Q a r) \<Longrightarrow> triple P (ret a) Q E"
  by (simp add: triple_def ret_def)

lemma triple_throw: "(\<And>r. P r \<Longrightarrow> E r) \<Longrightarrow> triple P (throw e) Q E"
  by (simp add: triple_def throw_def)

lemma triple_andThen:
  assumes "triple P t R E" and "\<And>a. triple (R a) (k a) Q E"
  shows "triple P (andThen t k) Q E"
  using assms unfolding triple_def andThen_def by (fastforce split: prod.splits sum.splits)

lemma triple_weaken:
  assumes "triple P t Q E" and "\<And>r. P' r \<Longrightarrow> P r" and "\<And>a r. Q a r \<Longrightarrow> Q' a r" and "\<And>r. E r \<Longrightarrow> E' r"
  shows "triple P' t Q' E'"
  using assms unfolding triple_def by (fastforce split: prod.splits sum.splits)

lemma triple_ask:
  assumes "\<And>r a m. P r \<Longrightarrow> Q a (r\<lparr>machine := m, trace := trace r @ [ev a]\<rparr>)"
  shows "triple P (ask f ev) Q E"
  using assms by (simp add: triple_def ask_def split: prod.split)

lemma triple_attempt:
  assumes "\<And>r a m. P r \<Longrightarrow> Q a (r\<lparr>machine := m, trace := trace r @ [ev (Inr a)]\<rparr>)"
    and "\<And>r e m. P r \<Longrightarrow> E (r\<lparr>machine := m, trace := trace r @ [ev (Inl e)]\<rparr>)"
  shows "triple P (attempt_op f ev) Q E"
  using assms by (simp add: triple_def attempt_op_def split: prod.split sum.split)

lemma triple_reads: "(\<And>r. P r \<Longrightarrow> Q (f r) r) \<Longrightarrow> triple P (reads f) Q E"
  by (simp add: triple_def reads_def)

lemma triple_modify: "(\<And>r. P r \<Longrightarrow> Q () (r\<lparr>adw := f (adw r)\<rparr>)) \<Longrightarrow> triple P (modify f) Q E"
  by (simp add: triple_def modify_def)

lemma triple_save:
  "(\<And>r m. P r \<Longrightarrow> Q () (r\<lparr>machine := m, trace := trace r @ [Saved (adw r)]\<rparr>)) \<Longrightarrow> triple P (save js) Q E"
  by (simp add: triple_def save_def)

lemma triple_if:
  "(b \<Longrightarrow> triple P s Q E) \<Longrightarrow> (\<not> b \<Longrightarrow> triple P t Q E) \<Longrightarrow> triple P (if b then s else t) Q E"
  by simp

lemma triple_finally:
  assumes "triple P t Q E" and "\<And>a. triple (Q a) cleanup (\<lambda>_. Q a) E" and "triple E cleanup (\<lambda>_. E) E"
  shows "triple P (finally_do t cleanup) Q E"
proof (rule tripleI)
  fix r a r'
  assume P: "P r" and run: "finally_do t cleanup r = (Inr a, r')"
  obtain res r1 where t: "t r = (res, r1)" by fastforce
  obtain x r2 where c: "cleanup r1 = (x, r2)" by fastforce
  from run t c have "res = Inr a" "r2 = r'" "\<exists>u. x = Inr u"
    by (auto simp: finally_do_def split: sum.splits)
  with c tripleD [OF assms(1) P] tripleD [OF assms(2)] t show "Q a r'" by blast
next
  fix r e r'
  assume P: "P r" and run: "finally_do t cleanup r = (Inl e, r')"
  obtain res r1 where t: "t r = (res, r1)" by fastforce
  obtain x r2 where c: "cleanup r1 = (x, r2)" by fastforce
  from run t c have r2: "r2 = r'" "res = Inl e \<and> (\<exists>u. x = Inr u) \<or> x = Inl e"
    by (auto simp: finally_do_def split: sum.splits)
  show "E r'"
  proof (cases res)
    case (Inl e1)
    then have "E r1" using tripleD_error [OF assms(1) P] t by blast
    with c r2 tripleD [OF assms(3)] tripleD_error [OF assms(3)] show ?thesis by (cases x) blast+
  next
    case (Inr a)
    then have "Q a r1" using tripleD [OF assms(1) P] t by blast
    with c r2 Inr tripleD_error [OF assms(2)] show ?thesis by (cases x) blast+
  qed
qed

text \<open>An invariant that a computation keeps whether it yields or throws.\<close>

definition keeps :: "('x run \<Rightarrow> bool) \<Rightarrow> ('x, 'a) task \<Rightarrow> bool" where
  "keeps I t = triple I t (\<lambda>_. I) I"

lemma keepsD: "keeps I t \<Longrightarrow> I r \<Longrightarrow> I (snd (t r))"
  unfolding keeps_def triple_def by (fastforce split: prod.splits sum.splits)

lemma keepsI: "(\<And>r. I r \<Longrightarrow> I (snd (t r))) \<Longrightarrow> keeps I t"
  unfolding keeps_def triple_def by (auto split: prod.split sum.split) (metis snd_conv)+

lemma keeps_ret: "keeps I (ret a)"
  by (simp add: keeps_def triple_ret)

lemma keeps_throw: "keeps I (throw e)"
  by (simp add: keeps_def triple_throw)

lemma keeps_andThen: "keeps I t \<Longrightarrow> (\<And>a. keeps I (k a)) \<Longrightarrow> keeps I (andThen t k)"
  unfolding keeps_def by (rule triple_andThen)

lemma keeps_if: "(b \<Longrightarrow> keeps I s) \<Longrightarrow> (\<not> b \<Longrightarrow> keeps I t) \<Longrightarrow> keeps I (if b then s else t)"
  by simp

lemma keeps_option:
  "(v = None \<Longrightarrow> keeps I s) \<Longrightarrow> (\<And>a. v = Some a \<Longrightarrow> keeps I (t a)) \<Longrightarrow>
     keeps I (case v of None \<Rightarrow> s | Some a \<Rightarrow> t a)"
  by (simp split: option.split)

lemma keeps_sum:
  "(\<And>a. v = Inl a \<Longrightarrow> keeps I (s a)) \<Longrightarrow> (\<And>a. v = Inr a \<Longrightarrow> keeps I (t a)) \<Longrightarrow>
     keeps I (case v of Inl a \<Rightarrow> s a | Inr a \<Rightarrow> t a)"
  by (simp split: sum.split)

lemma keeps_finally: "keeps I t \<Longrightarrow> keeps I cleanup \<Longrightarrow> keeps I (finally_do t cleanup)"
  unfolding keeps_def by (rule triple_finally)

lemma keeps_reads: "keeps I (reads f)"
  by (simp add: keeps_def triple_reads)

lemmas keeps_intros = keeps_ret keeps_throw keeps_andThen keeps_if keeps_option keeps_sum keeps_finally keeps_reads

text \<open>
  \<open>speaks C t\<close>: every event \<open>t\<close> appends to the log satisfies \<open>C\<close>. A predicate on the log that such
  events cannot falsify is kept by \<open>t\<close>.
\<close>

definition speaks :: "(event \<Rightarrow> bool) \<Rightarrow> ('x, 'a) task \<Rightarrow> bool" where
  "speaks C t = (\<forall>r. \<exists>es. trace (snd (t r)) = trace r @ es \<and> list_all C es)"

lemma speaksE:
  assumes "speaks C t"
  obtains es where "trace (snd (t r)) = trace r @ es" "list_all C es"
  using assms unfolding speaks_def by blast

lemma speaks_silent: "(\<And>r. trace (snd (t r)) = trace r) \<Longrightarrow> speaks C t"
  unfolding speaks_def by (metis append_Nil2 list.pred_inject(1))

lemma speaks_ret: "speaks C (ret a)"
  by (rule speaks_silent) (simp add: ret_def)

lemma speaks_throw: "speaks C (throw e)"
  by (rule speaks_silent) (simp add: throw_def)

lemma speaks_reads: "speaks C (reads f)"
  by (rule speaks_silent) (simp add: reads_def)

lemma speaks_modify: "speaks C (modify f)"
  by (rule speaks_silent) (simp add: modify_def)

lemma speaks_ask: "(\<And>a. C (ev a)) \<Longrightarrow> speaks C (ask f ev)"
  by (simp add: speaks_def ask_def split: prod.split)

lemma speaks_attempt: "(\<And>a. C (ev a)) \<Longrightarrow> speaks C (attempt_op f ev)"
  by (simp add: speaks_def attempt_op_def split: prod.split)

lemma speaks_save: "(\<And>s. C (Saved s)) \<Longrightarrow> speaks C (save js)"
  by (simp add: speaks_def save_def)

lemma speaks_andThen:
  assumes "speaks C t" and "\<And>a. speaks C (k a)"
  shows "speaks C (andThen t k)"
  unfolding speaks_def
proof
  fix r
  obtain x r1 where t: "t r = (x, r1)" by fastforce
  obtain es where es: "trace r1 = trace r @ es" "list_all C es"
    using speaksE [OF assms(1), of r] t by auto
  show "\<exists>es. trace (snd (andThen t k r)) = trace r @ es \<and> list_all C es"
  proof (cases x)
    case (Inl e)
    with t es show ?thesis by (simp add: andThen_def)
  next
    case (Inr a)
    obtain fs where "trace (snd (k a r1)) = trace r1 @ fs" "list_all C fs"
      using speaksE [OF assms(2), of a r1] by blast
    with t es Inr show ?thesis by (simp add: andThen_def)
  qed
qed

lemma speaks_finally:
  assumes "speaks C t" and "speaks C cleanup"
  shows "speaks C (finally_do t cleanup)"
  unfolding speaks_def
proof
  fix r
  obtain x r1 where t: "t r = (x, r1)" by fastforce
  obtain y r2 where c: "cleanup r1 = (y, r2)" by fastforce
  obtain es where "trace r1 = trace r @ es" "list_all C es"
    using speaksE [OF assms(1), of r] t by auto
  moreover obtain fs where "trace r2 = trace r1 @ fs" "list_all C fs"
    using speaksE [OF assms(2), of r1] c by auto
  ultimately show "\<exists>es. trace (snd (finally_do t cleanup r)) = trace r @ es \<and> list_all C es"
    using t c by (cases y) (simp_all add: finally_do_def)
qed

lemma speaks_if: "(b \<Longrightarrow> speaks C s) \<Longrightarrow> (\<not> b \<Longrightarrow> speaks C t) \<Longrightarrow> speaks C (if b then s else t)"
  by simp

lemma speaks_option:
  "(v = None \<Longrightarrow> speaks C s) \<Longrightarrow> (\<And>a. v = Some a \<Longrightarrow> speaks C (t a)) \<Longrightarrow>
     speaks C (case v of None \<Rightarrow> s | Some a \<Rightarrow> t a)"
  by (simp split: option.split)

lemma speaks_sum:
  "(\<And>a. v = Inl a \<Longrightarrow> speaks C (s a)) \<Longrightarrow> (\<And>a. v = Inr a \<Longrightarrow> speaks C (t a)) \<Longrightarrow>
     speaks C (case v of Inl a \<Rightarrow> s a | Inr a \<Rightarrow> t a)"
  by (simp split: sum.split)

lemma speaks_pair: "speaks C (t (fst v) (snd v)) \<Longrightarrow> speaks C (case v of (a, b) \<Rightarrow> t a b)"
  by (simp add: case_prod_unfold)

lemma speaks_mark: "(\<And>s. C (Saved s)) \<Longrightarrow> speaks C (mark_and_save js phase)"
  unfolding mark_and_save_def by (intro speaks_andThen speaks_modify speaks_save)

lemmas speaks_intros = speaks_ret speaks_throw speaks_reads speaks_modify speaks_ask speaks_attempt
  speaks_save speaks_andThen speaks_finally speaks_if speaks_option speaks_sum speaks_pair speaks_mark

lemma speaks_weaken: "speaks C t \<Longrightarrow> (\<And>e. C e \<Longrightarrow> D e) \<Longrightarrow> speaks D t"
  unfolding speaks_def by (metis list.pred_mono_strong)

lemma log_grows:
  assumes "list_all C es" and "J t" and "\<And>t e. C e \<Longrightarrow> J t \<Longrightarrow> J (t @ [e])"
  shows "J (t @ es)"
  using assms(1,2)
proof (induction es arbitrary: t)
  case (Cons e es)
  then have "J (t @ [e])" using assms(3) by simp
  with Cons show ?case using Cons.IH [of "t @ [e]"] by simp
qed simp

lemma speaks_keeps:
  fixes t :: "('x, 'a) task"
  assumes "speaks C t" and "\<And>l e. C e \<Longrightarrow> J l \<Longrightarrow> J (l @ [e])"
  shows "keeps (\<lambda>r. J (trace r)) t"
proof (rule keepsI)
  fix r :: "'x run"
  assume "J (trace r)"
  then show "J (trace (snd (t r)))" using speaksE [OF assms(1), of r] log_grows [of C] assms(2) by metis
qed

text \<open>A part of the state that a computation does not touch.\<close>

definition preserves :: "(adw_state \<Rightarrow> 'b) \<Rightarrow> ('x, 'a) task \<Rightarrow> bool" where
  "preserves f t = (\<forall>r. f (adw (snd (t r))) = f (adw r))"

lemma preserves_basic:
  "preserves f (ret a)" "preserves f (throw e)" "preserves f (reads g)" "preserves f (ask h ev)"
  "preserves f (attempt_op h' ev')" "preserves f (save js)"
  by (simp_all add: preserves_def task_defs save_def split: prod.split)

lemma preserves_modify: "(\<And>s. f (g s) = f s) \<Longrightarrow> preserves f (modify g)"
  by (simp add: preserves_def modify_def)

lemma preserves_andThen:
  assumes "preserves f t" and "\<And>a. preserves f (k a)"
  shows "preserves f (andThen t k)"
  unfolding preserves_def
proof
  fix r
  obtain x r1 where t: "t r = (x, r1)" by fastforce
  with assms(1) have "f (adw r1) = f (adw r)" unfolding preserves_def by (metis snd_conv)
  with t assms(2) show "f (adw (snd (andThen t k r))) = f (adw r)"
    by (cases x) (simp_all add: andThen_def preserves_def)
qed

lemma preserves_if: "(b \<Longrightarrow> preserves f s) \<Longrightarrow> (\<not> b \<Longrightarrow> preserves f t) \<Longrightarrow> preserves f (if b then s else t)"
  by simp

lemmas preserves_intros = preserves_basic preserves_modify preserves_andThen preserves_if

end
