(* ===== verification/Loops.thy ===== *)
theory Loops
  imports Workflow
begin

text \<open>
  The bounded loops of the orchestrator (adw_sdlc/src/orchestrator.ts): the test gate, the patching of
  review findings, and the repair of a red CI. A loop is its body, which says whether to go on, and a
  recursion over the body whose counters decrease.
\<close>

section \<open>Shared pieces\<close>

record 'x agent_ctx =
  ag_runner :: "'x agent_runner"
  ag_cliModel :: string
  ag_env :: "(string \<times> string) list"
  ag_timeoutMs :: int
  ag_maxBudgetUsd :: "jsnum option"

type_synonym 'x progress = "string \<Rightarrow> string \<Rightarrow> ('x, unit) task"

record review_finding =
  severity :: string
  description :: string
  location :: string

definition MAX_OUTPUT_CHARS :: nat where
  "MAX_OUTPUT_CHARS = 8000"

definition NO_CHECKS_SETTLE_POLLS :: int where
  "NO_CHECKS_SETTLE_POLLS = 3"

definition ellipsis :: string where
  "ellipsis = [CHR 0xE2, CHR 0x80, CHR 0xA6]"

text \<open>The last part of a long text; characters are counted as the bytes of the representation.\<close>

definition truncate_output :: "string \<Rightarrow> nat \<Rightarrow> string" where
  "truncate_output text limit =
     (if length text \<le> limit then text
      else ellipsis @ ''(truncated)'' @ ellipsis @ [nl] @ drop (length text - limit) text)"

definition render_finding :: "nat \<times> review_finding \<Rightarrow> string" where
  "render_finding x =
     (case x of (idx, f) \<Rightarrow>
        show_nat (idx + 1) @ ''. ['' @ severity f @ '']''
          @ (if location f \<noteq> [] then '' ('' @ location f @ '')'' else []) @ '' '' @ description f)"

definition renderFindings :: "review_finding list \<Rightarrow> string" where
  "renderFindings findings = join_with [nl] (map render_finding (enumerate 0 findings))"

text \<open>The run's cost: \<open>null\<close> once a phase could not report its own, else the sum of the reported ones.\<close>

definition add_cost :: "phase_usage \<Rightarrow> adw_state \<Rightarrow> adw_state" where
  "add_cost u s =
     (case costUsd u of
        Some None \<Rightarrow> s\<lparr>totalCostUsd := Some None\<rparr>
      | None \<Rightarrow> s
      | Some (Some c) \<Rightarrow>
          (case totalCostUsd s of
             Some None \<Rightarrow> s
           | None \<Rightarrow> s\<lparr>totalCostUsd := Some (Some (js_add (Fin 0) c))\<rparr>
           | Some (Some t) \<Rightarrow> s\<lparr>totalCostUsd := Some (Some (js_add t c))\<rparr>))"

definition recordUsage :: "phase_usage \<Rightarrow> ('x, unit) task" where
  "recordUsage u = modify (add_cost u)"

definition phase_call_of :: "agent_phase \<Rightarrow> string list \<Rightarrow> 'x agent_ctx \<Rightarrow> 'x phase_call" where
  "phase_call_of p args agent =
     \<lparr>ca_phase = p, ca_templateArgs = args, ca_runner = ag_runner agent, ca_cliModel = ag_cliModel agent,
      ca_env = ag_env agent, ca_timeoutMs = ag_timeoutMs agent, ca_maxBudgetUsd = ag_maxBudgetUsd agent\<rparr>"

definition invokeAgent ::
  "'x deps \<Rightarrow> agent_phase \<Rightarrow> string list \<Rightarrow> 'x agent_ctx \<Rightarrow> ('x, phase_outcome) task" where
  "invokeAgent deps p args agent =
     andThen (reads adw) (\<lambda>s.
       attempt_op (o_runAgentPhase deps (phase_call_of p args agent) s) (\<lambda>_. Invoked p (ag_env agent)))"

text \<open>\<open>outcome.data.k\<close> where the contract has a number.\<close>

definition num_of :: "obj \<Rightarrow> string \<Rightarrow> jsnum" where
  "num_of data k = (case jget data k of JNum n \<Rightarrow> n | _ \<Rightarrow> NaN)"

fun js_less :: "jsnum \<Rightarrow> jsnum \<Rightarrow> bool" where
  "js_less (Fin a) (Fin b) = (a < b)"
| "js_less (Fin a) PosInf = True"
| "js_less NegInf (Fin b) = True"
| "js_less NegInf PosInf = True"
| "js_less a b = False"

definition js_leq :: "jsnum \<Rightarrow> jsnum \<Rightarrow> bool" where
  "js_leq a b = (js_less a b \<or> a = b \<and> a \<noteq> NaN)"

datatype ('s, 'b) control = Continue 's | Return 'b

section \<open>The test gate\<close>

definition resolve_step ::
  "string list \<Rightarrow> int \<Rightarrow> 'x progress \<Rightarrow> 'x agent_ctx \<Rightarrow> 'x deps \<Rightarrow> int \<Rightarrow> ('x, (int, bool) control) task" where
  "resolve_step gate maxAttempts progress agent deps n =
     andThen (ask (o_runCmd deps gate) (\<lambda>res. Ran gate (rc res))) (\<lambda>res.
       if rc res = 0 then
         andThen (progress ''resolve'' ''test gate is green'') (\<lambda>_. ret (Return True))
       else if maxAttempts \<le> n then
         andThen (progress ''resolve'' (''test gate still failing after '' @ show_int maxAttempts @ '' attempt(s)''))
           (\<lambda>_. ret (Return False))
       else
         andThen (progress ''resolve'' (''test gate failed; resolve attempt '' @ show_int (n + 1) @ ''/''
                    @ show_int maxAttempts)) (\<lambda>_.
         andThen (invokeAgent deps ph_resolve [truncate_output (cmd_output res) MAX_OUTPUT_CHARS] agent) (\<lambda>outcome.
         andThen (recordUsage (out_usage outcome)) (\<lambda>_.
           if num_of (out_data outcome) ''resolved'' = Fin 0 then
             andThen (progress ''resolve'' ''agent resolved nothing; stopping'') (\<lambda>_. ret (Return False))
           else ret (Continue (n + 1))))))"

lemma resolve_step_continues:
  "yields (\<lambda>c. case c of Continue n' \<Rightarrow> n < maxAttempts \<and> n' = n + 1 | Return _ \<Rightarrow> True)
     (resolve_step gate maxAttempts progress agent deps n)"
  unfolding resolve_step_def by (intro yields_intros) simp_all

function resolve_attempts ::
  "string list \<Rightarrow> int \<Rightarrow> 'x progress \<Rightarrow> 'x agent_ctx \<Rightarrow> 'x deps \<Rightarrow> int \<Rightarrow> ('x, bool) task" where
  "resolve_attempts gate maxAttempts progress agent deps n r =
     (case resolve_step gate maxAttempts progress agent deps n r of
        (Inl e, r') \<Rightarrow> (Inl e, r')
      | (Inr (Return b), r') \<Rightarrow> (Inr b, r')
      | (Inr (Continue n'), r') \<Rightarrow> resolve_attempts gate maxAttempts progress agent deps n' r')"
  by pat_completeness auto

termination
proof (relation "measure (\<lambda>(gate, maxAttempts, progress, agent, deps, n, r). nat (maxAttempts - n))", goal_cases)
  case (2 gate maxAttempts progress agent deps n r x r' c n')
  then show ?case using yieldsD [OF resolve_step_continues, of gate maxAttempts progress agent deps n r c r'] by simp
qed simp

text \<open>\<open>resolveLoop\<close>: whether the test gate ended green.\<close>

definition resolveLoop ::
  "string \<Rightarrow> int \<Rightarrow> 'x progress \<Rightarrow> 'x agent_ctx \<Rightarrow> 'x deps \<Rightarrow> ('x, bool) task" where
  "resolveLoop testCmd maxAttempts progress agent deps =
     (if js_trim testCmd = [] then
        andThen (progress ''resolve'' ''no test command configured; skipping test gate'') (\<lambda>_. ret True)
      else resolve_attempts (shellSplit testCmd) maxAttempts progress agent deps 0)"

section \<open>Patching\<close>

definition retryNote :: string where
  "retryNote =
     ''Some of these may already be resolved by a previous attempt. Re-check each ''
     @ ''against the current working tree and only fix the ones that still apply.'' @ [nl, nl]"

text \<open>One turn of the \<open>while\<close>, its test included; the state is the attempt count and what remains.\<close>

definition patch_step ::
  "adw_runtime \<Rightarrow> string \<Rightarrow> int \<Rightarrow> 'x progress \<Rightarrow> 'x agent_ctx \<Rightarrow> 'x deps \<Rightarrow> int \<times> jsnum
     \<Rightarrow> ('x, (int \<times> jsnum, bool) control) task" where
  "patch_step js blockersText maxAttempts progress agent deps st =
     (case st of (n, remaining) \<Rightarrow>
        if \<not> (js_less (Fin 0) remaining \<and> n < maxAttempts) then ret (Return (remaining = Fin 0))
        else
          andThen (progress ''patch'' (''resolving '' @ show_value js (JNum remaining) @ '' blocker(s); attempt ''
                     @ show_int (n + 1) @ ''/'' @ show_int maxAttempts)) (\<lambda>_.
          andThen (invokeAgent deps ph_patch [if n + 1 = 1 then blockersText else retryNote @ blockersText] agent)
            (\<lambda>outcome.
          andThen (recordUsage (out_usage outcome)) (\<lambda>_.
            let resolved = num_of (out_data outcome) ''resolved'';
                rest = num_of (out_data outcome) ''remaining'' in
            if resolved = Fin 0 \<or> js_leq remaining rest then ret (Return (rest = Fin 0))
            else ret (Continue (n + 1, rest))))))"

lemma patch_step_continues:
  "yields (\<lambda>c. case c of Continue st' \<Rightarrow> fst st < maxAttempts \<and> fst st' = fst st + 1 | Return _ \<Rightarrow> True)
     (patch_step js blockersText maxAttempts progress agent deps st)"
  unfolding patch_step_def case_prod_unfold Let_def by (intro yields_intros) simp_all

function patch_attempts ::
  "adw_runtime \<Rightarrow> string \<Rightarrow> int \<Rightarrow> 'x progress \<Rightarrow> 'x agent_ctx \<Rightarrow> 'x deps \<Rightarrow> int \<times> jsnum \<Rightarrow> ('x, bool) task" where
  "patch_attempts js blockersText maxAttempts progress agent deps st r =
     (case patch_step js blockersText maxAttempts progress agent deps st r of
        (Inl e, r') \<Rightarrow> (Inl e, r')
      | (Inr (Return b), r') \<Rightarrow> (Inr b, r')
      | (Inr (Continue st'), r') \<Rightarrow> patch_attempts js blockersText maxAttempts progress agent deps st' r')"
  by pat_completeness auto

termination
proof (relation "measure (\<lambda>(js, text, maxAttempts, progress, agent, deps, st, r). nat (maxAttempts - fst st))",
    goal_cases)
  case (2 js btext maxAttempts progress agent deps st r x r' c st')
  then show ?case
    using yieldsD [OF patch_step_continues, of js btext maxAttempts progress agent deps st r c r'] by simp
qed simp

definition patchLoop ::
  "adw_runtime \<Rightarrow> review_finding list \<Rightarrow> int \<Rightarrow> 'x progress \<Rightarrow> 'x agent_ctx \<Rightarrow> 'x deps \<Rightarrow> ('x, bool) task" where
  "patchLoop js findings maxAttempts progress agent deps =
     (let blockers = filter (\<lambda>f. severity f = ''blocker'') findings;
          others = length findings - length blockers in
      andThen (if 0 < others
               then progress ''patch'' (show_nat others @ '' non-blocker finding(s) reported, not auto-fixed'')
               else ret ()) (\<lambda>_.
        if blockers = [] then andThen (progress ''patch'' ''no blocker findings'') (\<lambda>_. ret True)
        else patch_attempts js (renderFindings blockers) maxAttempts progress agent deps
               (0, Fin (of_nat (length blockers)))))"

section \<open>Repairing CI\<close>

record ci_config =
  ci_ghBin :: string
  ci_repo :: string
  ci_maxAttempts :: int
  ci_pollIntervalMs :: int
  ci_maxPolls :: int

text \<open>The counters of the loop: fix attempts, polls of a pending run, and polls that saw no check.\<close>

record ci_counters =
  cc_attempt :: int
  cc_polls :: int
  cc_nonePolls :: int

definition pause :: "'x deps \<Rightarrow> int \<Rightarrow> ('x, unit) task" where
  "pause deps ms = (if 0 < ms then ask (o_wait deps ms) (\<lambda>_. Slept ms) else ret ())"

definition ci_fix ::
  "string \<Rightarrow> ci_config \<Rightarrow> 'x progress \<Rightarrow> 'x agent_ctx \<Rightarrow> 'x deps \<Rightarrow> string list \<Rightarrow> ci_counters
     \<Rightarrow> ('x, (ci_counters, bool) control) task" where
  "ci_fix pr cfg progress agent deps jobs k =
     (let n = cc_attempt k + 1;
          names = (if join_with '', '' jobs = [] then ''unknown jobs'' else join_with '', '' jobs) in
      andThen (progress ''ci-fix'' (''CI red ('' @ names @ ''); fix attempt '' @ show_int n @ ''/''
                 @ show_int (ci_maxAttempts cfg))) (\<lambda>_.
      andThen (invokeAgent deps ph_resolve [''CI is failing for these checks: '' @ names @ ''. Fix the cause.''] agent)
        (\<lambda>outcome.
      andThen (recordUsage (out_usage outcome)) (\<lambda>_.
        if num_of (out_data outcome) ''resolved'' = Fin 0 then
          andThen (progress ''ci-fix'' ''agent resolved nothing; stopping'') (\<lambda>_. ret (Return False))
        else
          andThen (ask (o_workingTreeDirty deps) (\<lambda>_. Touched ''workingTreeDirty'')) (\<lambda>dirty.
            if \<not> dirty then
              andThen (progress ''ci-fix'' ''agent reported a fix but changed nothing; stopping'')
                (\<lambda>_. ret (Return False))
            else
              andThen (ask (o_commitAll deps (''fix: address CI failures ('' @ names @ '')''))
                         (\<lambda>g. Committed (''fix: address CI failures ('' @ names @ '')'') (g_ok g))) (\<lambda>committed.
                if g_ok committed then
                  andThen (reads adw) (\<lambda>s.
                  andThen (ask (o_push deps (or_default (branchName s) []))
                             (\<lambda>g. Pushed (or_default (branchName s) []) (g_ok g))) (\<lambda>_.
                    ret (Continue (k\<lparr>cc_attempt := n, cc_polls := 0\<rparr>))))
                else ret (Continue (k\<lparr>cc_attempt := n\<rparr>))))))))"

text \<open>What the loop does with a verdict.\<close>

definition ci_react ::
  "string \<Rightarrow> ci_config \<Rightarrow> 'x progress \<Rightarrow> 'x agent_ctx \<Rightarrow> 'x deps \<Rightarrow> ci_counters \<Rightarrow> ci_status
     \<Rightarrow> ('x, (ci_counters, bool) control) task" where
  "ci_react pr cfg progress agent deps k status =
     (case ci_verdict status of
         ci_success \<Rightarrow> andThen (progress ''ci-fix'' ''CI is green'') (\<lambda>_. ret (Return True))
       | ci_none \<Rightarrow>
           if NO_CHECKS_SETTLE_POLLS < cc_nonePolls k + 1 then
             andThen (progress ''ci-fix'' ''no CI checks registered; treating as green'') (\<lambda>_. ret (Return True))
           else andThen (pause deps (ci_pollIntervalMs cfg)) (\<lambda>_.
                  ret (Continue (k\<lparr>cc_nonePolls := cc_nonePolls k + 1\<rparr>)))
       | ci_unknown \<Rightarrow>
           andThen (progress ''ci-fix'' ''could not determine CI status'') (\<lambda>_. ret (Return False))
       | ci_pending \<Rightarrow>
           if ci_maxPolls cfg < cc_polls k + 1 then
             andThen (progress ''ci-fix'' ''CI still pending after polling budget'') (\<lambda>_. ret (Return False))
           else andThen (pause deps (ci_pollIntervalMs cfg)) (\<lambda>_.
                  ret (Continue (k\<lparr>cc_polls := cc_polls k + 1\<rparr>)))
       | ci_failure \<Rightarrow>
           if ci_maxAttempts cfg \<le> cc_attempt k then
             andThen (progress ''ci-fix'' (''CI still red after '' @ show_int (ci_maxAttempts cfg) @ '' fix attempt(s)''))
               (\<lambda>_. ret (Return False))
           else ci_fix pr cfg progress agent deps (failingJobs status) k)"

definition ci_step ::
  "string \<Rightarrow> ci_config \<Rightarrow> 'x progress \<Rightarrow> 'x agent_ctx \<Rightarrow> 'x deps \<Rightarrow> ci_counters
     \<Rightarrow> ('x, (ci_counters, bool) control) task" where
  "ci_step pr cfg progress agent deps k =
     andThen (ask (o_ciStatus deps pr (ci_ghBin cfg) (ci_repo cfg)) (\<lambda>st. PolledCi pr (ci_verdict st)))
       (ci_react pr cfg progress agent deps k)"

text \<open>How the counters move when the loop goes on.\<close>

definition ci_next :: "ci_config \<Rightarrow> ci_counters \<Rightarrow> ci_counters \<Rightarrow> bool" where
  "ci_next cfg k k' =
     (k' = k\<lparr>cc_nonePolls := cc_nonePolls k + 1\<rparr> \<and> cc_nonePolls k < NO_CHECKS_SETTLE_POLLS
      \<or> k' = k\<lparr>cc_polls := cc_polls k + 1\<rparr> \<and> cc_polls k < ci_maxPolls cfg
      \<or> cc_attempt k < ci_maxAttempts cfg
        \<and> (k' = k\<lparr>cc_attempt := cc_attempt k + 1\<rparr> \<or> k' = k\<lparr>cc_attempt := cc_attempt k + 1, cc_polls := 0\<rparr>))"

abbreviation ci_moves :: "ci_config \<Rightarrow> ci_counters \<Rightarrow> (ci_counters, bool) control \<Rightarrow> bool" where
  "ci_moves cfg k c \<equiv> (case c of Continue k' \<Rightarrow> ci_next cfg k k' | Return _ \<Rightarrow> True)"

lemma ci_fix_continues:
  "cc_attempt k < ci_maxAttempts cfg \<Longrightarrow> yields (ci_moves cfg k) (ci_fix pr cfg progress agent deps jobs k)"
  unfolding ci_fix_def Let_def by (intro yields_intros) (simp_all add: ci_next_def)

lemma ci_react_continues: "yields (ci_moves cfg k) (ci_react pr cfg progress agent deps k status)"
  unfolding ci_react_def
  by (cases "ci_verdict status"; simp only: ci_state.case; intro yields_intros ci_fix_continues)
     (simp_all add: ci_next_def)

lemma ci_step_continues: "yields (ci_moves cfg k) (ci_step pr cfg progress agent deps k)"
  unfolding ci_step_def by (intro yields_andThen ci_react_continues)

text \<open>An attempt outweighs the polls between two attempts.\<close>

definition ci_measure :: "ci_config \<Rightarrow> ci_counters \<Rightarrow> nat \<times> nat" where
  "ci_measure cfg k =
     (nat (ci_maxAttempts cfg - cc_attempt k),
      nat (NO_CHECKS_SETTLE_POLLS - cc_nonePolls k) + nat (ci_maxPolls cfg - cc_polls k))"

lemma ci_next_decreases: "ci_next cfg k k' \<Longrightarrow> (ci_measure cfg k', ci_measure cfg k) \<in> less_than <*lex*> less_than"
  by (auto simp: ci_next_def ci_measure_def)

function ci_attempts ::
  "string \<Rightarrow> ci_config \<Rightarrow> 'x progress \<Rightarrow> 'x agent_ctx \<Rightarrow> 'x deps \<Rightarrow> ci_counters \<Rightarrow> ('x, bool) task" where
  "ci_attempts pr cfg progress agent deps k r =
     (case ci_step pr cfg progress agent deps k r of
        (Inl e, r') \<Rightarrow> (Inl e, r')
      | (Inr (Return b), r') \<Rightarrow> (Inr b, r')
      | (Inr (Continue k'), r') \<Rightarrow> ci_attempts pr cfg progress agent deps k' r')"
  by pat_completeness auto

termination
proof (relation "inv_image (less_than <*lex*> less_than) (\<lambda>(pr, cfg, progress, agent, deps, k, r). ci_measure cfg k)",
    goal_cases)
  case (2 pr cfg progress agent deps k r x r' c k')
  then show ?case
    using yieldsD [OF ci_step_continues, of pr cfg progress agent deps k r c r'] ci_next_decreases by simp
qed auto

definition ciFixLoop ::
  "string \<Rightarrow> ci_config \<Rightarrow> 'x progress \<Rightarrow> 'x agent_ctx \<Rightarrow> 'x deps \<Rightarrow> ('x, bool) task" where
  "ciFixLoop pr cfg progress agent deps =
     ci_attempts pr cfg progress agent deps \<lparr>cc_attempt = 0, cc_polls = 0, cc_nonePolls = 0\<rparr>"

declare resolve_attempts.simps [simp del] patch_attempts.simps [simp del] ci_attempts.simps [simp del]

end
