(* ===== verification/Orchestrator.thy ===== *)
theory Orchestrator
  imports Loops
begin

text \<open>
  The workflow run itself (adw_sdlc/src/orchestrator.ts): the confirmation of a merge, the
  arguments of the phases, what a phase's result leaves in the state, the setup, the phases in
  order, the finalization that ends in a merge, and \<open>run\<close>.
\<close>

section \<open>Phase arguments and results\<close>

definition issueBlob :: "int \<Rightarrow> issue_context \<Rightarrow> string" where
  "issueBlob inum ctx =
     js_trim (''GitHub issue #'' @ show_int inum @ '': '' @ title ctx @ [nl] @ ''Labels: ''
       @ join_with '' '' (labels ctx) @ [nl, nl] @ body ctx)"

text \<open>A string or \<open>null\<close> inside a template literal.\<close>

definition show_nullable :: "string option \<Rightarrow> string" where
  "show_nullable s = or_default s ''null''"

definition phaseArgs :: "agent_phase \<Rightarrow> int \<Rightarrow> adw_state \<Rightarrow> issue_context \<Rightarrow> string list \<Rightarrow> string list" where
  "phaseArgs p inum s ctx fs =
     (let blob = issueBlob inum ctx;
          on_branch = ''Issue #'' @ show_int inum @ '' on branch '' @ show_nullable (branchName s) in
      case p of
        ph_classify \<Rightarrow> [show_int inum, blob]
      | ph_plan \<Rightarrow> [blob]
      | ph_implement \<Rightarrow> [or_default (planFile s) ''(no spec; implement directly from the issue)'', blob]
      | ph_tests \<Rightarrow> [on_branch @ '': add focused coverage for this change.'' @ [nl, nl] @ blob]
      | ph_e2e \<Rightarrow> [on_branch @ '': add e2e coverage if warranted.'' @ [nl, nl] @ blob]
      | ph_review \<Rightarrow> [or_default (planFile s) [], blob]
      | ph_document \<Rightarrow>
          [''Change for issue #'' @ show_int inum @ ''; files changed: ''
             @ (if join_with '', '' fs = [] then ''n/a'' else join_with '', '' fs) @ ''.'' @ [nl, nl] @ blob]
      | _ \<Rightarrow> [blob])"

text \<open>A missing file is ignored, and so is an empty one.\<close>

definition absorbAuthoredText :: "adw_runtime \<Rightarrow> (string \<Rightarrow> string option) \<Rightarrow> adw_state \<Rightarrow> adw_state" where
  "absorbAuthoredText js read s =
     (let authored = (\<lambda>path. case read path of
                               None \<Rightarrow> None
                             | Some raw \<Rightarrow> if js_trim raw = [] then None else Some (js_trim raw));
          s1 = (case authored (commitMessagePath js s) of None \<Rightarrow> s | Some t \<Rightarrow> s\<lparr>commitMessage := Some t\<rparr>) in
      case authored (prBodyPath js s) of None \<Rightarrow> s1 | Some t \<Rightarrow> s1\<lparr>prBody := Some t\<rparr>)"

definition applyResult :: "agent_phase \<Rightarrow> obj \<Rightarrow> adw_state \<Rightarrow> adw_state" where
  "applyResult p result s =
     (if p = ph_classify then s\<lparr>issueClass := readString (jget result ''issue_class'')\<rparr>
      else if p = ph_plan then
        (case nonempty_string (jget result ''plan_file'') of None \<Rightarrow> s | Some f \<Rightarrow> s\<lparr>planFile := Some f\<rparr>)
      else s)"

text \<open>The findings of a review result, and those stored in the state by an earlier run.\<close>

definition finding_of :: "obj \<Rightarrow> review_finding" where
  "finding_of ob =
     \<lparr>severity = or_default (readString (jget ob ''severity'')) [],
      description = or_default (readString (jget ob ''description'')) [],
      location = or_default (readString (jget ob ''location'')) []\<rparr>"

definition review_findings :: "obj \<Rightarrow> review_finding list" where
  "review_findings result =
     (case jget result ''findings'' of
        JArr fs \<Rightarrow> map finding_of (List.map_filter asRecord fs) | _ \<Rightarrow> [])"

definition finding_record :: "review_finding \<Rightarrow> obj" where
  "finding_record f =
     [(''severity'', JStr (severity f)), (''description'', JStr (description f)), (''location'', JStr (location f))]"

definition findingsFromState :: "adw_runtime \<Rightarrow> adw_state \<Rightarrow> review_finding list" where
  "findingsFromState js s =
     map (\<lambda>f. \<lparr>severity = js_String js (nullish (jget f ''severity'') (JStr ''skippable'')),
               description = js_String js (nullish (jget f ''description'') (JStr [])),
               location = js_String js (nullish (jget f ''location'') (JStr []))\<rparr>) (reviewFindings s)"

section \<open>Setup\<close>

definition setup_run ::
  "adw_runtime \<Rightarrow> string option \<Rightarrow> string \<Rightarrow> int \<Rightarrow> issue_context \<Rightarrow> string \<Rightarrow> 'x progress \<Rightarrow> 'x deps
     \<Rightarrow> ('x, unit) task" where
  "setup_run js gh repo inum ctx bs progress deps =
     andThen (reads adw) (\<lambda>s.
     let branch = deriveBranch js inum (title ctx) (labels ctx) (Some (adwId s)) in
     andThen (modify (\<lambda>s. s\<lparr>branchName := Some branch\<rparr>)) (\<lambda>_.
     andThen (ask (o_createOrCheckoutBranch deps branch bs) (\<lambda>g. Branched branch (g_ok g))) (\<lambda>g.
       if \<not> g_ok g then
         throw (AdwError (''failed to create/checkout branch '' @ branch @ '': '' @ show_nullable (g_error g)))
       else
         andThen (progress ''setup'' (''on branch '' @ branch)) (\<lambda>_.
           if \<not> truthy_bin gh then ret ()
           else
             andThen (ask (o_capture deps ([the gh, ''issue'', ''edit'', show_int inum, ''--add-assignee'', ''@me'']
                             @ repo_flag repo)) (\<lambda>_. Touched ''assignee'')) (\<lambda>_.
             let owner = (if repo = [] then [] else hd (split_on (CHR ''/'') repo)) in
             if owner = [] then ret ()
             else andThen (ask (o_setStatus deps (the gh) owner inum ''In Progress'') (\<lambda>_. Touched ''board''))
                    (\<lambda>_. ret ()))))))"

section \<open>Finalization\<close>

definition DEFAULT_FINALIZE_GATES :: "string list" where
  "DEFAULT_FINALIZE_GATES = []"

definition finalizeGates :: "string \<Rightarrow> string list \<Rightarrow> string list" where
  "finalizeGates testCmd extraGates =
     (let gates = DEFAULT_FINALIZE_GATES @ extraGates in
      if testCmd \<noteq> [] then testCmd # gates else gates)"

text \<open>The extra gates come from the process environment, not from the injected one.\<close>

definition extra_gates :: "phase_tools \<Rightarrow> string list" where
  "extra_gates tools =
     filter (\<lambda>g. g \<noteq> [])
       (map js_trim (split_on nl (or_default (process_env tools ''MX_AGENT_FINALIZE_GATES'') [])))"

primrec run_gates :: "string list \<Rightarrow> 'x progress \<Rightarrow> 'x deps \<Rightarrow> ('x, unit) task" where
  "run_gates [] progress deps = ret ()"
| "run_gates (gate # gates) progress deps =
     andThen (ask (o_runCmd deps (shellSplit gate)) (\<lambda>res. Ran (shellSplit gate) (rc res))) (\<lambda>res.
       if rc res \<noteq> 0 then
         andThen (progress ''finalize'' (''gate failed: '' @ gate @ ''; not merging''))
           (\<lambda>_. throw (AdwError (''pre-merge gate failed: '' @ gate)))
       else run_gates gates progress deps)"

definition confirmMerge :: "bool \<Rightarrow> bool \<Rightarrow> 'x deps \<Rightarrow> ('x, unit) task" where
  "confirmMerge yes tty deps =
     (if yes then ret ()
      else if \<not> tty then throw (AdwError ''refusing to merge unattended without --yes / MX_AGENT_YES=1'')
      else andThen (ask (o_confirm deps ''>> About to squash-merge this PR to main. Continue? [y/N] '') Confirmed) (\<lambda>ok.
             if \<not> ok then throw (AdwError ''aborted'') else ret ()))"

record 'x final_ctx =
  fc_gh :: "string option"
  fc_repo :: string
  fc_issue :: int
  fc_agent :: "'x agent_ctx"
  fc_progress :: "'x progress"

definition issue_label :: "int \<Rightarrow> string" where
  "issue_label inum = ''issue #'' @ show_int inum"

text \<open>The run whose merge is already recorded.\<close>

definition already_merged :: "resolved_options \<Rightarrow> 'x final_ctx \<Rightarrow> 'x deps \<Rightarrow> ('x, int) task" where
  "already_merged opts fc deps =
     andThen (reads adw) (\<lambda>s.
     andThen (fc_progress fc ''report'' (''merge already completed for '' @ adwId s @ ''; nothing to finalize'')) (\<lambda>_.
       if op_verify opts \<and> truthy_bin (fc_gh fc) then
         andThen (ask (o_issueState deps (fc_gh fc) (fc_issue fc) (fc_repo fc)) IssueSeen) (\<lambda>st.
           if st \<noteq> ''CLOSED'' then
             throw (AdwError (issue_label (fc_issue fc) @ '' is '' @ st
                      @ '' despite a recorded merge; treating as failure''))
           else ret 0)
       else ret 0))"

definition commit_and_push :: "'x final_ctx \<Rightarrow> 'x deps \<Rightarrow> ('x, unit) task" where
  "commit_and_push fc deps =
     andThen (reads adw) (\<lambda>s.
     let msg = or_default (commitMessage s)
                 (''feat: implement issue #'' @ show_int (fc_issue fc) @ [nl, nl] @ ''closes #'' @ show_int (fc_issue fc));
         branch = or_default (branchName s) [] in
     andThen (ask (o_commitAll deps msg) (\<lambda>g. Committed msg (g_ok g))) (\<lambda>committed.
       if \<not> g_ok committed then throw (AdwError (''commit failed: '' @ show_nullable (g_error committed)))
       else
         andThen (ask (o_push deps branch) (\<lambda>g. Pushed branch (g_ok g))) (\<lambda>pushed.
           if \<not> g_ok pushed then throw (AdwError (''push failed: '' @ show_nullable (g_error pushed)))
           else ret ())))"

definition num_of_nat :: "nat option \<Rightarrow> jsnum option" where
  "num_of_nat n = map_option (\<lambda>k. Fin (of_nat k)) n"

definition ensure_pr :: "resolved_options \<Rightarrow> 'x final_ctx \<Rightarrow> string \<Rightarrow> 'x deps \<Rightarrow> ('x, unit) task" where
  "ensure_pr opts fc gh deps =
     andThen (reads adw) (\<lambda>s.
     let branch = or_default (branchName s) [] in
     andThen (attempt_op (o_prForBranch deps branch gh (fc_repo fc)) (\<lambda>x. FoundPr (case x of Inr u \<Rightarrow> u | Inl _ \<Rightarrow> None))) (\<lambda>found.
       if truthy_bin found then
         modify (\<lambda>s. s\<lparr>prUrl := found, prNumber := num_of_nat (prNumberFromUrl (the found))\<rparr>)
       else
         (let heading = hd (split_on nl (or_default (commitMessage s) (''Implement issue #'' @ show_int (fc_issue fc))));
              text = or_default (prBody s) (''Closes #'' @ show_int (fc_issue fc)) in
          andThen (ask (o_createPr deps branch heading text (op_base opts) gh (fc_repo fc)) (\<lambda>c. OpenedPr (pr_number c)))
            (\<lambda>created.
              if truthy_bin (pr_error created) then
                throw (AdwError (''failed to open PR: '' @ the (pr_error created)))
              else modify (\<lambda>s. s\<lparr>prNumber := num_of_nat (pr_number created), prUrl := pr_url created\<rparr>)))))"

definition ci_config_of :: "resolved_options \<Rightarrow> 'x final_ctx \<Rightarrow> string \<Rightarrow> ci_config" where
  "ci_config_of opts fc gh =
     \<lparr>ci_ghBin = gh, ci_repo = fc_repo fc, ci_maxAttempts = op_maxCiFix opts,
      ci_pollIntervalMs = op_ciPollIntervalMs opts, ci_maxPolls = op_ciMaxPolls opts\<rparr>"

definition await_ci :: "adw_runtime \<Rightarrow> resolved_options \<Rightarrow> 'x final_ctx \<Rightarrow> string \<Rightarrow> 'x deps \<Rightarrow> ('x, unit) task" where
  "await_ci js opts fc gh deps =
     andThen (reads adw) (\<lambda>s.
       case prNumber s of
         None \<Rightarrow> ret ()
       | Some n \<Rightarrow>
           andThen (ciFixLoop (show_value js (JNum n)) (ci_config_of opts fc gh) (fc_progress fc) (fc_agent fc) deps) (\<lambda>ok.
             if \<not> ok then throw (AdwError ''CI is not green; refusing to merge'') else ret ()))"

text \<open>\<open>state.prNumber ?? state.prUrl ?? ''\<close>, as the command line shows it.\<close>

definition merge_target :: "adw_runtime \<Rightarrow> adw_state \<Rightarrow> string" where
  "merge_target js s =
     (case prNumber s of Some n \<Rightarrow> show_value js (JNum n) | None \<Rightarrow> or_default (prUrl s) [])"

definition merge_pr :: "adw_runtime \<Rightarrow> resolved_options \<Rightarrow> 'x final_ctx \<Rightarrow> string \<Rightarrow> 'x deps \<Rightarrow> ('x, unit) task" where
  "merge_pr js opts fc gh deps =
     andThen (reads adw) (\<lambda>s.
     andThen (ask (o_squashMerge deps (merge_target js s) gh (fc_repo fc)) (\<lambda>g. Merged (merge_target js s) (g_ok g)))
       (\<lambda>merged.
         if \<not> g_ok merged then throw (AdwError (''merge failed: '' @ show_nullable (g_error merged)))
         else
           andThen (ask (o_pullRebase deps (op_base opts)) (\<lambda>_. Rebased (op_base opts))) (\<lambda>_.
             mark_and_save js ''merge'')))"

definition verify_closed :: "resolved_options \<Rightarrow> 'x final_ctx \<Rightarrow> 'x deps \<Rightarrow> ('x, unit) task" where
  "verify_closed opts fc deps =
     (if \<not> op_verify opts then ret ()
      else andThen (ask (o_issueState deps (fc_gh fc) (fc_issue fc) (fc_repo fc)) IssueSeen) (\<lambda>st.
        if st \<noteq> ''CLOSED'' then
          throw (AdwError (issue_label (fc_issue fc) @ '' is still '' @ st @ '' after merge; treating as failure''))
        else fc_progress fc ''report'' (''verified: '' @ issue_label (fc_issue fc) @ '' is CLOSED'')))"

definition finalizeAndMerge ::
  "adw_runtime \<Rightarrow> phase_tools \<Rightarrow> resolved_options \<Rightarrow> 'x final_ctx \<Rightarrow> 'x deps \<Rightarrow> ('x, int) task" where
  "finalizeAndMerge js tools opts fc deps =
     andThen (reads (\<lambda>r. isDone (adw r) ''merge'')) (\<lambda>merged.
       if merged then already_merged opts fc deps
       else
         andThen (run_gates (finalizeGates (op_testCmd opts) (extra_gates tools)) (fc_progress fc) deps) (\<lambda>_.
         andThen (fc_progress fc ''finalize'' ''all pre-merge gates green'') (\<lambda>_.
         andThen (commit_and_push fc deps) (\<lambda>_.
           if \<not> truthy_bin (fc_gh fc) then
             throw (AdwError ''gh not found; cannot open or merge a PR (install gh or set GH_BIN)'')
           else
             (let gh = the (fc_gh fc) in
              andThen (ensure_pr opts fc gh deps) (\<lambda>_.
              andThen (save js) (\<lambda>_.
              andThen (andThen (reads adw) (\<lambda>s. fc_progress fc ''finalize'' (''PR ready: '' @ show_nullable (prUrl s)))) (\<lambda>_.
              andThen (await_ci js opts fc gh deps) (\<lambda>_.
              andThen (ask (o_isatty deps) (\<lambda>_. Touched ''isatty'')) (\<lambda>tty.
              andThen (confirmMerge (assumeYes (op_yes opts) (env_of (o_env deps))) tty deps) (\<lambda>_.
              andThen (merge_pr js opts fc gh deps) (\<lambda>_.
              andThen (verify_closed opts fc deps) (\<lambda>_.
              andThen (reads adw) (\<lambda>s.
              andThen (fc_progress fc ''report'' (''phased run '' @ adwId s @ '' complete'')) (\<lambda>_. ret 0)))))))))))))))"

section \<open>The state of a run\<close>

text \<open>Whether the run is resumed; the state is the loaded one or a new one.\<close>

definition adopt_state :: "adw_runtime \<Rightarrow> int \<Rightarrow> bool \<Rightarrow> adw_state \<Rightarrow> ('x, bool) task" where
  "adopt_state js inum resumed s =
     (if resumed \<and> truthy_bin (issueNumber s) \<and> issueNumber s \<noteq> Some (show_int inum)
      then throw (AdwError (''adw_id '' @ adwId s @ '' belongs to issue #'' @ the (issueNumber s) @ '', not #'' @ show_int inum))
      else andThen (modify (\<lambda>_. s\<lparr>issueNumber := Some (show_int inum)\<rparr>)) (\<lambda>_.
           andThen (save js) (\<lambda>_. ret resumed)))"

definition fresh_state :: "adw_runtime \<Rightarrow> resolved_options \<Rightarrow> int \<Rightarrow> 'x deps \<Rightarrow> ('x, adw_state) task" where
  "fresh_state js opts inum deps =
     andThen (if truthy_bin (op_adwId opts) then ret (the (op_adwId opts))
              else ask (o_makeAdwId deps) (\<lambda>_. Touched ''makeAdwId'')) (\<lambda>i.
       case validateAdwId js i of
         Inl e \<Rightarrow> throw e
       | Inr i' \<Rightarrow> ret ((new_state i')\<lparr>issueNumber := Some (show_int inum), base := op_base opts\<rparr>))"

definition load_existing :: "adw_runtime \<Rightarrow> resolved_options \<Rightarrow> ('x, adw_state option) task" where
  "load_existing js opts =
     (if \<not> truthy_bin (op_adwId opts) then ret None
      else andThen (reads (\<lambda>r. load_state js (files (machine r)) (the (op_adwId opts)))) (\<lambda>loaded.
             case loaded of Inl e \<Rightarrow> throw e | Inr existing \<Rightarrow> ret existing))"

definition resolveState :: "adw_runtime \<Rightarrow> resolved_options \<Rightarrow> int \<Rightarrow> 'x deps \<Rightarrow> ('x, bool) task" where
  "resolveState js opts inum deps =
     (if op_resume opts \<and> \<not> truthy_bin (op_adwId opts) then throw (AdwError ''--resume requires --adw-id <id>'')
      else
        andThen (load_existing js opts) (\<lambda>existing.
          if \<not> op_resume opts \<and> existing \<noteq> None then
            throw (AdwError (''adw_id '' @ the (op_adwId opts) @ '' already has saved state; pass --resume to continue it''))
          else case existing of
                 Some s \<Rightarrow> adopt_state js inum True s
               | None \<Rightarrow> andThen (fresh_state js opts inum deps) (adopt_state js inum False)))"

section \<open>The phases\<close>

record phase_vars =
  pv_review :: "review_finding list option"
  pv_files :: "string list"
  pv_signal :: string

record 'x phase_ctx =
  pc_issue :: int
  pc_ctx :: issue_context
  pc_opts :: resolved_options
  pc_agent :: "'x agent_ctx"
  pc_progress :: "'x progress"

definition runner_nm :: "'x phase_ctx \<Rightarrow> string" where
  "runner_nm pc = runner_name (runner_ident (ag_runner (pc_agent pc)))"

definition classifyOnSharedSdk :: "environment \<Rightarrow> bool" where
  "classifyOnSharedSdk env =
     (env ''MX_AGENT_CLASSIFY_ON_RUNNER'' \<noteq> Some ''1'' \<and> js_trim (or_default (env ''ANTHROPIC_API_KEY'') []) \<noteq> [])"

text \<open>Writing a file, as a step of a run that its failure ends.\<close>

definition write_task :: "string \<Rightarrow> string \<Rightarrow> ('x, unit) task" where
  "write_task path text = attempt_op (write_file path text) (\<lambda>_. Touched ''writeFile'')"

definition lift_sum :: "adw_failure + 'a \<Rightarrow> ('x, 'a) task" where
  "lift_sum x = (case x of Inl e \<Rightarrow> throw e | Inr a \<Rightarrow> ret a)"

definition classify_shared :: "adw_runtime \<Rightarrow> 'x phase_ctx \<Rightarrow> 'x deps \<Rightarrow> phase_vars \<Rightarrow> ('x, phase_vars) task" where
  "classify_shared js pc deps v =
     andThen (reads adw) (\<lambda>s.
     andThen (andThen (reads (\<lambda>r. composePhasePrompt js (files (machine r)) ph_classify
                (phaseArgs ph_classify (pc_issue pc) s (pc_ctx pc) (pv_files v)) s (runner_nm pc) False)) lift_sum) (\<lambda>prompt.
     andThen (lift_sum (phaseDir js s ''classify'')) (\<lambda>dir.
     andThen (write_task (path_join dir ''prompt.txt'') prompt) (\<lambda>_.
     andThen (attempt_op (o_classify deps prompt
                (if 0 < op_timeoutMs (pc_opts pc) then Some (op_timeoutMs (pc_opts pc)) else None)) (\<lambda>_. Classified prompt))
       (\<lambda>answer. case answer of (value, u) \<Rightarrow>
     andThen (write_task (path_join dir ''transcript.log'') (pretty js (JObj value) @ [nl])) (\<lambda>_.
     andThen (recordUsage u) (\<lambda>_.
     andThen (modify (applyResult ph_classify value)) (\<lambda>_.
     andThen (mark_and_save js ''classify'') (\<lambda>_.
     andThen (pc_progress pc ''classify'' ''done'') (\<lambda>_. ret v))))))))))"

definition agent_phase_task ::
  "adw_runtime \<Rightarrow> 'x phase_ctx \<Rightarrow> 'x deps \<Rightarrow> agent_phase \<Rightarrow> phase_vars \<Rightarrow> ('x, phase_vars) task" where
  "agent_phase_task js pc deps p v =
     andThen (reads adw) (\<lambda>s.
     andThen (invokeAgent deps p (phaseArgs p (pc_issue pc) s (pc_ctx pc) (pv_files v)) (pc_agent pc)) (\<lambda>outcome.
     let result = out_data outcome in
     andThen (recordUsage (out_usage outcome)) (\<lambda>_.
     andThen (modify (applyResult p result)) (\<lambda>_.
     andThen (if p = ph_review \<or> p = ph_document
              then andThen (reads (\<lambda>r. files (machine r))) (\<lambda>read. modify (absorbAuthoredText js read))
              else ret ()) (\<lambda>_.
     andThen (if p = ph_review
              then modify (\<lambda>s. s\<lparr>reviewFindings := map finding_record (review_findings result)\<rparr>)
              else ret ()) (\<lambda>_.
     let v1 = (if p = ph_review then v\<lparr>pv_review := Some (review_findings result)\<rparr> else v);
         changed = readStringArray (jget result ''files_changed'');
         fs = (if changed \<noteq> [] then changed else pv_files v1);
         v2 = (if p = ph_implement
               then v1\<lparr>pv_files := fs, pv_signal := pv_signal v1 @ '' '' @ join_with '' '' fs\<rparr> else v1) in
     andThen (mark_and_save js (phase_name p)) (\<lambda>_.
     andThen (pc_progress pc (phase_name p) ''done'') (\<lambda>_. ret v2))))))))"

definition run_phase ::
  "adw_runtime \<Rightarrow> 'x phase_ctx \<Rightarrow> 'x deps \<Rightarrow> agent_phase \<Rightarrow> phase_vars \<Rightarrow> ('x, phase_vars) task" where
  "run_phase js pc deps p v =
     (if p = ph_resolve then
        andThen (resolveLoop (op_testCmd (pc_opts pc)) (op_maxResolve (pc_opts pc)) (pc_progress pc) (pc_agent pc) deps) (\<lambda>_.
        andThen (mark_and_save js (phase_name p)) (\<lambda>_. ret v))
      else if p = ph_patch then
        andThen (reads adw) (\<lambda>s.
        andThen (patchLoop js (case pv_review v of Some fs \<Rightarrow> fs | None \<Rightarrow> findingsFromState js s)
                   (op_maxPatch (pc_opts pc)) (pc_progress pc) (pc_agent pc) deps) (\<lambda>_.
        andThen (mark_and_save js (phase_name p)) (\<lambda>_. ret v)))
      else if p = ph_classify \<and> classifyOnSharedSdk (env_of (o_env deps)) then classify_shared js pc deps v
      else agent_phase_task js pc deps p v)"

text \<open>One turn of the loop over the phases: a completed phase is skipped, a conditional one gated.\<close>

definition phase_turn ::
  "adw_runtime \<Rightarrow> 'x phase_ctx \<Rightarrow> 'x deps \<Rightarrow> agent_phase \<Rightarrow> phase_vars \<Rightarrow> ('x, phase_vars) task" where
  "phase_turn js pc deps p v =
     andThen (reads (\<lambda>r. isDone (adw r) (phase_name p))) (\<lambda>already.
       if already then ret v
       else if p \<in> CONDITIONAL_PHASES then
         andThen (lift_sum (gateConditional p (pv_signal v) (pv_files v))) (\<lambda>gate.
           if \<not> runIt gate then
             andThen (pc_progress pc (phase_name p) (''skipped: '' @ reason gate)) (\<lambda>_.
             andThen (mark_and_save js (phase_name p)) (\<lambda>_. ret v))
           else run_phase js pc deps p v)
       else run_phase js pc deps p v)"

primrec run_phases ::
  "adw_runtime \<Rightarrow> 'x phase_ctx \<Rightarrow> 'x deps \<Rightarrow> agent_phase list \<Rightarrow> phase_vars \<Rightarrow> ('x, phase_vars) task" where
  "run_phases js pc deps [] v = ret v"
| "run_phases js pc deps (p # ps) v = andThen (phase_turn js pc deps p v) (run_phases js pc deps ps)"

section \<open>The run\<close>

text \<open>What \<open>printPlan\<close> writes to standard output.\<close>

definition plan_lines :: "int \<Rightarrow> runner_id \<Rightarrow> agent_phase list \<Rightarrow> resolved_options \<Rightarrow> string list" where
  "plan_lines inum r phases opts =
     [''[dry-run] phased run for issue #'' @ show_int inum @ '' via '' @ runner_name r,
      ''[dry-run] phases: '' @ join_with '' -> ''
         ([''setup(ts)''] @ map phase_name phases @ [''finalize(ts)'', ''ci-fix(ts)'', ''merge(ts)'', ''report(ts)'']),
      ''[dry-run] agent env: GH_TOKEN withheld (allowGhToken=false)''
         @ (if op_inheritEnv opts then ''; inherited (--inherit-env)'' else []),
      ''[dry-run] test gate: '' @ (if op_testCmd opts = [] then ''(none configured)'' else op_testCmd opts)]"

text \<open>The check of the issue before a run: whether to go on, or to end with exit code 0.\<close>

definition check_issue ::
  "resolved_options \<Rightarrow> string option \<Rightarrow> string \<Rightarrow> int \<Rightarrow> 'x deps \<Rightarrow> ('x, bool) task" where
  "check_issue opts gh repo inum deps =
     (if \<not> (op_verify opts \<or> \<not> op_force opts) then ret True
      else if \<not> truthy_bin gh then
        (if op_verify opts then
           throw (AdwError ''gh not found but verification is on; install gh, set GH_BIN, or pass --no-verify'')
         else ret True)
      else
        andThen (ask (o_issueState deps gh inum repo) IssueSeen) (\<lambda>st.
          if st = ''CLOSED'' \<and> \<not> op_force opts then ret False
          else if st = ''UNKNOWN'' then
            throw (AdwError (issue_label inum @ '' not found in ''
                     @ (if repo = [] then ''the current repo'' else repo) @ '' (is gh authenticated?)''))
          else ret True))"

definition agent_env :: "resolved_options \<Rightarrow> runner_id \<Rightarrow> (string \<times> string option) list \<Rightarrow> (string \<times> string) list" where
  "agent_env opts r env =
     (if op_inheritEnv opts then definedEnv env else adwSubprocessEnv False (Some r) [] (env_of env))"

text \<open>\<open>progress\<close>: a comment on the issue, unless comments are off.\<close>

definition progress_of :: "resolved_options \<Rightarrow> string option \<Rightarrow> int \<Rightarrow> string \<Rightarrow> 'x deps \<Rightarrow> 'x progress" where
  "progress_of opts gh inum repo deps phase message =
     (if op_noProgress opts then ret ()
      else andThen (reads adw) (\<lambda>s.
             ask (o_postProgress deps gh inum repo (adwId s) phase message) (\<lambda>_. Posted phase message)))"

definition optional_step :: "('x, adw_failure + unit) op option \<Rightarrow> string \<Rightarrow> ('x, unit) task" where
  "optional_step f label = (case f of None \<Rightarrow> ret () | Some g \<Rightarrow> attempt_op g (\<lambda>_. Touched label))"

definition issue_signal :: "issue_context \<Rightarrow> string list \<Rightarrow> string" where
  "issue_signal ctx fs = join_with '' '' [title ctx, body ctx, join_with '' '' (labels ctx), join_with '' '' fs]"

text \<open>The part of a run after its state is resolved.\<close>

definition work_on ::
  "adw_runtime \<Rightarrow> phase_tools \<Rightarrow> resolved_options \<Rightarrow> agent_phase list \<Rightarrow> string option \<Rightarrow> string \<Rightarrow> int
     \<Rightarrow> 'x agent_runner \<Rightarrow> 'x deps \<Rightarrow> ('x, int) task" where
  "work_on js tools opts phases gh repo inum rn deps =
     (let progress = progress_of opts gh inum repo deps;
          agent = \<lparr>ag_runner = rn, ag_cliModel = op_model opts,
                   ag_env = agent_env opts (runner_ident rn) (o_env deps),
                   ag_timeoutMs = op_timeoutMs opts, ag_maxBudgetUsd = op_maxBudgetUsd opts\<rparr> in
      andThen (andThen (reads adw) (\<lambda>s. progress ''ops'' (''starting phased run '' @ adwId s))) (\<lambda>_.
      andThen (ask (o_fetchIssue deps gh inum repo) (\<lambda>_. Touched ''fetchIssue'')) (\<lambda>fetched.
      let ctx = or_default fetched no_issue in
      andThen (reads (\<lambda>r. isDone (adw r) ''setup'')) (\<lambda>ready.
      andThen (if ready then ret ()
               else andThen (setup_run js gh repo inum ctx (op_base opts) progress deps)
                      (\<lambda>_. mark_and_save js ''setup'')) (\<lambda>_.
      andThen (ask (o_changedFiles deps (op_base opts)) (\<lambda>_. Touched ''changedFiles'')) (\<lambda>fs.
      andThen (optional_step (runner_start rn) ''start'') (\<lambda>_.
        finally_do
          (andThen (run_phases js \<lparr>pc_issue = inum, pc_ctx = ctx, pc_opts = opts, pc_agent = agent, pc_progress = progress\<rparr>
                      deps phases \<lparr>pv_review = None, pv_files = fs, pv_signal = issue_signal ctx fs\<rparr>) (\<lambda>_.
             finalizeAndMerge js tools opts
               \<lparr>fc_gh = gh, fc_repo = repo, fc_issue = inum, fc_agent = agent, fc_progress = progress\<rparr> deps))
          (optional_step (runner_stop rn) ''stop''))))))))"

definition run_task ::
  "adw_runtime \<Rightarrow> phase_tools \<Rightarrow> int \<Rightarrow> 'x agent_runner \<Rightarrow> run_options \<Rightarrow> 'x deps \<Rightarrow> ('x, int) task" where
  "run_task js tools inum rn options deps =
     (let opts = resolveOptions options; gh = o_resolveGhBin deps in
      andThen (lift_sum (parsePhases (op_phases opts))) (\<lambda>phases.
        if op_dryRun opts then ret 0
        else
          andThen (if truthy_bin (op_repo opts) then ret (the (op_repo opts))
                   else ask (o_detectRepo deps gh) (\<lambda>_. Touched ''detectRepo'')) (\<lambda>repo.
          andThen (check_issue opts gh repo inum deps) (\<lambda>go_on.
            if \<not> go_on then ret 0
            else
              andThen (resolveState js opts inum deps) (\<lambda>resumed.
              andThen (modify (\<lambda>s. s\<lparr>engine := Some ''ts'', runner := Some (runner_name (runner_ident rn))\<rparr>)) (\<lambda>_.
              andThen (save js) (\<lambda>_.
              andThen (if op_allowDirty opts \<or> resumed then ret False
                       else ask (o_workingTreeDirty deps) (\<lambda>_. Touched ''workingTreeDirty'')) (\<lambda>dirty.
                if dirty then throw (AdwError ''working tree is dirty; commit/stash first or pass --allow-dirty'')
                else work_on js tools opts phases gh repo inum rn deps))))))))"

text \<open>A run starts with an empty log; the state it works on is set by \<open>resolveState\<close>.\<close>

definition run_workflow ::
  "adw_runtime \<Rightarrow> phase_tools \<Rightarrow> int \<Rightarrow> 'x agent_runner \<Rightarrow> run_options \<Rightarrow> 'x deps \<Rightarrow> 'x machine
     \<Rightarrow> (adw_failure + int) \<times> 'x run" where
  "run_workflow js tools inum rn options deps m =
     run_task js tools inum rn options deps \<lparr>machine = m, adw = new_state [], trace = []\<rparr>"

end
