(* ===== verification/Runs.thy ===== *)
theory Runs
  imports Orchestrator
begin

text \<open>
  What holds of every workflow run, whatever its dependencies do: how the loops are bounded, which
  events a computation can put on the log, that completed phases are not repeated and always saved,
  and what a merge has behind it.
\<close>

section \<open>Vocabularies\<close>

text \<open>
  The events of the loops: no merge, no saved state, and no agent but those of \<open>ps\<close>, each with the
  environment \<open>env\<close>.
\<close>

definition busy :: "(string \<times> string) list \<Rightarrow> agent_phase set \<Rightarrow> event \<Rightarrow> bool" where
  "busy env ps e =
     (case e of Merged _ _ \<Rightarrow> False | Saved _ \<Rightarrow> False | Invoked p v \<Rightarrow> p \<in> ps \<and> v = env | _ \<Rightarrow> True)"

text \<open>A progress function that only reports.\<close>

definition reports :: "'x progress \<Rightarrow> bool" where
  "reports progress = (\<forall>phase message. speaks (\<lambda>e. \<exists>p m. e = Posted p m) (progress phase message)
     \<and> preserves id (progress phase message))"

lemma reports_speaks:
  assumes "reports progress" and "\<And>p m. C (Posted p m)"
  shows "speaks C (progress phase message)"
proof (rule speaks_weaken)
  show "speaks (\<lambda>e. \<exists>p m. e = Posted p m) (progress phase message)"
    using assms(1) by (simp add: reports_def)
qed (use assms(2) in blast)

lemma reports_preserves: "reports progress \<Longrightarrow> preserves f (progress phase message)"
  unfolding reports_def preserves_def by simp

lemma progress_reports: "reports (progress_of opts gh inum repo deps)"
  unfolding reports_def
proof (intro allI conjI)
  fix phase message
  show "speaks (\<lambda>e. \<exists>p m. e = Posted p m) (progress_of opts gh inum repo deps phase message)"
    unfolding progress_of_def by (intro speaks_if speaks_ret speaks_andThen speaks_reads speaks_ask) blast
  show "preserves id (progress_of opts gh inum repo deps phase message)"
    unfolding progress_of_def by (intro preserves_if preserves_basic preserves_andThen)
qed

lemma invokeAgent_speaks: "C (Invoked p (ag_env agent)) \<Longrightarrow> speaks C (invokeAgent deps p args agent)"
  unfolding invokeAgent_def by (intro speaks_intros)

lemma recordUsage_speaks: "speaks C (recordUsage u)"
  unfolding recordUsage_def by (rule speaks_modify)

section \<open>The loops\<close>

text \<open>How much the events of a computation weigh at most.\<close>

definition weight :: "(event \<Rightarrow> nat) \<Rightarrow> event list \<Rightarrow> nat" where
  "weight w es = sum_list (map w es)"

lemma weight_simps [simp]:
  "weight w [] = 0"
  "weight w (e # es) = w e + weight w es"
  "weight w (es @ fs) = weight w es + weight w fs"
  by (simp_all add: weight_def)

lemma weightless: "list_all (\<lambda>e. w e = 0) es \<Longrightarrow> weight w es = 0"
  by (induction es) auto

definition costs :: "(event \<Rightarrow> nat) \<Rightarrow> nat \<Rightarrow> ('x, 'a) task \<Rightarrow> bool" where
  "costs w n t = (\<forall>r. \<exists>es. trace (snd (t r)) = trace r @ es \<and> weight w es \<le> n)"

lemma costsE:
  assumes "costs w n t" "t r = (x, r')"
  obtains es where "trace r' = trace r @ es" "weight w es \<le> n"
  using assms unfolding costs_def by (metis snd_conv)

lemma costs_free: "speaks (\<lambda>e. w e = 0) t \<Longrightarrow> costs w n t"
  unfolding speaks_def costs_def by (metis weightless le0)

lemma costs_andThen:
  assumes "costs w m t" and "\<And>a. costs w n (k a)"
  shows "costs w (m + n) (andThen t k)"
  unfolding costs_def
proof
  fix r
  obtain x r1 where t: "t r = (x, r1)" by fastforce
  obtain es where es: "trace r1 = trace r @ es" "weight w es \<le> m" using assms(1) t by (rule costsE)
  show "\<exists>es. trace (snd (andThen t k r)) = trace r @ es \<and> weight w es \<le> m + n"
  proof (cases x)
    case (Inl e)
    with t es show ?thesis by (auto simp: andThen_def)
  next
    case (Inr a)
    obtain y r2 where k: "k a r1 = (y, r2)" by fastforce
    obtain fs where "trace r2 = trace r1 @ fs" "weight w fs \<le> n" using assms(2) k by (rule costsE)
    with t es Inr k show ?thesis by (auto simp: andThen_def)
  qed
qed

lemma costs_after: "speaks (\<lambda>e. w e = 0) t \<Longrightarrow> (\<And>a. costs w n (k a)) \<Longrightarrow> costs w n (andThen t k)"
  using costs_andThen [of w 0 t n k] costs_free by fastforce

lemma costs_before: "costs w n t \<Longrightarrow> (\<And>a. speaks (\<lambda>e. w e = 0) (k a)) \<Longrightarrow> costs w n (andThen t k)"
  using costs_andThen [of w n t 0 k] costs_free by fastforce

lemma yields_weaken: "yields P t \<Longrightarrow> (\<And>a. P a \<Longrightarrow> Q a) \<Longrightarrow> yields Q t"
  unfolding yields_def by blast

lemma costs_ask: "(\<And>a. w (ev a) \<le> n) \<Longrightarrow> costs w n (ask f ev)"
  by (simp add: costs_def ask_def split: prod.split)

lemma costs_attempt: "(\<And>a. w (ev a) \<le> n) \<Longrightarrow> costs w n (attempt_op f ev)"
  by (simp add: costs_def attempt_op_def split: prod.split)

text \<open>
  A turn of a loop pays from a budget that depends on the counters: what its events weigh, plus the
  budget of the turn it goes on with, is within the budget it started with.
\<close>

definition pays :: "(event \<Rightarrow> nat) \<Rightarrow> ('s \<Rightarrow> nat) \<Rightarrow> 's \<Rightarrow> ('x, ('s, 'b) control) task \<Rightarrow> bool" where
  "pays w budget s t =
     (\<forall>r x r'. t r = (x, r') \<longrightarrow> (\<exists>es. trace r' = trace r @ es
        \<and> weight w es + (case x of Inr (Continue s') \<Rightarrow> budget s' | _ \<Rightarrow> 0) \<le> budget s))"

lemma paysI:
  assumes "costs w n t" and "n \<le> budget s"
    and "yields (\<lambda>c. case c of Continue s' \<Rightarrow> budget s' + n \<le> budget s | Return _ \<Rightarrow> True) t"
  shows "pays w budget s t"
  unfolding pays_def
proof (intro allI impI)
  fix r x r'
  assume t: "t r = (x, r')"
  obtain es where es: "trace r' = trace r @ es" "weight w es \<le> n" using assms(1) t by (rule costsE)
  have "\<And>s'. x = Inr (Continue s') \<Longrightarrow> budget s' + n \<le> budget s"
    using yieldsD [OF assms(3)] t by fastforce
  with es assms(2) show "\<exists>es. trace r' = trace r @ es
      \<and> weight w es + (case x of Inr (Continue s') \<Rightarrow> budget s' | _ \<Rightarrow> 0) \<le> budget s"
    by (fastforce split: sum.split control.split)
qed

lemma pays_free:
  "speaks (\<lambda>e. w e = 0) t \<Longrightarrow> yields (\<lambda>c. case c of Continue s' \<Rightarrow> budget s' \<le> budget s | Return _ \<Rightarrow> True) t
     \<Longrightarrow> pays w budget s t"
  by (rule paysI [where n = 0, unfolded add_0_right]) (simp_all add: costs_free)

lemma pays_after:
  assumes "speaks (\<lambda>e. w e = 0) t" and "\<And>a. pays w budget s (k a)"
  shows "pays w budget s (andThen t k)"
  unfolding pays_def
proof (intro allI impI)
  fix r x r'
  assume run: "andThen t k r = (x, r')"
  obtain y r1 where t: "t r = (y, r1)" by fastforce
  obtain es where es: "trace r1 = trace r @ es" "weight w es = 0"
    using speaksE [OF assms(1), of r] t weightless by (metis snd_conv)
  show "\<exists>es. trace r' = trace r @ es
      \<and> weight w es + (case x of Inr (Continue s') \<Rightarrow> budget s' | _ \<Rightarrow> 0) \<le> budget s"
  proof (cases y)
    case (Inl e)
    with run t es show ?thesis by (auto simp: andThen_def)
  next
    case (Inr a)
    with run t have "k a r1 = (x, r')" by (simp add: andThen_def)
    then obtain fs where "trace r' = trace r1 @ fs"
        "weight w fs + (case x of Inr (Continue s') \<Rightarrow> budget s' | _ \<Rightarrow> 0) \<le> budget s"
      using assms(2) unfolding pays_def by blast
    with es show ?thesis by (intro exI [of _ "es @ fs"]) simp
  qed
qed

text \<open>
  A loop over a body that says whether to go on. A relation between the loop's counters and the
  events that one turn extends holds of the whole loop.
\<close>

locale task_loop =
  fixes step :: "'s \<Rightarrow> ('x, ('s, 'b) control) task" and loop :: "'s \<Rightarrow> ('x, 'b) task"
  assumes unfold: "loop s r = (case step s r of
            (Inl e, r') \<Rightarrow> (Inl e, r')
          | (Inr (Return b), r') \<Rightarrow> (Inr b, r')
          | (Inr (Continue s'), r') \<Rightarrow> loop s' r')"
    and induct: "(\<And>s r. (\<And>s' r'. step s r = (Inr (Continue s'), r') \<Longrightarrow> P s' r') \<Longrightarrow> P s r) \<Longrightarrow> P s r"
begin

lemma events:
  assumes turn: "\<And>s r x r'. step s r = (x, r') \<Longrightarrow> \<exists>es. trace r' = trace r @ es
      \<and> (case x of Inr (Continue s') \<Rightarrow> \<forall>fs. R s' fs \<longrightarrow> R s (es @ fs) | _ \<Rightarrow> R s es)"
  shows "\<exists>es. trace (snd (loop s r)) = trace r @ es \<and> R s es"
proof (induction s r rule: induct)
  case (1 s r)
  obtain x r1 where step: "step s r = (x, r1)" by fastforce
  obtain es where es: "trace r1 = trace r @ es"
      "case x of Inr (Continue s') \<Rightarrow> \<forall>fs. R s' fs \<longrightarrow> R s (es @ fs) | _ \<Rightarrow> R s es"
    using turn [OF step] by blast
  show ?case
  proof (cases "\<exists>s'. x = Inr (Continue s')")
    case True
    then obtain s' where x: "x = Inr (Continue s')" ..
    obtain fs where "trace (snd (loop s' r1)) = trace r1 @ fs" "R s' fs"
      using 1 step x by blast
    then show ?thesis using es step x by (auto simp: unfold [of s r])
  next
    case False
    then show ?thesis
      using es step by (auto simp: unfold [of s r] split: sum.splits control.splits)
  qed
qed

lemma loop_speaks:
  assumes "\<And>s. speaks C (step s)"
  shows "speaks C (loop s)"
  unfolding speaks_def
proof (intro allI events)
  fix s r x r'
  assume "step s r = (x, r')"
  then obtain es where "trace r' = trace r @ es" "list_all C es"
    using speaksE [OF assms, of s r] by auto
  then show "\<exists>es. trace r' = trace r @ es \<and>
      (case x of Inr (Continue s') \<Rightarrow> \<forall>fs. list_all C fs \<longrightarrow> list_all C (es @ fs) | _ \<Rightarrow> list_all C es)"
    by (auto split: sum.split control.split)
qed

lemma loop_costs:
  assumes "\<And>s. pays w budget s (step s)"
  shows "costs w (budget s) (loop s)"
  unfolding costs_def
proof (intro allI events)
  fix s r x r'
  assume "step s r = (x, r')"
  then obtain es where "trace r' = trace r @ es"
      "weight w es + (case x of Inr (Continue s') \<Rightarrow> budget s' | _ \<Rightarrow> 0) \<le> budget s"
    using assms unfolding pays_def by blast
  then show "\<exists>es. trace r' = trace r @ es \<and>
      (case x of Inr (Continue s') \<Rightarrow> \<forall>fs. weight w fs \<le> budget s' \<longrightarrow> weight w (es @ fs) \<le> budget s
       | _ \<Rightarrow> weight w es \<le> budget s)"
    by (fastforce split: sum.split control.split)
qed

lemma loop_result:
  assumes "\<And>s r b r'. step s r = (Inr (Return b), r') \<Longrightarrow> Z b r'" and "loop s r = (Inr b, r')"
  shows "Z b r'"
  using assms(2)
proof (induction s r rule: induct)
  case (1 s r)
  obtain x r1 where step: "step s r = (x, r1)" by fastforce
  with 1 assms(1) show ?case by (auto simp: unfold [of s r] split: sum.splits control.splits)
qed

lemma loop_preserves:
  assumes "\<And>s. preserves f (step s)"
  shows "preserves f (loop s)"
  unfolding preserves_def
proof
  fix r show "f (adw (snd (loop s r))) = f (adw r)"
  proof (induction s r rule: induct)
    case (1 s r)
    obtain x r1 where step: "step s r = (x, r1)" by fastforce
    then have "f (adw r1) = f (adw r)" using assms unfolding preserves_def by (metis snd_conv)
    with 1 step show ?case by (auto simp: unfold [of s r] split: sum.split control.split)
  qed
qed

end

interpretation resolve_loop: task_loop "resolve_step gate maxAttempts progress agent deps"
  "resolve_attempts gate maxAttempts progress agent deps" for gate maxAttempts progress agent deps
proof
  fix P n r
  assume "\<And>n r. (\<And>n' r'. resolve_step gate maxAttempts progress agent deps n r = (Inr (Continue n'), r') \<Longrightarrow> P n' r')
      \<Longrightarrow> P n r"
  then show "P n r"
    by (induction gate maxAttempts progress agent deps n r rule: resolve_attempts.induct) metis
qed (subst resolve_attempts.simps, rule refl)

interpretation patch_loop: task_loop "patch_step js blockersText maxAttempts progress agent deps"
  "patch_attempts js blockersText maxAttempts progress agent deps" for js blockersText maxAttempts progress agent deps
proof
  fix P st r
  assume "\<And>st r. (\<And>st' r'. patch_step js blockersText maxAttempts progress agent deps st r = (Inr (Continue st'), r')
      \<Longrightarrow> P st' r') \<Longrightarrow> P st r"
  then show "P st r"
    by (induction js blockersText maxAttempts progress agent deps st r rule: patch_attempts.induct) metis
qed (subst patch_attempts.simps, rule refl)

interpretation ci_loop: task_loop "ci_step pr cfg progress agent deps" "ci_attempts pr cfg progress agent deps"
  for pr cfg progress agent deps
proof
  fix P k r
  assume "\<And>k r. (\<And>k' r'. ci_step pr cfg progress agent deps k r = (Inr (Continue k'), r') \<Longrightarrow> P k' r') \<Longrightarrow> P k r"
  then show "P k r"
    by (induction pr cfg progress agent deps k r rule: ci_attempts.induct) metis
qed (subst ci_attempts.simps, rule refl)

lemma pause_speaks: "(\<And>ms. C (Slept ms)) \<Longrightarrow> speaks C (pause deps ms)"
  unfolding pause_def by (intro speaks_if speaks_ask speaks_ret)

lemma ci_fix_speaks:
  assumes "reports progress"
  shows "speaks (busy (ag_env agent) {ph_resolve}) (ci_fix pr cfg progress agent deps jobs k)"
  unfolding ci_fix_def Let_def
  by (intro speaks_intros reports_speaks [OF assms] invokeAgent_speaks recordUsage_speaks)
     (simp_all add: busy_def)

lemma ci_react_speaks:
  assumes "reports progress"
  shows "speaks (busy (ag_env agent) {ph_resolve}) (ci_react pr cfg progress agent deps k status)"
  unfolding ci_react_def
  by (cases "ci_verdict status"; simp only: ci_state.case;
      intro speaks_intros reports_speaks [OF assms] pause_speaks ci_fix_speaks [OF assms])
     (simp_all add: busy_def)

lemma ci_react_no_poll:
  assumes "reports progress"
  shows "speaks (\<lambda>e. case e of PolledCi _ _ \<Rightarrow> False | _ \<Rightarrow> True) (ci_react pr cfg progress agent deps k status)"
  unfolding ci_react_def ci_fix_def Let_def
  by (cases "ci_verdict status"; simp only: ci_state.case;
      intro speaks_intros reports_speaks [OF assms] pause_speaks invokeAgent_speaks recordUsage_speaks)
     simp_all

lemma ci_step_speaks:
  assumes "reports progress"
  shows "speaks (busy (ag_env agent) {ph_resolve}) (ci_step pr cfg progress agent deps k)"
  unfolding ci_step_def by (intro speaks_andThen speaks_ask ci_react_speaks [OF assms]) (simp add: busy_def)

lemma ciFixLoop_speaks:
  "reports progress \<Longrightarrow> speaks (busy (ag_env agent) {ph_resolve}) (ciFixLoop pr cfg progress agent deps)"
  unfolding ciFixLoop_def by (rule ci_loop.loop_speaks) (rule ci_step_speaks)

lemma resolve_step_speaks:
  assumes "reports progress"
  shows "speaks (busy (ag_env agent) {ph_resolve}) (resolve_step gate maxAttempts progress agent deps n)"
  unfolding resolve_step_def
  by (intro speaks_intros reports_speaks [OF assms] invokeAgent_speaks recordUsage_speaks)
     (simp_all add: busy_def)

lemma resolveLoop_speaks:
  assumes "reports progress"
  shows "speaks (busy (ag_env agent) {ph_resolve}) (resolveLoop testCmd maxAttempts progress agent deps)"
  unfolding resolveLoop_def
  by (intro speaks_if speaks_andThen speaks_ret reports_speaks [OF assms] resolve_loop.loop_speaks
      resolve_step_speaks [OF assms]) (simp add: busy_def)

lemma patch_step_speaks:
  assumes "reports progress"
  shows "speaks (busy (ag_env agent) {ph_patch}) (patch_step js blockersText maxAttempts progress agent deps st)"
  unfolding patch_step_def Let_def
  by (intro speaks_intros reports_speaks [OF assms] invokeAgent_speaks recordUsage_speaks)
     (simp_all add: busy_def)

lemma patchLoop_speaks:
  assumes "reports progress"
  shows "speaks (busy (ag_env agent) {ph_patch}) (patchLoop js findings maxAttempts progress agent deps)"
  unfolding patchLoop_def Let_def
  by (intro speaks_if speaks_andThen speaks_ret reports_speaks [OF assms] patch_loop.loop_speaks
      patch_step_speaks [OF assms]) (simp_all add: busy_def)

text \<open>Of the state, the loops change the cost alone.\<close>

definition ignores_cost :: "(adw_state \<Rightarrow> 'b) \<Rightarrow> bool" where
  "ignores_cost f = (\<forall>s c. f (s\<lparr>totalCostUsd := c\<rparr>) = f s)"

lemma recordUsage_preserves: "ignores_cost f \<Longrightarrow> preserves f (recordUsage u)"
  unfolding recordUsage_def
  by (rule preserves_modify) (simp add: add_cost_def ignores_cost_def split: option.split)

lemma invokeAgent_preserves: "preserves f (invokeAgent deps p args agent)"
  unfolding invokeAgent_def by (intro preserves_andThen preserves_basic)

lemma pause_preserves: "preserves f (pause deps ms)"
  unfolding pause_def by (intro preserves_if preserves_basic)

lemmas loop_preserves_intros = preserves_if preserves_andThen preserves_basic
  invokeAgent_preserves pause_preserves

lemma resolveLoop_preserves:
  assumes "reports progress" "ignores_cost f"
  shows "preserves f (resolveLoop testCmd maxAttempts progress agent deps)"
proof -
  have "preserves f (resolve_step gate maxAttempts progress agent deps n)" for gate n
    unfolding resolve_step_def by (intro loop_preserves_intros reports_preserves [OF assms(1)] recordUsage_preserves [OF assms(2)])
  then show ?thesis
    unfolding resolveLoop_def by (intro loop_preserves_intros reports_preserves [OF assms(1)] resolve_loop.loop_preserves)
qed

lemma patchLoop_preserves:
  assumes "reports progress" "ignores_cost f"
  shows "preserves f (patchLoop js findings maxAttempts progress agent deps)"
proof -
  have "preserves f (patch_step js blockers maxAttempts progress agent deps st)" for blockers st
    unfolding patch_step_def Let_def case_prod_unfold by (intro loop_preserves_intros reports_preserves [OF assms(1)] recordUsage_preserves [OF assms(2)])
  then show ?thesis
    unfolding patchLoop_def Let_def by (intro loop_preserves_intros reports_preserves [OF assms(1)] patch_loop.loop_preserves)
qed

lemma ciFixLoop_preserves:
  assumes "reports progress" "ignores_cost f"
  shows "preserves f (ciFixLoop pr cfg progress agent deps)"
proof -
  have "preserves f (ci_fix pr cfg progress agent deps jobs k)" for jobs k
    unfolding ci_fix_def Let_def by (intro loop_preserves_intros reports_preserves [OF assms(1)] recordUsage_preserves [OF assms(2)])
  then have "preserves f (ci_react pr cfg progress agent deps k st)" for k st
    unfolding ci_react_def
    by (cases "ci_verdict st"; simp only: ci_state.case; intro loop_preserves_intros reports_preserves [OF assms(1)] recordUsage_preserves [OF assms(2)])
  then have "preserves f (ci_step pr cfg progress agent deps k)" for k
    unfolding ci_step_def by (intro preserves_andThen preserves_basic)
  then show ?thesis unfolding ciFixLoop_def by (rule ci_loop.loop_preserves)
qed

text \<open>The weights: polls of CI, runs of the gate, agents invoked.\<close>

definition polled :: "event \<Rightarrow> nat" where
  "polled e = (case e of PolledCi _ _ \<Rightarrow> 1 | _ \<Rightarrow> 0)"

definition ran :: "event \<Rightarrow> nat" where
  "ran e = (case e of Ran _ _ \<Rightarrow> 1 | _ \<Rightarrow> 0)"

definition invoked :: "event \<Rightarrow> nat" where
  "invoked e = (case e of Invoked _ _ \<Rightarrow> 1 | _ \<Rightarrow> 0)"

lemma invokeAgent_costs: "costs invoked 1 (invokeAgent deps p args agent)"
  unfolding invokeAgent_def by (intro costs_after speaks_reads costs_attempt) (simp add: invoked_def)

lemma costs_if: "(b \<Longrightarrow> costs w n s) \<Longrightarrow> (\<not> b \<Longrightarrow> costs w n t) \<Longrightarrow> costs w n (if b then s else t)"
  by simp

lemma invoke_then_costs:
  "(\<And>out. speaks (\<lambda>e. invoked e = 0) (k out)) \<Longrightarrow> costs invoked 1 (andThen (invokeAgent deps p args agent) k)"
  by (rule costs_before [OF invokeAgent_costs])

lemma reports_free: "reports progress \<Longrightarrow> (\<And>p m. w (Posted p m) = 0) \<Longrightarrow> speaks (\<lambda>e. w e = 0) (progress phase message)"
  by (rule reports_speaks)

lemma resolve_step_ran:
  assumes "reports progress"
  shows "costs ran 1 (resolve_step gate maxAttempts progress agent deps n)"
  unfolding resolve_step_def
  by (intro costs_before costs_ask speaks_if speaks_andThen speaks_ret reports_free [OF assms] invokeAgent_speaks
      recordUsage_speaks) (simp_all add: ran_def)

lemma resolve_step_invoked:
  assumes "reports progress"
  shows "costs invoked (if n < maxAttempts then 1 else 0) (resolve_step gate maxAttempts progress agent deps n)"
proof (cases "n < maxAttempts")
  case True
  show ?thesis
    unfolding resolve_step_def if_P [OF True]
    by (rule costs_after, rule speaks_ask, simp add: invoked_def, rule costs_if, rule costs_free,
        intro speaks_andThen reports_free [OF assms] speaks_ret, simp add: invoked_def, rule costs_if, rule costs_free,
        intro speaks_andThen reports_free [OF assms] speaks_ret, simp add: invoked_def,
        rule costs_after, rule reports_free [OF assms], simp add: invoked_def, rule invoke_then_costs,
        intro speaks_if speaks_andThen reports_free [OF assms] speaks_ret recordUsage_speaks, simp add: invoked_def)
next
  case False
  then have "maxAttempts \<le> n" by simp
  then show ?thesis
    unfolding resolve_step_def if_not_P [OF False]
    by (simp only: if_True, intro costs_free speaks_andThen speaks_ask speaks_if reports_free [OF assms] speaks_ret)
       (simp_all add: invoked_def)
qed

lemma resolve_step_pays:
  assumes "reports progress"
  shows "pays invoked (\<lambda>n. nat (maxAttempts - n)) n (resolve_step gate maxAttempts progress agent deps n)"
    and "pays ran (\<lambda>n. nat (maxAttempts - n) + 1) n (resolve_step gate maxAttempts progress agent deps n)"
proof -
  have next_turn: "yields (\<lambda>c. case c of Continue n' \<Rightarrow> n < maxAttempts \<and> n' = n + 1 | Return _ \<Rightarrow> True)
      (resolve_step gate maxAttempts progress agent deps n)"
    by (rule resolve_step_continues)
  show "pays invoked (\<lambda>n. nat (maxAttempts - n)) n (resolve_step gate maxAttempts progress agent deps n)"
    by (rule paysI [OF resolve_step_invoked [OF assms]])
       (auto intro: yields_weaken [OF next_turn] split: control.splits)
  show "pays ran (\<lambda>n. nat (maxAttempts - n) + 1) n (resolve_step gate maxAttempts progress agent deps n)"
    by (rule paysI [OF resolve_step_ran [OF assms]])
       (auto intro: yields_weaken [OF next_turn] split: control.splits)
qed

lemma patch_step_pays:
  assumes "reports progress"
  shows "pays invoked (\<lambda>st. nat (maxAttempts - fst st)) st (patch_step js blockersText maxAttempts progress agent deps st)"
proof (cases "js_less (Fin 0) (snd st) \<and> fst st < maxAttempts")
  case True
  have "costs invoked 1 (patch_step js blockersText maxAttempts progress agent deps st)"
    unfolding patch_step_def Let_def case_prod_unfold
    by (rule costs_if, rule costs_free, rule speaks_ret, rule costs_after, rule reports_free [OF assms],
        simp add: invoked_def, rule invoke_then_costs, intro speaks_if speaks_andThen speaks_ret recordUsage_speaks)
  then show ?thesis
    by (rule paysI) (use True in \<open>auto intro: yields_weaken [OF patch_step_continues] split: control.splits\<close>)
next
  case False
  then show ?thesis
    by (intro pays_free) (simp_all add: patch_step_def case_prod_unfold speaks_ret yields_ret)
qed

lemma ci_fix_pays:
  assumes "reports progress" "cc_attempt k < ci_maxAttempts cfg"
  shows "pays invoked (\<lambda>k. nat (ci_maxAttempts cfg - cc_attempt k)) k (ci_fix pr cfg progress agent deps jobs k)"
proof (rule paysI)
  show "costs invoked 1 (ci_fix pr cfg progress agent deps jobs k)"
    unfolding ci_fix_def Let_def
    by (rule costs_after, rule reports_free [OF assms(1)], simp add: invoked_def, rule invoke_then_costs,
        intro speaks_if speaks_andThen speaks_ret speaks_reads speaks_ask recordUsage_speaks reports_free [OF assms(1)])
       (simp_all add: invoked_def)
  show "yields (\<lambda>c. case c of Continue k' \<Rightarrow>
      nat (ci_maxAttempts cfg - cc_attempt k') + 1 \<le> nat (ci_maxAttempts cfg - cc_attempt k) | Return _ \<Rightarrow> True)
      (ci_fix pr cfg progress agent deps jobs k)"
    unfolding ci_fix_def Let_def by (intro yields_intros) (use assms(2) in simp_all)
qed (use assms(2) in simp)

lemma ci_step_pays:
  assumes "reports progress"
  shows "pays invoked (\<lambda>k. nat (ci_maxAttempts cfg - cc_attempt k)) k (ci_step pr cfg progress agent deps k)"
  unfolding ci_step_def
proof (rule pays_after)
  fix st
  show "pays invoked (\<lambda>k. nat (ci_maxAttempts cfg - cc_attempt k)) k (ci_react pr cfg progress agent deps k st)"
  proof (cases "ci_verdict st = ci_failure \<and> cc_attempt k < ci_maxAttempts cfg")
    case True
    then show ?thesis using ci_fix_pays [OF assms] by (simp add: ci_react_def)
  next
    case False
    have "speaks (\<lambda>e. invoked e = 0) (ci_react pr cfg progress agent deps k st)"
      unfolding ci_react_def using False
      by (cases "ci_verdict st"; simp only: ci_state.case simp_thms if_True not_less;
          intro speaks_if speaks_andThen speaks_ret pause_speaks reports_free [OF assms]) (simp_all add: invoked_def)
    moreover have "yields (\<lambda>c. case c of Continue k' \<Rightarrow>
        nat (ci_maxAttempts cfg - cc_attempt k') \<le> nat (ci_maxAttempts cfg - cc_attempt k) | Return _ \<Rightarrow> True)
        (ci_react pr cfg progress agent deps k st)"
      unfolding ci_react_def using False
      by (cases "ci_verdict st"; simp only: ci_state.case simp_thms if_True not_less; intro yields_intros) simp_all
    ultimately show ?thesis by (rule pays_free)
  qed
qed (rule speaks_ask, simp add: invoked_def)

text \<open>The polls left: one for every state of the counters the loop can still move through.\<close>

definition polls_left :: "ci_config \<Rightarrow> ci_counters \<Rightarrow> nat" where
  "polls_left cfg k =
     nat (ci_maxAttempts cfg - cc_attempt k) * (nat (ci_maxPolls cfg) + 1) + nat (ci_maxPolls cfg - cc_polls k)
       + nat (NO_CHECKS_SETTLE_POLLS - cc_nonePolls k) + 1"

lemma attempts_drop: "a < (b :: int) \<Longrightarrow> nat (b - a) = Suc (nat (b - (a + 1)))"
  by simp

lemma polls_left_next: "ci_next cfg k k' \<Longrightarrow> polls_left cfg k' + 1 \<le> polls_left cfg k"
proof -
  assume "ci_next cfg k k'"
  then consider
      "k' = k\<lparr>cc_nonePolls := cc_nonePolls k + 1\<rparr>" "cc_nonePolls k < NO_CHECKS_SETTLE_POLLS"
    | "k' = k\<lparr>cc_polls := cc_polls k + 1\<rparr>" "cc_polls k < ci_maxPolls cfg"
    | "cc_attempt k < ci_maxAttempts cfg"
      "k' = k\<lparr>cc_attempt := cc_attempt k + 1\<rparr> \<or> k' = k\<lparr>cc_attempt := cc_attempt k + 1, cc_polls := 0\<rparr>"
    unfolding ci_next_def by blast
  then show ?thesis
  proof cases
    case 3
    then show ?thesis by (auto simp: polls_left_def attempts_drop)
  qed (simp_all add: polls_left_def)
qed

lemma ci_step_polls:
  assumes "reports progress"
  shows "pays polled (polls_left cfg) k (ci_step pr cfg progress agent deps k)"
proof (rule paysI)
  have "speaks (\<lambda>e. polled e = 0) (ci_react pr cfg progress agent deps k st)" for st
    by (rule speaks_weaken [OF ci_react_no_poll [OF assms]]) (simp add: polled_def split: event.splits)
  then show "costs polled 1 (ci_step pr cfg progress agent deps k)"
    unfolding ci_step_def by (intro costs_before costs_ask) (simp_all add: polled_def)
  show "yields (\<lambda>c. case c of Continue k' \<Rightarrow> polls_left cfg k' + 1 \<le> polls_left cfg k | Return _ \<Rightarrow> True)
      (ci_step pr cfg progress agent deps k)"
    by (rule yields_weaken [OF ci_step_continues]) (auto dest: polls_left_next split: control.splits)
qed (simp add: polls_left_def)

text \<open>
  C25. No loop of a run goes on for ever. Whatever the dependencies answer, repairing CI asks for its
  status at most \<open>(maxAttempts + 1) * (maxPolls + 1) + 3\<close> times and invokes at most \<open>maxAttempts\<close>
  agents; the test gate runs at most \<open>maxAttempts + 1\<close> times with at most \<open>maxAttempts\<close> agents
  between the runs; and patching invokes at most \<open>maxAttempts\<close> agents.
\<close>

theorem loops_bounded:
  "let progress = progress_of opts gh inum repo deps in
     costs polled ((nat (ci_maxAttempts cfg) + 1) * (nat (ci_maxPolls cfg) + 1) + 3) (ciFixLoop pr cfg progress agent deps)
   \<and> costs invoked (nat (ci_maxAttempts cfg)) (ciFixLoop pr cfg progress agent deps)
   \<and> costs ran (nat n + 1) (resolveLoop testCmd n progress agent deps)
   \<and> costs invoked (nat n) (resolveLoop testCmd n progress agent deps)
   \<and> costs invoked (nat n) (patchLoop js findings n progress agent deps)"
  unfolding Let_def
proof (intro conjI)
  define progress where "progress = progress_of opts gh inum repo deps"
  have p: "reports progress" unfolding progress_def by (rule progress_reports)
  note free = reports_free [OF p]
  let ?k = "\<lparr>cc_attempt = 0, cc_polls = 0, cc_nonePolls = 0\<rparr>"
  have "polls_left cfg ?k = (nat (ci_maxAttempts cfg) + 1) * (nat (ci_maxPolls cfg) + 1) + 3"
    by (simp add: polls_left_def NO_CHECKS_SETTLE_POLLS_def)
  then show "costs polled ((nat (ci_maxAttempts cfg) + 1) * (nat (ci_maxPolls cfg) + 1) + 3) (ciFixLoop pr cfg (progress_of opts gh inum repo deps) agent deps)"
    unfolding progress_def [symmetric] ciFixLoop_def
    using ci_loop.loop_costs [OF ci_step_polls [OF p], where s = ?k] by metis
  show "costs invoked (nat (ci_maxAttempts cfg)) (ciFixLoop pr cfg (progress_of opts gh inum repo deps) agent deps)"
    unfolding progress_def [symmetric] using ci_loop.loop_costs [OF ci_step_pays [OF p], where s = ?k] by (simp add: ciFixLoop_def)
  show "costs ran (nat n + 1) (resolveLoop testCmd n (progress_of opts gh inum repo deps) agent deps)"
    unfolding resolveLoop_def progress_def [symmetric]
    by (rule costs_if, intro costs_free speaks_andThen speaks_ret free, simp add: ran_def,
        use resolve_loop.loop_costs [OF resolve_step_pays(2) [OF p], where s = 0] in simp)
  show "costs invoked (nat n) (resolveLoop testCmd n (progress_of opts gh inum repo deps) agent deps)"
    unfolding resolveLoop_def progress_def [symmetric]
    by (rule costs_if, intro costs_free speaks_andThen speaks_ret free, simp add: invoked_def,
        use resolve_loop.loop_costs [OF resolve_step_pays(1) [OF p], where s = 0] in simp)
  show "costs invoked (nat n) (patchLoop js findings n (progress_of opts gh inum repo deps) agent deps)"
    unfolding patchLoop_def Let_def progress_def [symmetric]
  proof (rule costs_after)
    show "costs invoked (nat n) (if filter (\<lambda>f. severity f = ''blocker'') findings = []
        then andThen (progress ''patch'' ''no blocker findings'') (\<lambda>_. ret True)
        else patch_attempts js (renderFindings (filter (\<lambda>f. severity f = ''blocker'') findings)) n progress agent deps
               (0, Fin (of_nat (length (filter (\<lambda>f. severity f = ''blocker'') findings)))))" for u :: unit
      using patch_loop.loop_costs [OF patch_step_pays [OF p], where s = "(0, x)" for x]
      by (intro costs_if) (auto intro!: costs_free speaks_andThen free speaks_ret simp: invoked_def)
  qed (intro speaks_if free speaks_ret, simp add: invoked_def)
qed

end
