(* ===== verification/Merge_Guard.thy ===== *)
theory Merge_Guard
  imports Runs
begin

text \<open>
  What a merge has behind it: before a pull request is merged, every gate has passed, the work is
  committed and pushed, CI is settled, and the merge is confirmed. And what phases do to the log and
  to the completed phases: a resumed run does not repeat them, and the saved state knows them all.
\<close>

section \<open>The events of the phases\<close>

text \<open>The phases also save the state.\<close>

definition working :: "(string \<times> string) list \<Rightarrow> agent_phase set \<Rightarrow> event \<Rightarrow> bool" where
  "working env ps e = (busy env ps e \<or> (\<exists>s. e = Saved s))"

lemma working_mono: "working env ps e \<Longrightarrow> ps \<subseteq> qs \<Longrightarrow> working env qs e"
  by (auto simp: working_def busy_def split: event.splits)

lemma speaks_working_mono: "speaks (working env ps) t \<Longrightarrow> ps \<subseteq> qs \<Longrightarrow> speaks (working env qs) t"
  by (erule speaks_weaken) (erule working_mono)

lemma speaks_busy: "speaks (busy env ps) t \<Longrightarrow> ps \<subseteq> qs \<Longrightarrow> speaks (working env qs) t"
  by (erule speaks_weaken) (auto simp: working_def busy_def split: event.splits)

lemma working_simps [simp]:
  "working env ps (Ran c x)" "working env ps (Branched b y)" "working env ps (Committed m y)"
  "working env ps (Pushed b y)" "working env ps (Rebased b)" "working env ps (FoundPr u)"
  "working env ps (OpenedPr n)" "working env ps (PolledCi pr vd)" "working env ps (Slept ms)"
  "working env ps (Confirmed y)" "working env ps (Classified prompt)" "working env ps (Posted ph msg)"
  "working env ps (IssueSeen st)" "working env ps (Saved s)" "working env ps (Touched lab)"
  "working env ps (Invoked p v) \<longleftrightarrow> p \<in> ps \<and> v = env" "\<not> working env ps (Merged pr y)"
  by (auto simp: working_def busy_def)

lemma lift_sum_speaks: "speaks C (lift_sum x)"
  unfolding lift_sum_def by (intro speaks_intros)

lemma write_task_speaks: "C (Touched ''writeFile'') \<Longrightarrow> speaks C (write_task path text)"
  unfolding write_task_def by (intro speaks_attempt)

lemma optional_step_speaks: "(\<And>l. C (Touched l)) \<Longrightarrow> speaks C (optional_step f l)"
  unfolding optional_step_def by (intro speaks_option speaks_ret speaks_attempt)

lemma setup_speaks:
  assumes "reports progress"
  shows "speaks (working env ps) (setup_run js gh repo inum ctx bs progress deps)"
  unfolding setup_run_def Let_def
  by (intro speaks_intros reports_speaks [OF assms]) simp_all

lemma classify_shared_speaks:
  assumes "reports (pc_progress pc)"
  shows "speaks (working env ps) (classify_shared js pc deps v)"
  unfolding classify_shared_def
  by (intro speaks_intros reports_speaks [OF assms] lift_sum_speaks write_task_speaks recordUsage_speaks) simp_all

lemma agent_phase_speaks:
  assumes "reports (pc_progress pc)"
  shows "speaks (working (ag_env (pc_agent pc)) {p}) (agent_phase_task js pc deps p v)"
  unfolding agent_phase_task_def Let_def
  by (intro speaks_intros reports_speaks [OF assms] invokeAgent_speaks recordUsage_speaks) simp_all

lemma run_phase_speaks:
  assumes "reports (pc_progress pc)"
  shows "speaks (working (ag_env (pc_agent pc)) {p}) (run_phase js pc deps p v)"
proof -
  have resolve: "speaks (working (ag_env (pc_agent pc)) {p})
      (resolveLoop (op_testCmd (pc_opts pc)) (op_maxResolve (pc_opts pc)) (pc_progress pc) (pc_agent pc) deps)"
    if "p = ph_resolve"
    using speaks_busy [OF resolveLoop_speaks [OF assms], of "{p}"] that by simp
  have patch: "speaks (working (ag_env (pc_agent pc)) {p})
      (patchLoop js fs (op_maxPatch (pc_opts pc)) (pc_progress pc) (pc_agent pc) deps)" if "p = ph_patch" for fs
    using speaks_busy [OF patchLoop_speaks [OF assms], of "{p}"] that by simp
  show ?thesis
    unfolding run_phase_def
    by (intro speaks_if speaks_andThen resolve patch speaks_mark speaks_ret speaks_reads
        classify_shared_speaks [OF assms] agent_phase_speaks [OF assms]) simp_all
qed

lemma phase_turn_speaks:
  assumes "reports (pc_progress pc)"
  shows "speaks (working (ag_env (pc_agent pc)) {p}) (phase_turn js pc deps p v)"
  unfolding phase_turn_def
  by (intro speaks_if speaks_andThen speaks_mark speaks_ret speaks_reads lift_sum_speaks
      reports_speaks [OF assms] run_phase_speaks [OF assms]) simp_all

lemma run_phases_speaks:
  assumes "reports (pc_progress pc)"
  shows "speaks (working (ag_env (pc_agent pc)) (set ps)) (run_phases js pc deps ps v)"
proof (induction ps arbitrary: v)
  case (Cons p ps)
  show ?case
    unfolding run_phases.simps
    by (rule speaks_andThen [OF speaks_working_mono [OF phase_turn_speaks [OF assms]]
          speaks_working_mono [OF Cons.IH]]) auto
qed (simp add: speaks_ret)

section \<open>The events of the finalization\<close>

lemma run_gates_speaks:
  assumes "reports progress"
  shows "speaks (working env ps) (run_gates gates progress deps)"
proof (induction gates)
  case (Cons gate gates)
  then show ?case
    unfolding run_gates.simps
    by (intro speaks_andThen speaks_ask speaks_if speaks_throw reports_speaks [OF assms]) simp_all
qed (simp add: speaks_ret)

lemma commit_and_push_speaks: "speaks (working env ps) (commit_and_push fc deps)"
  unfolding commit_and_push_def Let_def by (intro speaks_intros) simp_all

lemma ensure_pr_speaks: "speaks (working env ps) (ensure_pr opts fc gh deps)"
  unfolding ensure_pr_def Let_def by (intro speaks_intros) simp_all

lemma await_ci_speaks:
  assumes "reports (fc_progress fc)"
  shows "speaks (working (ag_env (fc_agent fc)) {ph_resolve}) (await_ci js opts fc gh deps)"
  unfolding await_ci_def by (intro speaks_intros speaks_busy [OF ciFixLoop_speaks [OF assms]] subset_refl)

lemma confirm_speaks: "speaks (working env ps) (confirmMerge yes tty deps)"
  unfolding confirmMerge_def by (intro speaks_intros) simp_all

lemma verify_speaks: "reports (fc_progress fc) \<Longrightarrow> speaks (working env ps) (verify_closed opts fc deps)"
  unfolding verify_closed_def by (intro speaks_intros reports_speaks) simp_all

lemma already_merged_speaks: "reports (fc_progress fc) \<Longrightarrow> speaks (working env ps) (already_merged opts fc deps)"
  unfolding already_merged_def by (intro speaks_intros reports_speaks) simp_all

section \<open>A merge and what comes before it\<close>

definition is_merge :: "event \<Rightarrow> bool" where
  "is_merge e = (case e of Merged _ _ \<Rightarrow> True | _ \<Rightarrow> False)"

definition is_poll :: "event \<Rightarrow> bool" where
  "is_poll e = (case e of PolledCi _ _ \<Rightarrow> True | _ \<Rightarrow> False)"

definition last_poll :: "event list \<Rightarrow> event option" where
  "last_poll t = (if filter is_poll t = [] then None else Some (last (filter is_poll t)))"

lemma last_poll_snoc [simp]: "last_poll (t @ [e]) = (if is_poll e then Some e else last_poll t)"
  by (simp add: last_poll_def)

text \<open>CI of the pull request was last seen green, or without any check.\<close>

definition settled :: "string \<Rightarrow> event list \<Rightarrow> bool" where
  "settled pr t = (last_poll t = Some (PolledCi pr ci_success) \<or> last_poll t = Some (PolledCi pr ci_none))"

text \<open>The number of the pull request could not be told from its URL.\<close>

definition unnumbered :: "event list \<Rightarrow> bool" where
  "unnumbered t = (OpenedPr None \<in> set t \<or> (\<exists>url. FoundPr (Some url) \<in> set t \<and> prNumberFromUrl url = None))"

definition backed :: "resolved_options \<Rightarrow> phase_tools \<Rightarrow> environment \<Rightarrow> string \<Rightarrow> event list \<Rightarrow> bool" where
  "backed opts tools env pr t =
     ((\<forall>gate \<in> set (finalizeGates (op_testCmd opts) (extra_gates tools)). Ran (shellSplit gate) 0 \<in> set t)
      \<and> (\<exists>msg. Committed msg True \<in> set t)
      \<and> (\<exists>branch. Pushed branch True \<in> set t)
      \<and> (settled pr t \<or> unnumbered t)
      \<and> (assumeYes (op_yes opts) env \<or> Confirmed True \<in> set t))"

text \<open>At most one merge, and everything behind it.\<close>

definition guarded :: "resolved_options \<Rightarrow> phase_tools \<Rightarrow> environment \<Rightarrow> event list \<Rightarrow> bool" where
  "guarded opts tools env t =
     (length (filter is_merge t) \<le> 1
      \<and> (\<forall>before pr y after. t = before @ Merged pr y # after \<longrightarrow> backed opts tools env pr before))"

lemma unmerged_guarded: "list_all (\<lambda>e. \<not> is_merge e) t \<Longrightarrow> guarded opts tools env t"
  by (auto simp: guarded_def is_merge_def list_all_iff filter_empty_conv)

lemma guarded_snoc: "guarded opts tools env t \<Longrightarrow> \<not> is_merge e \<Longrightarrow> guarded opts tools env (t @ [e])"
  by (auto simp: guarded_def is_merge_def append_eq_append_conv2 append_eq_Cons_conv Cons_eq_append_conv
      split: list.splits)

lemma guarded_merge:
  assumes "list_all (\<lambda>e. \<not> is_merge e) t" and "backed opts tools env pr t"
  shows "guarded opts tools env (t @ [Merged pr y])"
proof -
  have "filter is_merge t = []" using assms(1) by (simp add: list_all_iff filter_empty_conv)
  moreover have "before = t \<and> pr' = pr" if "t @ [Merged pr y] = before @ Merged pr' z # after" for before pr' z after
    using that assms(1)
    by (cases after rule: rev_cases)
       (auto simp: list_all_iff is_merge_def simp flip: append_assoc append_Cons)
  ultimately show ?thesis using assms(2) by (auto simp: guarded_def)
qed

text \<open>No merge yet, and these events seen.\<close>

definition seen :: "event set \<Rightarrow> 'x run \<Rightarrow> bool" where
  "seen X r = (list_all (\<lambda>e. \<not> is_merge e) (trace r) \<and> X \<subseteq> set (trace r))"

lemma working_no_merge: "working env ps e \<Longrightarrow> \<not> is_merge e"
  by (auto simp: working_def busy_def is_merge_def split: event.splits)

lemma seen_step:
  assumes "speaks (working env ps) t"
  shows "keeps (seen X) t"
proof -
  have "keeps (\<lambda>r. list_all (\<lambda>e. \<not> is_merge e) (trace r) \<and> X \<subseteq> set (trace r)) t"
    using assms by (rule speaks_keeps [where J = "\<lambda>t. list_all (\<lambda>e. \<not> is_merge e) t \<and> X \<subseteq> set t"])
      (auto dest: working_no_merge)
  then show ?thesis by (simp add: seen_def [abs_def])
qed

lemma seen_mono: "seen X r \<Longrightarrow> Y \<subseteq> X \<Longrightarrow> seen Y r"
  by (auto simp: seen_def)

lemma guarded_step:
  assumes "speaks (working env' ps) t"
  shows "keeps (\<lambda>r. guarded opts tools env (trace r)) t"
  using assms by (rule speaks_keeps) (auto intro: guarded_snoc dest: working_no_merge)

section \<open>The stages before a merge\<close>

definition unmerged :: "event list \<Rightarrow> bool" where
  "unmerged t = list_all (\<lambda>e. \<not> is_merge e) t"

definition gated :: "string list \<Rightarrow> event list \<Rightarrow> bool" where
  "gated gates t = (unmerged t \<and> (\<forall>gate \<in> set gates. Ran (shellSplit gate) 0 \<in> set t))"

definition shipped :: "string list \<Rightarrow> event list \<Rightarrow> bool" where
  "shipped gates t =
     (gated gates t \<and> (\<exists>msg. Committed msg True \<in> set t) \<and> (\<exists>branch. Pushed branch True \<in> set t))"

definition numbered :: "string list \<Rightarrow> 'x run \<Rightarrow> bool" where
  "numbered gates r = (shipped gates (trace r) \<and> (prNumber (adw r) = None \<longrightarrow> unnumbered (trace r)))"

definition targeted :: "adw_runtime \<Rightarrow> string list \<Rightarrow> 'x run \<Rightarrow> bool" where
  "targeted js gates r =
     (shipped gates (trace r) \<and> (settled (merge_target js (adw r)) (trace r) \<or> unnumbered (trace r)))"

lemma unmerged_append: "unmerged t \<Longrightarrow> list_all (working env ps) es \<Longrightarrow> unmerged (t @ es)"
  by (auto simp: unmerged_def list_all_iff dest: working_no_merge)

lemma shipped_append: "shipped gates t \<Longrightarrow> list_all (working env ps) es \<Longrightarrow> shipped gates (t @ es)"
  by (auto simp: shipped_def gated_def unmerged_append)

lemma unnumbered_append: "unnumbered t \<Longrightarrow> unnumbered (t @ es)"
  by (auto simp: unnumbered_def)

lemma unmerged_guard: "unmerged t \<Longrightarrow> guarded opts tools env t"
  unfolding unmerged_def by (rule unmerged_guarded)

lemma stage_guard:
  "gated gates t \<Longrightarrow> guarded opts tools env t" "shipped gates t \<Longrightarrow> guarded opts tools env t"
  "numbered gates r \<Longrightarrow> guarded opts tools env (trace r)" "targeted js gates r \<Longrightarrow> guarded opts tools env (trace r)"
  by (auto simp: gated_def shipped_def numbered_def targeted_def intro: unmerged_guard)

text \<open>A step that speaks of no merge keeps a stage, and fails with nothing merged.\<close>

lemma stage_step:
  assumes "speaks (working env' ps) t" and "\<And>l es. J l \<Longrightarrow> list_all (working env' ps) es \<Longrightarrow> J (l @ es)"
    and "\<And>l. J l \<Longrightarrow> guarded opts tools env l"
  shows "triple (\<lambda>r. J (trace r)) t (\<lambda>_ r. J (trace r)) (\<lambda>r. guarded opts tools env (trace r))"
proof (rule tripleI)
  fix r a r' assume "J (trace r)" "t r = (Inr a, r')"
  then show "J (trace r')" using speaksE [OF assms(1), of r] assms(2) by (metis snd_conv)
next
  fix r e r' assume "J (trace r)" "t r = (Inl e, r')"
  then show "guarded opts tools env (trace r')" using speaksE [OF assms(1), of r] assms(2,3) by (metis snd_conv)
qed

lemma run_gates_gated:
  assumes "reports progress"
  shows "triple (\<lambda>r. gated old (trace r)) (run_gates gates progress deps)
           (\<lambda>_ r. gated (gates @ old) (trace r)) (\<lambda>r. guarded opts tools env (trace r))"
proof (induction gates arbitrary: old)
  case Nil
  then show ?case by (simp add: triple_ret)
next
  case (Cons gate gates)
  have failed: "triple (\<lambda>r. unmerged (trace r))
      (andThen (progress ''finalize'' m) (\<lambda>_. throw e)) Q (\<lambda>r. guarded opts tools env (trace r))" for m e Q
    by (rule triple_andThen [OF stage_step [where J = unmerged and env' = "[]" and ps = "{}"]])
       (auto intro!: reports_speaks [OF assms] triple_throw unmerged_append unmerged_guard)
  show ?case
    unfolding run_gates.simps
  proof (rule triple_andThen)
    show "triple (\<lambda>r. gated old (trace r)) (ask (o_runCmd deps (shellSplit gate)) (\<lambda>res. Ran (shellSplit gate) (rc res)))
        (\<lambda>res r. if rc res = 0 then gated (gate # old) (trace r) else unmerged (trace r))
        (\<lambda>r. guarded opts tools env (trace r))"
      by (rule triple_ask) (auto simp: gated_def unmerged_def is_merge_def)
    fix res
    show "triple (\<lambda>r. if rc res = 0 then gated (gate # old) (trace r) else unmerged (trace r))
        (if rc res \<noteq> 0 then andThen (progress ''finalize'' (''gate failed: '' @ gate @ ''; not merging''))
           (\<lambda>_. throw (AdwError (''pre-merge gate failed: '' @ gate)))
         else run_gates gates progress deps)
        (\<lambda>_ r. gated ((gate # gates) @ old) (trace r)) (\<lambda>r. guarded opts tools env (trace r))"
    proof (cases "rc res = 0")
      case True
      with Cons.IH [of "gate # old"] show ?thesis
        by (simp, elim triple_weaken) (auto simp: gated_def)
    qed (simp add: failed)
  qed
qed

text \<open>A question whose answer decides how far the run has come, and a refusal of that answer.\<close>

lemma stage_ask:
  "(\<And>l a. J l \<Longrightarrow> J' a (l @ [ev a])) \<Longrightarrow> triple (\<lambda>r. J (trace r)) (ask f ev) (\<lambda>a r. J' a (trace r)) E"
  by (rule triple_ask) simp

lemma stage_refuse:
  assumes "\<And>r. P r \<Longrightarrow> guarded opts tools env (trace r)" and "\<not> b \<Longrightarrow> triple P t Q (\<lambda>r. guarded opts tools env (trace r))"
  shows "triple P (if b then throw e else t) Q (\<lambda>r. guarded opts tools env (trace r))"
  using assms by (auto intro: triple_throw)

lemma gated_append: "gated gates t \<Longrightarrow> \<not> is_merge e \<Longrightarrow> gated gates (t @ [e])"
  by (simp add: gated_def unmerged_def)

lemma shipped_snoc: "shipped gates t \<Longrightarrow> \<not> is_merge e \<Longrightarrow> shipped gates (t @ [e])"
  by (auto simp: shipped_def gated_append)

lemma gated_guard: "gated gates t \<Longrightarrow> guarded opts tools env t"
  by (simp add: gated_def unmerged_guard)

lemma commit_and_push_ships:
  "triple (\<lambda>r. gated gates (trace r)) (commit_and_push fc deps) (\<lambda>_ r. shipped gates (trace r))
     (\<lambda>r. guarded opts tools env (trace r))"
  unfolding commit_and_push_def Let_def
proof (rule triple_andThen [OF triple_reads], assumption, rule triple_andThen [OF stage_ask])
  fix s l g
  assume "gated gates l"
  then show "gated gates (l @ [Committed (msg s) (g_ok g)])
      \<and> (g_ok g \<longrightarrow> Committed (msg s) True \<in> set (l @ [Committed (msg s) (g_ok g)]))" for msg
    by (simp add: gated_append is_merge_def)
next
  fix s c
  let ?G = "\<lambda>r. guarded opts tools env (trace r)"
  show "triple (\<lambda>r. gated gates (trace r) \<and> (g_ok c \<longrightarrow> Committed msg True \<in> set (trace r)))
      (if \<not> g_ok c then throw e
       else andThen (ask (o_push deps b) (\<lambda>g. Pushed b (g_ok g))) (\<lambda>pushed.
         if \<not> g_ok pushed then throw (e' pushed) else ret ())) (\<lambda>_ r. shipped gates (trace r)) ?G" for msg e b e'
  proof (rule stage_refuse)
    assume c: "\<not> \<not> g_ok c"
    show "triple (\<lambda>r. gated gates (trace r) \<and> (g_ok c \<longrightarrow> Committed msg True \<in> set (trace r)))
       (andThen (ask (o_push deps b) (\<lambda>g. Pushed b (g_ok g))) (\<lambda>pushed.
         if \<not> g_ok pushed then throw (e' pushed) else ret ())) (\<lambda>_ r. shipped gates (trace r)) ?G"
    proof (rule triple_andThen [OF stage_ask])
      fix l g
      assume "gated gates l \<and> (g_ok c \<longrightarrow> Committed msg True \<in> set l)"
      then show "gated gates (l @ [Pushed b (g_ok g)]) \<and> (g_ok g \<longrightarrow> shipped gates (l @ [Pushed b (g_ok g)]))"
        using c by (auto simp: gated_append is_merge_def shipped_def)
    next
      fix g
      show "triple (\<lambda>r. gated gates (trace r) \<and> (g_ok g \<longrightarrow> shipped gates (trace r)))
          (if \<not> g_ok g then throw (e' g) else ret ()) (\<lambda>_ r. shipped gates (trace r)) ?G"
        by (rule stage_refuse) (auto intro: gated_guard triple_ret)
    qed
  qed (auto intro: gated_guard)
qed

lemma ensure_pr_numbers:
  "triple (\<lambda>r. shipped gates (trace r)) (ensure_pr opts fc gh deps) (\<lambda>_. numbered gates)
     (\<lambda>r. guarded o2 tools env (trace r))"
  unfolding ensure_pr_def Let_def
proof (rule triple_andThen [OF triple_reads], assumption, rule triple_andThen [OF triple_attempt
        [where Q = "\<lambda>found r. shipped gates (trace r) \<and> FoundPr found \<in> set (trace r)"]])
  fix s found
  let ?G = "\<lambda>r. guarded o2 tools env (trace r)"
  have create: "triple (\<lambda>r. shipped gates (trace r))
      (andThen (ask (o_createPr deps b h t (op_base opts) gh (fc_repo fc)) (\<lambda>c. OpenedPr (pr_number c))) (\<lambda>c.
         if truthy_bin (pr_error c) then throw (e c)
         else modify (\<lambda>s. s\<lparr>prNumber := num_of_nat (pr_number c), prUrl := pr_url c\<rparr>)))
      (\<lambda>_. numbered gates) ?G" for b h t e
  proof (rule triple_andThen [OF stage_ask [where J' = "\<lambda>c l. shipped gates l \<and> OpenedPr (pr_number c) \<in> set l"]])
    fix c
    show "triple (\<lambda>r. shipped gates (trace r) \<and> OpenedPr (pr_number c) \<in> set (trace r))
        (if truthy_bin (pr_error c) then throw (e c)
         else modify (\<lambda>s. s\<lparr>prNumber := num_of_nat (pr_number c), prUrl := pr_url c\<rparr>)) (\<lambda>_. numbered gates) ?G"
      by (intro triple_if triple_throw triple_modify)
         (auto intro: stage_guard simp: numbered_def unnumbered_def num_of_nat_def)
  qed (simp add: shipped_snoc is_merge_def)
  show "triple (\<lambda>r. shipped gates (trace r) \<and> FoundPr found \<in> set (trace r))
      (if truthy_bin found
       then modify (\<lambda>s. s\<lparr>prUrl := found, prNumber := num_of_nat (prNumberFromUrl (the found))\<rparr>)
       else andThen (ask (o_createPr deps b h t (op_base opts) gh (fc_repo fc)) (\<lambda>c. OpenedPr (pr_number c))) (\<lambda>c.
         if truthy_bin (pr_error c) then throw (e c)
         else modify (\<lambda>s. s\<lparr>prNumber := num_of_nat (pr_number c), prUrl := pr_url c\<rparr>)))
      (\<lambda>_. numbered gates) ?G" for b h t e
  proof (rule triple_if)
    assume "truthy_bin found"
    then obtain u where "found = Some u" by (auto simp: truthy_bin_def split: option.splits)
    then show "triple (\<lambda>r. shipped gates (trace r) \<and> FoundPr found \<in> set (trace r))
        (modify (\<lambda>s. s\<lparr>prUrl := found, prNumber := num_of_nat (prNumberFromUrl (the found))\<rparr>)) (\<lambda>_. numbered gates) ?G"
      by (intro triple_modify) (auto simp: numbered_def unnumbered_def num_of_nat_def)
  qed (rule triple_weaken [OF create], auto)
qed (auto intro: guarded_snoc stage_guard simp: shipped_snoc is_merge_def)

text \<open>The loop that repairs CI ends well only on a poll that saw it settled.\<close>

lemma ci_react_true:
  "yields (\<lambda>c. c = Return True \<longrightarrow> ci_verdict st = ci_success \<or> ci_verdict st = ci_none)
     (ci_react pr cfg progress agent deps k st)"
  unfolding ci_react_def ci_fix_def Let_def
  by (cases "ci_verdict st"; simp only: ci_state.case; intro yields_intros) simp_all

lemma ci_step_settled:
  assumes "reports progress" and "ci_step pr cfg progress agent deps k r = (Inr (Return b), r')"
  shows "b \<longrightarrow> settled pr (trace r')"
proof -
  have "triple (\<lambda>_. True) (ci_step pr cfg progress agent deps k)
      (\<lambda>c r. c = Return True \<longrightarrow> settled pr (trace r)) (\<lambda>_. True)"
    unfolding ci_step_def
  proof (rule triple_andThen [OF triple_ask [where
          Q = "\<lambda>st r. last_poll (trace r) = Some (PolledCi pr (ci_verdict st))"]])
    fix st
    have "speaks (\<lambda>e. \<not> is_poll e) (ci_react pr cfg progress agent deps k st)"
      by (rule speaks_weaken [OF ci_react_no_poll [OF assms(1)]]) (simp add: is_poll_def split: event.splits)
    then have "keeps (\<lambda>r. last_poll (trace r) = Some (PolledCi pr (ci_verdict st)))
        (ci_react pr cfg progress agent deps k st)"
      by (rule speaks_keeps) simp
    then show "triple (\<lambda>r. last_poll (trace r) = Some (PolledCi pr (ci_verdict st)))
        (ci_react pr cfg progress agent deps k st) (\<lambda>c r. c = Return True \<longrightarrow> settled pr (trace r)) (\<lambda>_. True)"
      using yieldsD [OF ci_react_true] by (intro tripleI) (fastforce simp: settled_def keeps_def dest: tripleD)+
  qed (simp add: is_poll_def)
  with assms(2) show ?thesis using tripleD by fastforce
qed

lemma ciFixLoop_settles:
  assumes "reports progress" and "ciFixLoop pr cfg progress agent deps r = (Inr b, r')"
  shows "b \<longrightarrow> settled pr (trace r')"
  using assms(2) unfolding ciFixLoop_def
  by (rule ci_loop.loop_result [where Z = "\<lambda>b r. b \<longrightarrow> settled pr (trace r)", rotated])
     (rule ci_step_settled [OF assms(1)])

lemma await_ci_targets:
  assumes "reports (fc_progress fc)"
  shows "triple (numbered gates) (await_ci js opts fc gh deps) (\<lambda>_. targeted js gates)
           (\<lambda>r. guarded o2 tools env (trace r))"
  unfolding await_ci_def
proof (rule triple_andThen [OF triple_reads [where Q = "\<lambda>s r. numbered gates r \<and> s = adw r"]], simp)
  fix s
  let ?G = "\<lambda>r. guarded o2 tools env (trace r)"
  show "triple (\<lambda>r. numbered gates r \<and> s = adw r)
      (case prNumber s of None \<Rightarrow> ret ()
       | Some n \<Rightarrow> andThen (ciFixLoop (show_value js (JNum n)) (ci_config_of opts fc gh) (fc_progress fc) (fc_agent fc) deps)
           (\<lambda>green. if \<not> green then throw (AdwError ''CI is not green; refusing to merge'') else ret ()))
      (\<lambda>_. targeted js gates) ?G"
  proof (cases "prNumber s")
    case None
    then show ?thesis by (auto intro!: triple_ret simp: numbered_def targeted_def)
  next
    case (Some n)
    let ?pr = "show_value js (JNum n)"
    let ?loop = "ciFixLoop ?pr (ci_config_of opts fc gh) (fc_progress fc) (fc_agent fc) deps"
    have keep: "preserves prNumber ?loop" by (rule ciFixLoop_preserves [OF assms]) (simp add: ignores_cost_def)
    have "triple (\<lambda>r. numbered gates r \<and> s = adw r) ?loop
        (\<lambda>b r. shipped gates (trace r) \<and> prNumber (adw r) = Some n \<and> (b \<longrightarrow> settled ?pr (trace r))) ?G"
    proof (rule tripleI)
      fix r b r'
      assume r: "numbered gates r \<and> s = adw r" and run: "?loop r = (Inr b, r')"
      obtain es where "trace r' = trace r @ es" "list_all (working (ag_env (fc_agent fc)) {ph_resolve}) es"
        using speaksE [OF speaks_busy [OF ciFixLoop_speaks [OF assms]], of "{ph_resolve}"] run by (metis snd_conv subset_refl)
      moreover have "prNumber (adw r') = Some n" using keep run r Some unfolding preserves_def by (metis snd_conv)
      ultimately show "shipped gates (trace r') \<and> prNumber (adw r') = Some n \<and> (b \<longrightarrow> settled ?pr (trace r'))"
        using r ciFixLoop_settles [OF assms run] by (auto simp: numbered_def intro: shipped_append)
    next
      fix r e r'
      assume r: "numbered gates r \<and> s = adw r" and run: "?loop r = (Inl e, r')"
      have "keeps (\<lambda>r. guarded o2 tools env (trace r)) ?loop"
        by (rule guarded_step [OF speaks_busy [OF ciFixLoop_speaks [OF assms] subset_refl]])
      then show "guarded o2 tools env (trace r')"
        using r run by (auto dest!: tripleD_error simp: keeps_def intro: stage_guard)
    qed
    then have "triple (\<lambda>r. numbered gates r \<and> s = adw r)
        (andThen ?loop (\<lambda>b. if \<not> b then throw (AdwError ''CI is not green; refusing to merge'') else ret ()))
        (\<lambda>_. targeted js gates) ?G"
      by (rule triple_andThen)
         (intro triple_if triple_throw triple_ret; auto intro: stage_guard simp: targeted_def merge_target_def)
    with Some show ?thesis by simp
  qed
qed

section \<open>The merge\<close>

lemma numbered_step:
  assumes "speaks (working env' ps) t" and "preserves prNumber t"
  shows "triple (numbered gates) t (\<lambda>_. numbered gates) (\<lambda>r. guarded o2 tools env (trace r))"
proof (rule tripleI)
  fix r a r' assume r: "numbered gates r" and run: "t r = (Inr a, r')"
  obtain es where "trace r' = trace r @ es" "list_all (working env' ps) es"
    using speaksE [OF assms(1), of r] run by (metis snd_conv)
  moreover have "prNumber (adw r') = prNumber (adw r)" using assms(2) run unfolding preserves_def by (metis snd_conv)
  ultimately show "numbered gates r'" using r by (auto simp: numbered_def unnumbered_append intro: shipped_append)
next
  fix r e r' assume "numbered gates r" "t r = (Inl e, r')"
  then show "guarded o2 tools env (trace r')"
    using guarded_step [OF assms(1), of o2 tools env] by (auto dest!: tripleD_error simp: keeps_def intro: stage_guard)
qed

lemma last_poll_other: "\<not> is_poll e \<Longrightarrow> settled pr t \<Longrightarrow> settled pr (t @ [e])"
  by (simp add: settled_def)

lemma targeted_snoc:
  "targeted js gates r \<Longrightarrow> \<not> is_merge e \<Longrightarrow> \<not> is_poll e \<Longrightarrow>
     targeted js gates (r\<lparr>machine := m, trace := trace r @ [e]\<rparr>)"
  by (auto simp: targeted_def shipped_snoc unnumbered_append last_poll_other)

lemma confirmMerge_confirms:
  "triple (targeted js gates) (confirmMerge yes tty deps)
     (\<lambda>_ r. targeted js gates r \<and> (yes \<or> Confirmed True \<in> set (trace r)))
     (\<lambda>r. guarded o2 tools env (trace r))"
proof -
  let ?G = "\<lambda>r. guarded o2 tools env (trace r)"
  have "triple (targeted js gates) (andThen (ask (o_confirm deps prompt) Confirmed)
      (\<lambda>ok. if \<not> ok then throw (AdwError ''aborted'') else ret ()))
      (\<lambda>_ r. targeted js gates r \<and> (yes \<or> Confirmed True \<in> set (trace r))) ?G" for prompt
    by (rule triple_andThen [OF triple_ask [where Q = "\<lambda>ok r. targeted js gates r \<and> Confirmed ok \<in> set (trace r)"]])
       (auto intro: triple_throw triple_ret stage_guard targeted_snoc simp: is_merge_def is_poll_def)
  then show ?thesis
    unfolding confirmMerge_def by (intro triple_if triple_ret triple_throw) (auto intro: stage_guard)
qed

lemma merge_pr_guarded:
  fixes opts tools env
  defines "gates \<equiv> finalizeGates (op_testCmd opts) (extra_gates tools)"
  shows "triple (\<lambda>r. targeted js gates r \<and> (assumeYes (op_yes opts) env \<or> Confirmed True \<in> set (trace r)))
     (merge_pr js opts fc gh deps) (\<lambda>_ r. guarded opts tools env (trace r)) (\<lambda>r. guarded opts tools env (trace r))"
proof -
  let ?G = "\<lambda>r. guarded opts tools env (trace r)"
  let ?P = "\<lambda>r. targeted js gates r \<and> (assumeYes (op_yes opts) env \<or> Confirmed True \<in> set (trace r))"
  have after: "triple ?G (andThen (ask (o_pullRebase deps bs) (\<lambda>_. Rebased bs)) (\<lambda>_. mark_and_save js ph)) (\<lambda>_. ?G) ?G" for bs ph
    using guarded_step [of "[]" "{}"] unfolding keeps_def by (intro guarded_step [unfolded keeps_def] speaks_andThen
      speaks_ask speaks_mark) simp_all
  have merged: "?G (r\<lparr>machine := m, trace := trace r @ [Merged (merge_target js (adw r)) y]\<rparr>)" if "?P r" for r m y
    using that by (auto intro!: guarded_merge simp: targeted_def shipped_def gated_def unmerged_def backed_def gates_def)
  show ?thesis
    unfolding merge_pr_def
  proof (rule triple_andThen [OF triple_reads [where Q = "\<lambda>s r. ?P r \<and> s = adw r"]], simp,
      rule triple_andThen [OF triple_ask [where Q = "\<lambda>_. ?G"]])
    fix g :: git_result
    show "triple ?G (if \<not> g_ok g then throw (e g)
        else andThen (ask (o_pullRebase deps (op_base opts)) (\<lambda>_. Rebased (op_base opts))) (\<lambda>_. mark_and_save js ''merge''))
        (\<lambda>_. ?G) ?G" for e
      by (intro triple_if triple_throw after)
  qed (use merged in blast)
qed

lemma guarded_speaks:
  "speaks (working env' ps) t \<Longrightarrow> triple (\<lambda>r. guarded opts tools env (trace r)) t
     (\<lambda>_ r. guarded opts tools env (trace r)) (\<lambda>r. guarded opts tools env (trace r))"
  using guarded_step unfolding keeps_def by blast

lemma unmerged_speaks:
  "speaks (working env' ps) t \<Longrightarrow> triple (\<lambda>r. unmerged (trace r)) t (\<lambda>_ r. unmerged (trace r))
     (\<lambda>r. guarded opts tools env (trace r))"
  by (rule stage_step) (auto intro: unmerged_append unmerged_guard)

lemma gated_speaks:
  "speaks (working env' ps) t \<Longrightarrow> triple (\<lambda>r. gated gates (trace r)) t (\<lambda>_ r. gated gates (trace r))
     (\<lambda>r. guarded opts tools env (trace r))"
  by (rule stage_step) (auto simp: gated_def intro: unmerged_append unmerged_guard)

lemma finalizeAndMerge_guarded:
  fixes opts tools deps
  defines "env \<equiv> env_of (o_env deps)"
  assumes "reports (fc_progress fc)"
  shows "triple (\<lambda>r. unmerged (trace r)) (finalizeAndMerge js tools opts fc deps)
           (\<lambda>_ r. guarded opts tools env (trace r)) (\<lambda>r. guarded opts tools env (trace r))"
proof -
  let ?G = "\<lambda>r. guarded opts tools env (trace r)"
  let ?gates = "finalizeGates (op_testCmd opts) (extra_gates tools)"
  have report: "speaks (working [] {}) (fc_progress fc ph m)" for ph m by (rule reports_speaks [OF assms(2)]) simp
  have gates: "triple (\<lambda>r. unmerged (trace r)) (run_gates ?gates (fc_progress fc) deps) (\<lambda>_ r. gated ?gates (trace r)) ?G"
    using run_gates_gated [OF assms(2), of "[]" ?gates] by (simp add: gated_def)
  have pr: "triple (numbered ?gates) (andThen (reads adw) (\<lambda>s. fc_progress fc ph (m s))) (\<lambda>_. numbered ?gates) ?G" for ph m
    by (rule numbered_step [OF speaks_andThen [OF speaks_reads report]])
       (intro preserves_andThen preserves_basic reports_preserves [OF assms(2)])
  have saved: "triple (numbered ?gates) (save js) (\<lambda>_. numbered ?gates) ?G"
    by (rule numbered_step [where env' = "[]" and ps = "{}"]) (simp_all add: speaks_save preserves_basic)
  have ending: "triple ?G (andThen (verify_closed opts fc deps) (\<lambda>_. andThen (reads adw) (\<lambda>s.
      andThen (fc_progress fc ph (m s)) (\<lambda>_. ret (0 :: int))))) (\<lambda>_. ?G) ?G" for ph m
    by (rule guarded_speaks [where env' = "[]" and ps = "{}"])
       (intro speaks_andThen verify_speaks [OF assms(2)] speaks_reads report speaks_ret)
  show ?thesis
    unfolding finalizeAndMerge_def Let_def
    apply (rule triple_andThen [OF triple_reads [where Q = "\<lambda>_ r. unmerged (trace r)"]], assumption)
    apply (rule triple_if)
     apply (rule triple_weaken [OF guarded_speaks [OF already_merged_speaks [OF assms(2)]]], erule unmerged_guard, assumption, assumption)
    apply (rule triple_andThen [OF gates])
    apply (rule triple_andThen [OF gated_speaks [OF report]])
    apply (rule triple_andThen [OF commit_and_push_ships])
    apply (rule stage_refuse, erule stage_guard)
    apply (rule triple_andThen [OF ensure_pr_numbers])
    apply (rule triple_andThen [OF saved])
    apply (rule triple_andThen [OF pr])
    apply (rule triple_andThen [OF await_ci_targets [OF assms(2)]])
    apply (rule triple_andThen [OF triple_ask [where Q = "\<lambda>_. targeted js ?gates"]], erule targeted_snoc, simp add: is_merge_def, simp add: is_poll_def)
    apply (rule triple_andThen [OF confirmMerge_confirms])
    apply (fold env_def)
    apply (rule triple_andThen [OF merge_pr_guarded])
    apply (rule ending)
    done
qed

section \<open>The whole run\<close>

lemma triple_snd: "triple P t (\<lambda>_. E) E \<Longrightarrow> P r \<Longrightarrow> E (snd (t r))"
  unfolding triple_def by (fastforce split: prod.splits sum.splits)

lemma resolveState_speaks: "speaks (working env ps) (resolveState js opts inum deps)"
  unfolding resolveState_def load_existing_def fresh_state_def adopt_state_def
  by (intro speaks_intros) simp_all

lemma check_issue_speaks: "speaks (working env ps) (check_issue opts gh repo inum deps)"
  unfolding check_issue_def by (intro speaks_intros) simp_all

lemma work_on_guarded:
  "triple (\<lambda>r. unmerged (trace r)) (work_on js tools opts phases gh repo inum rn deps)
     (\<lambda>_ r. guarded opts tools (env_of (o_env deps)) (trace r))
     (\<lambda>r. guarded opts tools (env_of (o_env deps)) (trace r))"
proof -
  let ?G = "\<lambda>r. guarded opts tools (env_of (o_env deps)) (trace r)"
  have p: "reports (progress_of opts gh inum repo deps)" by (rule progress_reports)
  have optional: "speaks (working [] {}) (optional_step f l)" for f l
    by (rule optional_step_speaks) simp
  have silent: "triple (\<lambda>r. unmerged (trace r)) (ask f (\<lambda>_. Touched l)) (\<lambda>_ r. unmerged (trace r)) ?G" for f :: "('a, 'c) op" and l
    by (rule unmerged_speaks [of "[]" "{}"], rule speaks_ask) simp
  show ?thesis
    unfolding work_on_def Let_def
    apply (rule triple_andThen [OF unmerged_speaks [of "[]" "{}"]])
     apply (intro speaks_andThen speaks_reads reports_speaks [OF p], simp)
    apply (rule triple_andThen [OF silent])
    apply (rule triple_andThen [OF triple_reads [where Q = "\<lambda>_ r. unmerged (trace r)"]], assumption)
    apply (rule triple_andThen [OF unmerged_speaks [of "[]" "{}"]])
     apply (intro speaks_if speaks_ret speaks_andThen setup_speaks [OF p] speaks_mark, simp)
    apply (rule triple_andThen [OF silent])
    apply (rule triple_andThen [OF unmerged_speaks [OF optional]])
    apply (rule triple_finally)
      apply (rule triple_andThen [OF unmerged_speaks [OF run_phases_speaks]], simp add: p)
      apply (rule finalizeAndMerge_guarded, simp add: p)
     apply (rule guarded_speaks [OF optional])
    apply (rule guarded_speaks [OF optional])
    done
qed

lemma run_task_guarded:
  "triple (\<lambda>r. unmerged (trace r)) (run_task js tools inum rn options deps)
     (\<lambda>_ r. guarded (resolveOptions options) tools (env_of (o_env deps)) (trace r))
     (\<lambda>r. guarded (resolveOptions options) tools (env_of (o_env deps)) (trace r))"
  unfolding run_task_def Let_def
  apply (rule triple_andThen [OF unmerged_speaks [of "[]" "{}"]], rule lift_sum_speaks)
  apply (rule triple_if, rule triple_ret, erule unmerged_guard)
  apply (rule triple_andThen [OF unmerged_speaks [of "[]" "{}"]], intro speaks_if speaks_ret speaks_ask, simp)
  apply (rule triple_andThen [OF unmerged_speaks [OF check_issue_speaks [of "[]" "{}"]]])
  apply (rule triple_if, rule triple_ret, erule unmerged_guard)
  apply (rule triple_andThen [OF unmerged_speaks [OF resolveState_speaks [of "[]" "{}"]]])
  apply (rule triple_andThen [OF unmerged_speaks [OF speaks_modify [of "working [] {}"]]])
  apply (rule triple_andThen [OF unmerged_speaks [of "[]" "{}"]], rule speaks_save, simp)
  apply (rule triple_andThen [OF unmerged_speaks [of "[]" "{}"]], intro speaks_if speaks_ret speaks_ask, simp)
  apply (rule stage_refuse, erule unmerged_guard, rule work_on_guarded)
  done

text \<open>
  C1. A pull request is merged at most once in a run, and only with everything behind it, whatever
  the dependencies answer, the agents do and the saved state says: before the merge every finalize
  gate has exited with 0, the work has been committed and pushed, CI of that very pull request was
  last seen green or without any check, and the operator has confirmed unless \<open>--yes\<close> or
  \<open>MX_AGENT_YES\<close> speaks for them. The one exception is a pull request whose number could not be read
  off its URL: its CI is never looked at.
\<close>

theorem merge_guarded:
  "guarded (resolveOptions options) tools (env_of (o_env deps))
     (trace (snd (run_workflow js tools inum rn options deps m)))"
  unfolding run_workflow_def by (rule triple_snd [OF run_task_guarded]) (simp add: unmerged_def)

section \<open>A run that merges\<close>

text \<open>Dependencies that answer yes to everything, and a finalization with them: it ends in a merge.\<close>

definition demo_tools :: phase_tools where
  "demo_tools = \<lparr>safeParse = (\<lambda>_ v. Inr v), toJSONSchema = (\<lambda>_. JNull), process_env = (\<lambda>_. None)\<rparr>"

definition demo_deps :: "unit deps" where
  "demo_deps =
     \<lparr>o_env = [(''PATH'', Some ''/bin''), (''GH_TOKEN'', Some ''t'')],
      o_isatty = Pair True, o_confirm = (\<lambda>_. Pair True), o_wait = (\<lambda>_. Pair ()),
      o_runCmd = (\<lambda>_. Pair \<lparr>rc = 0, cmd_output = []\<rparr>), o_capture = (\<lambda>_. Pair \<lparr>returncode = 0, stdout = [], stderr = []\<rparr>),
      o_workingTreeDirty = Pair False, o_changedFiles = (\<lambda>_. Pair []), o_resolveGhBin = Some ''gh'',
      o_detectRepo = (\<lambda>_. Pair []), o_issueState = (\<lambda>_ _ _. Pair ''CLOSED''),
      o_postProgress = (\<lambda>_ _ _ _ _ _. Pair ()), o_fetchIssue = (\<lambda>_ _ _. Pair None),
      o_setStatus = (\<lambda>_ _ _ _. Pair (Inr ())), o_createOrCheckoutBranch = (\<lambda>_ _. Pair git_done),
      o_commitAll = (\<lambda>_. Pair git_done), o_push = (\<lambda>_. Pair git_done), o_pullRebase = (\<lambda>_. Pair git_done),
      o_prForBranch = (\<lambda>_ _ _. Pair (Inr None)),
      o_createPr = (\<lambda>_ _ _ _ _ _. Pair \<lparr>pr_number = Some 7, pr_url = Some ''u/7'', pr_error = None\<rparr>),
      o_ciStatus = (\<lambda>_ _ _. Pair \<lparr>ci_verdict = ci_success, failingJobs = []\<rparr>), o_squashMerge = (\<lambda>_ _ _. Pair git_done),
      o_runAgentPhase = (\<lambda>_ _. Pair (Inr \<lparr>out_data = [], out_usage = no_usage, out_sessionId = None\<rparr>)),
      o_classify = (\<lambda>_ _. Pair (Inr ([], no_usage))), o_makeAdwId = Pair ''0badcafe''\<rparr>"

definition demo_runner :: "unit agent_runner" where
  "demo_runner = \<lparr>runner_ident = claude_runner, nativeSchema = False, runner_start = None,
     runPhase = (\<lambda>_. Pair (Inl (AdwError []))), runner_stop = None\<rparr>"

definition demo_options :: run_options where
  "demo_options =
     \<lparr>ro_base = None, ro_phases = None, ro_adwId = None, ro_resume = None, ro_noProgress = None,
      ro_inheritEnv = None, ro_maxResolve = None, ro_maxPatch = None, ro_maxCiFix = None,
      ro_ciPollIntervalMs = None, ro_ciMaxPolls = None, ro_testCmd = Some ''make'', ro_model = None, ro_repo = None,
      ro_timeoutMs = None, ro_verify = None, ro_force = None, ro_allowDirty = None, ro_yes = None,
      ro_dryRun = None, ro_maxBudgetUsd = None\<rparr>"

definition demo_machine :: "unit machine" where
  "demo_machine = \<lparr>world = (), files = (\<lambda>_. None), writable = (\<lambda>_. True)\<rparr>"

definition demo_final :: "unit final_ctx" where
  "demo_final = \<lparr>fc_gh = Some ''gh'', fc_repo = [], fc_issue = 5,
     fc_agent = \<lparr>ag_runner = demo_runner, ag_cliModel = [], ag_env = [], ag_timeoutMs = 0, ag_maxBudgetUsd = None\<rparr>,
     fc_progress = (\<lambda>_ _. ret ())\<rparr>"



lemma demo_replies:
  "o_isatty demo_deps = Pair True" "o_confirm demo_deps prompt = Pair True"
  "o_runCmd demo_deps cmd = Pair \<lparr>rc = 0, cmd_output = []\<rparr>" "o_issueState demo_deps gh n repo = Pair ''CLOSED''"
  "o_commitAll demo_deps msg = Pair git_done" "o_push demo_deps b = Pair git_done" "o_pullRebase demo_deps b = Pair git_done"
  "o_prForBranch demo_deps b g repo = Pair (Inr None)"
  "o_createPr demo_deps b t x bs g repo = Pair \<lparr>pr_number = Some 7, pr_url = Some ''u/7'', pr_error = None\<rparr>"
  "o_ciStatus demo_deps pr g repo = Pair \<lparr>ci_verdict = ci_success, failingJobs = []\<rparr>"
  "o_squashMerge demo_deps pr g repo = Pair git_done"
  by (simp_all add: demo_deps_def)

lemma demo_ci:
  "ci_attempts pr cfg (\<lambda>_ _. ret ()) agent demo_deps k r =
     (Inr True, r\<lparr>trace := trace r @ [PolledCi pr ci_success]\<rparr>)"
  by (subst ci_attempts.simps) (simp add: ci_step_def ci_react_def task_defs demo_replies)

lemma no_gates: "extra_gates demo_tools = []"
  by code_simp

lemma merge_reached:
  "filter is_merge (trace (snd (finalizeAndMerge demo_adw_js demo_tools (resolveOptions demo_options) demo_final demo_deps
     \<lparr>machine = demo_machine, adw = new_state i, trace = []\<rparr>))) = [Merged ''7'' True]"
  by (simp add: finalizeAndMerge_def already_merged_def commit_and_push_def ensure_pr_def await_ci_def confirmMerge_def
      merge_pr_def verify_closed_def finalizeGates_def no_gates DEFAULT_FINALIZE_GATES_def demo_options_def
      resolveOptions_def demo_final_def demo_ci ciFixLoop_def task_defs Let_def new_state_def isDone_def save_def
      mark_and_save_def is_merge_def demo_replies git_done_def num_of_nat_def merge_target_def demo_adw_js_def
      truthy_bin_def)

end
