(* ===== verification/Checkpoints.thy ===== *)
theory Checkpoints
  imports Merge_Guard
begin

text \<open>
  The completed phases of a run: no phase is invoked after a saved state that records it as completed,
  and the state saved last knows every completed phase, however the run ends. And the environment
  every agent of a run is given.
\<close>

section \<open>The invariant\<close>

text \<open>What a saved state forbids later: an agent for a phase it records, repairs of a gate apart.\<close>

definition never_again :: "event \<Rightarrow> event \<Rightarrow> bool" where
  "never_again e e' =
     (case e of
        Saved s \<Rightarrow> (case e' of Invoked p v \<Rightarrow> p = ph_resolve \<or> \<not> isDone s (phase_name p) | _ \<Rightarrow> True)
      | _ \<Rightarrow> True)"

text \<open>The completed phases of the state saved last.\<close>

definition checkpoint :: "event list \<Rightarrow> string list" where
  "checkpoint t = foldl (\<lambda>c e. case e of Saved s \<Rightarrow> completedPhases s | _ \<Rightarrow> c) [] t"

text \<open>Every saved state's completed phases are among these.\<close>

definition recorded :: "string list \<Rightarrow> event list \<Rightarrow> bool" where
  "recorded ds t = (\<forall>s. Saved s \<in> set t \<longrightarrow> set (completedPhases s) \<subseteq> set ds)"

definition orderly :: "'x run \<Rightarrow> bool" where
  "orderly r =
     (sorted_wrt never_again (trace r)
      \<and> recorded (completedPhases (adw r)) (trace r)
      \<and> completedPhases (adw r) = checkpoint (trace r))"

lemma recorded_append: "recorded ds (t @ es) \<longleftrightarrow> recorded ds t \<and> recorded ds es"
  by (auto simp: recorded_def)

lemma recorded_mono: "recorded ds t \<Longrightarrow> set ds \<subseteq> set ds' \<Longrightarrow> recorded ds' t"
  by (auto simp: recorded_def)

lemma recorded_saved: "recorded (completedPhases s) [Saved s]"
  by (simp add: recorded_def)

lemma recordedD: "recorded ds t \<Longrightarrow> Saved s \<in> set t \<Longrightarrow> p \<in> set (completedPhases s) \<Longrightarrow> p \<in> set ds"
  by (auto simp: recorded_def)

text \<open>Phases that may still be invoked.\<close>

definition due :: "agent_phase set \<Rightarrow> 'x run \<Rightarrow> bool" where
  "due ps r = (orderly r \<and> (\<forall>p \<in> ps. p = ph_resolve \<or> \<not> isDone (adw r) (phase_name p)))"

lemma due_none [simp]: "due {} r = orderly r" "due {ph_resolve} r = orderly r"
  by (simp_all add: due_def)

lemma due_orderly: "due ps r \<Longrightarrow> orderly r"
  by (simp add: due_def)

section \<open>Steps between two saves\<close>

definition calm :: "agent_phase set \<Rightarrow> event \<Rightarrow> bool" where
  "calm ps e = (case e of Saved _ \<Rightarrow> False | Invoked p v \<Rightarrow> p \<in> ps | _ \<Rightarrow> True)"

lemma calm_simps [simp]:
  "calm ps (Ran c x)" "calm ps (Branched b y)" "calm ps (Committed m y)" "calm ps (Pushed b y)" "calm ps (Rebased b)"
  "calm ps (FoundPr u)" "calm ps (OpenedPr n)" "calm ps (PolledCi pr vd)" "calm ps (Slept ms)" "calm ps (Confirmed y)"
  "calm ps (Classified prompt)" "calm ps (Posted ph msg)" "calm ps (IssueSeen st)" "calm ps (Touched lab)"
  "calm ps (Merged pr y)" "calm ps (Invoked p v) \<longleftrightarrow> p \<in> ps" "\<not> calm ps (Saved s)"
  by (simp_all add: calm_def)

definition idle :: "agent_phase set \<Rightarrow> ('x, 'a) task \<Rightarrow> bool" where
  "idle ps t = (speaks (calm ps) t \<and> preserves completedPhases t)"

lemma idle_ret: "idle ps (ret a)"
  and idle_throw: "idle ps (throw e)"
  and idle_reads: "idle ps (reads f)"
  by (simp_all add: idle_def speaks_ret speaks_throw speaks_reads preserves_basic)

lemma idle_ask: "(\<And>a. calm ps (ev a)) \<Longrightarrow> idle ps (ask f ev)"
  by (simp add: idle_def speaks_ask preserves_basic)

lemma idle_attempt: "(\<And>a. calm ps (ev a)) \<Longrightarrow> idle ps (attempt_op f ev)"
  by (simp add: idle_def speaks_attempt preserves_basic)

lemma idle_modify: "(\<And>s. completedPhases (f s) = completedPhases s) \<Longrightarrow> idle ps (modify f)"
  by (simp add: idle_def speaks_modify preserves_modify)

lemma idle_andThen: "idle ps t \<Longrightarrow> (\<And>a. idle ps (k a)) \<Longrightarrow> idle ps (andThen t k)"
  unfolding idle_def by (intro conjI speaks_andThen preserves_andThen) blast+

lemma idle_if: "(b \<Longrightarrow> idle ps s) \<Longrightarrow> (\<not> b \<Longrightarrow> idle ps t) \<Longrightarrow> idle ps (if b then s else t)"
  by simp

lemma idle_option:
  "(v = None \<Longrightarrow> idle ps s) \<Longrightarrow> (\<And>a. v = Some a \<Longrightarrow> idle ps (t a)) \<Longrightarrow>
     idle ps (case v of None \<Rightarrow> s | Some a \<Rightarrow> t a)"
  by (simp split: option.split)

lemma idle_sum:
  "(\<And>a. v = Inl a \<Longrightarrow> idle ps (s a)) \<Longrightarrow> (\<And>a. v = Inr a \<Longrightarrow> idle ps (t a)) \<Longrightarrow>
     idle ps (case v of Inl a \<Rightarrow> s a | Inr a \<Rightarrow> t a)"
  by (simp split: sum.split)

lemma idle_reports: "reports progress \<Longrightarrow> idle ps (progress ph m)"
  unfolding idle_def by (simp add: reports_speaks reports_preserves)

lemma idle_recordUsage: "idle ps (recordUsage u)"
  unfolding idle_def by (simp add: recordUsage_speaks recordUsage_preserves ignores_cost_def)

lemma idle_invoke: "p \<in> ps \<Longrightarrow> idle ps (invokeAgent deps p args agent)"
  unfolding idle_def by (simp add: invokeAgent_speaks invokeAgent_preserves)

lemma idle_lift: "idle ps (lift_sum x)"
  unfolding lift_sum_def by (intro idle_sum idle_ret idle_throw)

lemma idle_write: "idle ps (write_task path t)"
  unfolding write_task_def by (rule idle_attempt) simp

lemma idle_optional: "idle ps (optional_step f l)"
  unfolding optional_step_def by (intro idle_option idle_ret idle_attempt) simp

lemmas idle_intros = idle_ret idle_throw idle_reads idle_ask idle_attempt idle_modify idle_andThen idle_if
  idle_option idle_sum idle_recordUsage idle_invoke idle_lift idle_write idle_optional

lemma busy_calm: "busy env ps e \<Longrightarrow> calm ps e"
  by (auto simp: busy_def calm_def split: event.splits)

lemma idle_loops:
  assumes "reports progress"
  shows "idle {ph_resolve} (resolveLoop testCmd n progress agent deps)"
    and "idle {ph_patch} (patchLoop js findings n progress agent deps)"
    and "idle {ph_resolve} (ciFixLoop pr cfg progress agent deps)"
  unfolding idle_def using assms
  by (auto intro: speaks_weaken [OF resolveLoop_speaks busy_calm] speaks_weaken [OF patchLoop_speaks busy_calm]
      speaks_weaken [OF ciFixLoop_speaks busy_calm] resolveLoop_preserves patchLoop_preserves ciFixLoop_preserves
      simp: ignores_cost_def)

section \<open>What keeps the invariant\<close>

lemma checkpoint_calm: "list_all (calm ps) es \<Longrightarrow> checkpoint (t @ es) = checkpoint t"
proof -
  have "list_all (calm ps) es \<Longrightarrow> foldl (\<lambda>c e. case e of Saved s \<Rightarrow> completedPhases s | _ \<Rightarrow> c) c es = c" for c
    by (induction es) (auto simp: calm_def split: event.splits)
  then show "list_all (calm ps) es \<Longrightarrow> checkpoint (t @ es) = checkpoint t" by (simp add: checkpoint_def)
qed

lemma calm_sorted: "list_all (calm ps) es \<Longrightarrow> sorted_wrt never_again es"
  by (induction es) (auto simp: calm_def never_again_def split: event.splits)

lemma idle_keeps:
  fixes t :: "('x, 'a) task"
  assumes "idle ps t"
  shows "keeps (due ps) t"
proof (rule keepsI)
  fix r :: "'x run"
  assume r: "due ps r"
  obtain es where es: "trace (snd (t r)) = trace r @ es" "list_all (calm ps) es"
    using assms speaksE unfolding idle_def by blast
  have kept: "completedPhases (adw (snd (t r))) = completedPhases (adw r)"
    using assms by (simp add: idle_def preserves_def)
  have "never_again e e'" if "e \<in> set (trace r)" "e' \<in> set es" for e e'
  proof (cases "\<exists>s p v. e = Saved s \<and> e' = Invoked p v")
    case True
    then obtain s p v where e: "e = Saved s" "e' = Invoked p v" by blast
    have "p \<in> ps" using e that es(2) by (auto simp: list_all_iff)
    then show ?thesis using r that e recordedD by (fastforce simp: never_again_def due_def orderly_def isDone_def)
  qed (auto simp: never_again_def split: event.splits)
  moreover have "recorded (completedPhases (adw r)) es" using es(2) by (auto simp: list_all_iff recorded_def)
  ultimately show "due ps (snd (t r))"
    using r es kept calm_sorted [OF es(2)] checkpoint_calm [OF es(2)]
    by (clarsimp simp: due_def orderly_def sorted_wrt_append isDone_def recorded_append)
qed

lemma checkpoint_saved: "checkpoint (t @ [Saved s]) = completedPhases s"
  by (simp add: checkpoint_def)

lemma save_orderly:
  "triple (\<lambda>r. sorted_wrt never_again (trace r) \<and> recorded (completedPhases (adw r)) (trace r))
     (save js) (\<lambda>_. orderly) E"
proof (rule triple_save)
  fix r :: "'a run" and m
  assume r: "sorted_wrt never_again (trace r) \<and> recorded (completedPhases (adw r)) (trace r)"
  have "never_again e (Saved s)" for e s by (simp add: never_again_def split: event.split)
  with r show "orderly (r\<lparr>machine := m, trace := trace r @ [Saved (adw r)]\<rparr>)"
    by (simp add: orderly_def sorted_wrt_append checkpoint_saved recorded_append recorded_saved)
qed

lemma save_keeps: "keeps orderly (save js)"
  unfolding keeps_def by (rule triple_weaken [OF save_orderly]) (auto simp: orderly_def)

lemma mark_orderly: "triple (due ps) (mark_and_save js phase) (\<lambda>_. orderly) orderly"
  unfolding mark_and_save_def
  by (rule triple_andThen [OF triple_modify save_orderly])
     (auto simp: due_def orderly_def elim: recorded_mono)

text \<open>Steps of a phase that is due, up to the mark that completes it, and steps outside of a phase.\<close>

lemma due_then:
  "idle ps t \<Longrightarrow> (\<And>a. triple (due ps) (k a) Q orderly) \<Longrightarrow> triple (due ps) (andThen t k) Q orderly"
  by (rule triple_andThen [where R = "\<lambda>_. due ps"])
     (auto intro: due_orderly triple_weaken [OF idle_keeps [unfolded keeps_def]])

lemma due_mark_then:
  "(\<And>a. keeps orderly (k a)) \<Longrightarrow> triple (due ps) (andThen (mark_and_save js phase) k) (\<lambda>_. orderly) orderly"
  unfolding keeps_def by (rule triple_andThen [OF mark_orderly])

lemma due_idle: "idle ps t \<Longrightarrow> triple (due ps) t (\<lambda>_. orderly) orderly"
  by (rule triple_weaken [OF idle_keeps [unfolded keeps_def]]) (auto intro: due_orderly)

lemma orderly_idle: "idle {} t \<Longrightarrow> keeps orderly t"
  using idle_keeps [of "{}"] by (simp add: due_def [abs_def] cong: if_cong)

lemma orderly_ci: "idle {ph_resolve} t \<Longrightarrow> keeps orderly t"
  using idle_keeps [of "{ph_resolve}"] by (simp add: due_def [abs_def])

lemma orderly_mark: "keeps orderly (mark_and_save js phase)"
  using mark_orderly [of "{}"] by (simp add: keeps_def due_def [abs_def])

lemmas due_intros = due_then due_mark_then due_idle

section \<open>The phases\<close>

lemma classify_shared_orderly:
  assumes "reports (pc_progress pc)"
  shows "triple (due ps) (classify_shared js pc deps v) (\<lambda>_. orderly) orderly"
  unfolding classify_shared_def case_prod_unfold
  by (intro due_then due_mark_then idle_intros idle_reports [OF assms] orderly_idle)
     (simp_all add: applyResult_def)

lemma absorb_completed: "completedPhases (absorbAuthoredText js read s) = completedPhases s"
  by (simp add: absorbAuthoredText_def Let_def split: option.split)

lemma applyResult_completed: "completedPhases (applyResult p result s) = completedPhases s"
  by (simp add: applyResult_def split: option.split)

lemma agent_phase_orderly:
  assumes "reports (pc_progress pc)"
  shows "triple (due {p}) (agent_phase_task js pc deps p v) (\<lambda>_. orderly) orderly"
  unfolding agent_phase_task_def Let_def
  by (intro due_then due_mark_then idle_intros idle_reports [OF assms] orderly_idle)
     (simp_all add: absorb_completed applyResult_completed)

lemma run_phase_orderly:
  assumes "reports (pc_progress pc)"
  shows "triple (due {p}) (run_phase js pc deps p v) (\<lambda>_. orderly) orderly"
proof -
  note loops = idle_loops [OF assms]
  have marked: "triple (due qs) (andThen (mark_and_save js ph) (\<lambda>_. ret v)) (\<lambda>_. orderly) orderly" for qs ph
    by (intro due_mark_then keeps_ret)
  show ?thesis
  proof (cases "p = ph_resolve")
    case True
    have step: "triple (due {ph_resolve}) (andThen (resolveLoop (op_testCmd (pc_opts pc)) (op_maxResolve (pc_opts pc))
        (pc_progress pc) (pc_agent pc) deps) (\<lambda>_. andThen (mark_and_save js (phase_name ph_resolve)) (\<lambda>_. ret v)))
        (\<lambda>_. orderly) orderly"
      by (rule due_then [OF loops(1)]) (rule marked)
    show ?thesis unfolding True run_phase_def by (subst if_P [OF refl]) (rule step)
  next
    case other: False
    show ?thesis
    proof (cases "p = ph_patch")
      case True
      with other show ?thesis
        unfolding run_phase_def by (simp only: simp_thms if_True if_False) (intro due_then idle_reads loops marked)
    next
      case False
      with other show ?thesis
        unfolding run_phase_def
        by (simp only: if_False) (intro triple_if classify_shared_orderly agent_phase_orderly assms)
    qed
  qed
qed

lemma phase_turn_orderly:
  assumes "reports (pc_progress pc)"
  shows "keeps orderly (phase_turn js pc deps p v)"
  unfolding keeps_def phase_turn_def
proof (rule triple_andThen [OF triple_reads [where Q = "\<lambda>already r. orderly r \<and> (\<not> already \<longrightarrow> due {p} r)"]])
  fix already
  have skip: "keeps orderly (andThen (pc_progress pc (phase_name p) m) (\<lambda>_. andThen (mark_and_save js (phase_name p)) (\<lambda>_. ret v)))" for m
    by (intro keeps_andThen orderly_idle idle_reports [OF assms] orderly_mark keeps_ret)
  have gated: "triple (due {p}) (andThen (lift_sum g) (\<lambda>gate. if \<not> runIt gate
      then andThen (pc_progress pc (phase_name p) (m gate)) (\<lambda>_. andThen (mark_and_save js (phase_name p)) (\<lambda>_. ret v))
      else run_phase js pc deps p v)) (\<lambda>_. orderly) orderly" for g m
    by (intro due_then idle_lift triple_if run_phase_orderly [OF assms]
        triple_weaken [OF skip [unfolded keeps_def]]) (auto intro: due_orderly)
  show "triple (\<lambda>r. orderly r \<and> (\<not> already \<longrightarrow> due {p} r))
      (if already then ret v
       else if p \<in> CONDITIONAL_PHASES then andThen (lift_sum (gateConditional p (pv_signal v) (pv_files v)))
         (\<lambda>gate. if \<not> runIt gate
           then andThen (pc_progress pc (phase_name p) (''skipped: '' @ reason gate))
             (\<lambda>_. andThen (mark_and_save js (phase_name p)) (\<lambda>_. ret v))
           else run_phase js pc deps p v)
       else run_phase js pc deps p v) (\<lambda>_. orderly) orderly"
  proof (rule triple_if)
    assume "\<not> already"
    then show "triple (\<lambda>r. orderly r \<and> (\<not> already \<longrightarrow> due {p} r))
      (if p \<in> CONDITIONAL_PHASES then andThen (lift_sum (gateConditional p (pv_signal v) (pv_files v)))
         (\<lambda>gate. if \<not> runIt gate
           then andThen (pc_progress pc (phase_name p) (''skipped: '' @ reason gate))
             (\<lambda>_. andThen (mark_and_save js (phase_name p)) (\<lambda>_. ret v))
           else run_phase js pc deps p v)
       else run_phase js pc deps p v) (\<lambda>_. orderly) orderly"
      by (intro triple_if triple_weaken [OF gated] triple_weaken [OF run_phase_orderly [OF assms]]) auto
  qed (intro triple_ret, simp)
qed (simp add: due_def)

lemma run_phases_orderly: "reports (pc_progress pc) \<Longrightarrow> keeps orderly (run_phases js pc deps ps v)"
  by (induction ps arbitrary: v) (simp_all add: keeps_ret keeps_andThen phase_turn_orderly)

section \<open>The finalization and the run\<close>

lemma finalize_parts:
  assumes "reports (fc_progress fc)"
  shows "idle {} (already_merged opts fc deps)" "idle {} (commit_and_push fc deps)" "idle {} (ensure_pr opts fc gh deps)"
    "idle {ph_resolve} (await_ci js opts fc gh deps)" "idle {} (confirmMerge yes tty deps)"
    "idle {} (verify_closed opts fc deps)"
  unfolding already_merged_def commit_and_push_def ensure_pr_def await_ci_def confirmMerge_def verify_closed_def Let_def
  by (intro idle_intros idle_reports [OF assms] idle_loops(3) [OF assms]; simp)+

lemma run_gates_idle:
  assumes "reports progress"
  shows "idle {} (run_gates gates progress deps)"
proof (induction gates)
  case (Cons gate gates)
  then show ?case
    unfolding run_gates.simps
    by (intro idle_andThen idle_ask idle_if idle_throw idle_reports [OF assms]) simp_all
qed (simp add: idle_ret)

lemma merge_pr_orderly: "keeps orderly (merge_pr js opts fc gh deps)"
  unfolding merge_pr_def by (intro keeps_andThen keeps_if keeps_reads keeps_throw orderly_mark orderly_idle idle_ask) simp_all

lemma finalizeAndMerge_orderly:
  assumes "reports (fc_progress fc)"
  shows "keeps orderly (finalizeAndMerge js tools opts fc deps)"
proof -
  note parts = finalize_parts [OF assms]
  have tty: "keeps orderly (ask (o_isatty deps) (\<lambda>_. Touched l))" for l by (intro orderly_idle idle_ask) simp
  note steps = keeps_andThen keeps_if keeps_reads keeps_ret keeps_throw tty save_keeps merge_pr_orderly
    orderly_idle [OF parts(1)] orderly_idle [OF parts(2)] orderly_idle [OF parts(3)] orderly_ci [OF parts(4)]
    orderly_idle [OF parts(5)] orderly_idle [OF parts(6)] orderly_idle [OF run_gates_idle [OF assms]]
    orderly_idle [OF idle_reports [OF assms]]
  show ?thesis unfolding finalizeAndMerge_def Let_def by (intro steps)
qed

lemma setup_idle:
  assumes "reports progress"
  shows "idle {} (setup_run js gh repo inum ctx bs progress deps)"
  unfolding setup_run_def Let_def by (intro idle_intros idle_reports [OF assms]) simp_all

lemma work_on_orderly: "keeps orderly (work_on js tools opts phases gh repo inum rn deps)"
proof -
  note p = progress_reports
  have fetched: "keeps orderly (ask (o_fetchIssue deps gh inum repo) (\<lambda>_. Touched l))"
    and changed: "keeps orderly (ask (o_changedFiles deps bs) (\<lambda>_. Touched l))" for l bs
    by (intro orderly_idle idle_ask; simp)+
  show ?thesis
    unfolding work_on_def Let_def
    by (intro keeps_finally keeps_andThen keeps_if keeps_reads keeps_ret fetched changed
        orderly_mark orderly_idle [OF idle_reports [OF p]] orderly_idle [OF setup_idle [OF p]] orderly_idle [OF idle_optional]
        run_phases_orderly finalizeAndMerge_orderly) (simp_all add: p)
qed

text \<open>Before the state of a run is resolved nothing is saved and nobody invoked.\<close>

definition quiet :: "'x run \<Rightarrow> bool" where
  "quiet r = (list_all (calm {}) (trace r) \<and> completedPhases (adw r) = [])"

lemma quiet_orderly: "quiet r \<Longrightarrow> orderly r"
  using checkpoint_calm [of "{}" "trace r" "[]"]
  by (auto simp: quiet_def orderly_def calm_sorted recorded_def list_all_iff checkpoint_def)

lemma quiet_idle: "idle {} t \<Longrightarrow> triple quiet t (\<lambda>_. quiet) orderly"
proof (rule tripleI)
  fix r a r' assume t: "idle {} t" "quiet r" "t r = (Inr a, r')"
  then have "speaks (calm {}) t" by (simp add: idle_def)
  from speaksE [OF this, of r] t show "quiet r'"
    unfolding quiet_def idle_def preserves_def by (metis list_all_append snd_conv)
next
  fix r e r' assume t: "idle {} t" "quiet r" "t r = (Inl e, r')"
  then have "orderly r" by (intro quiet_orderly)
  then show "orderly r'" using orderly_idle [OF t(1)] t(3) keepsD by fastforce
qed

lemma adopt_orderly: "triple quiet (adopt_state js inum resumed s) (\<lambda>_. orderly) orderly"
  unfolding adopt_state_def
proof (rule triple_if)
  show "triple quiet (andThen (modify (\<lambda>_. s\<lparr>issueNumber := n\<rparr>)) (\<lambda>_. andThen (save js) (\<lambda>_. ret resumed)))
      (\<lambda>_. orderly) orderly" for n
    by (rule triple_andThen [OF triple_modify triple_andThen [OF save_orderly]])
       (auto simp: quiet_def recorded_def list_all_iff calm_sorted intro: triple_ret)
qed (intro triple_throw, rule quiet_orderly)

lemma resolveState_orderly: "triple quiet (resolveState js opts inum deps) (\<lambda>_. orderly) orderly"
proof -
  have load: "triple quiet (load_existing js opts) (\<lambda>_. quiet) orderly"
    unfolding load_existing_def by (intro quiet_idle idle_intros)
  have fresh: "triple quiet (fresh_state js opts inum deps) (\<lambda>_. quiet) orderly"
    unfolding fresh_state_def by (intro quiet_idle idle_intros) simp
  have refuse: "triple quiet (throw e) (\<lambda>_. orderly) orderly" for e by (intro triple_throw) (rule quiet_orderly)
  show ?thesis
    unfolding resolveState_def
  proof (intro triple_if refuse triple_andThen [OF load])
    fix existing
    show "triple quiet (case existing of Some s \<Rightarrow> adopt_state js inum True s
        | None \<Rightarrow> andThen (fresh_state js opts inum deps) (adopt_state js inum False)) (\<lambda>_. orderly) orderly"
      by (cases existing) (simp_all add: adopt_orderly triple_andThen [OF fresh])
  qed
qed

lemma check_issue_idle: "idle {} (check_issue opts gh repo inum deps)"
  unfolding check_issue_def by (intro idle_intros) simp_all

lemma run_task_orderly: "triple quiet (run_task js tools inum rn options deps) (\<lambda>_. orderly) orderly"
proof -
  note idle = keeps_andThen orderly_idle [OF idle_modify] save_keeps keeps_if keeps_throw work_on_orderly keeps_ret
  have dirty: "keeps orderly (ask f (\<lambda>_. Touched l))" for f :: "('a, bool) op" and l by (intro orderly_idle idle_ask) simp
  have rest: "keeps orderly (andThen (modify (\<lambda>s. s\<lparr>engine := e, runner := n\<rparr>)) (\<lambda>_. andThen (save js) (\<lambda>_.
      andThen (if b then ret False else ask (o_workingTreeDirty deps) (\<lambda>_. Touched l)) (\<lambda>d.
        if d then throw x else work_on js tools opts phases gh repo inum rn deps))))" for e n b l x opts phases gh repo
    by (intro idle dirty) simp
  show ?thesis
    unfolding run_task_def Let_def
    apply (rule triple_andThen [OF quiet_idle [OF idle_lift]])
    apply (rule triple_if, rule triple_ret, erule quiet_orderly)
    apply (rule triple_andThen [OF quiet_idle], intro idle_if idle_ret idle_ask, simp)
    apply (rule triple_andThen [OF quiet_idle [OF check_issue_idle]])
    apply (rule triple_if, rule triple_ret, erule quiet_orderly)
    apply (rule triple_andThen [OF resolveState_orderly])
    apply (rule rest [unfolded keeps_def])
    done
qed

lemma run_orderly: "orderly (snd (run_workflow js tools inum rn options deps m))"
  unfolding run_workflow_def by (rule triple_snd [OF run_task_orderly]) (simp add: quiet_def new_state_def)



section \<open>The environment of the agents\<close>

definition acting :: "(string \<times> string) list \<Rightarrow> event \<Rightarrow> bool" where
  "acting env e = (case e of Invoked p v \<Rightarrow> v = env | _ \<Rightarrow> True)"

lemma acting_simps [simp]:
  "acting env (Merged pr y)" "acting env (Rebased b)" "acting env (Saved s)" "acting env (Touched l)" "acting env (Posted ph msg)"
  by (simp_all add: acting_def)

lemma working_acting: "working env ps e \<Longrightarrow> acting env e"
  by (auto simp: working_def busy_def acting_def split: event.splits)

lemma acts: "speaks (working env ps) t \<Longrightarrow> speaks (acting env) t"
  by (erule speaks_weaken) (rule working_acting)

lemma finalizeAndMerge_acts:
  assumes "reports (fc_progress fc)"
  shows "speaks (acting (ag_env (fc_agent fc))) (finalizeAndMerge js tools opts fc deps)"
proof -
  note steps = speaks_andThen speaks_if speaks_ret speaks_throw speaks_reads speaks_save speaks_mark speaks_ask
    acts [OF already_merged_speaks [OF assms]] acts [OF run_gates_speaks [OF assms]] acts [OF commit_and_push_speaks]
    acts [OF ensure_pr_speaks] acts [OF await_ci_speaks [OF assms]] acts [OF confirm_speaks]
    acts [OF verify_speaks [OF assms]] reports_speaks [OF assms]
  have merge: "speaks (acting (ag_env (fc_agent fc))) (merge_pr js opts fc gh deps)" for gh
    unfolding merge_pr_def by (intro steps) simp_all
  show ?thesis unfolding finalizeAndMerge_def Let_def by (intro steps merge) simp_all
qed

lemma work_on_acts:
  "speaks (acting (agent_env opts (runner_ident rn) (o_env deps))) (work_on js tools opts phases gh repo inum rn deps)"
proof -
  let ?env = "agent_env opts (runner_ident rn) (o_env deps)"
  let ?agent = "\<lparr>ag_runner = rn, ag_cliModel = op_model opts, ag_env = ?env, ag_timeoutMs = op_timeoutMs opts,
                  ag_maxBudgetUsd = op_maxBudgetUsd opts\<rparr>"
  note p = progress_reports
  have phases: "speaks (acting ?env) (run_phases js \<lparr>pc_issue = inum, pc_ctx = ctx, pc_opts = opts, pc_agent = ?agent,
      pc_progress = progress_of opts gh inum repo deps\<rparr> deps phases v)" for ctx v
    using acts [OF run_phases_speaks [where pc = "\<lparr>pc_issue = inum, pc_ctx = ctx, pc_opts = opts, pc_agent = ?agent,
      pc_progress = progress_of opts gh inum repo deps\<rparr>"]] by (simp add: p)
  have final: "speaks (acting ?env) (finalizeAndMerge js tools opts \<lparr>fc_gh = gh, fc_repo = repo, fc_issue = inum,
      fc_agent = ?agent, fc_progress = progress_of opts gh inum repo deps\<rparr> deps)"
    using finalizeAndMerge_acts [where fc = "\<lparr>fc_gh = gh, fc_repo = repo, fc_issue = inum,
      fc_agent = ?agent, fc_progress = progress_of opts gh inum repo deps\<rparr>"] by (simp add: p)
  have optional: "speaks (acting ?env) (optional_step f l)" for f l by (rule optional_step_speaks) simp
  show ?thesis
    unfolding work_on_def Let_def
    by (intro speaks_andThen speaks_finally speaks_reads speaks_if speaks_ret speaks_mark speaks_ask phases final optional
        reports_speaks [OF p] acts [OF setup_speaks [OF p]]) simp_all
qed

lemma run_acts:
  "list_all (acting (agent_env (resolveOptions options) (runner_ident rn) (o_env deps)))
     (trace (snd (run_workflow js tools inum rn options deps m)))"
proof -
  let ?env = "agent_env (resolveOptions options) (runner_ident rn) (o_env deps)"
  have "speaks (acting ?env) (run_task js tools inum rn options deps)"
    unfolding run_task_def Let_def
    by (intro speaks_andThen speaks_if speaks_ret speaks_throw speaks_ask speaks_modify speaks_save lift_sum_speaks
        acts [OF check_issue_speaks] acts [OF resolveState_speaks] work_on_acts) simp_all
  from speaksE [OF this, of "\<lparr>machine = m, adw = new_state [], trace = []\<rparr>"] show ?thesis
    unfolding run_workflow_def by auto
qed

text \<open>
  What an agent may be given: with \<open>--inherit-env\<close> the environment of the run, else the values it has
  for the keys on the allowlist of the runner.
\<close>

definition confined :: "resolved_options \<Rightarrow> runner_id \<Rightarrow> (string \<times> string option) list \<Rightarrow> event \<Rightarrow> bool" where
  "confined opts r env e =
     (case e of
        Invoked p given \<Rightarrow>
          if op_inheritEnv opts then given = definedEnv env
          else map_of given = (\<lambda>key. if key \<in> set (env_allowlist False (Some r) []) then env_of env key else None)
      | _ \<Rightarrow> True)"

definition is_secret :: "string \<Rightarrow> bool" where
  "is_secret key = (key = ''GH_TOKEN'' \<or> key = ''GH_BIN'' \<or> list_ex (startsWith key) ADW_ENV_DENY_PREFIXES)"


end
