(* ===== verification/Adw_Cli.thy ===== *)
theory Adw_Cli
  imports Orchestrator
begin

text \<open>
  The command line of the workflow (adw_sdlc/src/cli.ts): the engine, the arguments of a run, and the
  entry point, which turns every \<open>AdwError\<close> into exit code 1. Usage and notices are output only and
  are left out; a count is an exact integer (\<open>Number\<close> rounds beyond 2 to the 53rd).
\<close>

section \<open>Engines\<close>

datatype engine_id = engine_py | engine_ts

definition engine_name :: "engine_id \<Rightarrow> string" where
  "engine_name e = (case e of engine_py \<Rightarrow> ''py'' | engine_ts \<Rightarrow> ''ts'')"

definition ENGINE_IDS :: "engine_id list" where
  "ENGINE_IDS = [engine_py, engine_ts]"

definition DEFAULT_ENGINE :: engine_id where
  "DEFAULT_ENGINE = engine_ts"

definition resolveEngineId :: "string option \<Rightarrow> adw_failure + engine_id" where
  "resolveEngineId raw =
     (case raw of
        None \<Rightarrow> Inr DEFAULT_ENGINE
      | Some s \<Rightarrow>
          if s = [] then Inr DEFAULT_ENGINE
          else case find (\<lambda>e. engine_name e = s) ENGINE_IDS of
                 Some e \<Rightarrow> Inr e
               | None \<Rightarrow> Inl (AdwError (''unknown engine: '' @ [apostrophe] @ s @ [apostrophe] @ '' (valid: ''
                            @ join_with '', '' (map engine_name ENGINE_IDS) @ '')'')))"

definition splitPassthru :: "string list \<Rightarrow> string list \<times> string list" where
  "splitPassthru argv = (takeWhile (\<lambda>a. a \<noteq> ''--'') argv, drop 1 (dropWhile (\<lambda>a. a \<noteq> ''--'') argv))"

definition engine_missing :: adw_failure where
  "engine_missing = AdwError ''--engine requires a value (py or ts)''"

fun engine_scan ::
  "string option \<Rightarrow> string list \<Rightarrow> string list \<Rightarrow> adw_failure + string option \<times> string list" where
  "engine_scan picked rest [] = Inr (picked, rest)"
| "engine_scan picked rest (arg # args) =
     (if arg = ''--engine'' then
        (case args of
           [] \<Rightarrow> Inl engine_missing
         | value # args' \<Rightarrow> if value = [] then Inl engine_missing else engine_scan (Some value) rest args')
      else if startsWith arg ''--engine='' then
        (if drop 9 arg = [] then Inl engine_missing else engine_scan (Some (drop 9 arg)) rest args)
      else engine_scan picked (rest @ [arg]) args)"

definition extractEngineFlag :: "string list \<Rightarrow> adw_failure + string option \<times> string list" where
  "extractEngineFlag args = engine_scan None [] args"

section \<open>Flags\<close>

definition PY_ONLY_FLAGS :: "string list" where
  "PY_ONLY_FLAGS = [''--one-shot'', ''--template'', ''--json'', ''--print-prompt'', ''--log-dir'', ''--thinking'']"

definition BOOLEAN_FLAGS :: "string list" where
  "BOOLEAN_FLAGS =
     [''--resume'', ''--no-progress'', ''--inherit-env'', ''--no-verify'', ''--force'', ''--allow-dirty'', ''-y'',
      ''--yes'', ''--dry-run'']"

definition VALUE_FLAGS :: "string list" where
  "VALUE_FLAGS =
     [''--runner'', ''--phases'', ''--adw-id'', ''--max-resolve'', ''--max-patch'', ''--max-ci-fix'',
      ''--ci-poll-interval'', ''--ci-max-polls'', ''--test-cmd'', ''--model'', ''--repo'', ''--base'', ''--timeout'',
      ''--max-budget-usd'']"

text \<open>The regular expressions: an optional minus and digits; and a minus followed by a digit.\<close>

definition magnitude :: "string \<Rightarrow> string" where
  "magnitude v = (if startsWith v ''-'' then drop 1 v else v)"

definition is_int_text :: "string \<Rightarrow> bool" where
  "is_int_text v = (magnitude v \<noteq> [] \<and> list_all is_digit (magnitude v))"

definition negative_start :: "string \<Rightarrow> bool" where
  "negative_start v = (case v of c # d # _ \<Rightarrow> c = CHR ''-'' \<and> is_digit d | _ \<Rightarrow> False)"

definition parseIntFlag :: "string \<Rightarrow> string \<Rightarrow> adw_failure + int" where
  "parseIntFlag flag value =
     (if \<not> is_int_text value then Inl (AdwError (flag @ '' expects an integer, got: '' @ value))
      else Inr (if startsWith value ''-'' then - int (parse_digits (magnitude value)) else int (parse_digits value)))"

definition parseFloatFlag :: "adw_runtime \<Rightarrow> string \<Rightarrow> string \<Rightarrow> adw_failure + jsnum" where
  "parseFloatFlag js flag value =
     (case (value, to_number js (JStr value)) of
        (_ # _, Fin q) \<Rightarrow> Inr (Fin q)
      | _ \<Rightarrow> Inl (AdwError (flag @ '' expects a number, got: '' @ value)))"

datatype flag_value = Given | Value string

record cli_scan =
  cs_tokens :: "string list"
  cs_flags :: "(string \<times> flag_value) list"
  cs_inRun :: bool
  cs_runDone :: bool

definition set_flag :: "string \<Rightarrow> flag_value \<Rightarrow> cli_scan \<Rightarrow> cli_scan" where
  "set_flag name v st = st\<lparr>cs_flags := map_set name v (cs_flags st)\<rparr>"

text \<open>A flag ends the run of the issue number and its notes.\<close>

definition leave_run :: "cli_scan \<Rightarrow> cli_scan" where
  "leave_run st = (if cs_inRun st then st\<lparr>cs_inRun := False, cs_runDone := True\<rparr> else st)"

text \<open>The loop over the arguments; \<open>None\<close> when help is asked for.\<close>

fun scan_args :: "cli_scan \<Rightarrow> string list \<Rightarrow> adw_failure + cli_scan option" where
  "scan_args st [] = Inr (Some st)"
| "scan_args st (arg # args) =
     (if \<not> startsWith arg ''-'' \<or> is_int_text arg then
        (if cs_runDone st then Inl (AdwError (''unrecognized argument: '' @ arg))
         else scan_args (st\<lparr>cs_inRun := True, cs_tokens := cs_tokens st @ [arg]\<rparr>) args)
      else
        (let st1 = leave_run st;
             name = takeWhile (\<lambda>c. c \<noteq> CHR ''='') arg;
             attached = (CHR ''='' \<in> set arg) in
         if name = ''-h'' \<or> name = ''--help'' then Inr None
         else if name \<in> set PY_ONLY_FLAGS then
           Inl (AdwError (name @ '' is a py-engine option; rerun with --engine py (or MX_AGENT_ENGINE=py)''))
         else if name \<in> set BOOLEAN_FLAGS then
           (if attached then Inl (AdwError (name @ '' does not take a value''))
            else scan_args (set_flag name Given st1) args)
         else if name \<in> set VALUE_FLAGS then
           (if attached then
              (if name = ''--runner'' \<and> drop (length name + 1) arg = []
               then Inl (AdwError ''--runner requires a non-empty value'')
               else scan_args (set_flag name (Value (drop (length name + 1) arg)) st1) args)
            else
              (case args of
                 [] \<Rightarrow> Inl (AdwError (name @ '' requires a value''))
               | value # args' \<Rightarrow>
                   if startsWith value ''-'' \<and> \<not> negative_start value
                   then Inl (AdwError (name @ '' requires a value''))
                   else if name = ''--runner'' \<and> value = []
                   then Inl (AdwError ''--runner requires a non-empty value'')
                   else scan_args (set_flag name (Value value) st1) args'))
         else Inl (AdwError (''unknown flag: '' @ name))))"

declare scan_args.simps(2) [simp del]

section \<open>Options\<close>

definition flag_string :: "(string \<times> flag_value) list \<Rightarrow> string \<Rightarrow> string option" where
  "flag_string flags name = (case map_of flags name of Some (Value v) \<Rightarrow> Some v | _ \<Rightarrow> None)"

definition flag_has :: "(string \<times> flag_value) list \<Rightarrow> string \<Rightarrow> bool" where
  "flag_has flags name = (map_of flags name \<noteq> None)"

definition flag_on :: "(string \<times> flag_value) list \<Rightarrow> string \<Rightarrow> bool option" where
  "flag_on flags name = (if flag_has flags name then Some True else None)"

text \<open>A value flag that is read by a parser, when it is given.\<close>

definition flag_parsed ::
  "(string \<Rightarrow> string \<Rightarrow> adw_failure + 'a) \<Rightarrow> (string \<times> flag_value) list \<Rightarrow> string \<Rightarrow> adw_failure + 'a option" where
  "flag_parsed parse flags name =
     (case flag_string flags name of None \<Rightarrow> Inr None | Some v \<Rightarrow> map_sum id Some (parse name v))"

definition or_fail :: "adw_failure + 'a \<Rightarrow> ('a \<Rightarrow> adw_failure + 'b) \<Rightarrow> adw_failure + 'b" where
  "or_fail x k = (case x of Inl e \<Rightarrow> Inl e | Inr a \<Rightarrow> k a)"

definition seconds :: "int option \<Rightarrow> int option" where
  "seconds n = map_option (\<lambda>k. k * 1000) n"

definition cli_options :: "adw_runtime \<Rightarrow> (string \<times> flag_value) list \<Rightarrow> environment \<Rightarrow> adw_failure + run_options" where
  "cli_options js flags env =
     or_fail (flag_parsed parseIntFlag flags ''--max-resolve'') (\<lambda>maxResolve.
     or_fail (flag_parsed parseIntFlag flags ''--max-patch'') (\<lambda>maxPatch.
     or_fail (flag_parsed parseIntFlag flags ''--max-ci-fix'') (\<lambda>maxCiFix.
     or_fail (flag_parsed parseIntFlag flags ''--ci-poll-interval'') (\<lambda>ciPollInterval.
     or_fail (flag_parsed parseIntFlag flags ''--ci-max-polls'') (\<lambda>ciMaxPolls.
     or_fail (flag_parsed parseIntFlag flags ''--timeout'') (\<lambda>timeout.
     or_fail (flag_parsed (parseFloatFlag js) flags ''--max-budget-usd'') (\<lambda>maxBudgetUsd.
       Inr \<lparr>ro_base = flag_string flags ''--base'', ro_phases = flag_string flags ''--phases'',
            ro_adwId = flag_string flags ''--adw-id'', ro_resume = flag_on flags ''--resume'',
            ro_noProgress = flag_on flags ''--no-progress'', ro_inheritEnv = flag_on flags ''--inherit-env'',
            ro_maxResolve = maxResolve, ro_maxPatch = maxPatch, ro_maxCiFix = maxCiFix,
            ro_ciPollIntervalMs = seconds ciPollInterval, ro_ciMaxPolls = ciMaxPolls,
            ro_testCmd = orelse (flag_string flags ''--test-cmd'') (env ''MX_AGENT_TEST_CMD''),
            ro_model = flag_string flags ''--model'',
            ro_repo = orelse (flag_string flags ''--repo'') (env ''REPO''),
            ro_timeoutMs = seconds timeout,
            ro_verify = (if flag_has flags ''--no-verify'' then Some False else None),
            ro_force = flag_on flags ''--force'', ro_allowDirty = flag_on flags ''--allow-dirty'',
            ro_yes = (if flag_has flags ''-y'' \<or> flag_has flags ''--yes'' then Some True else None),
            ro_dryRun = flag_on flags ''--dry-run'', ro_maxBudgetUsd = maxBudgetUsd\<rparr>)))))))"

record parsed_cli =
  cl_issue :: int
  cl_notes :: "string list"
  cl_runner :: "string option"
  cl_options :: run_options

text \<open>\<open>None\<close> is the result with \<open>help\<close>.\<close>

definition parseCliArgs :: "adw_runtime \<Rightarrow> string list \<Rightarrow> environment \<Rightarrow> adw_failure + parsed_cli option" where
  "parseCliArgs js argv env =
     or_fail (scan_args \<lparr>cs_tokens = [], cs_flags = [], cs_inRun = False, cs_runDone = False\<rparr> argv) (\<lambda>scanned.
       case scanned of
         None \<Rightarrow> Inr None
       | Some st \<Rightarrow>
           (case cs_tokens st of
              [] \<Rightarrow> Inl (AdwError ''missing issue number; usage: issue <number> [notes]'')
            | issueStr # notes \<Rightarrow>
                if issueStr = [] \<or> \<not> list_all is_digit issueStr
                then Inl (AdwError (''issue must be a number, got: '' @ issueStr))
                else map_sum id (\<lambda>options. Some
                       \<lparr>cl_issue = int (parse_digits issueStr), cl_notes = notes,
                        cl_runner = flag_string (cs_flags st) ''--runner'', cl_options = options\<rparr>)
                       (cli_options js (cs_flags st) env)))"

section \<open>The entry point\<close>

record 'x cli_deps =
  cd_env :: environment
  cd_runPyEngine :: "string list \<Rightarrow> ('x, adw_failure + int) op"
  cd_loadRunner :: "runner_id \<Rightarrow> ('x, adw_failure + 'x agent_runner) op"
  cd_runIssue :: "int \<Rightarrow> 'x agent_runner \<Rightarrow> run_options \<Rightarrow> ('x, adw_failure + int) op"

text \<open>What becomes of the Python child: it cannot be started, or it exits with a code or a signal.\<close>

datatype child_end = NotLaunched string | Exited "int option" "string option"

definition spawnPyEngine ::
  "adw_runtime \<Rightarrow> (string list \<Rightarrow> ('x, child_end) op) \<Rightarrow> string list \<Rightarrow> ('x, adw_failure + int) op" where
  "spawnPyEngine js launch argv m =
     (case launch ([''python3'', path_join (path_join (REPO_ROOT js) ''adw'') ''issue.py''] @ argv) m of
        (NotLaunched msg, m') \<Rightarrow> (Inl (AdwError (''could not launch the py engine (python3): '' @ msg)), m')
      | (Exited code sig, m') \<Rightarrow> (Inr (or_default code (if sig \<noteq> None then 1 else 0)), m'))"

definition dryRunRunner :: "runner_id \<Rightarrow> 'x agent_runner" where
  "dryRunRunner r =
     \<lparr>runner_ident = r, nativeSchema = False, runner_start = None,
      runPhase = (\<lambda>_. Pair (Inl (AdwError ''the dry-run runner cannot execute phases''))), runner_stop = None\<rparr>"

text \<open>\<open>main\<close>, without its \<open>catch\<close>: the exit code, or what is thrown.\<close>

definition main_body :: "adw_runtime \<Rightarrow> 'x cli_deps \<Rightarrow> string list \<Rightarrow> ('x, adw_failure + int) op" where
  "main_body js deps argv m =
     (case splitPassthru argv of (ours, passthru) \<Rightarrow>
      case extractEngineFlag ours of
        Inl e \<Rightarrow> (Inl e, m)
      | Inr (flag, rest) \<Rightarrow>
          (case resolveEngineId (orelse flag (cd_env deps ''MX_AGENT_ENGINE'')) of
             Inl e \<Rightarrow> (Inl e, m)
           | Inr engine_py \<Rightarrow> cd_runPyEngine deps (if passthru \<noteq> [] then rest @ [''--''] @ passthru else rest) m
           | Inr engine_ts \<Rightarrow>
               if passthru \<noteq> [] then
                 (Inl (AdwError (''runner passthru flags (after --) are a py-engine feature; ''
                         @ ''the ts engine has no runner command line'')), m)
               else
                 (case parseCliArgs js rest (cd_env deps) of
                    Inl e \<Rightarrow> (Inl e, m)
                  | Inr None \<Rightarrow> (Inr 0, m)
                  | Inr (Some parsed) \<Rightarrow>
                      (case resolveRunnerId (orelse (cl_runner parsed) (cd_env deps ''MX_AGENT_RUNNER'')) of
                         Inl e \<Rightarrow> (Inl e, m)
                       | Inr r \<Rightarrow>
                           if ro_dryRun (cl_options parsed) = Some True
                           then cd_runIssue deps (cl_issue parsed) (dryRunRunner r) (cl_options parsed) m
                           else
                             (case cd_loadRunner deps r m of
                                (Inl e, m') \<Rightarrow> (Inl e, m')
                              | (Inr rn, m') \<Rightarrow> cd_runIssue deps (cl_issue parsed) rn (cl_options parsed) m')))))"

definition main :: "adw_runtime \<Rightarrow> 'x cli_deps \<Rightarrow> string list \<Rightarrow> ('x, adw_failure + int) op" where
  "main js deps argv m =
     (case main_body js deps argv m of
        (Inl e, m') \<Rightarrow> if is_adw_error e then (Inr 1, m') else (Inl e, m')
      | (Inr code, m') \<Rightarrow> (Inr code, m'))"

text \<open>The run of the program itself, over the default dependencies.\<close>

definition default_runIssue ::
  "adw_runtime \<Rightarrow> phase_tools \<Rightarrow> 'x system \<Rightarrow> int \<Rightarrow> 'x agent_runner \<Rightarrow> run_options \<Rightarrow> ('x, adw_failure + int) op" where
  "default_runIssue js tools sys inum rn options m =
     (case run_workflow js tools inum rn options (defaultDeps js tools sys) m of (x, r) \<Rightarrow> (x, machine r))"

section \<open>Every command line is read as it is written\<close>

text \<open>A flag as an operator gives it: alone, with its value attached, or with its value next.\<close>

datatype given = On string | Attached string string | Detached string string

fun render_given :: "given \<Rightarrow> string list" where
  "render_given (On n) = [n]"
| "render_given (Attached n v) = [n @ ''='' @ v]"
| "render_given (Detached n v) = [n, v]"

fun flag_entry :: "given \<Rightarrow> string \<times> flag_value" where
  "flag_entry (On n) = (n, Given)"
| "flag_entry (Attached n v) = (n, Value v)"
| "flag_entry (Detached n v) = (n, Value v)"

fun valid_given :: "given \<Rightarrow> bool" where
  "valid_given (On n) = (n \<in> set BOOLEAN_FLAGS)"
| "valid_given (Attached n v) = (n \<in> set VALUE_FLAGS \<and> (n = ''--runner'' \<longrightarrow> v \<noteq> []))"
| "valid_given (Detached n v) =
     (n \<in> set VALUE_FLAGS \<and> (n = ''--runner'' \<longrightarrow> v \<noteq> []) \<and> (startsWith v ''-'' \<longrightarrow> negative_start v))"

definition plain_word :: "string \<Rightarrow> bool" where
  "plain_word w = (\<not> startsWith w ''-'' \<or> is_int_text w)"

definition give :: "given \<Rightarrow> cli_scan \<Rightarrow> cli_scan" where
  "give g st = set_flag (fst (flag_entry g)) (snd (flag_entry g)) (leave_run st)"

definition known_flag :: "string \<Rightarrow> bool" where
  "known_flag n = (startsWith n ''-'' \<and> \<not> list_all is_digit (magnitude n) \<and> CHR ''='' \<notin> set n \<and> n \<noteq> ''-h'' \<and> n \<noteq> ''--help''
     \<and> n \<notin> set PY_ONLY_FLAGS)"

lemma known_flags: "list_all known_flag (BOOLEAN_FLAGS @ VALUE_FLAGS)"
  by code_simp

lemma flags_apart: "list_all (\<lambda>n. n \<notin> set BOOLEAN_FLAGS) VALUE_FLAGS"
  by code_simp

lemma known: "n \<in> set BOOLEAN_FLAGS \<Longrightarrow> known_flag n" "n \<in> set VALUE_FLAGS \<Longrightarrow> known_flag n"
  using known_flags by (simp_all add: list_all_iff)

lemma apart: "n \<in> set VALUE_FLAGS \<Longrightarrow> n \<notin> set BOOLEAN_FLAGS"
  using flags_apart by (simp add: list_all_iff)

lemma not_plain: "known_flag n \<Longrightarrow> startsWith n ''-'' \<and> \<not> is_int_text n"
  by (auto simp: known_flag_def is_int_text_def)

lemma name_alone: "CHR ''='' \<notin> set n \<Longrightarrow> takeWhile (\<lambda>c. c \<noteq> CHR ''='') n = n"
  by (auto simp: takeWhile_eq_all_conv)

lemma name_attached: "CHR ''='' \<notin> set n \<Longrightarrow> takeWhile (\<lambda>c. c \<noteq> CHR ''='') (n @ ''='' @ v) = n"
  by (induction n) auto

lemma attached_not_plain:
  assumes "known_flag n"
  shows "startsWith (n @ ''='' @ v) ''-'' \<and> \<not> is_int_text (n @ ''='' @ v)"
proof -
  obtain c n' where n: "n = c # n'" "c = CHR ''-''"
    using assms by (cases n) (auto simp: known_flag_def startsWith_def)
  then have "\<not> list_all is_digit (n' @ ''='' @ v)" using assms by (simp add: known_flag_def magnitude_def startsWith_def)
  with n show ?thesis by (simp add: is_int_text_def magnitude_def startsWith_def)
qed

lemma scan_given:
  assumes "valid_given g"
  shows "scan_args st (render_given g @ args) = scan_args (give g st) args"
proof (cases g)
  case (On n)
  with assms have n: "n \<in> set BOOLEAN_FLAGS" "known_flag n" by (simp_all add: known)
  then show ?thesis
    using On not_plain [OF n(2)] by (simp add: scan_args.simps(2) Let_def name_alone known_flag_def give_def)
next
  case (Attached n v)
  with assms have n: "n \<in> set VALUE_FLAGS" "n \<notin> set BOOLEAN_FLAGS" "known_flag n" by (simp_all add: known apart)
  have name: "takeWhile (\<lambda>c. c \<noteq> CHR ''='') (n @ ''='' @ v) = n"
    using n(3) by (intro name_attached) (simp add: known_flag_def)
  define arg where "arg = n @ ''='' @ v"
  have "scan_args st (arg # args) = scan_args (set_flag n (Value v) (leave_run st)) args"
    using assms Attached n attached_not_plain [OF n(3), of v] name
    unfolding arg_def [symmetric]
    by (simp add: scan_args.simps(2) Let_def known_flag_def) (auto simp: arg_def)
  then show ?thesis using Attached by (simp add: arg_def give_def)
next
  case (Detached n v)
  with assms have n: "n \<in> set VALUE_FLAGS" "n \<notin> set BOOLEAN_FLAGS" "known_flag n" by (simp_all add: known apart)
  then show ?thesis
    using Detached assms not_plain [OF n(3)]
    by (simp add: scan_args.simps(2) Let_def name_alone known_flag_def give_def) (intro conjI impI; elim conjE; simp)
qed

lemma scan_givens:
  "list_all valid_given fs \<Longrightarrow> scan_args st (concat (map render_given fs) @ args) = scan_args (fold give fs st) args"
  by (induction fs arbitrary: st) (simp_all add: scan_given)

lemma scan_words:
  "list_all plain_word ws \<Longrightarrow> \<not> cs_runDone st \<Longrightarrow> cs_inRun st \<Longrightarrow>
     scan_args st (ws @ args) = scan_args (st\<lparr>cs_tokens := cs_tokens st @ ws\<rparr>) args"
proof (induction ws arbitrary: st)
  case (Cons w ws)
  from Cons.prems have same: "st\<lparr>cs_inRun := True\<rparr> = st" by (cases st) simp
  show ?case using Cons by (simp add: scan_args.simps(2) plain_word_def same)
qed simp

lemma give_fields:
  "cs_tokens (fold give fs st) = cs_tokens st"
  and give_idle: "\<not> cs_inRun st \<Longrightarrow> \<not> cs_runDone st \<Longrightarrow> \<not> cs_inRun (fold give fs st) \<and> \<not> cs_runDone (fold give fs st)"
  by (induction fs arbitrary: st) (auto simp: give_def set_flag_def leave_run_def)

lemma give_flags: "map_of (cs_flags (fold give fs st)) = map_of (rev (map flag_entry fs) @ cs_flags st)"
proof (induction fs arbitrary: st)
  case (Cons g fs)
  have "cs_flags (leave_run st) = cs_flags st" by (simp add: leave_run_def)
  with Cons show ?case
    by (auto simp: give_def set_flag_def map_of_map_set fun_eq_iff map_add_def split: option.split)
qed simp

lemma cli_options_cong: "map_of flags = map_of flags' \<Longrightarrow> cli_options js flags env = cli_options js flags' env"
  by (simp add: cli_options_def flag_parsed_def flag_string_def flag_on_def flag_has_def)

lemma parse_digits_Nil: "parse_digits [] = 0"
  by (simp add: parse_digits_def)

lemma parse_digits_snoc: "parse_digits (ds @ [c]) = 10 * parse_digits ds + (of_char c - 48)"
  by (simp add: parse_digits_def)

lemma digit_char: "(k :: nat) < 10 \<Longrightarrow> is_digit (char_of (48 + k)) \<and> of_char (char_of (48 + k) :: char) - 48 = k"
  by (simp add: is_digit_def in_range_def Let_def)

lemma show_nat_digits: "show_nat n \<noteq> [] \<and> list_all is_digit (show_nat n) \<and> parse_digits (show_nat n) = n"
proof (induction n rule: show_nat.induct)
  case (1 n)
  then show ?case by (subst (1 2 3) show_nat.simps) (auto simp: parse_digits_snoc digit_char parse_digits_Nil parse_digits_snoc [of "[]", simplified])
qed


definition demo_command :: "string list" where
  "demo_command = [''--dry-run'', ''42'', ''soon'', ''--repo=o/r'', ''--max-patch'', ''-1'', ''--max-patch=7'']"


section \<open>Dry runs\<close>

text \<open>A dry run checks the list of phases and touches nothing.\<close>

lemma dry_run_inert:
  "default_runIssue js tools sys inum rn (options\<lparr>ro_dryRun := Some True\<rparr>) m =
     (map_sum id (\<lambda>_. 0) (parsePhases (ro_phases options)), m)"
  by (simp add: default_runIssue_def run_workflow_def run_task_def Let_def resolveOptions_def lift_sum_def andThen_def
      ret_def throw_def or_default_def split: sum.split)

text \<open>Only what is not an \<open>AdwError\<close> leaves \<open>main\<close> as an exception.\<close>

lemma main_throws: "fst (main js deps argv m) = Inl e \<Longrightarrow> \<not> is_adw_error e"
  by (auto simp: main_def split: prod.splits sum.splits if_splits)

end
