(* ===== verification/Adw_Runners.thy ===== *)
theory Adw_Runners
  imports Adw_Run
begin

text \<open>
  What the runner adapters share (adw_sdlc/src/runners/shared.ts), and the adapters of Claude
  (runner-claude.ts) and Codex (runner-codex.ts): the options they start a session with, how they
  read its stream, and the result they make of it. The SDKs' streams are arguments: the messages
  they delivered, and what ended them. Writing the transcript file always succeeds here; numbers
  in the streams are JSON numbers.
\<close>

section \<open>Results and aborts\<close>

text \<open>\<open>PhaseResult\<close> with the two fields the control plane does not read, and the transcript file.\<close>

record runner_result = phase_result +
  res_ok :: bool
  res_rc :: int
  res_file :: string

definition TIMEOUT_RC :: int where
  "TIMEOUT_RC = 124"

text \<open>The abort reason of a signal: an error with a name and a message, or any other value.\<close>

datatype abort_reason = ErrorReason string string | OtherReason json

definition abortKind :: "adw_runtime \<Rightarrow> abort_reason \<Rightarrow> stop_signal" where
  "abortKind js why =
     (let text = (case why of
                    ErrorReason name message \<Rightarrow> name @ '' '' @ message
                  | OtherReason v \<Rightarrow> js_String js (nullish v (JStr []))) in
      if index_of ''timeout'' (toLowerCase text) \<noteq> None then sig_timeout else sig_cancelled)"

text \<open>The transcript in memory and the one on file, which also takes notes.\<close>

record transcript =
  tr_text :: string
  tr_file :: string

definition new_transcript :: transcript where
  "new_transcript = \<lparr>tr_text = [], tr_file = []\<rparr>"

definition note_text :: "string \<Rightarrow> transcript \<Rightarrow> transcript" where
  "note_text t tr = tr\<lparr>tr_file := tr_file tr @ t\<rparr>"

definition append_text :: "string \<Rightarrow> transcript \<Rightarrow> transcript" where
  "append_text t tr = tr\<lparr>tr_text := tr_text tr @ t, tr_file := tr_file tr @ t\<rparr>"

text \<open>How a stream ended: by itself, or by an error with the text \<open>String(err)\<close>.\<close>

datatype stream_end = StreamDone | StreamThrew string

text \<open>\<open>asStructured\<close>: an object, or null.\<close>

definition asStructured :: "json \<Rightarrow> obj option" where
  "asStructured v = asRecord v"

text \<open>\<open>count\<close>: a finite number, or undefined.\<close>

definition count_of :: "json \<Rightarrow> rat option" where
  "count_of v = (case v of JNum (Fin q) \<Rightarrow> Some q | _ \<Rightarrow> None)"

section \<open>Claude\<close>

definition CLAUDE_EDIT_TOOLS :: "string list" where
  "CLAUDE_EDIT_TOOLS = [''Read'', ''Write'', ''Edit'', ''Glob'', ''Grep'', ''Bash'']"

definition CLAUDE_AUTO_ALLOWED_TOOLS :: "string list" where
  "CLAUDE_AUTO_ALLOWED_TOOLS = [''Read'', ''Write'', ''Edit'', ''Glob'', ''Grep'']"

definition is_word :: "char \<Rightarrow> bool" where
  "is_word c = (is_alnum c \<or> c = CHR 0x5F)"

definition blanks :: re where
  "blanks = RStar (RCls is_space)"

text \<open>\<open>command\<close>, \<open>builtin\<close>, or \<open>env\<close> with assignments, each followed by blanks.\<close>

definition assignment_re :: re where
  "assignment_re =
     RSeq (rplus (RCls is_word)) (RSeq (rlit ''='') (RSeq (RStar (RCls (\<lambda>c. \<not> is_space c))) (rplus (RCls is_space))))"

definition command_prefix :: re where
  "command_prefix =
     ralts [RSeq (rlit ''command'') (rplus (RCls is_space)), RSeq (rlit ''builtin'') (rplus (RCls is_space)),
            RSeq (rlit ''env'') (RSeq (rplus (RCls is_space)) (RStar assignment_re))]"

definition command_start :: re where
  "command_start = ropt (RSeq rany (ralts [one_of [nl, CHR '';'', CHR ''&'', CHR ''|''], rlit ''$('', rlit [CHR 0x60]]))"

definition GIT_GH_COMMAND :: re where
  "GIT_GH_COMMAND =
     RSeq command_start (RSeq blanks (RSeq (ropt command_prefix) (RSeq (ralts [rlit ''git'', rlit ''gh''])
       (ropt (RSeq (RCls (\<lambda>c. \<not> is_word c)) rany)))))"

datatype tool_verdict = AllowTool obj | DenyTool string

definition denyGitGh :: "string \<Rightarrow> obj \<Rightarrow> tool_verdict" where
  "denyGitGh toolName input =
     (if toolName \<notin> set CLAUDE_EDIT_TOOLS then
        DenyTool (''Tool '' @ [apostrophe] @ toolName @ [apostrophe] @ '' is outside this phase'' @ [apostrophe]
                  @ ''s grant ('' @ join_with '', '' CLAUDE_EDIT_TOOLS @ '').'')
      else if toolName = ''Bash'' \<and> matches GIT_GH_COMMAND (or_default (readString (jget input ''command'')) []) then
        DenyTool (''The orchestrator owns all git/gh operations; do not run git or gh. ''
                  @ ''Edit files and run tests only '' @ [CHR 0xE2, CHR 0x80, CHR 0x94]
                  @ '' the pipeline commits, pushes, and opens the PR.'')
      else AllowTool input)"

definition resolveClaudeBin :: "(string \<Rightarrow> bool) \<Rightarrow> string \<Rightarrow> environment \<Rightarrow> string option" where
  "resolveClaudeBin is_executable homedir env =
     (let home = or_default (env ''HOME'') homedir in
      resolveBin is_executable ''CLAUDE_BIN'' ''claude''
        [path_join home ''.claude/local/claude'', path_join home ''.local/bin/claude''] env)"

text \<open>The options of the SDK's \<open>query\<close>; its \<open>canUseTool\<close> is \<open>denyGitGh\<close>.\<close>

record claude_options =
  co_model :: string
  co_cwd :: string
  co_env :: "(string \<times> string) list"
  co_allowedTools :: "string list"
  co_permissionMode :: string
  co_canUseTool :: "string \<Rightarrow> obj \<Rightarrow> tool_verdict"
  co_executable :: "string option"
  co_schema :: "json option"
  co_maxBudgetUsd :: "jsnum option"

definition claude_options_of :: "(string \<Rightarrow> bool) \<Rightarrow> string \<Rightarrow> phase_request \<Rightarrow> claude_options" where
  "claude_options_of is_executable homedir req =
     \<lparr>co_model = rq_model req, co_cwd = rq_cwd req, co_env = rq_env req, co_allowedTools = CLAUDE_AUTO_ALLOWED_TOOLS,
      co_permissionMode = ''acceptEdits'', co_canUseTool = denyGitGh,
      co_executable = resolveClaudeBin is_executable homedir (map_of (rq_env req)),
      co_schema = rq_schema req, co_maxBudgetUsd = rq_maxBudgetUsd req\<rparr>"

record claude_message =
  cm_subtype :: string
  cm_is_error :: bool
  cm_result :: string
  cm_structured :: json
  cm_cost :: jsnum
  cm_usage :: json
  cm_errors :: json
  cm_session :: string

text \<open>\<open>SDKMessage\<close>, told apart by its type; the content of an assistant message is unknown.\<close>

datatype sdk_message = AssistantMessage json | ResultMessage claude_message | OtherMessage

definition text_block :: "json \<Rightarrow> string" where
  "text_block block =
     (if field_of block ''type'' = JStr ''text'' then or_default (readString (field_of block ''text'')) [] else [])"

definition assistantText :: "sdk_message \<Rightarrow> string" where
  "assistantText message =
     (case message of
        AssistantMessage (JStr s) \<Rightarrow> if s = [] then [] else s @ [nl]
      | AssistantMessage (JArr blocks) \<Rightarrow>
          (let out = concat (map text_block blocks) in if out = [] then [] else out @ [nl])
      | _ \<Rightarrow> [])"

definition claude_usage :: "claude_message \<Rightarrow> phase_usage" where
  "claude_usage msg =
     no_usage\<lparr>costUsd := Some (Some (cm_cost msg)), inputTokens := count_of (field_of (cm_usage msg) ''input_tokens''),
       outputTokens := count_of (field_of (cm_usage msg) ''output_tokens''),
       cachedInputTokens := count_of (field_of (cm_usage msg) ''cache_read_input_tokens'')\<rparr>"

definition claude_step :: "sdk_message \<Rightarrow> transcript \<times> claude_message option \<Rightarrow> transcript \<times> claude_message option" where
  "claude_step message st =
     (case st of (tr, result) \<Rightarrow>
        (append_text (assistantText message) tr,
         (case message of ResultMessage msg \<Rightarrow> Some msg | _ \<Rightarrow> result)))"

definition claude_failed :: "transcript \<Rightarrow> stop_signal \<Rightarrow> int \<Rightarrow> claude_message option \<Rightarrow> runner_result" where
  "claude_failed tr sg rc result =
     \<lparr>structured = (case result of
                      Some msg \<Rightarrow> if cm_subtype msg = ''success'' then asStructured (cm_structured msg) else None
                    | None \<Rightarrow> None),
      transcriptText = tr_text tr, usage = (case result of Some msg \<Rightarrow> claude_usage msg | None \<Rightarrow> no_usage),
      signal = sg, sessionId = map_option cm_session result, res_ok = False, res_rc = rc, res_file = tr_file tr\<rparr>"

text \<open>Only strings among the errors are shown; \<open>join\<close> shows an absent one as empty.\<close>

definition joined_errors :: "adw_runtime \<Rightarrow> json \<Rightarrow> string" where
  "joined_errors js errors =
     (case errors of
        JArr es \<Rightarrow> join_with [nl] (map (\<lambda>e. if e = JNull \<or> e = JUndef then [] else js_String js e) es)
      | _ \<Rightarrow> [])"

definition claude_completed :: "adw_runtime \<Rightarrow> transcript \<Rightarrow> claude_message \<Rightarrow> runner_result" where
  "claude_completed js tr msg =
     (if cm_subtype msg = ''success'' then
        (let tr' = (if tr_text tr = [] \<and> cm_result msg \<noteq> [] then append_text (cm_result msg) tr else tr) in
         \<lparr>structured = asStructured (cm_structured msg), transcriptText = tr_text tr', usage = claude_usage msg,
          signal = sig_none, sessionId = Some (cm_session msg), res_ok = \<not> cm_is_error msg,
          res_rc = (if cm_is_error msg then 1 else 0), res_file = tr_file tr'\<rparr>)
      else
        \<lparr>structured = None, transcriptText = tr_text tr, usage = claude_usage msg,
         signal = (if cm_subtype msg = ''error_max_budget_usd'' then sig_budget else sig_none),
         sessionId = Some (cm_session msg), res_ok = False, res_rc = 1,
         res_file = tr_file tr @ [nl] @ ''[claude result '' @ cm_subtype msg @ ''] '' @ joined_errors js (cm_errors msg) @ [nl]\<rparr>)"

text \<open>A phase: the messages of the session, how their stream ended, and the abort, if one came.\<close>

definition claude_phase :: "adw_runtime \<Rightarrow> sdk_message list \<Rightarrow> stream_end \<Rightarrow> abort_reason option \<Rightarrow> runner_result" where
  "claude_phase js messages ended aborted =
     (case fold claude_step messages (new_transcript, None) of (tr, result) \<Rightarrow>
        (case ended of
           StreamThrew err \<Rightarrow>
             (case aborted of
                Some why \<Rightarrow> claude_failed tr (abortKind js why) TIMEOUT_RC result
              | None \<Rightarrow> claude_failed (note_text ([nl] @ ''[claude runner error] '' @ err @ [nl]) tr) sig_none 1 result)
         | StreamDone \<Rightarrow>
             (case aborted of
                Some why \<Rightarrow> claude_failed tr (abortKind js why) TIMEOUT_RC result
              | None \<Rightarrow>
                  (case result of
                     None \<Rightarrow> claude_failed (note_text ([nl] @ ''[claude runner error] stream ended without a result message'' @ [nl]) tr) sig_none 1 None
                   | Some msg \<Rightarrow> claude_completed js tr msg))))"

section \<open>Which commands Claude's veto stops\<close>

lemma star_class: "s \<in> star {[c] | c. P c} \<longleftrightarrow> list_all P s"
proof (induction s)
  case (Cons c s)
  then show ?case by (auto simp: star_Cons)
qed (simp add: star_nil)

lemma lang_blanks: "lang blanks = {b. list_all is_space b}"
  by (auto simp: blanks_def star_class)

lemma lang_plus_class: "lang (rplus (RCls P)) = {b. b \<noteq> [] \<and> list_all P b}"
proof -
  have "b \<in> lang (rplus (RCls P))" if "b \<noteq> []" "list_all P b" for b
  proof -
    have "b = [hd b] @ tl b" "[hd b] \<in> lang (RCls P)" "tl b \<in> lang (RStar (RCls P))"
      using that by (cases b; simp add: star_class)+
    then show ?thesis unfolding rplus_def lang.simps(4) by blast
  qed
  then show ?thesis by (auto simp: rplus_def star_class)
qed

text \<open>Where a command starts: at the start, after a separator, or inside a substitution.\<close>

definition at_command :: "string \<Rightarrow> bool" where
  "at_command pre =
     (pre = [] \<or> (\<exists>p sep. pre = p @ sep \<and> sep \<in> {[nl], '';'', ''&'', ''|'', ''$('', [CHR 0x60]}))"

fun assignment :: "string \<times> string \<times> string \<Rightarrow> string" where
  "assignment (name, v, b) = name @ ''='' @ v @ b"

fun is_assignment :: "string \<times> string \<times> string \<Rightarrow> bool" where
  "is_assignment (name, v, b) =
     (name \<noteq> [] \<and> list_all is_word name \<and> list_all (\<lambda>c. \<not> is_space c) v \<and> b \<noteq> [] \<and> list_all is_space b)"

text \<open>What may stand between: nothing, \<open>command\<close>, \<open>builtin\<close>, or \<open>env\<close> with assignments.\<close>

definition launcher :: "string \<Rightarrow> bool" where
  "launcher t =
     (t = [] \<or> (\<exists>b. b \<noteq> [] \<and> list_all is_space b \<and> (t = ''command'' @ b \<or> t = ''builtin'' @ b
        \<or> (\<exists>xs. list_all is_assignment xs \<and> t = ''env'' @ b @ concat (map assignment xs)))))"

lemma lang_command_start: "lang command_start = {pre. at_command pre}"
  by (auto simp: command_start_def at_command_def one_of_def)

lemma star_assignments:
  "s \<in> star {x @ ''='' @ v @ b | x v b. is_assignment (x, v, b)}
     \<longleftrightarrow> (\<exists>xs. list_all is_assignment xs \<and> s = concat (map assignment xs))"
proof
  show "s \<in> star {x @ ''='' @ v @ b | x v b. is_assignment (x, v, b)} \<Longrightarrow>
      \<exists>xs. list_all is_assignment xs \<and> s = concat (map assignment xs)"
  proof (induction rule: star.induct)
    case star_nil
    show ?case by (intro exI [of _ "[]"]) simp
  next
    case (star_step x y)
    then obtain n v b xs where "x = assignment (n, v, b)" "is_assignment (n, v, b)"
        "list_all is_assignment xs" "y = concat (map assignment xs)" by auto
    then show ?case by (intro exI [of _ "(n, v, b) # xs"]) simp
  qed
next
  have "list_all is_assignment xs \<Longrightarrow> concat (map assignment xs) \<in> star {x @ ''='' @ v @ b | x v b. is_assignment (x, v, b)}" for xs
  proof (induction xs)
    case (Cons x xs)
    obtain n v b where x: "x = (n, v, b)" by (cases x)
    have "assignment x \<in> {x @ ''='' @ v @ b | x v b. is_assignment (x, v, b)}" using Cons.prems x by auto
    with Cons show ?case by (simp add: star_step)
  qed (simp add: star_nil)
  then show "\<exists>xs. list_all is_assignment xs \<and> s = concat (map assignment xs) \<Longrightarrow>
      s \<in> star {x @ ''='' @ v @ b | x v b. is_assignment (x, v, b)}" by blast
qed

lemma lang_assignment: "lang assignment_re = {x @ ''='' @ v @ b | x v b. is_assignment (x, v, b)}"
  unfolding assignment_re_def by (auto simp: lang_plus_class star_class) blast

lemma lang_assignments: "lang (RStar assignment_re) = {s. \<exists>xs. list_all is_assignment xs \<and> s = concat (map assignment xs)}"
  unfolding lang.simps(6) lang_assignment using star_assignments by blast

lemma lang_launcher: "lang (ropt command_prefix) = {t. launcher t}"
proof -
  have seq: "lang (RSeq (rlit w) r) = {w @ t | t. t \<in> lang r}" for w r by auto
  have "lang (RSeq (rplus (RCls is_space)) (RStar assignment_re)) =
      {b @ concat (map assignment xs) | b xs. b \<noteq> [] \<and> list_all is_space b \<and> list_all is_assignment xs}"
    unfolding lang.simps(4) lang_plus_class lang_assignments by blast
  then show ?thesis
    unfolding command_prefix_def lang_ropt ralts.simps lang.simps(5) seq lang_plus_class launcher_def by blast
qed

text \<open>Commands with \<open>git\<close> or \<open>gh\<close> as a word at such a place, and the calls that are refused.\<close>

definition runs_git :: "string \<Rightarrow> bool" where
  "runs_git s =
     (\<exists>pre b t w rest. s = pre @ b @ t @ w @ rest \<and> at_command pre \<and> list_all is_space b \<and> launcher t
        \<and> (w = ''git'' \<or> w = ''gh'') \<and> (rest = [] \<or> \<not> is_word (hd rest)))"

definition vetoed :: "string \<Rightarrow> obj \<Rightarrow> bool" where
  "vetoed toolName input =
     (toolName \<notin> set CLAUDE_EDIT_TOOLS
      \<or> toolName = ''Bash'' \<and> runs_git (or_default (readString (jget input ''command'')) []))"

lemma git_gh_runs: "matches GIT_GH_COMMAND s \<longleftrightarrow> runs_git s"
proof -
  have w: "lang (ralts [rlit ''git'', rlit ''gh'']) = {w. w = ''git'' \<or> w = ''gh''}" by auto
  have rest: "lang (ropt (RSeq (RCls P) rany)) = {rest. rest = [] \<or> P (hd rest)}" for P
    by (auto simp: neq_Nil_conv) (metis append_Cons append_Nil list.exhaust_sel)
  have seq: "lang (RSeq a b) = {s. \<exists>x y. s = x @ y \<and> x \<in> A \<and> y \<in> B}" if "lang a = A" "lang b = B" for a b A B
    using that by auto
  have "lang GIT_GH_COMMAND = {s. \<exists>pre y. s = pre @ y \<and> pre \<in> {pre. at_command pre}
      \<and> y \<in> {s. \<exists>b y. s = b @ y \<and> b \<in> {b. list_all is_space b}
      \<and> y \<in> {s. \<exists>t y. s = t @ y \<and> t \<in> {t. launcher t}
      \<and> y \<in> {s. \<exists>w rest. s = w @ rest \<and> w \<in> {w. w = ''git'' \<or> w = ''gh''}
      \<and> rest \<in> {rest. rest = [] \<or> \<not> is_word (hd rest)}}}}}"
    unfolding GIT_GH_COMMAND_def
    by (intro seq lang_command_start lang_blanks lang_launcher w rest)
  then have "s \<in> lang GIT_GH_COMMAND \<longleftrightarrow> (\<exists>pre y. s = pre @ y \<and> at_command pre \<and> (\<exists>b y'. y = b @ y' \<and> list_all is_space b
      \<and> (\<exists>t y''. y' = t @ y'' \<and> launcher t \<and> (\<exists>w rest. y'' = w @ rest \<and> (w = ''git'' \<or> w = ''gh'')
      \<and> (rest = [] \<or> \<not> is_word (hd rest))))))"
    by (simp only: mem_Collect_eq)
  also have "\<dots> \<longleftrightarrow> runs_git s"
    unfolding runs_git_def
    by (intro iffI; elim exE conjE; hypsubst?; intro exI conjI; (rule refl | assumption)+)
  finally show ?thesis unfolding matches_lang .
qed

text \<open>
  C37. What an agent on Claude is refused. The veto refuses a tool outside the grant of the phase, and
  a shell command in which \<open>git\<close> or \<open>gh\<close> stands as a word where a command starts, with nothing but
  blanks, \<open>command\<close>, \<open>builtin\<close> or \<open>env\<close> with assignments before it; every other call is allowed with
  its input as it is.
\<close>

theorem git_gh_veto:
  "case denyGitGh toolName input of
     AllowTool given \<Rightarrow> given = input \<and> \<not> vetoed toolName input
   | DenyTool message \<Rightarrow> vetoed toolName input"
  unfolding denyGitGh_def vetoed_def git_gh_runs by (simp only: tool_verdict.case split: if_splits) blast

text \<open>The veto is a best effort: these commands run git all the same, and it lets them through.\<close>

lemma git_veto_gaps:
  "list_all (\<lambda>command. denyGitGh ''Bash'' [(''command'', JStr command)] = AllowTool [(''command'', JStr command)])
     [''sudo git push'', ''(git push)'', ''/usr/bin/git push'', ''time git push'', ''GIT_DIR=x git push'', ''xargs gh'']"
  by code_simp

section \<open>Codex\<close>

definition resolveCodexBin :: "environment \<Rightarrow> string option" where
  "resolveCodexBin env = (case env ''CODEX_BIN'' of Some s \<Rightarrow> if s \<noteq> [] then Some s else None | None \<Rightarrow> None)"

definition codex_usage :: "obj \<Rightarrow> string \<Rightarrow> phase_usage" where
  "codex_usage raw model =
     (let input = count_of (jget raw ''input_tokens''); cached = count_of (jget raw ''cached_input_tokens'');
          u = no_usage\<lparr>inputTokens := map_option (\<lambda>n. max 0 (n - or_default cached 0)) input,
                outputTokens := count_of (jget raw ''output_tokens''), cachedInputTokens := cached,
                reasoningTokens := count_of (jget raw ''reasoning_output_tokens'')\<rparr> in
      u\<lparr>costUsd := Some (model_cost model u)\<rparr>)"

definition parseStructured :: "adw_runtime \<Rightarrow> string \<Rightarrow> obj option" where
  "parseStructured js finalResponse = (case parse_json js finalResponse of Inr v \<Rightarrow> asRecord v | Inl _ \<Rightarrow> None)"

datatype codex_item =
    AgentMessage string
  | Reasoning string
  | CommandExecution string string "int option" string
  | FileChange string "(string \<times> string) list"
  | McpToolCall string string string "string option"
  | WebSearch string
  | TodoList "(bool \<times> string) list"
  | ErrorItem string
  | OtherItem

text \<open>A command is given with its status, exit code and output; a change with its kind and path.\<close>

definition itemNote :: "codex_item \<Rightarrow> string" where
  "itemNote item =
     (case item of
        Reasoning t \<Rightarrow> ''[reasoning] '' @ t @ [nl]
      | CommandExecution command status exit_code out \<Rightarrow>
          ''[command '' @ status @ (case exit_code of Some rc \<Rightarrow> '' rc '' @ show_int rc | None \<Rightarrow> []) @ ''] '' @ command @ [nl]
            @ (if out = [] \<or> endsWith out [nl] then out else out @ [nl])
      | FileChange status changes \<Rightarrow>
          ''[file_change '' @ status @ ''] '' @ join_with '', '' (map (\<lambda>(kind, path). kind @ '' '' @ path) changes) @ [nl]
      | McpToolCall server tool status err \<Rightarrow>
          ''[mcp '' @ server @ ''.'' @ tool @ '' '' @ status @ '']''
            @ (case err of Some message \<Rightarrow> '' '' @ message | None \<Rightarrow> []) @ [nl]
      | WebSearch query \<Rightarrow> ''[web_search] '' @ query @ [nl]
      | TodoList items \<Rightarrow>
          ''[todo] '' @ join_with ''; '' (map (\<lambda>(complete, t). (if complete then ''[x]'' else ''[ ]'') @ '' '' @ t) items) @ [nl]
      | ErrorItem message \<Rightarrow> ''[codex error] '' @ message @ [nl]
      | _ \<Rightarrow> [])"

datatype codex_event =
    ThreadStarted string
  | ItemCompleted codex_item
  | TurnCompleted obj
  | TurnFailed string
  | StreamError string
  | OtherEvent

record codex_state =
  cx_tr :: transcript
  cx_final :: string
  cx_usage :: "obj option"
  cx_thread :: "string option"
  cx_failed :: "string option"

definition codex_start :: codex_state where
  "codex_start = \<lparr>cx_tr = new_transcript, cx_final = [], cx_usage = None, cx_thread = None, cx_failed = None\<rparr>"

definition codex_step :: "codex_event \<Rightarrow> codex_state \<Rightarrow> codex_state" where
  "codex_step ev st =
     (case ev of
        ThreadStarted i \<Rightarrow> st\<lparr>cx_thread := Some i\<rparr>
      | ItemCompleted (AgentMessage t) \<Rightarrow>
          st\<lparr>cx_final := t, cx_tr := (if t = [] then cx_tr st else append_text (t @ [nl]) (cx_tr st))\<rparr>
      | ItemCompleted item \<Rightarrow> st\<lparr>cx_tr := note_text (itemNote item) (cx_tr st)\<rparr>
      | TurnCompleted u \<Rightarrow> st\<lparr>cx_usage := Some u\<rparr>
      | TurnFailed message \<Rightarrow> st\<lparr>cx_failed := Some message\<rparr>
      | StreamError message \<Rightarrow> st\<lparr>cx_tr := note_text (''[codex stream error] '' @ message @ [nl]) (cx_tr st)\<rparr>
      | OtherEvent \<Rightarrow> st)"

text \<open>The loop over the events breaks at a failed turn; whether it did.\<close>

fun codex_events :: "codex_event list \<Rightarrow> codex_state \<Rightarrow> codex_state" where
  "codex_events [] st = st"
| "codex_events (ev # evs) st =
     (case ev of TurnFailed _ \<Rightarrow> codex_step ev st | _ \<Rightarrow> codex_events evs (codex_step ev st))"

definition codex_note :: "string \<Rightarrow> codex_state \<Rightarrow> codex_state" where
  "codex_note t st = st\<lparr>cx_tr := note_text ([nl] @ t @ [nl]) (cx_tr st)\<rparr>"

definition codex_failed :: "adw_runtime \<Rightarrow> phase_request \<Rightarrow> codex_state \<Rightarrow> stop_signal \<Rightarrow> int \<Rightarrow> runner_result" where
  "codex_failed js req st sg rc =
     \<lparr>structured = parseStructured js (cx_final st), transcriptText = tr_text (cx_tr st),
      usage = (case cx_usage st of Some u \<Rightarrow> codex_usage u (rq_model req) | None \<Rightarrow> no_usage),
      signal = sg, sessionId = cx_thread st, res_ok = False, res_rc = rc, res_file = tr_file (cx_tr st)\<rparr>"

text \<open>A stream that throws does so before or after events; a turn that failed has broken the loop first.\<close>

definition codex_phase ::
  "adw_runtime \<Rightarrow> phase_request \<Rightarrow> codex_event list \<Rightarrow> stream_end \<Rightarrow> abort_reason option \<Rightarrow> runner_result" where
  "codex_phase js req events ended aborted =
     (let st = codex_events events codex_start in
      case (ended, cx_failed st) of
        (StreamThrew err, None) \<Rightarrow>
          (case aborted of
             Some why \<Rightarrow> codex_failed js req st (abortKind js why) TIMEOUT_RC
           | None \<Rightarrow> codex_failed js req (codex_note (''[codex runner error] '' @ err) st) sig_none 1)
      | _ \<Rightarrow>
          (case aborted of
             Some why \<Rightarrow> codex_failed js req st (abortKind js why) TIMEOUT_RC
           | None \<Rightarrow>
               if cx_failed st \<noteq> None
               then codex_failed js req (codex_note (''[codex turn.failed] '' @ the (cx_failed st)) st) sig_none 1
               else case cx_usage st of
                      None \<Rightarrow>
                        codex_failed js req (codex_note ''[codex runner error] stream ended without turn.completed'' st) sig_none 1
                    | Some u \<Rightarrow>
                        \<lparr>structured = parseStructured js (cx_final st), transcriptText = tr_text (cx_tr st),
                         usage = codex_usage u (rq_model req), signal = sig_none, sessionId = cx_thread st,
                         res_ok = True, res_rc = 0, res_file = tr_file (cx_tr st)\<rparr>))"

end
