(* ===== verification/Adw_Pi_Runner.thy ===== *)
theory Adw_Pi_Runner
  imports Adw_Runners
begin

text \<open>
  The adapter of pi (adw_sdlc/src/runners/runner-pi.ts): the command line of the child, its events
  line by line, the transcript and the usage they add up to, and the result. What the child writes
  and how it ends are arguments. The handler of a line throws a \<open>TypeError\<close> on shapes the code
  does not expect, which nothing catches.
\<close>

section \<open>Starting the child\<close>

definition resolvePiBin :: "(string \<Rightarrow> bool) \<Rightarrow> environment \<Rightarrow> string option" where
  "resolvePiBin is_executable env = resolveBin is_executable ''PI_BIN'' ''pi'' [] env"

text \<open>\<open>req.reasoning\<close> is the second argument; the control plane leaves it undefined.\<close>

definition buildPiArgs :: "phase_request \<Rightarrow> string option \<Rightarrow> string list" where
  "buildPiArgs req reasoning =
     [''-p'', ''--mode'', ''json'', ''--model'', rq_model req]
       @ (case reasoning of Some r \<Rightarrow> [''--thinking'', r] | None \<Rightarrow> []) @ [rq_prompt req]"

section \<open>Usage\<close>

text \<open>The cost is undefined, null (\<open>Some None\<close>) or a sum.\<close>

record usage_totals =
  ut_input :: "rat option"
  ut_output :: "rat option"
  ut_cached :: "rat option"
  ut_cost :: "rat option option"
  ut_seen :: bool

definition no_totals :: usage_totals where
  "no_totals = \<lparr>ut_input = None, ut_output = None, ut_cached = None, ut_cost = None, ut_seen = False\<rparr>"

definition add_usage :: "json \<Rightarrow> usage_totals \<Rightarrow> usage_totals" where
  "add_usage u ut =
     (let total = count_of (field_of (field_of u ''cost'') ''total'') in
      \<lparr>ut_input = add_reported (ut_input ut) (count_of (field_of u ''input'')),
       ut_output = add_reported (ut_output ut) (count_of (field_of u ''output'')),
       ut_cached = add_reported (ut_cached ut) (count_of (field_of u ''cacheRead'')),
       ut_cost = (case (total, ut_cost ut) of
                    (None, _) \<Rightarrow> Some None
                  | (_, Some None) \<Rightarrow> Some None
                  | (Some t, None) \<Rightarrow> Some (Some (0 + t))
                  | (Some t, Some (Some c)) \<Rightarrow> Some (Some (c + t))),
       ut_seen = True\<rparr>)"

definition toPhaseUsage :: "usage_totals \<Rightarrow> phase_usage" where
  "toPhaseUsage ut =
     (if \<not> ut_seen ut then no_usage
      else no_usage\<lparr>inputTokens := ut_input ut, outputTokens := ut_output ut, cachedInputTokens := ut_cached ut,
             costUsd := Some (case ut_cost ut of Some (Some c) \<Rightarrow> Some (Fin c) | _ \<Rightarrow> None)\<rparr>)"

section \<open>Events\<close>

record pi_state =
  pi_tr :: transcript
  pi_totals :: usage_totals
  pi_session :: "string option"
  pi_written :: nat
  pi_stop :: json
  pi_error :: json

definition pi_start :: pi_state where
  "pi_start = \<lparr>pi_tr = new_transcript, pi_totals = no_totals, pi_session = None, pi_written = 0, pi_stop = JUndef,
     pi_error = JUndef\<rparr>"

definition endMessage :: "transcript \<Rightarrow> transcript" where
  "endMessage tr = (if tr_text tr \<noteq> [] \<and> \<not> endsWith (tr_text tr) [nl] then append_text [nl] tr else tr)"

text \<open>The text of the blocks of a message; \<open>None\<close> is the \<open>TypeError\<close> of a block that is null.\<close>

definition block_texts :: "json list \<Rightarrow> string option" where
  "block_texts blocks = (if JNull \<in> set blocks then None else Some (concat (map text_block blocks)))"

text \<open>\<open>(message.content ?? []).filter(...)\<close>: anything but an array has no \<open>filter\<close>.\<close>

definition message_text :: "json \<Rightarrow> string option" where
  "message_text message =
     (case nullish (field_of message ''content'') (JArr []) of JArr blocks \<Rightarrow> block_texts blocks | _ \<Rightarrow> None)"

definition pi_message_end :: "json \<Rightarrow> pi_state \<Rightarrow> pi_state option" where
  "pi_message_end message st =
     (case message_text message of
        None \<Rightarrow> None
      | Some full \<Rightarrow>
          (let tr = (if pi_written st < length full then append_text (drop (pi_written st) full) (pi_tr st) else pi_tr st) in
           Some (st\<lparr>pi_tr := endMessage tr, pi_written := 0,
                    pi_totals := add_usage (field_of message ''usage'') (pi_totals st),
                    pi_stop := field_of message ''stopReason'', pi_error := field_of message ''errorMessage''\<rparr>)))"

definition tool_line :: "adw_runtime \<Rightarrow> json \<Rightarrow> string" where
  "tool_line js event =
     ''[tool '' @ js_String js (nullish (field_of event ''toolName'') (JStr ''unknown'')) @ '' ''
       @ (if field_of event ''isError'' = JBool True then ''error'' else ''completed'') @ '']'' @ [nl]"

text \<open>\<open>onEvent\<close>; \<open>None\<close> when it throws.\<close>

definition onEvent :: "adw_runtime \<Rightarrow> json \<Rightarrow> pi_state \<Rightarrow> pi_state option" where
  "onEvent js event st =
     (let kind = field_of event ''type''; assistant = (field_of (field_of event ''message'') ''role'' = JStr ''assistant'') in
      if event = JNull then None
      else if kind = JStr ''session'' \<and> readString (field_of event ''id'') \<noteq> None then
        Some (st\<lparr>pi_session := readString (field_of event ''id'')\<rparr>)
      else if kind = JStr ''message_start'' then Some (if assistant then st\<lparr>pi_written := 0\<rparr> else st)
      else if kind = JStr ''message_update'' then
        (let delta = field_of event ''assistantMessageEvent'' in
         case readString (field_of delta ''delta'') of
           Some d \<Rightarrow>
             if field_of delta ''type'' = JStr ''text_delta''
             then Some (st\<lparr>pi_tr := append_text d (pi_tr st), pi_written := pi_written st + length d\<rparr>)
             else Some st
         | None \<Rightarrow> Some st)
      else if kind = JStr ''message_end'' then
        (if assistant then pi_message_end (field_of event ''message'') st else Some st)
      else if kind = JStr ''tool_execution_end'' then Some (st\<lparr>pi_tr := note_text (tool_line js event) (pi_tr st)\<rparr>)
      else Some st)"

text \<open>A line of standard output, or a chunk of standard error.\<close>

datatype pi_input = PiLine string | PiStderr string

definition onInput :: "adw_runtime \<Rightarrow> pi_input \<Rightarrow> pi_state \<Rightarrow> pi_state option" where
  "onInput js input st =
     (case input of
        PiStderr chunk \<Rightarrow> Some (st\<lparr>pi_tr := note_text (''[pi stderr] '' @ chunk) (pi_tr st)\<rparr>)
      | PiLine line \<Rightarrow>
          if js_trim line = [] then Some st
          else case parse_json js line of
                 Inl _ \<Rightarrow> Some (st\<lparr>pi_tr := note_text (''[pi stdout] '' @ line @ [nl]) (pi_tr st)\<rparr>)
               | Inr event \<Rightarrow> onEvent js event st)"

fun pi_inputs :: "adw_runtime \<Rightarrow> pi_input list \<Rightarrow> pi_state \<Rightarrow> pi_state option" where
  "pi_inputs js [] st = Some st"
| "pi_inputs js (x # xs) st = (case onInput js x st of None \<Rightarrow> None | Some st' \<Rightarrow> pi_inputs js xs st')"

section \<open>Results\<close>

text \<open>How the child ended: it could not be spawned, or it closed with a code, if any.\<close>

datatype pi_end = SpawnError string | Closed "int option"

definition pi_failed :: "pi_state \<Rightarrow> stop_signal \<Rightarrow> int \<Rightarrow> runner_result" where
  "pi_failed st sg rc =
     \<lparr>structured = None, transcriptText = tr_text (pi_tr st), usage = toPhaseUsage (pi_totals st), signal = sg,
      sessionId = pi_session st, res_ok = False, res_rc = rc, res_file = tr_file (pi_tr st)\<rparr>"

definition pi_note :: "string \<Rightarrow> pi_state \<Rightarrow> pi_state" where
  "pi_note t st = st\<lparr>pi_tr := note_text t (pi_tr st)\<rparr>"

definition pi_result :: "adw_runtime \<Rightarrow> pi_state \<Rightarrow> pi_end \<Rightarrow> abort_reason option \<Rightarrow> runner_result" where
  "pi_result js st ended aborted =
     (let rc = (case ended of SpawnError _ \<Rightarrow> 1 | Closed code \<Rightarrow> or_default code 1);
          st1 = (case ended of
                   SpawnError err \<Rightarrow> pi_note (''[pi runner error] failed to spawn pi: '' @ err @ [nl]) st
                 | Closed _ \<Rightarrow> st) in
      case aborted of
        Some why \<Rightarrow> pi_failed st1 (abortKind js why) TIMEOUT_RC
      | None \<Rightarrow>
          if rc \<noteq> 0 then pi_failed st1 sig_none rc
          else if pi_stop st1 = JStr ''error'' \<or> pi_stop st1 = JStr ''aborted'' then
            pi_failed (pi_note ([nl] @ ''[pi '' @ js_String js (pi_stop st1) @ ''] ''
              @ js_String js (nullish (pi_error st1) (JStr ''no error message'')) @ [nl]) st1) sig_none 1
          else
            \<lparr>structured = None, transcriptText = tr_text (pi_tr st1), usage = toPhaseUsage (pi_totals st1), signal = sig_none,
             sessionId = pi_session st1, res_ok = True, res_rc = 0, res_file = tr_file (pi_tr st1)\<rparr>)"

text \<open>
  A phase: an abort before it starts, the binary, the child's output, its end, and an abort on the
  way. \<open>None\<close> when an event handler throws, which ends the process.
\<close>

definition pi_phase ::
  "adw_runtime \<Rightarrow> abort_reason option \<Rightarrow> string option \<Rightarrow> pi_input list \<Rightarrow> pi_end \<Rightarrow> abort_reason option
     \<Rightarrow> runner_result option" where
  "pi_phase js early bin inputs ended aborted =
     (case early of
        Some why \<Rightarrow> Some (pi_failed pi_start (abortKind js why) TIMEOUT_RC)
      | None \<Rightarrow>
          if bin = None then
            Some (pi_failed (pi_note (''[pi runner error] pi binary not found (set PI_BIN or add pi to PATH)'' @ [nl]) pi_start)
                    sig_none 1)
          else map_option (\<lambda>st. pi_result js st ended aborted) (pi_inputs js inputs pi_start))"

section \<open>The transcript is what the assistant said\<close>

text \<open>An assistant message as it is streamed: its deltas, and the message that ends it.\<close>

definition delta_event :: "string \<Rightarrow> json" where
  "delta_event d =
     JObj [(''type'', JStr ''message_update''),
           (''assistantMessageEvent'', JObj [(''type'', JStr ''text_delta''), (''delta'', JStr d)])]"

definition end_event :: "string list \<Rightarrow> json \<Rightarrow> json" where
  "end_event texts u =
     JObj [(''type'', JStr ''message_end''),
           (''message'', JObj [(''role'', JStr ''assistant''),
             (''content'', JArr (map (\<lambda>t. JObj [(''type'', JStr ''text''), (''text'', JStr t)]) texts)), (''usage'', u)])]"

definition streamed :: "string list \<times> string list \<times> json \<Rightarrow> json list" where
  "streamed msg = (case msg of (deltas, texts, u) \<Rightarrow> map delta_event deltas @ [end_event texts u])"

definition as_line :: "string \<Rightarrow> string" where
  "as_line t = (if t = [] \<or> endsWith t [nl] then t else t @ [nl])"

lemma onEvent_delta:
  "onEvent js (delta_event d) st = Some (st\<lparr>pi_tr := append_text d (pi_tr st), pi_written := pi_written st + length d\<rparr>)"
  by (simp add: onEvent_def delta_event_def Let_def)

lemma onEvent_end: "onEvent js (end_event texts u) st = pi_message_end (field_of (end_event texts u) ''message'') st"
  by (simp add: onEvent_def end_event_def Let_def)

text \<open>The lines a child writes for these events, as the runtime parses them.\<close>

definition writes :: "adw_runtime \<Rightarrow> string list \<Rightarrow> json list \<Rightarrow> bool" where
  "writes js lines events = list_all2 (\<lambda>l e. js_trim l \<noteq> [] \<and> parse_json js l = Inr e) lines events"

lemma inputs_events:
  "writes js lines events \<Longrightarrow>
     pi_inputs js (map PiLine lines) st =
       foldl (\<lambda>s e. case s of None \<Rightarrow> None | Some st \<Rightarrow> onEvent js e st) (Some st) events"
proof (induction lines arbitrary: st events)
  case (Cons l lines)
  then obtain e rest where e: "events = e # rest" "js_trim l \<noteq> []" "parse_json js l = Inr e" "writes js lines rest"
    by (auto simp: writes_def list_all2_Cons1)
  have none: "foldl (\<lambda>s e. case s of None \<Rightarrow> None | Some st \<Rightarrow> onEvent js e st) None es = None" for es
    by (induction es) simp_all
  show ?case using Cons.IH [OF e(4)] e(1-3) by (simp add: onInput_def none split: option.split)
qed (simp add: writes_def)

lemma deltas_appended:
  "foldl (\<lambda>s e. case s of None \<Rightarrow> None | Some st \<Rightarrow> onEvent js e st) (Some st) (map delta_event ds) =
     Some (st\<lparr>pi_tr := append_text (concat ds) (pi_tr st), pi_written := pi_written st + length (concat ds)\<rparr>)"
  by (induction ds arbitrary: st) (simp_all add: onEvent_delta append_text_def)

lemma block_texts_end: "block_texts (map (\<lambda>t. JObj [(''type'', JStr ''text''), (''text'', JStr t)]) texts) = Some (concat texts)"
proof -
  have "text_block (JObj [(''type'', JStr ''text''), (''text'', JStr t)]) = t" for t by (simp add: text_block_def)
  then show ?thesis by (auto simp: block_texts_def comp_def)
qed

lemma ends_nl: "endsWith t [nl] \<longleftrightarrow> t \<noteq> [] \<and> last t = nl"
  by (cases t rule: rev_cases) (auto simp: endsWith_def)

lemma last_append_line: "last (b @ t) = (if t = [] then last b else last t)"
  by simp

text \<open>A message leaves its full text as whole lines, and its usage in the totals.\<close>

lemma streamed_message:
  assumes "pi_written st = 0" "tr_text (pi_tr st) = [] \<or> endsWith (tr_text (pi_tr st)) [nl]"
    and "prefix (concat deltas) (concat texts)"
  shows "\<exists>st'. foldl (\<lambda>s e. case s of None \<Rightarrow> None | Some st \<Rightarrow> onEvent js e st) (Some st) (streamed (deltas, texts, u)) = Some st'
     \<and> pi_written st' = 0 \<and> tr_text (pi_tr st') = tr_text (pi_tr st) @ as_line (concat texts)
     \<and> pi_totals st' = add_usage u (pi_totals st)"
proof -
  obtain more_text where full: "concat texts = concat deltas @ more_text" using assms(3) by (auto elim: prefixE)
  let ?st = "st\<lparr>pi_tr := append_text (concat deltas) (pi_tr st), pi_written := pi_written st + length (concat deltas)\<rparr>"
  have message: "message_text (field_of (end_event texts u) ''message'') = Some (concat texts)"
    "field_of (field_of (end_event texts u) ''message'') ''usage'' = u"
    by (simp_all add: message_text_def end_event_def block_texts_end)
  have "tr_text (endMessage (if pi_written ?st < length (concat texts)
        then append_text (drop (pi_written ?st) (concat texts)) (pi_tr ?st) else pi_tr ?st))
      = tr_text (pi_tr st) @ as_line (concat texts)"
    using assms(1,2) unfolding full
    by (cases "more_text = []"; cases "concat deltas = []")
       (simp_all add: endMessage_def append_text_def as_line_def ends_nl last_append_line del: concat_eq_Nil_conv last_append)
  with message show ?thesis
    unfolding streamed_def prod.case foldl_append deltas_appended
    by (simp add: onEvent_end pi_message_end_def Let_def)
qed

lemma streamed_messages:
  assumes "list_all (\<lambda>(deltas, texts, u). prefix (concat deltas) (concat texts)) msgs"
    and "pi_written st = 0" "tr_text (pi_tr st) = [] \<or> endsWith (tr_text (pi_tr st)) [nl]"
  shows "\<exists>st'. foldl (\<lambda>s e. case s of None \<Rightarrow> None | Some st \<Rightarrow> onEvent js e st) (Some st) (concat (map streamed msgs)) = Some st'
     \<and> tr_text (pi_tr st') = tr_text (pi_tr st) @ concat (map (\<lambda>(deltas, texts, u). as_line (concat texts)) msgs)
     \<and> pi_totals st' = fold (\<lambda>(deltas, texts, u). add_usage u) msgs (pi_totals st)"
  using assms
proof (induction msgs arbitrary: st)
  case (Cons msg msgs)
  obtain deltas texts u where msg: "msg = (deltas, texts, u)" by (cases msg)
  obtain st1 where st1: "foldl (\<lambda>s e. case s of None \<Rightarrow> None | Some st \<Rightarrow> onEvent js e st) (Some st) (streamed msg) = Some st1"
      "pi_written st1 = 0" "tr_text (pi_tr st1) = tr_text (pi_tr st) @ as_line (concat texts)"
      "pi_totals st1 = add_usage u (pi_totals st)"
    using streamed_message [of st deltas texts js u] Cons.prems by (auto simp: msg)
  have "tr_text (pi_tr st1) = [] \<or> endsWith (tr_text (pi_tr st1)) [nl]"
    using Cons.prems(3) unfolding st1(3) by (cases "concat texts = []") (auto simp: as_line_def ends_nl simp del: concat_eq_Nil_conv)
  with Cons.IH [of st1] Cons.prems st1 show ?case by (auto simp: msg)
qed simp


definition demo_pi_js :: adw_runtime where
  "demo_pi_js = demo_adw_js\<lparr>parse_json := (\<lambda>l. if l = ''d'' then Inr (delta_event ''he'') else Inr (end_event [''hel'', ''lo''] JUndef))\<rparr>"


text \<open>A line that is the JSON literal \<open>null\<close> ends the process: the handler reads a property of it.\<close>

lemma null_line_throws:
  "js_trim line \<noteq> [] \<Longrightarrow> parse_json js line = Inr JNull \<Longrightarrow> pi_inputs js (PiLine line # rest) st = None"
  by (simp add: onInput_def onEvent_def Let_def)

end
