(* ===== verification/Adw_Opencode.thy ===== *)
theory Adw_Opencode
  imports Adw_Pi_Runner
begin

text \<open>
  The adapter of opencode (adw_sdlc/src/runners/runner-opencode.ts): starting the server and owning
  it, the transcript its event stream and its final parts add up to, and the result of a phase. The
  server's output, the SDK client's replies and its events are arguments. And the contract that all
  four adapters keep.
\<close>

section \<open>Configuration\<close>

definition OPENCODE_PERMISSION :: json where
  "OPENCODE_PERMISSION =
     JObj [(''*'', JStr ''allow''),
           (''bash'', JObj [(''git *'', JStr ''deny''), (''gh *'', JStr ''deny''), (''*'', JStr ''allow'')])]"

definition SERVER_START_TIMEOUT_MS :: int where
  "SERVER_START_TIMEOUT_MS = 30000"

definition SERVER_BIND_ATTEMPTS :: nat where
  "SERVER_BIND_ATTEMPTS = 3"

definition PORT_RANGE_START :: int where
  "PORT_RANGE_START = 49152"

definition PORT_RANGE_SIZE :: int where
  "PORT_RANGE_SIZE = 16384"

text \<open>The random number in the unit interval is an argument.\<close>

definition randomPort :: "rat \<Rightarrow> int" where
  "randomPort r = PORT_RANGE_START + \<lfloor>r * of_int PORT_RANGE_SIZE\<rfloor>"

definition READY_BANNER :: string where
  "READY_BANNER = ''opencode server listening''"

definition resolveOpencodeBin :: "(string \<Rightarrow> bool) \<Rightarrow> string \<Rightarrow> environment \<Rightarrow> string option" where
  "resolveOpencodeBin is_executable homedir env =
     resolveBin is_executable ''OPENCODE_BIN'' ''opencode''
       [path_join (or_default (env ''HOME'') homedir) ''.opencode/bin/opencode''] env"

definition splitModel :: "string \<Rightarrow> string \<times> string" where
  "splitModel model =
     (case index_of ''/'' model of
        None \<Rightarrow> ([], model)
      | Some slash \<Rightarrow>
          if slash = 0 \<or> slash = length model - 1 then ([], model)
          else (take slash model, drop (slash + 1) model))"

section \<open>Starting the server\<close>

definition serve_command :: "string \<Rightarrow> int \<Rightarrow> string list" where
  "serve_command bin port = [bin, ''serve'', ''--hostname'', ''127.0.0.1'', ''--port'', show_int port]"

definition serve_env :: "adw_runtime \<Rightarrow> phase_request \<Rightarrow> (string \<times> string) list" where
  "serve_env js req =
     map_set ''OPENCODE_CONFIG_CONTENT'' (stringify js (JObj [(''permission'', OPENCODE_PERMISSION)])) (rq_env req)"

text \<open>The URL in a line: \<open>on\<close>, blanks, and the first \<open>http://\<close> or \<open>https://\<close> up to a blank.\<close>

definition url_here :: "string \<Rightarrow> string option" where
  "url_here s =
     (if \<not> startsWith s ''on'' then None
      else (let r = drop 2 s; u = dropWhile is_space r;
                scheme = (if startsWith u ''https://'' then ''https://'' else if startsWith u ''http://'' then ''http://'' else []);
                host = takeWhile (\<lambda>c. \<not> is_space c) (drop (length scheme) u) in
            if takeWhile is_space r = [] \<or> scheme = [] \<or> host = [] then None else Some (scheme @ host)))"

fun find_url :: "string \<Rightarrow> string option" where
  "find_url [] = None"
| "find_url (c # s) = (case url_here (c # s) of Some u \<Rightarrow> Some u | None \<Rightarrow> find_url s)"

datatype serve_event = Output string | ServeExit string | SpawnFailed string | StartTimeout

text \<open>Ready with a URL, or failed with a message and whether another port may help.\<close>

datatype serve_outcome = Ready string | ServeFailed string bool

text \<open>One attempt: the first event that settles it decides; the output adds up.\<close>

fun serve_events :: "string \<Rightarrow> serve_event list \<Rightarrow> serve_outcome option" where
  "serve_events out [] = None"
| "serve_events out (ev # evs) =
     (case ev of
        Output chunk \<Rightarrow>
          (case find (\<lambda>line. index_of READY_BANNER line \<noteq> None) (split_on nl (out @ chunk)) of
             None \<Rightarrow> serve_events (out @ chunk) evs
           | Some line \<Rightarrow>
               (case find_url line of
                  Some url \<Rightarrow> Some (Ready url)
                | None \<Rightarrow> Some (ServeFailed (''could not parse the server url from: '' @ js_trim line) False)))
      | ServeExit code \<Rightarrow>
          Some (ServeFailed (''opencode serve exited with code '' @ code @ '' before ready: '' @ js_trim out) True)
      | SpawnFailed err \<Rightarrow> Some (ServeFailed (''failed to spawn opencode: '' @ err) False)
      | StartTimeout \<Rightarrow>
          Some (ServeFailed (''opencode serve produced no readiness banner within '' @ show_int SERVER_START_TIMEOUT_MS @ ''ms: ''
                  @ js_trim out) False))"

text \<open>The attempts; \<open>attempt k\<close> is how the one with number \<open>k\<close> ends, and \<open>left\<close> those that remain.\<close>

fun spawn_attempts :: "(nat \<Rightarrow> serve_outcome) \<Rightarrow> nat \<Rightarrow> nat \<Rightarrow> serve_outcome" where
  "spawn_attempts outcome 0 k = outcome k"
| "spawn_attempts outcome (Suc left) k =
     (case outcome k of ServeFailed _ True \<Rightarrow> spawn_attempts outcome left (k + 1) | other \<Rightarrow> other)"

definition spawnServer :: "string option \<Rightarrow> (nat \<Rightarrow> serve_outcome) \<Rightarrow> serve_outcome" where
  "spawnServer bin outcome =
     (if bin = None
      then ServeFailed ''opencode binary not found (set OPENCODE_BIN or add opencode to PATH)'' False
      else spawn_attempts outcome (SERVER_BIND_ATTEMPTS - 1) 0)"

section \<open>Owning the server\<close>

text \<open>
  \<open>server\<close> and \<open>starting\<close>, with the starts numbered; the starts that have not settled, and the
  processes that were started, have not exited and were not told to.
\<close>

record owner =
  ow_server :: "nat option"
  ow_starting :: "nat option"
  ow_next :: nat
  ow_pending :: "nat list"
  ow_running :: "nat list"

definition owner_start :: owner where
  "owner_start = \<lparr>ow_server = None, ow_starting = None, ow_next = 0, ow_pending = [], ow_running = []\<rparr>"

definition kill_server :: "nat \<Rightarrow> owner \<Rightarrow> owner" where
  "kill_server p ow = ow\<lparr>ow_running := removeAll p (ow_running ow)\<rparr>"

definition ensureServer :: "owner \<Rightarrow> owner" where
  "ensureServer ow =
     (if ow_server ow \<noteq> None \<or> ow_starting ow \<noteq> None then ow
      else ow\<lparr>ow_starting := Some (ow_next ow), ow_next := ow_next ow + 1, ow_pending := ow_next ow # ow_pending ow\<rparr>)"

text \<open>A start resolves with its process, or rejects.\<close>

definition server_started :: "nat \<Rightarrow> owner \<Rightarrow> owner" where
  "server_started p ow =
     (let ow1 = ow\<lparr>ow_pending := removeAll p (ow_pending ow), ow_running := p # ow_running ow\<rparr> in
      if ow_starting ow \<noteq> Some p then kill_server p ow1 else ow1\<lparr>ow_server := Some p\<rparr>)"

definition server_failed :: "nat \<Rightarrow> owner \<Rightarrow> owner" where
  "server_failed p ow =
     (let ow1 = ow\<lparr>ow_pending := removeAll p (ow_pending ow)\<rparr> in
      if ow_starting ow = Some p then ow1\<lparr>ow_starting := None\<rparr> else ow1)"

definition opencode_stop :: "owner \<Rightarrow> owner" where
  "opencode_stop ow =
     (let ow1 = ow\<lparr>ow_starting := None, ow_server := None\<rparr> in
      case ow_server ow of Some p \<Rightarrow> kill_server p ow1 | None \<Rightarrow> ow1)"

datatype owner_event = EnsureServer | Started nat | StartFailed nat | Stop | ServerExits nat

definition owner_react :: "owner_event \<Rightarrow> owner \<Rightarrow> owner" where
  "owner_react ev ow =
     (case ev of
        EnsureServer \<Rightarrow> ensureServer ow
      | Started p \<Rightarrow> if p \<in> set (ow_pending ow) then server_started p ow else ow
      | StartFailed p \<Rightarrow> if p \<in> set (ow_pending ow) then server_failed p ow else ow
      | Stop \<Rightarrow> opencode_stop ow
      | ServerExits p \<Rightarrow> ow\<lparr>ow_running := removeAll p (ow_running ow)\<rparr>)"

section \<open>The transcript\<close>

text \<open>How much of each part is written, and the notes that are taken once.\<close>

record oc_transcript = transcript +
  oc_written :: "(string \<times> nat) list"
  oc_noted :: "string list"

definition oc_new :: oc_transcript where
  "oc_new = \<lparr>tr_text = [], tr_file = [], oc_written = [], oc_noted = []\<rparr>"

definition oc_note :: "string \<Rightarrow> oc_transcript \<Rightarrow> oc_transcript" where
  "oc_note t tr = tr\<lparr>tr_file := tr_file tr @ t\<rparr>"

definition oc_say :: "string \<Rightarrow> oc_transcript \<Rightarrow> oc_transcript" where
  "oc_say t tr = tr\<lparr>tr_text := tr_text tr @ t, tr_file := tr_file tr @ t\<rparr>"

definition noteOnce :: "string \<Rightarrow> string \<Rightarrow> oc_transcript \<Rightarrow> oc_transcript" where
  "noteOnce key t tr = (if key \<in> set (oc_noted tr) then tr else oc_note t (tr\<lparr>oc_noted := key # oc_noted tr\<rparr>))"

definition written_of :: "string \<Rightarrow> oc_transcript \<Rightarrow> nat" where
  "written_of part tr = or_default (map_of (oc_written tr) part) 0"

definition oc_delta :: "string \<Rightarrow> string \<Rightarrow> oc_transcript \<Rightarrow> oc_transcript" where
  "oc_delta part d tr =
     (if d = [] then tr
      else oc_say d (tr\<lparr>oc_written := map_set part (written_of part tr + length d) (oc_written tr)\<rparr>))"

definition fullText :: "string \<Rightarrow> string \<Rightarrow> oc_transcript \<Rightarrow> oc_transcript" where
  "fullText part full tr =
     (if written_of part tr < length full
      then oc_say (drop (written_of part tr) full) (tr\<lparr>oc_written := map_set part (length full) (oc_written tr)\<rparr>)
      else tr)"

definition endPart :: "oc_transcript \<Rightarrow> oc_transcript" where
  "endPart tr = (if tr_text tr \<noteq> [] \<and> \<not> endsWith (tr_text tr) [nl] then oc_say [nl] tr else tr)"

datatype tool_state = ToolCompleted string | ToolError string | ToolOther

datatype part_kind = TextPart string | ToolPart string tool_state | OtherPart

record oc_part =
  part_session :: string
  part_message :: string
  part_id :: string
  part_kind :: part_kind

definition toolNote :: "string \<Rightarrow> tool_state \<Rightarrow> string option" where
  "toolNote tool s =
     (case s of
        ToolCompleted t \<Rightarrow> Some (''[tool '' @ tool @ '' completed] '' @ t @ [nl])
      | ToolError err \<Rightarrow> Some (''[tool '' @ tool @ '' error] '' @ err @ [nl])
      | ToolOther \<Rightarrow> None)"

definition note_tool :: "string \<Rightarrow> string \<Rightarrow> tool_state \<Rightarrow> oc_transcript \<Rightarrow> oc_transcript" where
  "note_tool part tool s tr = (case toolNote tool s of Some n \<Rightarrow> noteOnce part n tr | None \<Rightarrow> tr)"

text \<open>The events, with the session they are about first.\<close>

datatype oc_event =
    MessageUpdated string string string
  | PartDelta string string string string string
  | PartUpdated oc_part
  | SessionError "string option" "string option"
  | OtherOcEvent

text \<open>The stream shows parts of this session's assistant messages alone; it knows these once it has seen them.\<close>

definition tee_event :: "string \<Rightarrow> oc_event \<Rightarrow> string list \<times> oc_transcript \<Rightarrow> string list \<times> oc_transcript" where
  "tee_event session ev st =
     (case st of (assistants, tr) \<Rightarrow>
        (case ev of
           MessageUpdated s i role \<Rightarrow>
             (if s = session \<and> role = ''assistant'' then List.insert i assistants else assistants, tr)
         | PartDelta s msg part field d \<Rightarrow>
             (assistants,
              if s = session \<and> msg \<in> set assistants \<and> field = ''text'' then oc_delta part d tr else tr)
         | PartUpdated p \<Rightarrow>
             (assistants,
              if part_session p = session \<and> part_message p \<in> set assistants then
                (case part_kind p of
                   TextPart t \<Rightarrow> fullText (part_id p) t tr
                 | ToolPart tool s \<Rightarrow> note_tool (part_id p) tool s tr
                 | OtherPart \<Rightarrow> tr)
              else tr)
         | SessionError s err \<Rightarrow>
             (assistants,
              if s = Some session then oc_note (''[opencode session.error] '' @ or_default err ''unknown'' @ [nl]) tr else tr)
         | OtherOcEvent \<Rightarrow> st))"

text \<open>The parts of the reply, once it is there.\<close>

definition final_part :: "oc_part \<Rightarrow> oc_transcript \<Rightarrow> oc_transcript" where
  "final_part p tr =
     (case part_kind p of
        TextPart t \<Rightarrow> endPart (fullText (part_id p) t tr)
      | ToolPart tool s \<Rightarrow> note_tool (part_id p) tool s tr
      | OtherPart \<Rightarrow> tr)"

section \<open>A phase\<close>

record oc_info =
  oi_tokens :: json
  oi_cost :: json
  oi_structured :: json
  oi_error :: "(string \<times> json) option"

definition oc_usage :: "oc_info \<Rightarrow> phase_usage" where
  "oc_usage info =
     no_usage\<lparr>inputTokens := count_of (field_of (oi_tokens info) ''input''),
       outputTokens := count_of (field_of (oi_tokens info) ''output''),
       cachedInputTokens := count_of (field_of (field_of (oi_tokens info) ''cache'') ''read''),
       reasoningTokens := count_of (field_of (oi_tokens info) ''reasoning''),
       costUsd := Some (map_option Fin (count_of (oi_cost info)))\<rparr>"

definition describe :: "adw_runtime \<Rightarrow> json \<Rightarrow> string" where
  "describe js v =
     (case v of
        JUndef \<Rightarrow> ''no response''
      | JNull \<Rightarrow> ''no response''
      | JObj ob \<Rightarrow> (case readString (jget ob ''message'') of Some m \<Rightarrow> m | None \<Rightarrow> stringify js v)
      | JArr _ \<Rightarrow> stringify js v
      | _ \<Rightarrow> js_String js v)"

definition oc_failed :: "oc_transcript \<Rightarrow> stop_signal \<Rightarrow> int \<Rightarrow> oc_info option \<Rightarrow> string option \<Rightarrow> runner_result" where
  "oc_failed tr sg rc info session =
     \<lparr>structured = (case info of Some i \<Rightarrow> asStructured (oi_structured i) | None \<Rightarrow> None), transcriptText = tr_text tr,
      usage = (case info of Some i \<Rightarrow> oc_usage i | None \<Rightarrow> no_usage), signal = sg, sessionId = session,
      res_ok = False, res_rc = rc, res_file = tr_file tr\<rparr>"

text \<open>How the calls of the client end: a reply, an error in the reply, or an exception with its text.\<close>

datatype 'a oc_call = Replied 'a | CallError json | CallThrew string

record oc_io =
  io_early :: "abort_reason option"
  io_server :: "string option"
  io_session :: "string oc_call"
  io_events :: "oc_event list"
  io_prompt :: "(oc_info \<times> oc_part list) oc_call"
  io_aborted :: "abort_reason option"

definition oc_threw :: "adw_runtime \<Rightarrow> abort_reason option \<Rightarrow> string \<Rightarrow> oc_transcript \<Rightarrow> string option \<Rightarrow> runner_result" where
  "oc_threw js aborted err tr session =
     (case aborted of
        Some why \<Rightarrow> oc_failed tr (abortKind js why) TIMEOUT_RC None session
      | None \<Rightarrow> oc_failed (oc_note ([nl] @ ''[opencode runner error] '' @ err @ [nl]) tr) sig_none 1 None session)"

definition oc_finish ::
  "adw_runtime \<Rightarrow> abort_reason option \<Rightarrow> oc_info \<Rightarrow> oc_transcript \<Rightarrow> string \<Rightarrow> runner_result" where
  "oc_finish js aborted info tr session =
     (case aborted of
        Some why \<Rightarrow> oc_failed tr (abortKind js why) TIMEOUT_RC (Some info) (Some session)
      | None \<Rightarrow>
          (case oi_error info of
             Some (name, data) \<Rightarrow>
               oc_failed (oc_note ([nl] @ ''[opencode '' @ name @ ''] '' @ describe js data @ [nl]) tr) sig_none 1 (Some info)
                 (Some session)
           | None \<Rightarrow>
               \<lparr>structured = asStructured (oi_structured info), transcriptText = tr_text tr, usage = oc_usage info,
                signal = sig_none, sessionId = Some session, res_ok = True, res_rc = 0, res_file = tr_file tr\<rparr>))"

text \<open>\<open>io_server\<close> is the text of the error \<open>ensureServer\<close> rejects with, if it does.\<close>

definition oc_phase :: "adw_runtime \<Rightarrow> oc_io \<Rightarrow> runner_result" where
  "oc_phase js io =
     (case io_early io of
        Some why \<Rightarrow> oc_failed oc_new (abortKind js why) TIMEOUT_RC None None
      | None \<Rightarrow>
          (case io_server io of
             Some err \<Rightarrow>
               (let tr = oc_note (''[opencode runner error] '' @ err @ [nl]) oc_new in
                case io_aborted io of
                  Some why \<Rightarrow> oc_failed tr (abortKind js why) TIMEOUT_RC None None
                | None \<Rightarrow> oc_failed tr sig_none 1 None None)
           | None \<Rightarrow>
               (case io_session io of
                  CallThrew err \<Rightarrow> oc_threw js (io_aborted io) err oc_new None
                | CallError e \<Rightarrow>
                    oc_failed (oc_note (''[opencode runner error] session.create failed: '' @ describe js e @ [nl]) oc_new)
                      sig_none 1 None None
                | Replied session \<Rightarrow>
                    (let tr = snd (fold (tee_event session) (io_events io) ([], oc_new)) in
                     case io_prompt io of
                       CallThrew err \<Rightarrow> oc_threw js (io_aborted io) err tr (Some session)
                     | CallError e \<Rightarrow>
                         oc_failed (oc_note (''[opencode runner error] prompt failed: '' @ describe js e @ [nl]) tr)
                           sig_none 1 None (Some session)
                     | Replied (info, parts) \<Rightarrow>
                         oc_finish js (io_aborted io) info (fold final_part parts tr) session))))"

section \<open>No server is left behind\<close>

definition owner_inv :: "owner \<Rightarrow> bool" where
  "owner_inv ow =
     (set (ow_running ow) \<subseteq> set_option (ow_server ow)
      \<and> (\<forall>p \<in> set (ow_pending ow). p < ow_next ow \<and> (ow_starting ow = Some p \<longrightarrow> ow_server ow = None)))"

lemma ensureServer_inv: "owner_inv ow \<Longrightarrow> owner_inv (ensureServer ow)"
  by (auto simp: owner_inv_def ensureServer_def)

lemma server_started_inv: "owner_inv ow \<Longrightarrow> p \<in> set (ow_pending ow) \<Longrightarrow> owner_inv (server_started p ow)"
  by (auto simp: owner_inv_def server_started_def kill_server_def Let_def)

lemma server_failed_inv: "owner_inv ow \<Longrightarrow> owner_inv (server_failed p ow)"
  by (auto simp: owner_inv_def server_failed_def Let_def)

lemma remove_only: "set xs \<subseteq> {x} \<Longrightarrow> removeAll x xs = []"
  by (induction xs) auto

lemma stop_inv: "owner_inv ow \<Longrightarrow> owner_inv (opencode_stop ow) \<and> ow_running (opencode_stop ow) = []"
  by (auto simp: owner_inv_def opencode_stop_def kill_server_def Let_def remove_only split: option.split)

lemma owner_react_inv: "owner_inv ow \<Longrightarrow> owner_inv (owner_react ev ow)"
  by (cases ev) (auto simp: owner_react_def ensureServer_inv server_started_inv server_failed_inv stop_inv, auto simp: owner_inv_def)

lemma owner_inv_run: "owner_inv ow \<Longrightarrow> owner_inv (fold owner_react evs ow)"
  by (induction evs arbitrary: ow) (simp_all add: owner_react_inv)

lemma owner_inv_start: "owner_inv owner_start"
  by (simp add: owner_inv_def owner_start_def)

text \<open>
  C10. The runner never loses a server. In whatever order phases ask for the server, starts settle,
  servers exit and the runner is stopped, also while a start is under way, every server that has
  come up and still runs is the one the runner holds, so at most one; and after a stop none runs,
  nor does one that comes up late.
\<close>

theorem opencode_one_server:
  "(let ow = fold owner_react evs owner_start in
    set (ow_running ow) \<subseteq> set_option (ow_server ow) \<and> ow_running (opencode_stop ow) = []
    \<and> ow_running (owner_react (Started p) (opencode_stop ow)) = [])"
proof -
  let ?ow = "fold owner_react evs owner_start"
  have held: "owner_inv ?ow" by (rule owner_inv_run [OF owner_inv_start])
  then have "ow_running (owner_react (Started p) (opencode_stop ?ow)) = []"
    using stop_inv [OF held]
    by (auto simp: owner_react_def server_started_def kill_server_def opencode_stop_def Let_def split: option.splits)
  with held stop_inv [OF held] show ?thesis by (simp add: Let_def owner_inv_def)
qed

text \<open>A server that has died is not replaced: the phases that follow are given the dead one.\<close>

lemma dead_server_kept:
  "(let ow = fold owner_react [EnsureServer, Started 0, ServerExits 0, EnsureServer] owner_start in
    ow_server ow = Some 0 \<and> ow_running ow = [] \<and> ow_pending ow = [])"
  by code_simp

text \<open>
  The banner is looked for in what has arrived, also in a line that is not complete: a chunk that
  ends within the line gives a truncated URL, or no URL and a failure that is not retried.
\<close>

lemma banner_cut_short:
  "serve_events [] [Output ''opencode server listening on http://127.0.0.1:4'', Output (''9200'' @ [nl])]
     = Some (Ready ''http://127.0.0.1:4'')"
  "serve_events [] [Output ''opencode server listening'', Output ('' on http://127.0.0.1:49200'' @ [nl])]
     = Some (ServeFailed ''could not parse the server url from: opencode server listening'' False)"
  "serve_events [] [Output (''opencode server listening on http://127.0.0.1:49200'' @ [nl])]
     = Some (Ready ''http://127.0.0.1:49200'')"
  by code_simp+

section \<open>The contract of the adapters\<close>

text \<open>
  A result that control can rely on: a success has code 0, no signal, and no abort behind it, and a
  failure has another code.
\<close>

definition honest_result :: "bool \<Rightarrow> runner_result \<Rightarrow> bool" where
  "honest_result aborted r =
     (if res_ok r then res_rc r = 0 \<and> signal r = sig_none \<and> \<not> aborted else res_rc r \<noteq> 0)"

definition oc_aborted :: "oc_io \<Rightarrow> bool" where
  "oc_aborted io = (set_option (io_early io) \<union> set_option (io_aborted io) \<noteq> {})"

text \<open>An adapter, for what comes from its backend, and whether the parent has aborted the phase.\<close>

locale runner_adapter =
  fixes outcome :: "'i \<Rightarrow> runner_result" and aborted :: "'i \<Rightarrow> bool"
  assumes ok_code: "res_ok (outcome i) \<longleftrightarrow> res_rc (outcome i) = 0"
    and ok_signal: "res_ok (outcome i) \<Longrightarrow> signal (outcome i) = sig_none"
    and aborted_fails: "aborted i \<Longrightarrow> \<not> res_ok (outcome i)"
begin

lemma always_honest: "honest_result (aborted i) (outcome i)"
  using ok_code ok_signal aborted_fails by (auto simp: honest_result_def)

text \<open>A signal that ends the phase without a retry never comes with a success.\<close>

lemma stop_is_failure: "stop_reason p (signal (outcome i)) \<noteq> None \<Longrightarrow> \<not> res_ok (outcome i)"
  using ok_signal [of i] by (auto simp: stop_reason_def split: stop_signal.splits)

end

lemmas outcome_defs = claude_phase_def claude_failed_def claude_completed_def codex_phase_def codex_failed_def
  pi_result_def pi_failed_def oc_phase_def oc_failed_def oc_threw_def oc_finish_def TIMEOUT_RC_def Let_def

interpretation claude_adapter: runner_adapter "\<lambda>(js, messages, ended, aborted). claude_phase js messages ended aborted"
  "\<lambda>(js, messages, ended, aborted). aborted \<noteq> None"
  by unfold_locales (auto simp: outcome_defs split: prod.splits option.splits stream_end.splits if_splits)

interpretation codex_adapter: runner_adapter "\<lambda>(js, req, events, ended, aborted). codex_phase js req events ended aborted"
  "\<lambda>(js, req, events, ended, aborted). aborted \<noteq> None"
  by unfold_locales (auto simp: outcome_defs split: prod.splits option.splits stream_end.splits if_splits)

interpretation pi_adapter: runner_adapter "\<lambda>(js, st, ended, aborted). pi_result js st ended aborted"
  "\<lambda>(js, st, ended, aborted). aborted \<noteq> None"
  by unfold_locales (auto simp: outcome_defs split: prod.splits option.splits pi_end.splits if_splits)

interpretation opencode_adapter: runner_adapter "\<lambda>(js, io). oc_phase js io"
  "\<lambda>(js, io). oc_aborted io"
  by unfold_locales (auto simp: outcome_defs oc_aborted_def split: prod.splits option.splits oc_call.splits if_splits)


section \<open>The adapters as runners of the workflow\<close>

text \<open>
  \<open>createRunner\<close>: the transcript file is emptied first, which may throw, and holds the transcript in
  the end; the result goes out without what only the adapter knows. What a backend does in a session
  is an operation; what Claude writes to standard error, which goes to the file too, is left out.
\<close>

definition adapter_runner ::
  "runner_id \<Rightarrow> bool \<Rightarrow> (phase_request \<Rightarrow> ('x, adw_failure + runner_result) op) \<Rightarrow> 'x agent_runner" where
  "adapter_runner r native phase =
     \<lparr>runner_ident = r, nativeSchema = native, runner_start = None,
      runPhase = (\<lambda>req m.
        case write_file (rq_transcriptPath req) [] m of
          (Inl e, m1) \<Rightarrow> (Inl e, m1)
        | (Inr _, m1) \<Rightarrow>
            (case phase req m1 of
               (Inl e, m2) \<Rightarrow> (Inl e, m2)
             | (Inr result, m2) \<Rightarrow>
                 (case write_file (rq_transcriptPath req) (res_file result) m2 of
                    (Inl e, m3) \<Rightarrow> (Inl e, m3)
                  | (Inr _, m3) \<Rightarrow> (Inr (phase_result.truncate result), m3)))),
      runner_stop = None\<rparr>"

definition claude_createRunner ::
  "adw_runtime \<Rightarrow> (string \<Rightarrow> bool) \<Rightarrow> string
     \<Rightarrow> (claude_options \<Rightarrow> string \<Rightarrow> ('x, sdk_message list \<times> stream_end \<times> abort_reason option) op) \<Rightarrow> 'x agent_runner" where
  "claude_createRunner js is_executable homedir query =
     adapter_runner claude_runner True (\<lambda>req m.
       case query (claude_options_of is_executable homedir req) (rq_prompt req) m of
         ((messages, ended, aborted), m') \<Rightarrow> (Inr (claude_phase js messages ended aborted), m'))"

text \<open>What a Codex session is started with; the sandbox, approvals and the git check are fixed.\<close>

record codex_session =
  xs_env :: "(string \<times> string) list"
  xs_pathOverride :: "string option"
  xs_model :: string
  xs_sandboxMode :: string
  xs_workingDirectory :: string
  xs_skipGitRepoCheck :: bool
  xs_approvalPolicy :: string
  xs_outputSchema :: "json option"

definition codex_session_of :: "phase_request \<Rightarrow> codex_session" where
  "codex_session_of req =
     \<lparr>xs_env = rq_env req, xs_pathOverride = resolveCodexBin (map_of (rq_env req)), xs_model = rq_model req,
      xs_sandboxMode = ''workspace-write'', xs_workingDirectory = rq_cwd req, xs_skipGitRepoCheck = True,
      xs_approvalPolicy = ''never'', xs_outputSchema = rq_schema req\<rparr>"

definition codex_createRunner ::
  "adw_runtime \<Rightarrow> (codex_session \<Rightarrow> string \<Rightarrow> ('x, codex_event list \<times> stream_end \<times> abort_reason option) op)
     \<Rightarrow> 'x agent_runner" where
  "codex_createRunner js stream =
     adapter_runner codex_runner True (\<lambda>req m.
       case stream (codex_session_of req) (rq_prompt req) m of
         ((events, ended, aborted), m') \<Rightarrow> (Inr (codex_phase js req events ended aborted), m'))"

text \<open>The child of pi: its command, directory and environment. A handler that throws ends the process.\<close>

definition pi_createRunner ::
  "adw_runtime \<Rightarrow> (string \<Rightarrow> bool)
     \<Rightarrow> (string list \<Rightarrow> string \<Rightarrow> (string \<times> string) list \<Rightarrow> ('x, pi_input list \<times> pi_end \<times> abort_reason option) op)
     \<Rightarrow> 'x agent_runner" where
  "pi_createRunner js is_executable child =
     adapter_runner pi_runner False (\<lambda>req m.
       case resolvePiBin is_executable (map_of (rq_env req)) of
         None \<Rightarrow> (Inr (the (pi_phase js None None [] (Closed None) None)), m)
       | Some bin \<Rightarrow>
           (case child (bin # buildPiArgs req None) (rq_cwd req) (rq_env req) m of
              ((inputs, ended, aborted), m') \<Rightarrow>
                (case pi_phase js None (Some bin) inputs ended aborted of
                   Some result \<Rightarrow> (Inr result, m')
                 | None \<Rightarrow> (Inl (OtherThrown (JStr ''TypeError'')), m'))))"

definition opencode_createRunner ::
  "adw_runtime \<Rightarrow> (phase_request \<Rightarrow> ('x, oc_io) op) \<Rightarrow> ('x, unit) op \<Rightarrow> 'x agent_runner" where
  "opencode_createRunner js session stop_server =
     (adapter_runner opencode_runner True (\<lambda>req m. case session req m of (io, m') \<Rightarrow> (Inr (oc_phase js io), m')))
       \<lparr>runner_start := Some (Pair (Inr ())), runner_stop := Some (\<lambda>m. case stop_server m of (u, m') \<Rightarrow> (Inr u, m'))\<rparr>"

text \<open>Every adapter passes on the environment of the request and no other.\<close>

lemma adapters_environment:
  "co_env (claude_options_of is_executable homedir req) = rq_env req"
  "xs_env (codex_session_of req) = rq_env req"
  "k \<noteq> ''OPENCODE_CONFIG_CONTENT'' \<Longrightarrow> map_of (serve_env js req) k = map_of (rq_env req) k"
  by (simp_all add: claude_options_of_def codex_session_of_def serve_env_def map_of_map_set)

end
