(* ===== verification/Spec2Isabelle.thy ===== *)
theory Spec2Isabelle
  imports Watch Mcp_Cli Claude Pi Checkpoints Adw_Cli Adw_Opencode
begin

text \<open>
  A verification development for mx-loom: the packages that let an agent runtime call verbs on an
  MX daemon (packages/registry, packages/toolbelt, packages/audit, packages/mcp, packages/claude,
  packages/pi), and the workflow runner that drives coding agents from an issue to a merged pull
  request (adw_sdlc).

  \<^bold>\<open>How the parts interact.\<close> The registry publishes thirteen verbs as descriptors and has one
  handler for each. A handler is given its daemon call and clock as dependencies, sends requests
  and returns one of five envelopes. The toolbelt makes the daemon call: a session (an agent
  registration with heartbeats) over a client, which uses the daemon's socket or, when the daemon
  is not running, a child process per call; the credential guard stands at that boundary. A
  binding (MCP, Claude, Pi) dispatches a tool call of a runtime to a handler, has the audit tap
  record a row, and serializes the envelope. The workflow runner is a program of its own: its
  orchestrator runs the phases of a task through a runner (an adapter of one agent product),
  saves its state after each, and owns every git and GitHub command.

  \<^bold>\<open>Vocabulary.\<close>
  \<^item> \<open>Loom_Prelude\<close>: JavaScript values (\<open>json\<close>, which also has \<open>undefined\<close> and functions), the readers
    handlers use on them, lookup in a constant table with its inherited properties
    (\<open>table_get\<close>), thrown values, the host (clock, random numbers, peer) asynchronous code threads.
  \<^item> \<open>Regex\<close>: regular expressions as terms, matched by derivatives, with their language.
  \<^item> \<open>Schema\<close>: the draft-07 meaning of the schema documents the repository publishes.
  \<^item> \<open>Tokens\<close>: \<open>normaliseDaemonCode\<close>, \<open>normaliseToken\<close>; locale \<open>token_table\<close>.
  \<^item> \<open>Edges\<close>: duplicate suppression through string keys; locale \<open>faithful_keys\<close>.

  \<^bold>\<open>Registry\<close> (packages/registry/src).
  \<^item> \<open>Envelope\<close>, \<open>Envelope_Schema\<close>: errors.ts, envelope.ts, envelope-schema.ts, validator.ts. The nine
    codes and their classes, the mappers onto them, the constructors, and that these only build
    values of the published schema.
  \<^item> \<open>Invocation\<close>: invocation.ts, handler-fault.ts. Both normalizers, the state classification, the
    fault mapper; what each returns, when they agree, which texts can appear.
  \<^item> \<open>Await\<close>: deps.ts, await-result.ts. The poll loop, its termination and its bounds.
  \<^item> \<open>Handler\<close>: the effects handlers share, the calculus \<open>sends\<close>/\<open>emits\<close> of the requests they may
    send, and the locale \<open>verb_handler\<close>, interpreted by every handler.
  \<^item> \<open>Agents\<close>: agent-projection.ts, workspace-projection.ts, find-agents.ts, describe-agent.ts,
    workspace-status.ts. \<open>Tasks\<close>: task-projection.ts, task-action.ts, create-task.ts, update-task.ts,
    list-tasks.ts. \<open>Delegation\<close>: delegate-tool.ts, run-command.ts, cancel.ts, share-context.ts,
    get-context.ts, context-response.ts, dispatch-task.ts. Output contracts, the stored action's
    round trip, and the order of requests of a delegation.
  \<^item> \<open>Descriptors\<close>, \<open>Registry\<close>: descriptors/*.ts, descriptor.ts, security.ts, registry.ts. The canonical
    set as data and the loader with all its refusals.
  \<^item> \<open>Inputs\<close>: the input interfaces of the handlers as a table, and that the schemas imply them.

  \<^bold>\<open>Toolbelt\<close> (packages/toolbelt/src) \<^bold>\<open>and audit\<close> (packages/audit/src).
  \<^item> \<open>Guards\<close>: guards.ts, ipc/errors.ts. \<open>Framing\<close>: ipc/framing.ts. \<open>Ipc\<close>: ipc/client.ts as a state
    machine over events, with reachability and invariants by rule induction. \<open>Cli\<close>: cli/*.ts.
    \<open>Client\<close>: client.ts, retry.ts, ipc/socket-path.ts, with the locale \<open>sent_log\<close> of what is sent.
  \<^item> \<open>Session\<close>: session.ts, heartbeat.ts, correlation.ts, a state machine over timers and settled
    promises, with the locale \<open>guarded_client\<close>. \<open>Session_Descriptor\<close>: session-descriptor.ts.
  \<^item> \<open>Plan\<close>: plan-snapshot.ts. \<open>Watch\<close>: task-watch.ts, a state machine refined to a queue, and resume.ts.
  \<^item> \<open>Audit_Trail\<close>: row.ts, project.ts, sink.ts, postgres.ts, with-audit.ts; locale \<open>audit_sink\<close>.

  \<^bold>\<open>Bindings\<close> (packages/mcp/src, packages/claude/src, packages/pi/src).
  \<^item> \<open>Binding\<close>: context.ts, dispatch.ts, serialize.ts, tools.ts, server.ts of mcp. \<open>Mcp_Options\<close>:
    cli-options.ts. \<open>Mcp_Cli\<close>: cli.ts, the start of the server process and its shutdown as a machine.
  \<^item> \<open>Conversion\<close>, \<open>Zod_Schema\<close>, \<open>TypeBox_Schema\<close>: json-schema-to-zod.ts and json-schema-to-typebox.ts,
    over builder libraries that are arguments; what their documentation promises are the locales
    \<open>zod_library\<close> and \<open>typebox_library\<close>, each interpreted by a library that keeps what was built.
  \<^item> \<open>Claude\<close>: names.ts, resolve.ts, can-use-tool.ts, tool-server.ts. \<open>Pi\<close>: the files of packages/pi/src.
    This theory has the equivalence of the three bindings.

  \<^bold>\<open>Workflow runner\<close> (adw_sdlc/src).
  \<^item> \<open>Adw_Common\<close>: errors.ts, invoker.ts, common.ts, env.ts, models.ts, pricing.ts, registry.ts.
    \<open>Adw_State\<close>: state.ts. \<open>Adw_Phases\<close>: phases.ts. \<open>Adw_Schemas\<close>: schemas.ts, with Zod as the locale
    \<open>phase_zod\<close>. \<open>Adw_Git\<close>: exec.ts, git.ts. \<open>Adw_Issue\<close>: issue.ts. \<open>Adw_Run\<close>: run-phase.ts,
    structured-call.ts. \<open>Adw_Cli\<close>: cli.ts.
  \<^item> \<open>Workflow\<close>, \<open>Loops\<close>, \<open>Orchestrator\<close>: orchestrator.ts. A computation threads the run's state and
    the machine and may throw; the machine has a ghost log with an entry for every dependency
    called, every agent invoked and every state saved.
  \<^item> \<open>Runs\<close>, \<open>Merge_Guard\<close>, \<open>Checkpoints\<close>: theorems on that log. \<open>speaks P m\<close>: \<open>m\<close> logs only events
    satisfying \<open>P\<close>; \<open>triple\<close>, \<open>yields\<close>: pre- and postconditions on log and state; \<open>costs\<close>, \<open>pays\<close>: how
    often an event occurs. They hold whatever the dependencies answer.
  \<^item> \<open>Adw_Runners\<close>: runners/shared.ts, runner-claude.ts, runner-codex.ts. \<open>Adw_Pi_Runner\<close>: runner-pi.ts.
    \<open>Adw_Opencode\<close>: runner-opencode.ts, and the contract of all four as the locale \<open>runner_adapter\<close>.

  \<^bold>\<open>Loops and bounds.\<close> No definition takes fuel. The poll loop of \<open>mx_await_result\<close>, which the Claude
  binding uses as well, is a partial function: that it returns is proved for every clock that
  advances with every sleep. The retry loop descends on its remaining attempts (three by default);
  the loops of a run on their remaining attempts, that of CI on the pair of attempts and polls
  left; walks over a schema or an argument on the size of the value; the frame decoder on the
  length of its buffer. The id counter of the socket client is a 32 bit word, so its invariant asks
  for fewer than 2 to the 32nd calls.

  \<^bold>\<open>Where the model is coarser than the program.\<close>
  \<^item> A string is its UTF-8 bytes; case conversion, white space and character classes are ASCII.
  \<^item> A number is a rational or non-finite: rounding is not modelled.
  \<^item> Objects are association lists in insertion order; the reordering of integer-like keys and the
    special meaning of \<open>__proto__\<close> on assignment are not modelled. Frozen objects are just values.
  \<^item> Handlers run to their end; where the source interleaves (socket client, session, watcher,
    approval prompt, opencode server), the interleaving is the sequence of events of a machine.
  \<^item> Creating a directory and writing a transcript always succeed. Lines on standard error, debug
    sinks and usage texts are left out.
  \<^item> Child processes, SDK streams, HTTP replies, \<open>spawnSync\<close>, \<open>JSON.parse\<close>, \<open>JSON.stringify\<close>,
    \<open>Number\<close> and Node's \<open>parseArgs\<close> of mcp are arguments. A timer that kills a child is the ending
    the child reports.

  \<^bold>\<open>Not modelled.\<close>
  \<^item> adw_sdlc/src/runners/runner-mock.ts: a test double; a runner is an arbitrary function here.
  \<^item> The index.ts files, packages/toolbelt/src/transport.ts and ipc/types.ts: exports and types only;
    packages/registry/src/freeze.ts: freezing.
  \<^item> Third-party packages: the SDKs of MCP, Claude, Codex and opencode, Ajv, Zod, TypeBox, pg.
  \<^item> Tests, golden tests, examples, scripts, prompts and specifications.
\<close>

section \<open>The three bindings agree\<close>

lemma claude_settled:
  assumes "dispatchCall ajv name (Some args) ctx = Runs run" and "run h = Some (r, h1)"
    and "r_status r \<notin> {Running, AwaitingApproval}"
  shows "\<exists>dropped h' s'. claude_call js ajv sink ctx opts name (Some args) h s = Answered (serializeToolResult js r) dropped h' s'"
  unfolding claude_call_def or_default_simps Let_def assms(1) dispatched.case await_def assms(2) option.case prod.case
    resolve_settled [OF assms(3)] resolve_def audited_answer_def withAudit_def
  by (simp split: prod.split sum.split)

text \<open>
  C5. A runtime sees the same answer whichever binding it uses. For a canonical tool and arguments
  its published schema accepts, a call through the MCP server and a call through the Pi tool on the
  same daemon give one and the same envelope, as text and as a value; and the Claude tool server
  gives it too when it is not a pending one, which that server goes on to resolve.
\<close>

theorem bindings_agree:
  assumes "d \<in> set CANONICAL_TOOLS" and "buildToolDefinition js b topts (\<lambda>s. Inr (draft07 s)) d = Inr tool"
    and "draft07 (read_field d ''input_schema'') (JObj args)"
  shows "\<exists>r h1.
     (\<exists>dropped h' s'. mcp_call js ajv sink (logged_context f room correlation) (descriptor_name d) (Some args) h s
        = Answered (serializeToolResult js r) dropped h' s')
     \<and> (\<exists>dropped s'. pi_execute js ajv errors sink (logged_context f room correlation) tool call (Some args) h s
        = Pi_answered (serializePiToolResult js r) dropped h1 s')
     \<and> (r_status r \<in> {Running, AwaitingApproval}
        \<or> (\<exists>dropped h' s'. claude_call js ajv sink (logged_context f room correlation) ropts (descriptor_name d) (Some args) h s
            = Answered (serializeToolResult js r) dropped h' s'))
     \<and> ar_text (serializePiToolResult js r) = ct_text (serializeToolResult js r)
     \<and> ar_details (serializePiToolResult js r) = ct_structuredContent (serializeToolResult js r)"
proof -
  from pi_valid_runs [OF assms] obtain run where
    run: "pi_produce ajv errors (logged_context f room correlation) tool args = Runs run" "governed run"
      "dispatchCall ajv (descriptor_name d) (Some args) (logged_context f room correlation) = Runs run" by blast
  obtain r h1 where r: "run h = Some (r, h1)" by (rule emitsE [OF run(2)])
  have mcp: "\<exists>dropped h' s'. mcp_call js ajv sink (logged_context f room correlation) (descriptor_name d) (Some args) h s
        = Answered (serializeToolResult js r) dropped h' s'"
    using mcp_answered [OF run(3) r, of js sink s] by blast
  have pi: "\<exists>dropped s'. pi_execute js ajv errors sink (logged_context f room correlation) tool call (Some args) h s
        = Pi_answered (serializePiToolResult js r) dropped h1 s'"
    by (rule pi_answers [where run = run]) (simp only: or_default_simps run(1), rule r)
  have same: "ar_text (serializePiToolResult js r) = ct_text (serializeToolResult js r)"
    "ar_details (serializePiToolResult js r) = ct_structuredContent (serializeToolResult js r)"
    by (simp_all add: serializePiToolResult_def serializeToolResult_def toEnvelope_def Let_def)
  have claude: "r_status r \<in> {Running, AwaitingApproval}
      \<or> (\<exists>dropped h' s'. claude_call js ajv sink (logged_context f room correlation) ropts (descriptor_name d) (Some args) h s
            = Answered (serializeToolResult js r) dropped h' s')"
  proof (cases "r_status r \<in> {Running, AwaitingApproval}")
    case False
    show ?thesis by (rule disjI2, rule claude_settled [OF run(3) r False])
  qed (rule disjI1)
  show ?thesis by (intro exI [of _ r] exI [of _ h1] conjI, rule mcp, rule pi, rule claude, rule same(1), rule same(2))
qed

theorem bindings_agree_witness:
  "\<exists>tool r h1 dropped s'. buildToolDefinition quiet_js typebox_terms None (\<lambda>s. Inr (draft07 s)) MX_CANCEL = Inr tool
     \<and> pi_execute quiet_js accept_all (\<lambda>_. JArr []) memory_record (logged_context quiet_daemon None None) tool ''call-1''
         (Some [(''handle'', JStr ''inv-1'')]) (idle_host ((), [])) new_memory_sink
       = Pi_answered (serializePiToolResult quiet_js r) dropped h1 s'"
proof -
  have canonical: "MX_CANCEL \<in> set CANONICAL_TOOLS" by (simp add: CANONICAL_TOOLS_def CANONICAL_M1_TOOLS_def)
  have "convertible True (read_field MX_CANCEL ''input_schema'')" by code_simp
  from pi_tool_builds [OF this] obtain tool where
    tool: "buildToolDefinition quiet_js typebox_terms None (\<lambda>s. Inr (draft07 s)) MX_CANCEL = Inr tool" ..
  have valid: "draft07 (read_field MX_CANCEL ''input_schema'') (JObj [(''handle'', JStr ''inv-1'')])" by code_simp
  from bindings_agree [OF canonical tool valid, where ajv = accept_all and errors = "\<lambda>_. JArr []" and sink = memory_record
      and f = quiet_daemon and room = None and correlation = None and call = "''call-1''" and h = "idle_host ((), [])"
      and s = new_memory_sink and ropts = default_resolve]
  obtain r h1 where "\<exists>dropped s'. pi_execute quiet_js accept_all (\<lambda>_. JArr []) memory_record (logged_context quiet_daemon None None) tool ''call-1''
         (Some [(''handle'', JStr ''inv-1'')]) (idle_host ((), [])) new_memory_sink
       = Pi_answered (serializePiToolResult quiet_js r) dropped h1 s'" by (elim exE conjE) (rule that, intro exI)
  then obtain dropped s' where "pi_execute quiet_js accept_all (\<lambda>_. JArr []) memory_record (logged_context quiet_daemon None None) tool ''call-1''
         (Some [(''handle'', JStr ''inv-1'')]) (idle_host ((), [])) new_memory_sink
       = Pi_answered (serializePiToolResult quiet_js r) dropped h1 s'" by (elim exE) (rule that)
  with tool show ?thesis by (intro exI conjI)
qed

end
